(* ===== verification/Go_Base.thy ===== *)
theory Go_Base
  imports Main "HOL-Library.Sublist" "HOL-Library.Char_ord"
begin

text \<open>
  The prelude of the development: the parts of the Go language and of its packages
  \<open>strings\<close>, \<open>strconv\<close>, \<open>fmt\<close> and \<open>time\<close> that the operator's code uses, with the
  generic facts the component theories share.

  A Go string is a byte string: here a \<^typ>\<open>string\<close>, a list of 8-bit characters. The
  library functions that classify or fold characters (\<open>TrimSpace\<close>, \<open>ToLower\<close>, quoting)
  are written for ASCII text; Kubernetes names, labels and the constants of the code are
  ASCII. A pointer is an \<^typ>\<open>'a option\<close>, with \<^const>\<open>None\<close> for nil; an error return is the
  left side of a sum.
\<close>

section \<open>Collections of facts\<close>

named_theorems go_string \<open>facts about the string functions of the standard library\<close>
named_theorems go_eval \<open>definitions to unfold when a concrete input is evaluated\<close>

section \<open>Package strings\<close>

definition HasPrefix :: "string \<Rightarrow> string \<Rightarrow> bool" where
  "HasPrefix s p \<longleftrightarrow> take (length p) s = p"

definition HasSuffix :: "string \<Rightarrow> string \<Rightarrow> bool" where
  "HasSuffix s p \<longleftrightarrow> HasPrefix (rev s) (rev p)"

definition TrimPrefix :: "string \<Rightarrow> string \<Rightarrow> string" where
  "TrimPrefix s p = (if HasPrefix s p then drop (length p) s else s)"

definition TrimSuffix :: "string \<Rightarrow> string \<Rightarrow> string" where
  "TrimSuffix s p = (if HasSuffix s p then take (length s - length p) s else s)"

definition isSpace :: "char \<Rightarrow> bool" where
  "isSpace c \<longleftrightarrow> c = CHR '' '' \<or> CHR 0x09 \<le> c \<and> c \<le> CHR 0x0D"

definition TrimLeftFunc :: "(char \<Rightarrow> bool) \<Rightarrow> string \<Rightarrow> string" where
  "TrimLeftFunc P s = dropWhile P s"

definition TrimRightFunc :: "(char \<Rightarrow> bool) \<Rightarrow> string \<Rightarrow> string" where
  "TrimRightFunc P s = rev (dropWhile P (rev s))"

definition TrimSpace :: "string \<Rightarrow> string" where
  "TrimSpace s = TrimRightFunc isSpace (TrimLeftFunc isSpace s)"

definition TrimRight :: "string \<Rightarrow> string \<Rightarrow> string" where
  "TrimRight s cutset = TrimRightFunc (\<lambda>c. c \<in> set cutset) s"

definition Trim :: "string \<Rightarrow> string \<Rightarrow> string" where
  "Trim s cutset = TrimRightFunc (\<lambda>c. c \<in> set cutset) (TrimLeftFunc (\<lambda>c. c \<in> set cutset) s)"

definition ContainsAny :: "string \<Rightarrow> string \<Rightarrow> bool" where
  "ContainsAny s chars \<longleftrightarrow> list_ex (\<lambda>c. c \<in> set chars) s"

text \<open>\<open>strings.Cut\<close>: the text before and after the first occurrence of the separator.\<close>

fun Cut :: "string \<Rightarrow> string \<Rightarrow> (string \<times> string) option" where
  "Cut [] sep = (if sep = [] then Some ([], []) else None)"
| "Cut (c # s) sep =
     (if HasPrefix (c # s) sep then Some ([], drop (length sep) (c # s))
      else map_option (\<lambda>(a, b). (c # a, b)) (Cut s sep))"

definition Contains :: "string \<Rightarrow> string \<Rightarrow> bool" where
  "Contains s sub \<longleftrightarrow> Cut s sub \<noteq> None"

text \<open>\<open>strings.Split\<close> with a separator of one byte.\<close>

fun Split :: "char \<Rightarrow> string \<Rightarrow> string list" where
  "Split sep [] = [[]]"
| "Split sep (c # s) =
     (if c = sep then [] # Split sep s
      else (case Split sep s of [] \<Rightarrow> [[c]] | w # ws \<Rightarrow> (c # w) # ws))"

fun Join :: "string \<Rightarrow> string list \<Rightarrow> string" where
  "Join sep [] = []"
| "Join sep [w] = w"
| "Join sep (w # v # ws) = w @ sep @ Join sep (v # ws)"

text \<open>\<open>strings.LastIndex\<close> and \<open>strings.Index\<close> with a pattern of one byte; -1 when absent.\<close>

fun IndexByte :: "string \<Rightarrow> char \<Rightarrow> int" where
  "IndexByte [] c = -1"
| "IndexByte (x # s) c = (if x = c then 0 else (let i = IndexByte s c in if i < 0 then -1 else i + 1))"

fun LastIndexByte :: "string \<Rightarrow> char \<Rightarrow> int" where
  "LastIndexByte [] c = -1"
| "LastIndexByte (x # s) c =
     (let i = LastIndexByte s c in if i \<ge> 0 then i + 1 else if x = c then 0 else -1)"

definition isUpper :: "char \<Rightarrow> bool" where
  "isUpper c \<longleftrightarrow> CHR ''A'' \<le> c \<and> c \<le> CHR ''Z''"

definition lowerByte :: "char \<Rightarrow> char" where
  "lowerByte c = (if isUpper c then char_of (of_char c + 32 :: nat) else c)"

definition ToLower :: "string \<Rightarrow> string" where
  "ToLower s = map lowerByte s"

definition EqualFold :: "string \<Rightarrow> string \<Rightarrow> bool" where
  "EqualFold s t \<longleftrightarrow> ToLower s = ToLower t"

lemmas go_strings_defs [go_eval] =
  HasPrefix_def HasSuffix_def TrimPrefix_def TrimSuffix_def isSpace_def TrimLeftFunc_def
  TrimRightFunc_def TrimSpace_def TrimRight_def Trim_def ContainsAny_def Contains_def

subsection \<open>Prefixes and suffixes\<close>

lemma HasPrefix_iff [go_string]: "HasPrefix s p \<longleftrightarrow> (\<exists>t. s = p @ t)"
  unfolding HasPrefix_def by (metis append_eq_conv_conj append_take_drop_id)

lemma HasPrefix_prefix: "HasPrefix s p \<longleftrightarrow> prefix p s"
  by (auto simp: HasPrefix_iff prefix_def)

lemma HasPrefix_append [simp]: "HasPrefix (p @ s) p"
  by (simp add: HasPrefix_def)

lemma HasPrefix_Nil [simp]: "HasPrefix s []"
  by (simp add: HasPrefix_def)

lemma HasSuffix_iff [go_string]: "HasSuffix s p \<longleftrightarrow> (\<exists>t. s = t @ p)"
  unfolding HasSuffix_def HasPrefix_iff by (metis rev_append rev_rev_ident)

lemma HasSuffix_append [simp]: "HasSuffix (s @ p) p"
  by (auto simp: HasSuffix_iff)

lemma TrimPrefix_append [simp]: "TrimPrefix (p @ s) p = s"
  by (simp add: TrimPrefix_def)

lemma TrimSuffix_append [simp]: "TrimSuffix (s @ p) p = s"
  by (simp add: TrimSuffix_def)

lemma TrimSuffix_cases:
  obtains (suffix) t where "s = t @ p" "TrimSuffix s p = t"
  | (none) "\<not> HasSuffix s p" "TrimSuffix s p = s"
  by (metis HasSuffix_iff TrimSuffix_append TrimSuffix_def)

lemma length_TrimRightFunc_le [go_string]: "length (TrimRightFunc P s) \<le> length s"
  using length_dropWhile_le [of P "rev s"] by (simp add: TrimRightFunc_def)

lemma TrimRightFunc_prefix [go_string]: "\<exists>t. s = TrimRightFunc P s @ t"
  unfolding TrimRightFunc_def
  by (metis rev_append rev_rev_ident takeWhile_dropWhile_id)

lemma TrimRightFunc_last: "TrimRightFunc P s \<noteq> [] \<Longrightarrow> \<not> P (last (TrimRightFunc P s))"
  unfolding TrimRightFunc_def
  by (metis (no_types, lifting) hd_dropWhile last_rev rev_is_Nil_conv)

lemma TrimRightFunc_id: "s = [] \<or> \<not> P (last s) \<Longrightarrow> TrimRightFunc P s = s"
  by (cases s rule: rev_cases) (auto simp: TrimRightFunc_def)

lemma TrimLeftFunc_id: "s = [] \<or> \<not> P (hd s) \<Longrightarrow> TrimLeftFunc P s = s"
  by (cases s) (auto simp: TrimLeftFunc_def)

lemma TrimSpace_Nil [simp]: "TrimSpace [] = []"
  by (simp add: TrimSpace_def TrimRightFunc_def TrimLeftFunc_def)

lemma TrimSpace_hd: "TrimSpace s \<noteq> [] \<Longrightarrow> \<not> isSpace (hd (TrimSpace s))"
proof -
  assume ne: "TrimSpace s \<noteq> []"
  obtain t where t: "TrimLeftFunc isSpace s = TrimSpace s @ t"
    unfolding TrimSpace_def using TrimRightFunc_prefix by blast
  with ne have "hd (TrimLeftFunc isSpace s) = hd (TrimSpace s)" "TrimLeftFunc isSpace s \<noteq> []"
    by auto
  then show ?thesis by (metis TrimLeftFunc_def hd_dropWhile)
qed

lemma TrimSpace_idem [simp]: "TrimSpace (TrimSpace s) = TrimSpace s"
proof -
  have "TrimLeftFunc isSpace (TrimSpace s) = TrimSpace s"
    by (rule TrimLeftFunc_id) (use TrimSpace_hd in blast)
  moreover have "TrimRightFunc isSpace (TrimSpace s) = TrimSpace s"
    by (rule TrimRightFunc_id) (use TrimRightFunc_last TrimSpace_def in metis)
  ultimately show ?thesis by (simp add: TrimSpace_def [of "TrimSpace s"])
qed

subsection \<open>Cut, Split and Join\<close>

lemma Cut_Some: "Cut s sep = Some (a, b) \<Longrightarrow> s = a @ sep @ b"
  by (induction s sep arbitrary: a b rule: Cut.induct)
    (auto simp: HasPrefix_iff split: if_splits)

lemma Contains_iff [go_string]: "Contains s sub \<longleftrightarrow> (\<exists>a b. s = a @ sub @ b)"
proof
  assume "Contains s sub"
  then show "\<exists>a b. s = a @ sub @ b"
    unfolding Contains_def using Cut_Some by (metis option.exhaust prod.exhaust)
next
  assume "\<exists>a b. s = a @ sub @ b"
  then obtain a b where "s = a @ sub @ b" by blast
  then show "Contains s sub"
  proof (induction a arbitrary: s)
    case Nil
    then have "HasPrefix s sub" by simp
    then show ?case by (cases s) (auto simp: Contains_def HasPrefix_def)
  next
    case (Cons c a)
    then show ?case by (auto simp: Contains_def)
  qed
qed

lemma Split_ne [simp]: "Split sep s \<noteq> []"
  by (induction sep s rule: Split.induct) (auto split: list.splits)

lemma Split_no_sep: "w \<in> set (Split sep s) \<Longrightarrow> sep \<notin> set w"
  by (induction sep s arbitrary: w rule: Split.induct) (auto split: if_splits list.splits)

lemma Join_Cons: "ws \<noteq> [] \<Longrightarrow> Join sep (w # ws) = w @ sep @ Join sep ws"
  by (cases ws) auto

text \<open>Splitting at a byte and joining with it again gives the string back.\<close>

lemma Join_Split [simp]: "Join [sep] (Split sep s) = s"
proof (induction sep s rule: Split.induct)
  case (2 sep c s)
  then obtain w ws where "Split sep s = w # ws" "Join [sep] (w # ws) = s"
    by (metis Split_ne neq_Nil_conv)
  then show ?case by (cases ws) auto
qed simp

lemma Split_word [simp]: "sep \<notin> set w \<Longrightarrow> Split sep w = [w]"
  by (induction w) auto

lemma Split_append_sep [simp]: "Split sep (w @ sep # s) = Split sep w @ Split sep s"
  by (induction w) (auto split: list.splits)

lemma Split_Join:
  "ws \<noteq> [] \<Longrightarrow> (\<And>w. w \<in> set ws \<Longrightarrow> sep \<notin> set w) \<Longrightarrow> Split sep (Join [sep] ws) = ws"
  by (induction "[sep]" ws rule: Join.induct) auto

lemma length_ToLower [simp]: "length (ToLower s) = length s"
  by (simp add: ToLower_def)

lemma EqualFold_refl [simp]: "EqualFold s s"
  by (simp add: EqualFold_def)

section \<open>Packages strconv and fmt\<close>

definition digit :: "nat \<Rightarrow> char" where
  "digit n = ''0123456789abcdef'' ! (n mod 16)"

fun natDigits :: "nat \<Rightarrow> string" where
  "natDigits n = (if n < 10 then [digit n] else natDigits (n div 10) @ [digit (n mod 10)])"

declare natDigits.simps [simp del]

text \<open>The verb \<open>%d\<close>.\<close>

definition Itoa :: "int \<Rightarrow> string" where
  "Itoa i = (if i < 0 then ''-'' @ natDigits (nat (- i)) else natDigits (nat i))"

text \<open>The verb \<open>%q\<close> on ASCII text.\<close>

definition quoteByte :: "char \<Rightarrow> string" where
  "quoteByte c =
     (if c = CHR 0x22 \<or> c = CHR 0x5C then [CHR 0x5C, c]
      else if c = CHR 0x07 then [CHR 0x5C, CHR ''a'']
      else if c = CHR 0x08 then [CHR 0x5C, CHR ''b'']
      else if c = CHR 0x09 then [CHR 0x5C, CHR ''t'']
      else if c = CHR 0x0A then [CHR 0x5C, CHR ''n'']
      else if c = CHR 0x0B then [CHR 0x5C, CHR ''v'']
      else if c = CHR 0x0C then [CHR 0x5C, CHR ''f'']
      else if c = CHR 0x0D then [CHR 0x5C, CHR ''r'']
      else if c < CHR '' '' \<or> c = CHR 0x7F
        then [CHR 0x5C, CHR ''x'', digit (of_char c div 16), digit (of_char c mod 16)]
      else [c])"

definition Quote :: "string \<Rightarrow> string" where
  "Quote s = [CHR 0x22] @ concat (map quoteByte s) @ [CHR 0x22]"

lemma natDigits_ne [simp]: "natDigits n \<noteq> []"
  by (subst natDigits.simps) simp

definition isHexLower :: "char \<Rightarrow> bool" where
  "isHexLower c \<longleftrightarrow> (CHR ''0'' \<le> c \<and> c \<le> CHR ''9'') \<or> (CHR ''a'' \<le> c \<and> c \<le> CHR ''f'')"

lemma digit_isHexLower [simp]: "isHexLower (digit n)"
proof -
  have "list_all isHexLower ''0123456789abcdef''" by code_simp
  then have "isHexLower (''0123456789abcdef'' ! k)" if "k < length ''0123456789abcdef''" for k
    using that by (simp only: list_all_length)
  moreover have "n mod 16 < length ''0123456789abcdef''" by simp
  ultimately show ?thesis unfolding digit_def by blast
qed

section \<open>Machine integers, time\<close>

text \<open>
  An \<open>int32\<close> or \<open>int64\<close> is an \<^typ>\<open>int\<close> in the range of its type; arithmetic that can leave
  the range wraps around as in Go.
\<close>

definition wrap32 :: "int \<Rightarrow> int" where
  "wrap32 x = (x + 2 ^ 31) mod 2 ^ 32 - 2 ^ 31"

definition MaxInt32 :: int where
  "MaxInt32 = 2 ^ 31 - 1"

definition MinInt32 :: int where
  "MinInt32 = - (2 ^ 31)"

definition MaxInt64 :: int where
  "MaxInt64 = 2 ^ 63 - 1"

definition isInt32 :: "int \<Rightarrow> bool" where
  "isInt32 x \<longleftrightarrow> MinInt32 \<le> x \<and> x \<le> MaxInt32"

lemma wrap32_isInt32 [simp]: "isInt32 (wrap32 x)"
proof -
  have "0 \<le> (x + 2 ^ 31) mod 2 ^ 32" "(x + 2 ^ 31) mod 2 ^ 32 < (2 ^ 32 :: int)"
    by (simp_all add: pos_mod_sign pos_mod_bound)
  then show ?thesis by (simp add: isInt32_def wrap32_def MinInt32_def MaxInt32_def)
qed

lemma wrap32_id: "isInt32 x \<Longrightarrow> wrap32 x = x"
  by (simp add: isInt32_def wrap32_def MinInt32_def MaxInt32_def)

text \<open>
  \<open>time.Time\<close> is the number of nanoseconds since the zero time, \<open>time.Duration\<close> a number of
  nanoseconds; \<open>Sub\<close> saturates at the range of \<open>int64\<close>.
\<close>

type_synonym time = int
type_synonym Duration = int

definition Second :: Duration where
  "Second = 1000000000"

definition Minute :: Duration where
  "Minute = 60 * Second"

definition timeIsZero :: "time \<Rightarrow> bool" where
  "timeIsZero t \<longleftrightarrow> t = 0"

text \<open>\<open>(*metav1.Time).IsZero\<close>: true of the nil pointer and of the zero time.\<close>

definition timePtrIsZero :: "time option \<Rightarrow> bool" where
  "timePtrIsZero t = (case t of None \<Rightarrow> True | Some x \<Rightarrow> timeIsZero x)"

definition timeSub :: "time \<Rightarrow> time \<Rightarrow> Duration" where
  "timeSub t u = max (- (2 ^ 63)) (min (2 ^ 63 - 1) (t - u))"

lemma timeSub_gt: "0 \<le> d \<Longrightarrow> d < 2 ^ 63 - 1 \<Longrightarrow> d < timeSub t u \<longleftrightarrow> d < t - u"
  by (auto simp: timeSub_def)

section \<open>Pointers and results\<close>

definition deref :: "'a \<Rightarrow> 'a option \<Rightarrow> 'a" where
  "deref d p = (case p of None \<Rightarrow> d | Some x \<Rightarrow> x)"

lemma deref_simps [simp]: "deref d None = d" "deref d (Some x) = x"
  by (simp_all add: deref_def)

text \<open>
  The idioms \<open>if x == "" { x = d }\<close>, \<open>if p == nil { p = &d }\<close> and \<open>if len(xs) == 0 { xs = ds }\<close>, by
  which the code fills in what is omitted.
\<close>

definition orElse :: "'a list \<Rightarrow> 'a list \<Rightarrow> 'a list" where
  "orElse v d = (if v = [] then d else v)"

definition orPtr :: "'a option \<Rightarrow> 'a \<Rightarrow> 'a option" where
  "orPtr p d = (case p of None \<Rightarrow> Some d | Some x \<Rightarrow> Some x)"

lemma orElse_idem [simp]: "orElse (orElse v d) d = orElse v d"
  by (simp add: orElse_def)

lemma orElse_set [simp]: "v \<noteq> [] \<Longrightarrow> orElse v d = v" "orElse [] d = d"
  by (simp_all add: orElse_def)

lemma orElse_Nil_iff [simp]: "orElse v d = [] \<longleftrightarrow> v = [] \<and> d = []"
  by (simp add: orElse_def)

lemma orElse_done [simp]: "d \<noteq> [] \<Longrightarrow> orElse (orElse v d) d' = orElse v d"
  by (simp add: orElse_def)

lemma orPtr_simps [simp]: "orPtr None d = Some d" "orPtr (Some x) d = Some x" "orPtr p d \<noteq> None"
  "orPtr (orPtr p d) d' = orPtr p d"
  by (auto simp: orPtr_def split: option.splits)

text \<open>
  A map index expression \<open>m[k]\<close> yields the zero value when the key is absent; for a
  \<open>map[string]string\<close> that is the empty string.
\<close>

definition mapGet :: "(string \<rightharpoonup> string) \<Rightarrow> string \<Rightarrow> string" where
  "mapGet m k = deref [] (m k)"

lemma mapGet_upd [simp]: "mapGet (m(k \<mapsto> v)) k = v" "k' \<noteq> k \<Longrightarrow> mapGet (m(k \<mapsto> v)) k' = mapGet m k'"
  by (simp_all add: mapGet_def)

end
