(* ===== verification/Kube.thy ===== *)
theory Kube
  imports Go_Base
begin

text \<open>
  The Kubernetes side of the controllers: object metadata, conditions, the results of API calls, and
  the types of \<open>k8s.io/api\<close> with the fields the operator reads or writes. The functions of
  \<open>k8s.io/apimachinery\<close> and \<open>controller-runtime\<close> that the code calls are the fields of the record
  \<open>kube_lib\<close>, an argument of the definitions that use them; \<open>conditions_law\<close> and its siblings state
  their documented behaviour, and \<open>refLib\<close> is one instance of it.
\<close>

section \<open>API calls\<close>

datatype api_error = NotFound | AlreadyExists | Conflict | OtherError string

type_synonym 'a api = "api_error + 'a"

text \<open>An error that a reconciler returns: one of the API server or one it formatted itself.\<close>

datatype error = APIError api_error | Errorf string

text \<open>\<open>ctrl.Result\<close>; zero means that no requeue is asked for.\<close>

record ctrl_Result =
  RequeueAfter :: Duration

definition noRequeue :: ctrl_Result where
  "noRequeue = \<lparr>RequeueAfter = 0\<rparr>"

definition requeueAfter :: "Duration \<Rightarrow> ctrl_Result" where
  "requeueAfter d = \<lparr>RequeueAfter = d\<rparr>"

type_synonym reconcile_result = "error + ctrl_Result"

text \<open>\<open>client.IgnoreNotFound\<close> in a return statement.\<close>

definition ignoreNotFound :: "api_error \<Rightarrow> reconcile_result" where
  "ignoreNotFound e = (if e = NotFound then Inr noRequeue else Inl (APIError e))"

section \<open>Metadata and conditions\<close>

record OwnerReference =
  or_APIVersion :: string
  or_Kind :: string
  or_Name :: string
  or_UID :: string
  or_Controller :: "bool option"

record ObjectMeta =
  om_Name :: string
  om_Namespace :: string
  om_UID :: string
  om_ResourceVersion :: string
  om_Generation :: int
  om_CreationTimestamp :: time
  om_DeletionTimestamp :: "time option"
  om_Labels :: "string \<rightharpoonup> string"
  om_Annotations :: "string \<rightharpoonup> string"
  om_OwnerReferences :: "OwnerReference list"
  om_Finalizers :: "string list"

definition emptyMeta :: ObjectMeta where
  "emptyMeta = \<lparr>om_Name = [], om_Namespace = [], om_UID = [], om_ResourceVersion = [], om_Generation = 0,
     om_CreationTimestamp = 0, om_DeletionTimestamp = None, om_Labels = Map.empty,
     om_Annotations = Map.empty, om_OwnerReferences = [], om_Finalizers = []\<rparr>"

datatype ConditionStatus = ConditionTrue | ConditionFalse | ConditionUnknown

record Condition =
  cond_Type :: string
  cond_Status :: ConditionStatus
  cond_ObservedGeneration :: int
  cond_LastTransitionTime :: time
  cond_Reason :: string
  cond_Message :: string

record ObjectReference =
  oref_APIVersion :: string
  oref_Kind :: string
  oref_Namespace :: string
  oref_Name :: string
  oref_UID :: string

record LocalObjectReference =
  lref_Name :: string

section \<open>Library functions\<close>

record kube_lib =
  FindStatusCondition :: "Condition list \<Rightarrow> string \<Rightarrow> Condition option"
  SetStatusCondition :: "Condition list \<Rightarrow> Condition \<Rightarrow> Condition list"
  IsControlledBy :: "ObjectMeta \<Rightarrow> ObjectMeta \<Rightarrow> bool"
  SetControllerReference :: "ObjectMeta \<Rightarrow> ObjectMeta \<Rightarrow> error + ObjectMeta"
  ContainsFinalizer :: "ObjectMeta \<Rightarrow> string \<Rightarrow> bool"
  AddFinalizer :: "ObjectMeta \<Rightarrow> string \<Rightarrow> ObjectMeta \<times> bool"
  RemoveFinalizer :: "ObjectMeta \<Rightarrow> string \<Rightarrow> ObjectMeta \<times> bool"
  IsDNS1123Subdomain :: "string \<Rightarrow> bool"
  IsConfigMapKey :: "string \<Rightarrow> bool"

text \<open>
  What \<open>meta.SetStatusCondition\<close> promises: the condition of that type is then the one given, but for
  its transition time, and the conditions of the other types are as before.
\<close>

definition sameCondition :: "Condition \<Rightarrow> Condition \<Rightarrow> bool" where
  "sameCondition a b \<longleftrightarrow>
     cond_Type a = cond_Type b \<and> cond_Status a = cond_Status b \<and> cond_Reason a = cond_Reason b \<and>
     cond_Message a = cond_Message b \<and> cond_ObservedGeneration a = cond_ObservedGeneration b"

definition conditions_law :: "kube_lib \<Rightarrow> bool" where
  "conditions_law lib \<longleftrightarrow>
     (\<forall>cs c. \<exists>c'. FindStatusCondition lib (SetStatusCondition lib cs c) (cond_Type c) = Some c' \<and>
        sameCondition c' c) \<and>
     (\<forall>cs c t. t \<noteq> cond_Type c \<longrightarrow>
        FindStatusCondition lib (SetStatusCondition lib cs c) t = FindStatusCondition lib cs t)"

text \<open>An object with a controller reference to an owner is controlled by it, and by no other UID.\<close>

definition controller_law :: "kube_lib \<Rightarrow> bool" where
  "controller_law lib \<longleftrightarrow>
     (\<forall>owner m m'. SetControllerReference lib owner m = Inr m' \<longrightarrow>
        IsControlledBy lib m' owner \<and> om_Name m' = om_Name m \<and> om_Namespace m' = om_Namespace m \<and>
        om_Labels m' = om_Labels m \<and> om_Annotations m' = om_Annotations m)"

text \<open>The finalizer helpers of \<open>controllerutil\<close>; the flag says whether the object changed.\<close>

definition finalizer_law :: "kube_lib \<Rightarrow> bool" where
  "finalizer_law lib \<longleftrightarrow>
     (\<forall>m f. ContainsFinalizer lib m f = (f \<in> set (om_Finalizers m))) \<and>
     (\<forall>m f. AddFinalizer lib m f =
        (if f \<in> set (om_Finalizers m) then (m, False)
         else (m\<lparr>om_Finalizers := om_Finalizers m @ [f]\<rparr>, True))) \<and>
     (\<forall>m f. RemoveFinalizer lib m f =
        (m\<lparr>om_Finalizers := filter (\<lambda>x. x \<noteq> f) (om_Finalizers m)\<rparr>, f \<in> set (om_Finalizers m)))"

subsection \<open>An instance\<close>

definition refFind :: "Condition list \<Rightarrow> string \<Rightarrow> Condition option" where
  "refFind cs t = find (\<lambda>c. cond_Type c = t) cs"

fun refSet :: "Condition list \<Rightarrow> Condition \<Rightarrow> Condition list" where
  "refSet [] c = [c]"
| "refSet (x # cs) c =
     (if cond_Type x = cond_Type c
      then c\<lparr>cond_LastTransitionTime :=
               (if cond_Status x = cond_Status c then cond_LastTransitionTime x
                else cond_LastTransitionTime c)\<rparr> # cs
      else x # refSet cs c)"

definition refControllerRef :: "ObjectMeta \<Rightarrow> OwnerReference" where
  "refControllerRef owner = \<lparr>or_APIVersion = [], or_Kind = [], or_Name = om_Name owner,
     or_UID = om_UID owner, or_Controller = Some True\<rparr>"

definition refControlledBy :: "ObjectMeta \<Rightarrow> ObjectMeta \<Rightarrow> bool" where
  "refControlledBy m owner =
     (case find (\<lambda>r. or_Controller r = Some True) (om_OwnerReferences m) of
        None \<Rightarrow> False | Some r \<Rightarrow> or_UID r = om_UID owner)"

definition refSetController :: "ObjectMeta \<Rightarrow> ObjectMeta \<Rightarrow> error + ObjectMeta" where
  "refSetController owner m =
     (case find (\<lambda>r. or_Controller r = Some True) (om_OwnerReferences m) of
        None \<Rightarrow> Inr (m\<lparr>om_OwnerReferences := om_OwnerReferences m @ [refControllerRef owner]\<rparr>)
      | Some r \<Rightarrow> if or_UID r = om_UID owner then Inr m else Inl (Errorf ''already owned''))"

definition refLib :: kube_lib where
  "refLib = \<lparr>FindStatusCondition = refFind, SetStatusCondition = refSet, IsControlledBy = refControlledBy,
     SetControllerReference = refSetController,
     ContainsFinalizer = (\<lambda>m f. f \<in> set (om_Finalizers m)),
     AddFinalizer = (\<lambda>m f. if f \<in> set (om_Finalizers m) then (m, False)
        else (m\<lparr>om_Finalizers := om_Finalizers m @ [f]\<rparr>, True)),
     RemoveFinalizer = (\<lambda>m f. (m\<lparr>om_Finalizers := filter (\<lambda>x. x \<noteq> f) (om_Finalizers m)\<rparr>,
        f \<in> set (om_Finalizers m))),
     IsDNS1123Subdomain = (\<lambda>s. s \<noteq> [] \<and> length s \<le> 253), IsConfigMapKey = (\<lambda>s. s \<noteq> [])\<rparr>"

lemmas refLib_defs [go_eval] =
  refLib_def refFind_def refControlledBy_def refSetController_def refControllerRef_def

lemma refFind_refSet:
  "\<exists>c'. refFind (refSet cs c) (cond_Type c) = Some c' \<and> sameCondition c' c"
  by (induction cs c rule: refSet.induct) (auto simp: refFind_def sameCondition_def)

lemma refFind_refSet_other: "t \<noteq> cond_Type c \<Longrightarrow> refFind (refSet cs c) t = refFind cs t"
  by (induction cs c rule: refSet.induct) (auto simp: refFind_def)

lemma refLib_conditions [simp]: "conditions_law refLib"
  unfolding conditions_law_def by (simp add: refLib_def refFind_refSet refFind_refSet_other)

lemma find_append: "find P (xs @ ys) = (case find P xs of None \<Rightarrow> find P ys | Some x \<Rightarrow> Some x)"
  by (induction xs) auto

lemma refLib_controller [simp]: "controller_law refLib"
  unfolding controller_law_def refLib_def refSetController_def refControlledBy_def refControllerRef_def
  by (auto split: option.splits if_splits simp: find_append)

lemma refLib_finalizer [simp]: "finalizer_law refLib"
  unfolding finalizer_law_def by (simp add: refLib_def)

section \<open>Types of the core, batch and networking groups\<close>

datatype IntOrString = FromInt int | FromString string

text \<open>\<open>resource.Quantity\<close>: only built by \<open>resource.MustParse\<close> from a literal and passed on.\<close>

datatype Quantity = MustParse string

type_synonym ResourceList = "string \<rightharpoonup> Quantity"

record ResourceRequirements =
  rr_Requests :: ResourceList
  rr_Limits :: ResourceList

record SecretKeySelector =
  sks_Name :: string
  sks_Key :: string
  sks_Optional :: "bool option"

record EnvVar =
  ev_Name :: string
  ev_Value :: string
  ev_SecretKeyRef :: "SecretKeySelector option"

record HTTPGetAction =
  hga_Path :: string
  hga_Port :: IntOrString

record Probe =
  pr_HTTPGet :: "HTTPGetAction option"
  pr_PeriodSeconds :: int
  pr_TimeoutSeconds :: int
  pr_FailureThreshold :: int

record PodSecurityContext =
  psc_RunAsNonRoot :: "bool option"
  psc_RunAsUser :: "int option"
  psc_RunAsGroup :: "int option"
  psc_SeccompProfile :: "string option"

record Capabilities =
  cap_Add :: "string list"
  cap_Drop :: "string list"

record SecurityContext =
  sc_RunAsNonRoot :: "bool option"
  sc_AllowPrivilegeEscalation :: "bool option"
  sc_ReadOnlyRootFilesystem :: "bool option"
  sc_Capabilities :: "Capabilities option"

record LabelSelector =
  ls_MatchLabels :: "string \<rightharpoonup> string"

record WeightedPodAffinityTerm =
  wpat_Weight :: int
  wpat_TopologyKey :: string
  wpat_LabelSelector :: "LabelSelector option"

record Affinity =
  aff_PodAntiAffinityPreferred :: "WeightedPodAffinityTerm list"

record ContainerPort =
  cp_Name :: string
  cp_ContainerPort :: int

record ServicePort =
  sp_Name :: string
  sp_Port :: int

record NetworkPolicyPort =
  npp_Protocol :: "string option"
  npp_Port :: "IntOrString option"

record IPBlock =
  ipb_CIDR :: string
  ipb_Except :: "string list"

record NetworkPolicyPeer =
  npe_PodSelector :: "LabelSelector option"
  npe_IPBlock :: "IPBlock option"

record NetworkPolicyRule =
  npr_Peers :: "NetworkPolicyPeer list"
  npr_Ports :: "NetworkPolicyPort list"

record IngressTLS =
  itls_Hosts :: "string list"
  itls_SecretName :: string

section \<open>Watched namespaces\<close>

text \<open>\<open>WatchNamespaceSet\<close> of \<open>internal/controller/watch_namespaces.go\<close>; the nil set is empty.\<close>

type_synonym WatchNamespaceSet = "string list"

definition Allows :: "WatchNamespaceSet \<Rightarrow> string \<Rightarrow> bool" where
  "Allows s namespace = (if s = [] then True else namespace \<in> set s)"

definition ParseWatchNamespaces :: "string \<Rightarrow> WatchNamespaceSet" where
  "ParseWatchNamespaces raw = remdups (filter (\<lambda>n. n \<noteq> []) (map TrimSpace (Split (CHR '','') raw)))"

end
