(* ===== verification/Go_Hash.thy ===== *)
theory Go_Hash
  imports Go_Base "HOL-Library.Word"
begin

text \<open>
  Packages \<open>crypto/sha256\<close> and \<open>encoding/hex\<close>, and the verb \<open>%x\<close> on byte slices. Bytes are
  8-bit words and the compression function works on 32-bit words whose addition wraps around.
\<close>

unbundle bit_operations_syntax

type_synonym byte = "8 word"
type_synonym w32 = "32 word"

section \<open>SHA-256\<close>

definition roundConstants :: "w32 list" where
  "roundConstants =
    [0x428a2f98, 0x71374491, 0xb5c0fbcf, 0xe9b5dba5, 0x3956c25b, 0x59f111f1, 0x923f82a4, 0xab1c5ed5,
     0xd807aa98, 0x12835b01, 0x243185be, 0x550c7dc3, 0x72be5d74, 0x80deb1fe, 0x9bdc06a7, 0xc19bf174,
     0xe49b69c1, 0xefbe4786, 0x0fc19dc6, 0x240ca1cc, 0x2de92c6f, 0x4a7484aa, 0x5cb0a9dc, 0x76f988da,
     0x983e5152, 0xa831c66d, 0xb00327c8, 0xbf597fc7, 0xc6e00bf3, 0xd5a79147, 0x06ca6351, 0x14292967,
     0x27b70a85, 0x2e1b2138, 0x4d2c6dfc, 0x53380d13, 0x650a7354, 0x766a0abb, 0x81c2c92e, 0x92722c85,
     0xa2bfe8a1, 0xa81a664b, 0xc24b8b70, 0xc76c51a3, 0xd192e819, 0xd6990624, 0xf40e3585, 0x106aa070,
     0x19a4c116, 0x1e376c08, 0x2748774c, 0x34b0bcb5, 0x391c0cb3, 0x4ed8aa4a, 0x5b9cca4f, 0x682e6ff3,
     0x748f82ee, 0x78a5636f, 0x84c87814, 0x8cc70208, 0x90befffa, 0xa4506ceb, 0xbef9a3f7, 0xc67178f2]"

type_synonym hash_state = "w32 \<times> w32 \<times> w32 \<times> w32 \<times> w32 \<times> w32 \<times> w32 \<times> w32"

definition initialState :: hash_state where
  "initialState =
    (0x6a09e667, 0xbb67ae85, 0x3c6ef372, 0xa54ff53a, 0x510e527f, 0x9b05688c, 0x1f83d9ab, 0x5be0cd19)"

definition rotr :: "nat \<Rightarrow> w32 \<Rightarrow> w32" where
  "rotr n x = drop_bit n x OR push_bit (32 - n) x"

definition toBytes :: "string \<Rightarrow> byte list" where
  "toBytes s = map (\<lambda>c. word_of_nat (of_char c)) s"

definition lengthBytes :: "nat \<Rightarrow> byte list" where
  "lengthBytes n =
     map (\<lambda>i. ucast (drop_bit i (word_of_nat (8 * n) :: 64 word))) [56, 48, 40, 32, 24, 16, 8, 0]"

definition pad :: "byte list \<Rightarrow> byte list" where
  "pad m = m @ 0x80 # replicate ((119 - length m mod 64) mod 64) 0 @ lengthBytes (length m)"

fun bigEndian :: "byte list \<Rightarrow> w32 list" where
  "bigEndian (a # b # c # d # r) =
     (push_bit 24 (ucast a) OR push_bit 16 (ucast b) OR push_bit 8 (ucast c) OR ucast d) # bigEndian r"
| "bigEndian _ = []"

text \<open>The message schedule, most recent word first.\<close>

fun extendSchedule :: "nat \<Rightarrow> w32 list \<Rightarrow> w32 list" where
  "extendSchedule 0 ws = ws"
| "extendSchedule (Suc n) ws =
     (let v1 = ws ! 1; v2 = ws ! 14;
          t1 = rotr 17 v1 XOR rotr 19 v1 XOR drop_bit 10 v1;
          t2 = rotr 7 v2 XOR rotr 18 v2 XOR drop_bit 3 v2
      in extendSchedule n ((t1 + ws ! 6 + t2 + ws ! 15) # ws))"

definition hashRound :: "hash_state \<Rightarrow> w32 \<times> w32 \<Rightarrow> hash_state" where
  "hashRound st kw =
     (case st of (a, b, c, d, e, f, g, h) \<Rightarrow>
        let t1 = h + (rotr 6 e XOR rotr 11 e XOR rotr 25 e) + ((e AND f) XOR (NOT e AND g)) + fst kw + snd kw;
            t2 = (rotr 2 a XOR rotr 13 a XOR rotr 22 a) + ((a AND b) XOR (a AND c) XOR (b AND c))
        in (t1 + t2, a, b, c, d + t1, e, f, g))"

definition hashBlock :: "hash_state \<Rightarrow> byte list \<Rightarrow> hash_state" where
  "hashBlock st block =
     (let ws = rev (extendSchedule 48 (rev (bigEndian block)))
      in case (st, foldl hashRound st (zip roundConstants ws)) of
           ((a, b, c, d, e, f, g, h), (a', b', c', d', e', f', g', h')) \<Rightarrow>
             (a + a', b + b', c + c', d + d', e + e', f + f', g + g', h + h'))"

function hashBlocks :: "hash_state \<Rightarrow> byte list \<Rightarrow> hash_state" where
  "hashBlocks st m = (if m = [] then st else hashBlocks (hashBlock st (take 64 m)) (drop 64 m))"
  by pat_completeness auto

termination hashBlocks
  by (relation "measure (\<lambda>(st, m). length m)") auto

declare hashBlocks.simps [simp del]

definition wordBytes :: "w32 \<Rightarrow> byte list" where
  "wordBytes w = [ucast (drop_bit 24 w), ucast (drop_bit 16 w), ucast (drop_bit 8 w), ucast w]"

definition Sum256 :: "string \<Rightarrow> byte list" where
  "Sum256 s =
     (case hashBlocks initialState (pad (toBytes s)) of (a, b, c, d, e, f, g, h) \<Rightarrow>
        concat (map wordBytes [a, b, c, d, e, f, g, h]))"

section \<open>Hexadecimal text\<close>

definition hexByte :: "byte \<Rightarrow> string" where
  "hexByte b = [digit (unat b div 16), digit (unat b mod 16)]"

definition EncodeToString :: "byte list \<Rightarrow> string" where
  "EncodeToString bs = concat (map hexByte bs)"

text \<open>\<open>hex.DecodeString\<close> accepts upper and lower case digits; \<^const>\<open>None\<close> is its error.\<close>

definition hexValue :: "char \<Rightarrow> nat option" where
  "hexValue c =
     (if CHR ''0'' \<le> c \<and> c \<le> CHR ''9'' then Some (of_char c - 48)
      else if CHR ''a'' \<le> c \<and> c \<le> CHR ''f'' then Some (of_char c - 87)
      else if CHR ''A'' \<le> c \<and> c \<le> CHR ''F'' then Some (of_char c - 55)
      else None)"

fun DecodeString :: "string \<Rightarrow> byte list option" where
  "DecodeString [] = Some []"
| "DecodeString [c] = None"
| "DecodeString (a # b # s) =
     (case (hexValue a, hexValue b, DecodeString s) of
        (Some x, Some y, Some bs) \<Rightarrow> Some (word_of_nat (16 * x + y) # bs)
      | _ \<Rightarrow> None)"

section \<open>Lengths and alphabets\<close>

lemma length_Sum256 [simp]: "length (Sum256 s) = 32"
  by (auto simp: Sum256_def wordBytes_def split: prod.splits)

lemma length_EncodeToString [simp]: "length (EncodeToString bs) = 2 * length bs"
  by (induction bs) (auto simp: EncodeToString_def hexByte_def)

lemma EncodeToString_Nil [simp]: "EncodeToString [] = []"
  by (simp add: EncodeToString_def)

lemma EncodeToString_Cons: "EncodeToString (b # bs) = hexByte b @ EncodeToString bs"
  by (simp add: EncodeToString_def)

lemma EncodeToString_append [simp]: "EncodeToString (as @ bs) = EncodeToString as @ EncodeToString bs"
  by (simp add: EncodeToString_def)

lemma EncodeToString_hex: "list_all isHexLower (EncodeToString bs)"
  by (induction bs) (auto simp: EncodeToString_Cons hexByte_def)

lemma hexValue_digit [simp]: "n < 16 \<Longrightarrow> hexValue (digit n) = Some n"
proof -
  have "list_all (\<lambda>k. hexValue (digit k) = Some k) [0..<16]" by code_simp
  then show "n < 16 \<Longrightarrow> ?thesis" by (simp add: list_all_iff)
qed

text \<open>Decoding is the inverse of encoding.\<close>

lemma DecodeString_EncodeToString [simp]: "DecodeString (EncodeToString bs) = Some bs"
proof (induction bs)
  case (Cons b bs)
  have "unat b < 256" using unsigned_less [of b, where ?'a = nat] by simp
  then have "unat b div 16 < 16" "unat b mod 16 < 16" by (auto simp: less_mult_imp_div_less)
  then show ?case
    using Cons by (simp add: EncodeToString_Cons hexByte_def)
qed simp

lemma DecodeString_length: "DecodeString s = Some bs \<Longrightarrow> length s = 2 * length bs"
  by (induction s arbitrary: bs rule: DecodeString.induct) (auto split: option.splits)

end
