(* ===== verification/Tamoss_API.thy ===== *)
theory Tamoss_API
  imports Kube Go_Hash
begin

text \<open>
  The resource types of \<open>operator/api/v1alpha1\<close>: the Tamoss spec and status with their methods, the
  lifecycle and hibernation types, and StorageBackend and FlowProfile with their defaults and
  deterministic identifiers. A record has the fields of the Go struct that some modelled code reads or
  writes; an enumeration that users write is a \<^typ>\<open>string\<close>, so that the default branches of the
  code stay reachable.
\<close>

section \<open>Backends (tamoss\_backend\_types.go)\<close>

record SecretKeySpec =
  skey_Username :: string
  skey_Password :: string
  skey_AccessKey :: string
  skey_SecretKey :: string

record SecretReferenceSpec =
  sref_ExistingSecret :: string
  sref_SecretKeys :: SecretKeySpec

record EndpointURLSpec =
  eurl_URL :: string

record S3EndpointSpec =
  s3e_Default :: EndpointURLSpec
  s3e_Public :: EndpointURLSpec

record S3PublicEndpointSpec =
  s3p_URL :: string
  s3p_TLSSecretName :: string

record BackendStorageSpec =
  bst_Size :: string
  bst_StorageClass :: string

record DBExternalSpec =
  dbx_Host :: string
  dbx_Port :: string
  dbx_Database :: string
  dbx_Auth :: SecretReferenceSpec
  dbx_TLSConfigMap :: "(string \<times> string) option"

record DBCNPGObjectStoreSpec =
  cos_EndpointURL :: string
  cos_Bucket :: string
  cos_DestinationPath :: string
  cos_ServerName :: string
  cos_ExistingSecret :: string
  cos_SecretKeys :: SecretKeySpec

record DBCNPGBackupSpec =
  cbk_Enabled :: bool
  cbk_Schedule :: string
  cbk_RetentionPolicy :: string
  cbk_ObjectStore :: DBCNPGObjectStoreSpec

record DBCNPGRestoreSpec =
  crs_Enabled :: bool
  crs_Source :: string
  crs_BackupID :: string
  crs_TargetTime :: string
  crs_TargetImmediate :: "bool option"
  crs_ObjectStore :: DBCNPGObjectStoreSpec

record DBCNPGMonitoringSpec =
  cmon_EnablePodMonitor :: "bool option"

record DBCNPGSpec =
  cnpg_Instances :: int
  cnpg_PostgresVersion :: string
  cnpg_Storage :: BackendStorageSpec
  cnpg_Resources :: ResourceRequirements
  cnpg_Backup :: DBCNPGBackupSpec
  cnpg_Restore :: DBCNPGRestoreSpec
  cnpg_Monitoring :: DBCNPGMonitoringSpec

record DBBundledSpec =
  dbb_Storage :: BackendStorageSpec
  dbb_Resources :: ResourceRequirements

record DBBackendSpec =
  db_ProvidedBy :: string
  db_External :: "DBExternalSpec option"
  db_Bundled :: "DBBundledSpec option"
  db_CNPG :: "DBCNPGSpec option"
  db_ApplyFixtures :: "bool option"

record S3ExternalSpec =
  s3x_CredentialSource :: string
  s3x_Endpoint :: S3EndpointSpec
  s3x_Auth :: SecretReferenceSpec
  s3x_Region :: string
  s3x_Bucket :: string

record S3RustFSPoolSpec =
  pool_Name :: string
  pool_Servers :: int
  pool_VolumesPerServer :: int
  pool_Storage :: BackendStorageSpec

record S3RustFSOperatorBucketSpec =
  rfb_Name :: string
  rfb_CreateIfMissing :: bool

record S3RustFSOperatorSpec =
  rfs_Pools :: "S3RustFSPoolSpec list"
  rfs_Image :: string
  rfs_CredsSecret :: SecretReferenceSpec
  rfs_ImagePullPolicy :: string
  rfs_Env :: "EnvVar list"
  rfs_PublicEndpoint :: S3PublicEndpointSpec
  rfs_Bucket :: S3RustFSOperatorBucketSpec

record S3BackendSpec =
  s3_ProvidedBy :: string
  s3_External :: "S3ExternalSpec option"
  s3_RustFSOperator :: "S3RustFSOperatorSpec option"

record BackendsSpec =
  be_DB :: DBBackendSpec
  be_S3 :: S3BackendSpec

subsection \<open>Zero values\<close>

definition zeroSecretKeys :: SecretKeySpec where
  "zeroSecretKeys = \<lparr>skey_Username = [], skey_Password = [], skey_AccessKey = [], skey_SecretKey = []\<rparr>"

definition zeroSecretReference :: SecretReferenceSpec where
  "zeroSecretReference = \<lparr>sref_ExistingSecret = [], sref_SecretKeys = zeroSecretKeys\<rparr>"

definition zeroStorage :: BackendStorageSpec where
  "zeroStorage = \<lparr>bst_Size = [], bst_StorageClass = []\<rparr>"

definition zeroResources :: ResourceRequirements where
  "zeroResources = \<lparr>rr_Requests = Map.empty, rr_Limits = Map.empty\<rparr>"

definition zeroObjectStore :: DBCNPGObjectStoreSpec where
  "zeroObjectStore = \<lparr>cos_EndpointURL = [], cos_Bucket = [], cos_DestinationPath = [], cos_ServerName = [],
     cos_ExistingSecret = [], cos_SecretKeys = zeroSecretKeys\<rparr>"

definition zeroBackup :: DBCNPGBackupSpec where
  "zeroBackup = \<lparr>cbk_Enabled = False, cbk_Schedule = [], cbk_RetentionPolicy = [],
     cbk_ObjectStore = zeroObjectStore\<rparr>"

definition zeroRestore :: DBCNPGRestoreSpec where
  "zeroRestore = \<lparr>crs_Enabled = False, crs_Source = [], crs_BackupID = [], crs_TargetTime = [],
     crs_TargetImmediate = None, crs_ObjectStore = zeroObjectStore\<rparr>"

definition zeroCNPG :: DBCNPGSpec where
  "zeroCNPG = \<lparr>cnpg_Instances = 0, cnpg_PostgresVersion = [], cnpg_Storage = zeroStorage,
     cnpg_Resources = zeroResources, cnpg_Backup = zeroBackup, cnpg_Restore = zeroRestore,
     cnpg_Monitoring = \<lparr>cmon_EnablePodMonitor = None\<rparr>\<rparr>"

definition zeroDBBackend :: DBBackendSpec where
  "zeroDBBackend = \<lparr>db_ProvidedBy = [], db_External = None, db_Bundled = None, db_CNPG = None,
     db_ApplyFixtures = None\<rparr>"

definition zeroDBExternal :: DBExternalSpec where
  "zeroDBExternal = \<lparr>dbx_Host = [], dbx_Port = [], dbx_Database = [], dbx_Auth = zeroSecretReference,
     dbx_TLSConfigMap = None\<rparr>"

definition zeroS3Endpoint :: S3EndpointSpec where
  "zeroS3Endpoint = \<lparr>s3e_Default = \<lparr>eurl_URL = []\<rparr>, s3e_Public = \<lparr>eurl_URL = []\<rparr>\<rparr>"

definition zeroS3External :: S3ExternalSpec where
  "zeroS3External = \<lparr>s3x_CredentialSource = [], s3x_Endpoint = zeroS3Endpoint, s3x_Auth = zeroSecretReference,
     s3x_Region = [], s3x_Bucket = []\<rparr>"

definition zeroRustFS :: S3RustFSOperatorSpec where
  "zeroRustFS = \<lparr>rfs_Pools = [], rfs_Image = [], rfs_CredsSecret = zeroSecretReference,
     rfs_ImagePullPolicy = [], rfs_Env = [],
     rfs_PublicEndpoint = \<lparr>s3p_URL = [], s3p_TLSSecretName = []\<rparr>,
     rfs_Bucket = \<lparr>rfb_Name = [], rfb_CreateIfMissing = False\<rparr>\<rparr>"

subsection \<open>Missing fields of backup and restore specs\<close>

definition backupMissingRequiredFields :: "DBCNPGBackupSpec \<Rightarrow> string list" where
  "backupMissingRequiredFields b =
     (if \<not> cbk_Enabled b then []
      else (if TrimSpace (cbk_Schedule b) = [] then [''schedule''] else []) @
           (if TrimSpace (cbk_RetentionPolicy b) = [] then [''retentionPolicy''] else []) @
           (if TrimSpace (cos_EndpointURL (cbk_ObjectStore b)) = [] then [''objectStore.endpointURL''] else []) @
           (if TrimSpace (cos_Bucket (cbk_ObjectStore b)) = [] then [''objectStore.bucket''] else []) @
           (if TrimSpace (cos_ExistingSecret (cbk_ObjectStore b)) = [] then [''objectStore.existingSecret''] else []))"

definition restoreMissingRequiredFields :: "DBCNPGRestoreSpec \<Rightarrow> string list" where
  "restoreMissingRequiredFields r =
     (if \<not> crs_Enabled r then []
      else (if TrimSpace (crs_Source r) = [] then [''source''] else []) @
           (if TrimSpace (cos_EndpointURL (crs_ObjectStore r)) = [] then [''objectStore.endpointURL''] else []) @
           (if TrimSpace (cos_Bucket (crs_ObjectStore r)) = [] then [''objectStore.bucket''] else []) @
           (if TrimSpace (cos_ExistingSecret (crs_ObjectStore r)) = [] then [''objectStore.existingSecret''] else []))"

section \<open>Workload components (tamoss\_spec\_types.go)\<close>

record ImageSpec =
  is_Repository :: string
  is_Tag :: string
  is_PullPolicy :: string

record ComponentImagesSpec =
  ci_TAMSin :: string
  ci_SchemaMigrationPostgresClient :: string

record PDBSpec =
  pdb_Enabled :: "bool option"
  pdb_MinAvailable :: "IntOrString option"
  pdb_MaxUnavailable :: "IntOrString option"

record WorkloadCommonSpec =
  wc_ReplicaCount :: "int option"
  wc_Env :: "string \<rightharpoonup> string"
  wc_PodSecurityContext :: "PodSecurityContext option"
  wc_SecurityContext :: "SecurityContext option"
  wc_Resources :: ResourceRequirements
  wc_LivenessProbe :: "Probe option"
  wc_ReadinessProbe :: "Probe option"
  wc_StartupProbe :: "Probe option"
  wc_PDB :: PDBSpec
  wc_Affinity :: "Affinity option"

record APIComponentSpec =
  api_Enabled :: "bool option"
  api_Image :: ImageSpec
  api_Common :: WorkloadCommonSpec

record WorkerComponentSpec =
  wrk_Enabled :: "bool option"
  wrk_Common :: WorkloadCommonSpec

record UIComponentSpec =
  ui_Enabled :: "bool option"
  ui_Image :: ImageSpec
  ui_Ports :: "ContainerPort list"
  ui_Common :: WorkloadCommonSpec

record ConsoleComponentSpec =
  con_Enabled :: "bool option"
  con_Image :: ImageSpec
  con_Common :: WorkloadCommonSpec

record PublicEndpointSpec =
  pe_BaseDomain :: string
  pe_UIURL :: string
  pe_TLSSecretName :: string
  pe_S3TLSSecretName :: string

section \<open>Authentication (tamoss\_auth\_types.go)\<close>

record SecretKeyRefSpec =
  skr_Name :: string
  skr_Key :: string

record AuthentikGroupBindingSpec =
  agb_GroupName :: string
  agb_Permissions :: "string list"

record AuthentikBlueprintsSpec =
  ab_PlatformNamespace :: string
  ab_IssuerURL :: string
  ab_InternalURL :: string
  ab_APITokenSecretRef :: SecretKeyRefSpec
  ab_ApplicationSlug :: string
  ab_RedirectURIs :: "string list"
  ab_GroupBindings :: "AuthentikGroupBindingSpec list"

record OAuth2Spec =
  oa_Enabled :: bool
  oa_Issuer :: string
  oa_JWKSURI :: string
  oa_Audience :: string
  oa_Algorithms :: "string list"
  oa_ClientCredentialsSecret :: string

record AuthExternalSpec =
  ax_OAuth2 :: OAuth2Spec

record AuthSpec =
  auth_ProvidedBy :: string
  auth_Required :: bool
  auth_TrustForwardAuthHeaders :: bool
  auth_OAuth2AllowUnscopedFullAccess :: "bool option"
  auth_External :: "AuthExternalSpec option"
  auth_AuthentikBlueprints :: "AuthentikBlueprintsSpec option"

definition zeroOAuth2 :: OAuth2Spec where
  "zeroOAuth2 = \<lparr>oa_Enabled = False, oa_Issuer = [], oa_JWKSURI = [], oa_Audience = [], oa_Algorithms = [],
     oa_ClientCredentialsSecret = []\<rparr>"

definition zeroAuthentik :: AuthentikBlueprintsSpec where
  "zeroAuthentik = \<lparr>ab_PlatformNamespace = [], ab_IssuerURL = [], ab_InternalURL = [],
     ab_APITokenSecretRef = \<lparr>skr_Name = [], skr_Key = []\<rparr>, ab_ApplicationSlug = [], ab_RedirectURIs = [],
     ab_GroupBindings = []\<rparr>"

section \<open>Networking (tamoss\_networking\_types.go)\<close>

record ServiceSpec =
  svc_APIPorts :: "ServicePort list"
  svc_UIPorts :: "ServicePort list"
  svc_ConsolePorts :: "ServicePort list"

record NetworkPolicyRulesSpec =
  nps_Ingress :: "NetworkPolicyRule list"
  nps_Egress :: "NetworkPolicyRule list"

record NetworkPolicySpec =
  np_Enabled :: "bool option"
  np_API :: NetworkPolicyRulesSpec
  np_UI :: NetworkPolicyRulesSpec
  np_Worker :: NetworkPolicyRulesSpec
  np_Console :: NetworkPolicyRulesSpec
  np_KubernetesAPIIPBlocks :: "IPBlock list"

text \<open>\<open>Ingress.Annotations\<close> is an option: the code tells the nil map from the empty one.\<close>

record IngressSpec =
  ing_Enabled :: "bool option"
  ing_ClassName :: string
  ing_Annotations :: "(string \<rightharpoonup> string) option"
  ing_TLS :: "IngressTLS list"
  ing_APIHost :: string
  ing_UIWebHost :: string

record HTTPRouteSpec =
  hr_Enabled :: bool
  hr_APIHostnames :: "string list"
  hr_UIHostnames :: "string list"

record APITokenSecretSpec =
  ats_Generate :: bool
  ats_Token :: string

section \<open>Ingest sources (tamoss\_ingest\_types.go)\<close>

record HTTPIngestSourceSpec =
  his_Origin :: string
  his_PathPrefixes :: "string list"
  his_AllowPrivateAddresses :: bool
  his_CredentialSecretRef :: "LocalObjectReference option"

record S3IngestSourceSpec =
  sis_Endpoint :: string
  sis_Region :: string
  sis_Bucket :: string
  sis_KeyPrefixes :: "string list"
  sis_PathStyle :: bool
  sis_AllowPrivateAddresses :: bool
  sis_CredentialSecretRef :: "LocalObjectReference option"

record IngestSourceSpec =
  src_Name :: string
  src_Kind :: string
  src_HTTP :: "HTTPIngestSourceSpec option"
  src_S3 :: "S3IngestSourceSpec option"

record IngestSpec =
  is_Mode :: string
  is_Sources :: "IngestSourceSpec list"

abbreviation "IngestSourcePolicyDisabled \<equiv> ''Disabled''"
abbreviation "IngestSourcePolicyPublicHTTPS \<equiv> ''PublicHTTPS''"
abbreviation "IngestSourcePolicyRestricted \<equiv> ''Restricted''"

end
