(* ===== verification/Tamoss_Resource.thy ===== *)
theory Tamoss_Resource
  imports Tamoss_API
begin

text \<open>
  The Tamoss, TamossHibernate, StorageBackend and FlowProfile resources of \<open>operator/api/v1alpha1\<close>,
  the methods of \<open>tamoss_methods.go\<close>, and the defaults and identifiers of StorageBackend and FlowProfile.
\<close>

section \<open>Lifecycle and hibernation (tamoss\_lifecycle\_types.go)\<close>

text \<open>A phase that only the operator writes is a datatype; the unset phase is the empty string.\<close>

datatype TamossLifecyclePhase = LifecycleUnset | LifecycleRunning | LifecycleHibernating
  | LifecycleHibernated | LifecycleResuming | LifecycleFailed

datatype TamossOperationPhase = OperationUnset | OperationPending | OperationResolvingSource
  | OperationPreparingTarget | OperationQuiescing | OperationCapturingDatabase
  | OperationWritingManifest | OperationDeprovisioningSource | OperationCompleted | OperationFailed

datatype HibernationArtifactCleanupPhase = CleanupUnset | CleanupRetained | CleanupPending
  | CleanupCompleted | CleanupBlocked

record HibernationDestinationSpec =
  hd_StorageBackendRef :: LocalObjectReference
  hd_Prefix :: string

record TamossResumeArtifactSource =
  ras_StorageBackendRef :: LocalObjectReference
  ras_ManifestKey :: string
  ras_Checksum :: string

record TamossResumeSource =
  trs_HibernationRef :: "LocalObjectReference option"
  trs_Artifact :: "TamossResumeArtifactSource option"

record TamossHibernationSpec =
  hib_Enabled :: bool
  hib_Destination :: "HibernationDestinationSpec option"
  hib_ResumeFrom :: "TamossResumeSource option"

record HibernationArtifactCleanupStatus =
  hac_Phase :: HibernationArtifactCleanupPhase
  hac_Reason :: string
  hac_Message :: string
  hac_ObjectsDeleted :: int
  hac_CompletedAt :: "time option"

record HibernationArtifactRetention =
  har_StorageBackendName :: string
  har_ManifestKey :: string
  har_ResumedAt :: "time option"
  har_Cleanup :: HibernationArtifactCleanupStatus

record TamossResolvedRestore =
  trr_Restore :: DBCNPGRestoreSpec
  trr_Checksum :: string
  trr_Retention :: HibernationArtifactRetention

record TamossLifecycleStatus =
  tls_Phase :: TamossLifecyclePhase
  tls_Reason :: string
  tls_Message :: string
  tls_LastTransitionTime :: "time option"
  tls_HibernationCycle :: int
  tls_ActiveOperationRef :: "ObjectReference option"
  tls_LastHibernateRef :: "ObjectReference option"
  tls_LastResumeRef :: "ObjectReference option"
  tls_ResolvedRestore :: "TamossResolvedRestore option"
  tls_PendingArtifactCleanups :: "HibernationArtifactRetention list"

record HibernationCNPGBackupStatus =
  hcb_Name :: string
  hcb_Namespace :: string
  hcb_Phase :: string
  hcb_DestinationPath :: string
  hcb_BackupID :: string
  hcb_Error :: string

record HibernationArtifactStatus =
  hst_Driver :: string
  hst_ManifestURI :: string
  hst_ManifestKey :: string
  hst_Checksum :: string
  hst_CNPGBackup :: HibernationCNPGBackupStatus
  hst_Cleanup :: HibernationArtifactCleanupStatus

record TamossOperationStatus =
  tos_ObservedGeneration :: int
  tos_Conditions :: "Condition list"
  tos_Phase :: TamossOperationPhase
  tos_Reason :: string
  tos_Message :: string
  tos_StartedAt :: "time option"
  tos_CompletedAt :: "time option"
  tos_AcceptedRetry :: string
  tos_Artifact :: HibernationArtifactStatus

record TamossHibernateSpec =
  ths_TamossRef :: string
  ths_Destination :: HibernationDestinationSpec
  ths_Driver :: string

record TamossHibernate =
  th_Meta :: ObjectMeta
  th_Spec :: TamossHibernateSpec
  th_Status :: TamossOperationStatus

section \<open>The Tamoss resource\<close>

record TamossSpec =
  ts_Version :: string
  ts_Paused :: bool
  ts_Profile :: string
  ts_PublicEndpoint :: PublicEndpointSpec
  ts_NameOverride :: string
  ts_FullnameOverride :: string
  ts_API :: APIComponentSpec
  ts_Worker :: WorkerComponentSpec
  ts_UI :: UIComponentSpec
  ts_Console :: ConsoleComponentSpec
  ts_Images :: ComponentImagesSpec
  ts_Backends :: BackendsSpec
  ts_Auth :: AuthSpec
  ts_Hibernation :: TamossHibernationSpec
  ts_Ingest :: IngestSpec
  ts_Ingress :: IngressSpec
  ts_HTTPRoute :: HTTPRouteSpec
  ts_NetworkPolicy :: NetworkPolicySpec
  ts_Service :: ServiceSpec
  ts_APIToken :: APITokenSecretSpec
  ts_ImagePullSecrets :: "LocalObjectReference list"

record EndpointStatus =
  ep_API :: string
  ep_UI :: string
  ep_Auth :: string
  ep_S3 :: string

record UpgradeStatus =
  up_TargetVersion :: string
  up_Phase :: string
  up_Reason :: string
  up_Message :: string

record SchemaMigrationStatus =
  sm_Phase :: string
  sm_LastAttemptTime :: "time option"
  sm_LastAttemptResult :: string
  sm_Attempts :: int
  sm_AppliedRevision :: string
  sm_ObservedRevision :: string
  sm_CurrentRevision :: string
  sm_PreviousSupportedRevision :: string
  sm_SupportedTAMSAPI :: string

record ComponentReplicaStatus =
  crs_Desired :: int
  crs_Available :: int

record ReplicaStatus =
  rps_API :: ComponentReplicaStatus
  rps_Worker :: ComponentReplicaStatus
  rps_UI :: ComponentReplicaStatus
  rps_Console :: ComponentReplicaStatus

text \<open>\<open>BackendStatus\<close> holds a provider for each of the two backends.\<close>

record BackendStatus =
  bst_DB :: string
  bst_S3 :: string

record AuthStatus =
  aus_Provider :: string
  aus_PlatformNamespace :: string
  aus_ApplicationSlug :: string
  aus_ManagedBlueprint :: string

text \<open>The status of a backup policy that was never observed is empty: \<^const>\<open>None\<close>.\<close>

record BackupPolicyStatus =
  bps_Managed :: bool
  bps_Enabled :: bool
  bps_Status :: "ConditionStatus option"
  bps_Reason :: string
  bps_Message :: string
  bps_Cluster :: string
  bps_ScheduledBackup :: string
  bps_LastSuccessfulBackup :: string
  bps_LastFailedBackup :: string
  bps_FirstRecoverabilityPoint :: string

record ProviderDomainStatus =
  pds_Provider :: string
  pds_Ownership :: string

record ProviderStatus =
  prs_DB :: ProviderDomainStatus
  prs_S3 :: ProviderDomainStatus
  prs_Auth :: ProviderDomainStatus
  prs_Routing :: ProviderDomainStatus

record InstallationDefaultsStatus =
  ids_Source :: string
  ids_Revision :: string

record ResolvedImageStatus =
  ris_API :: string
  ris_UI :: string
  ris_Console :: string
  ris_Worker :: string
  ris_SchemaMigrationPostgresClient :: string
  ris_CNPGPostgres :: string
  ris_RustFS :: string
  ris_TAMSin :: string

record ResolvedVersionStatus =
  rvs_Schema :: string
  rvs_Tamoss :: string
  rvs_TAMSAPI :: string

record ResolvedGeneratedSecretsStatus =
  rgs_APIToken :: string
  rgs_OAuth2Credentials :: string
  rgs_StorageBackendCredentials :: string

record ResolvedResourceStatus =
  rrs_API :: string
  rrs_UI :: string
  rrs_Console :: string
  rrs_Worker :: string
  rrs_DefaultStorageBackend :: string

record ResolvedRouteStatus =
  rts_API :: string
  rts_UI :: string

record ResolvedStatus =
  rs_Profile :: string
  rs_Defaults :: InstallationDefaultsStatus
  rs_Images :: ResolvedImageStatus
  rs_Versions :: ResolvedVersionStatus
  rs_GeneratedSecrets :: ResolvedGeneratedSecretsStatus
  rs_Resources :: ResolvedResourceStatus
  rs_Routes :: ResolvedRouteStatus

record TamossStatus =
  tst_CurrentVersion :: string
  tst_AppliedDefaultsRevision :: string
  tst_ObservedGeneration :: int
  tst_Conditions :: "Condition list"
  tst_Replicas :: ReplicaStatus
  tst_Backends :: BackendStatus
  tst_Auth :: AuthStatus
  tst_Endpoints :: EndpointStatus
  tst_BackupPolicy :: BackupPolicyStatus
  tst_Providers :: ProviderStatus
  tst_Resolved :: ResolvedStatus
  tst_SchemaVersion :: string
  tst_Upgrade :: UpgradeStatus
  tst_SchemaMigration :: SchemaMigrationStatus
  tst_Lifecycle :: TamossLifecycleStatus
  tst_Phase :: string

text \<open>The zero values of the status types.\<close>

definition zeroSchemaMigrationStatus :: SchemaMigrationStatus where
  "zeroSchemaMigrationStatus = \<lparr>sm_Phase = [], sm_LastAttemptTime = None, sm_LastAttemptResult = [], sm_Attempts = 0,
     sm_AppliedRevision = [], sm_ObservedRevision = [], sm_CurrentRevision = [], sm_PreviousSupportedRevision = [],
     sm_SupportedTAMSAPI = []\<rparr>"

definition zeroReplicas :: ComponentReplicaStatus where
  "zeroReplicas = \<lparr>crs_Desired = 0, crs_Available = 0\<rparr>"

definition zeroDomain :: ProviderDomainStatus where
  "zeroDomain = \<lparr>pds_Provider = [], pds_Ownership = []\<rparr>"

definition zeroBackupPolicy :: BackupPolicyStatus where
  "zeroBackupPolicy = \<lparr>bps_Managed = False, bps_Enabled = False, bps_Status = None, bps_Reason = [], bps_Message = [],
     bps_Cluster = [], bps_ScheduledBackup = [], bps_LastSuccessfulBackup = [], bps_LastFailedBackup = [],
     bps_FirstRecoverabilityPoint = []\<rparr>"

definition zeroResolved :: ResolvedStatus where
  "zeroResolved = \<lparr>rs_Profile = [], rs_Defaults = \<lparr>ids_Source = [], ids_Revision = []\<rparr>,
     rs_Images = \<lparr>ris_API = [], ris_UI = [], ris_Console = [], ris_Worker = [], ris_SchemaMigrationPostgresClient = [],
       ris_CNPGPostgres = [], ris_RustFS = [], ris_TAMSin = []\<rparr>,
     rs_Versions = \<lparr>rvs_Schema = [], rvs_Tamoss = [], rvs_TAMSAPI = []\<rparr>,
     rs_GeneratedSecrets = \<lparr>rgs_APIToken = [], rgs_OAuth2Credentials = [], rgs_StorageBackendCredentials = []\<rparr>,
     rs_Resources = \<lparr>rrs_API = [], rrs_UI = [], rrs_Console = [], rrs_Worker = [], rrs_DefaultStorageBackend = []\<rparr>,
     rs_Routes = \<lparr>rts_API = [], rts_UI = []\<rparr>\<rparr>"

record Tamoss =
  tm_Meta :: ObjectMeta
  tm_Spec :: TamossSpec
  tm_Status :: TamossStatus

abbreviation "tst_ResolvedTAMSAPI (s :: TamossStatus) \<equiv> rvs_TAMSAPI (rs_Versions (tst_Resolved s))"

abbreviation "TamossProfileLocalKind \<equiv> ''local-kind''"
abbreviation "TamossProfileSingleServer \<equiv> ''single-server''"
abbreviation "TamossProfileMultiServer \<equiv> ''multi-server''"
abbreviation "TamossProfileEdge \<equiv> ''edge''"

abbreviation "tm_Name t \<equiv> om_Name (tm_Meta t)"
abbreviation "tm_Namespace t \<equiv> om_Namespace (tm_Meta t)"

section \<open>Methods (tamoss\_methods.go)\<close>

definition appendResourceSuffix :: "string \<Rightarrow> string \<Rightarrow> string" where
  "appendResourceSuffix baseName sfx = (if sfx = [] then baseName else baseName @ ''-'' @ sfx)"

definition ResourceName :: "Tamoss \<Rightarrow> string \<Rightarrow> string" where
  "ResourceName t sfx =
     appendResourceSuffix
       (if ts_FullnameOverride (tm_Spec t) \<noteq> [] then ts_FullnameOverride (tm_Spec t) else tm_Name t) sfx"

definition apiIsEnabled :: "APIComponentSpec \<Rightarrow> bool" where
  "apiIsEnabled a = deref True (api_Enabled a)"

definition workerIsEnabled :: "WorkerComponentSpec \<Rightarrow> bool" where
  "workerIsEnabled w = deref False (wrk_Enabled w)"

definition uiIsEnabled :: "UIComponentSpec \<Rightarrow> bool" where
  "uiIsEnabled u = deref True (ui_Enabled u)"

definition consoleIsEnabled :: "ConsoleComponentSpec \<Rightarrow> bool" where
  "consoleIsEnabled c = deref False (con_Enabled c)"

definition ConsoleEnabled :: "TamossSpec \<Rightarrow> bool" where
  "ConsoleEnabled s = consoleIsEnabled (ts_Console s)"

definition DesiredReplicaCount :: "WorkloadCommonSpec \<Rightarrow> int" where
  "DesiredReplicaCount w = deref 1 (wc_ReplicaCount w)"

definition pdbIsEnabled :: "PDBSpec \<Rightarrow> bool" where
  "pdbIsEnabled p = deref False (pdb_Enabled p)"

definition ShouldApplyFixtures :: "DBBackendSpec \<Rightarrow> bool" where
  "ShouldApplyFixtures d = deref False (db_ApplyFixtures d)"

definition ShouldEnablePodMonitor :: "DBCNPGMonitoringSpec \<Rightarrow> bool" where
  "ShouldEnablePodMonitor m = deref False (cmon_EnablePodMonitor m)"

definition dbProvider :: "DBBackendSpec \<Rightarrow> string" where
  "dbProvider d =
     (if db_ProvidedBy d = [] then (if db_CNPG d \<noteq> None then ''cnpg'' else ''external'')
      else db_ProvidedBy d)"

definition dbConnectionFor :: "DBBackendSpec \<Rightarrow> string \<Rightarrow> DBExternalSpec" where
  "dbConnectionFor d baseName =
     (if dbProvider d = ''cnpg'' then
        \<lparr>dbx_Host = appendResourceSuffix baseName ''db-rw'', dbx_Port = ''5432'', dbx_Database = ''tams'',
         dbx_Auth = \<lparr>sref_ExistingSecret = appendResourceSuffix baseName ''db-app'',
           sref_SecretKeys = zeroSecretKeys\<lparr>skey_Username := ''username'', skey_Password := ''password''\<rparr>\<rparr>,
         dbx_TLSConfigMap = None\<rparr>
      else deref zeroDBExternal (db_External d))"

definition s3Provider :: "S3BackendSpec \<Rightarrow> string" where
  "s3Provider s =
     (if s3_ProvidedBy s = [] then (if s3_RustFSOperator s \<noteq> None then ''rustfs-operator'' else ''external'')
      else s3_ProvidedBy s)"

definition ConnectionForNamespace :: "S3BackendSpec \<Rightarrow> string \<Rightarrow> string \<Rightarrow> S3ExternalSpec" where
  "ConnectionForNamespace s baseName namespace =
     (if s3Provider s = ''rustfs-operator'' then
        (let spec = deref zeroRustFS (s3_RustFSOperator s);
             bucket = (if rfb_Name (rfs_Bucket spec) = [] then ''tamoss'' else rfb_Name (rfs_Bucket spec));
             secret = (if sref_ExistingSecret (rfs_CredsSecret spec) = []
                       then appendResourceSuffix baseName ''s3-creds''
                       else sref_ExistingSecret (rfs_CredsSecret spec));
             host0 = appendResourceSuffix baseName ''s3'';
             host = (if namespace \<noteq> [] then host0 @ ''.'' @ namespace @ ''.svc'' else host0)
         in \<lparr>s3x_CredentialSource = [],
             s3x_Endpoint = \<lparr>s3e_Default = \<lparr>eurl_URL = ''http://'' @ host @ '':9000''\<rparr>,
               s3e_Public = \<lparr>eurl_URL = s3p_URL (rfs_PublicEndpoint spec)\<rparr>\<rparr>,
             s3x_Auth = \<lparr>sref_ExistingSecret = secret,
               sref_SecretKeys = zeroSecretKeys\<lparr>skey_AccessKey := ''RUSTFS_ACCESS_KEY'',
                 skey_SecretKey := ''RUSTFS_SECRET_KEY''\<rparr>\<rparr>,
             s3x_Region = ''us-east-1'', s3x_Bucket = bucket\<rparr>)
      else deref zeroS3External (s3_External s))"

definition DBConnection :: "Tamoss \<Rightarrow> DBExternalSpec" where
  "DBConnection t = dbConnectionFor (be_DB (ts_Backends (tm_Spec t))) (ResourceName t [])"

definition S3Connection :: "Tamoss \<Rightarrow> S3ExternalSpec" where
  "S3Connection t = ConnectionForNamespace (be_S3 (ts_Backends (tm_Spec t))) (ResourceName t []) (tm_Namespace t)"

definition UsesS3WebIdentity :: "Tamoss \<Rightarrow> bool" where
  "UsesS3WebIdentity t \<longleftrightarrow>
     s3Provider (be_S3 (ts_Backends (tm_Spec t))) = ''external'' \<and>
     s3x_CredentialSource (S3Connection t) = ''web-identity''"

definition OAuth2CredentialsSecretName :: "Tamoss \<Rightarrow> string" where
  "OAuth2CredentialsSecretName t = ResourceName t ''oauth2-creds''"

definition authProvider :: "AuthSpec \<Rightarrow> string" where
  "authProvider a = (if auth_ProvidedBy a = [] then ''external'' else auth_ProvidedBy a)"

definition RequiredForRuntime :: "AuthSpec \<Rightarrow> bool" where
  "RequiredForRuntime a = (if authProvider a = ''none'' then False else auth_Required a)"

definition AllowsUnscopedOAuth2FullAccess :: "AuthSpec \<Rightarrow> bool" where
  "AllowsUnscopedOAuth2FullAccess a = deref True (auth_OAuth2AllowUnscopedFullAccess a)"

definition authentikProviderURL :: "string \<Rightarrow> string \<Rightarrow> string" where
  "authentikProviderURL baseURL slug =
     (let base = TrimRight (TrimSpace baseURL) ''/''
      in if base = [] \<or> slug = [] then [] else base @ ''/application/o/'' @ slug @ ''/'')"

definition authentikProviderJWKSURL :: "string \<Rightarrow> string \<Rightarrow> string" where
  "authentikProviderJWKSURL baseURL slug =
     (let providerURL = authentikProviderURL baseURL slug
      in if providerURL = [] then [] else providerURL @ ''jwks/'')"

definition ApplicationSlug :: "AuthSpec \<Rightarrow> string \<Rightarrow> string \<Rightarrow> string" where
  "ApplicationSlug a namespace name =
     (case auth_AuthentikBlueprints a of
        Some ab \<Rightarrow> if ab_ApplicationSlug ab \<noteq> [] then ab_ApplicationSlug ab
                   else ''tamoss-'' @ namespace @ ''-'' @ name
      | None \<Rightarrow> ''tamoss-'' @ namespace @ ''-'' @ name)"

definition OAuth2Config :: "AuthSpec \<Rightarrow> string \<Rightarrow> string \<Rightarrow> OAuth2Spec" where
  "OAuth2Config a namespace name =
     (if authProvider a = ''external'' then
        (case auth_External a of None \<Rightarrow> zeroOAuth2 | Some x \<Rightarrow> ax_OAuth2 x)
      else if authProvider a = ''authentik-blueprints'' then
        (case auth_AuthentikBlueprints a of
           None \<Rightarrow> zeroOAuth2
         | Some ab \<Rightarrow>
             (let publicBase = ab_IssuerURL ab;
                  internalBase = (if ab_InternalURL ab = [] then publicBase else ab_InternalURL ab);
                  slug = ApplicationSlug a namespace name
              in zeroOAuth2\<lparr>oa_Enabled := True, oa_Issuer := authentikProviderURL publicBase slug,
                   oa_JWKSURI := authentikProviderJWKSURL internalBase slug, oa_Algorithms := [''RS256'']\<rparr>))
      else zeroOAuth2)"

definition networkPolicyIsEnabled :: "NetworkPolicySpec \<Rightarrow> bool" where
  "networkPolicyIsEnabled n \<longleftrightarrow> np_Enabled n = Some True"

definition ingressIsEnabled :: "IngressSpec \<Rightarrow> bool" where
  "ingressIsEnabled i = deref False (ing_Enabled i)"

section \<open>StorageBackend and FlowProfile\<close>

record HibernationRetentionSpec =
  hrs_Mode :: string
  hrs_TTLSecondsAfterResume :: int

record StorageBackendSpec =
  sb_ID :: string
  sb_TamossRef :: string
  sb_Provider :: string
  sb_Usage :: string
  sb_DefaultStorage :: bool
  sb_Label :: string
  sb_Region :: string
  sb_StoreProduct :: string
  sb_StoreType :: string
  sb_BucketName :: string
  sb_Endpoint :: S3EndpointSpec
  sb_Credentials :: SecretReferenceSpec
  sb_CredentialSource :: string
  sb_Retention :: HibernationRetentionSpec

record StorageBackendStatus =
  sbs_ObservedGeneration :: int
  sbs_Conditions :: "Condition list"
  sbs_BackendID :: string
  sbs_BucketName :: string
  sbs_ResolvedBackendID :: string
  sbs_Phase :: string

record StorageBackend =
  sbk_Meta :: ObjectMeta
  sbk_Spec :: StorageBackendSpec
  sbk_Status :: StorageBackendStatus

text \<open>
  \<open>value[6] = (value[6] & 0x0f) | 0x50; value[8] = (value[8] & 0x3f) | 0x80\<close>, then the five groups
  of the UUID in hexadecimal. StorageBackend and FlowProfile write the same code out twice.
\<close>

definition uuidBytes :: "byte list \<Rightarrow> byte list" where
  "uuidBytes value = value[6 := (value ! 6 AND 0x0f) OR 0x50, 8 := (value ! 8 AND 0x3f) OR 0x80]"

definition formatUUID :: "byte list \<Rightarrow> string" where
  "formatUUID v =
     EncodeToString (take 4 v) @ ''-'' @ EncodeToString (take 2 (drop 4 v)) @ ''-'' @
     EncodeToString (take 2 (drop 6 v)) @ ''-'' @ EncodeToString (take 2 (drop 8 v)) @ ''-'' @
     EncodeToString (take 6 (drop 10 v))"

definition DeterministicStorageBackendID :: "string \<Rightarrow> string \<Rightarrow> string" where
  "DeterministicStorageBackendID namespace name =
     formatUUID (uuidBytes (take 16 (Sum256 (''tamoss-storagebackend:'' @ namespace @ ''/'' @ name))))"

definition DefaultStorageBackendPublicEndpoint :: "StorageBackendSpec \<Rightarrow> string" where
  "DefaultStorageBackendPublicEndpoint s = eurl_URL (s3e_Default (sb_Endpoint s))"

definition storageBackendApplyDefaults :: "StorageBackendSpec \<Rightarrow> string \<Rightarrow> string \<Rightarrow> StorageBackendSpec" where
  "storageBackendApplyDefaults s namespace name =
     (let s = s\<lparr>sb_Provider := orElse (sb_Provider s) ''rustfs''\<rparr>;
          s = s\<lparr>sb_Usage := orElse (sb_Usage s) ''media''\<rparr>;
          s = s\<lparr>sb_Region := orElse (sb_Region s) ''us-east-1''\<rparr>;
          s = s\<lparr>sb_StoreProduct := orElse (sb_StoreProduct s) ''s3''\<rparr>;
          s = s\<lparr>sb_StoreType := orElse (sb_StoreType s) ''http_object_store''\<rparr>;
          s = s\<lparr>sb_Endpoint := (sb_Endpoint s)\<lparr>s3e_Public :=
                  \<lparr>eurl_URL = orElse (eurl_URL (s3e_Public (sb_Endpoint s)))
                               (DefaultStorageBackendPublicEndpoint s)\<rparr>\<rparr>\<rparr>;
          s = s\<lparr>sb_Label := (if sb_Label s = [] \<and> sb_BucketName s \<noteq> []
                               then ''tamoss.'' @ sb_Region s @ '':s3:'' @ sb_BucketName s else sb_Label s)\<rparr>;
          s = s\<lparr>sb_ID := orElse (sb_ID s) (DeterministicStorageBackendID namespace name)\<rparr>
      in s\<lparr>sb_Retention := (sb_Retention s)\<lparr>hrs_Mode := orElse (hrs_Mode (sb_Retention s)) ''Retain''\<rparr>\<rparr>)"

definition IsExternalObjectStore :: "StorageBackendSpec \<Rightarrow> bool" where
  "IsExternalObjectStore s \<longleftrightarrow> sb_Provider s = ''external-s3''"

definition IsHibernateDestination :: "StorageBackendSpec \<Rightarrow> bool" where
  "IsHibernateDestination s \<longleftrightarrow> sb_Usage s = ''hibernate''"

datatype FlowProfilePhase = FlowProfileUnset | FlowProfilePending | FlowProfileProgressing
  | FlowProfileReady | FlowProfileDegraded | FlowProfileDeleting

record FlowProfileSpec =
  fps_TamossRef :: string
  fps_ID :: string
  fps_Label :: string
  fps_Description :: string
  fps_Tags :: "(string \<times> string) list"
  fps_FlowMetadata :: string

record FlowProfileResolvedStatus =
  fpr_TamossName :: string
  fpr_Format :: string
  fpr_Codec :: string

record FlowProfileStatus =
  fpt_ObservedGeneration :: int
  fpt_Phase :: FlowProfilePhase
  fpt_ProfileID :: string
  fpt_Resolved :: FlowProfileResolvedStatus
  fpt_Conditions :: "Condition list"

record FlowProfile =
  fp_Meta :: ObjectMeta
  fp_Spec :: FlowProfileSpec
  fp_Status :: FlowProfileStatus

definition DeterministicFlowProfileID :: "string \<Rightarrow> string \<Rightarrow> string" where
  "DeterministicFlowProfileID namespace name =
     formatUUID (uuidBytes (take 16 (Sum256 (''tamoss-flowprofile:'' @ namespace @ ''/'' @ name))))"

definition flowProfileApplyDefaults :: "FlowProfileSpec \<Rightarrow> string \<Rightarrow> string \<Rightarrow> FlowProfileSpec" where
  "flowProfileApplyDefaults s namespace name =
     s\<lparr>fps_ID := orElse (fps_ID s) (DeterministicFlowProfileID namespace name)\<rparr>"

end
