(* ===== verification/Releases.thy ===== *)
theory Releases
  imports Go_Base
begin

text \<open>
  The release catalogue (\<open>operator/internal/releases/catalogue.go\<close>) and the schema contract of a
  release (\<open>operator/internal/schema\<close>): the validation done by \<open>Load\<close>, the choice of a release by
  \<open>Select\<close>, and \<open>Target.Supports\<close>. The bytes of the catalogue file and their JSON decoding enter
  \<open>Load\<close> as the decoded entries, or as the error of the read.
\<close>

section \<open>Schema targets\<close>

record Target =
  tgt_Version :: string
  tgt_PreviousVersion :: string
  tgt_DatabaseRevision :: string
  tgt_TAMSAPI :: string

definition Supports :: "Target \<Rightarrow> string \<Rightarrow> bool" where
  "Supports t version =
     (let value = TrimSpace version
      in value = [] \<or> value = tgt_Version t \<or>
         (tgt_PreviousVersion t \<noteq> [] \<and> value = tgt_PreviousVersion t))"

definition ValidateVersion :: "string \<Rightarrow> string + unit" where
  "ValidateVersion version =
     (let value = TrimSpace version
      in if value = [] then Inl ''schema version is empty''
         else if value = ''0.0.0'' \<or> value = ''v0.0.0''
           then Inl (''schema version '' @ Quote version @ '' is a placeholder'')
         else Inr ())"

section \<open>The catalogue\<close>

record Images =
  img_API :: string
  img_UI :: string
  img_Console :: string
  img_PostgresClient :: string
  img_CNPGPostgresVersion :: string
  img_RustFS :: string
  img_TAMSin :: string

record Release =
  rel_Version :: string
  rel_SourceCommit :: string
  rel_UpgradeFrom :: "string list"
  rel_Schema :: Target
  rel_Images :: Images

type_synonym Catalogue = "string \<rightharpoonup> Release"

text \<open>The zero value of \<open>Release\<close>, which a map index expression yields for an absent key.\<close>

definition zeroTarget :: Target where
  "zeroTarget = \<lparr>tgt_Version = [], tgt_PreviousVersion = [], tgt_DatabaseRevision = [], tgt_TAMSAPI = []\<rparr>"

definition zeroImages :: Images where
  "zeroImages = \<lparr>img_API = [], img_UI = [], img_Console = [], img_PostgresClient = [],
     img_CNPGPostgresVersion = [], img_RustFS = [], img_TAMSin = []\<rparr>"

definition zeroRelease :: Release where
  "zeroRelease = \<lparr>rel_Version = [], rel_SourceCommit = [], rel_UpgradeFrom = [],
     rel_Schema = zeroTarget, rel_Images = zeroImages\<rparr>"

record SelectionError =
  se_Reason :: string
  se_Message :: string

text \<open>The map literal of required fields that \<open>Load\<close> ranges over, as an association list.\<close>

definition requiredFields :: "Release \<Rightarrow> (string \<times> string) list" where
  "requiredFields entry =
     [(''databaseRevision'', tgt_DatabaseRevision (rel_Schema entry)),
      (''tamsAPI'', tgt_TAMSAPI (rel_Schema entry)),
      (''api'', img_API (rel_Images entry)), (''ui'', img_UI (rel_Images entry)),
      (''console'', img_Console (rel_Images entry)),
      (''postgresClient'', img_PostgresClient (rel_Images entry)),
      (''cnpgPostgresVersion'', img_CNPGPostgresVersion (rel_Images entry)),
      (''rustfs'', img_RustFS (rel_Images entry)), (''tamsin'', img_TAMSin (rel_Images entry))]"

definition invalidField :: "string \<Rightarrow> bool" where
  "invalidField v \<longleftrightarrow> v = [] \<or> ContainsAny v ('' '' @ [CHR 0x09, CHR 0x0D, CHR 0x0A])"

text \<open>
  Go ranges over a map in an unspecified order; \<open>iter\<close> is that order, a permutation of the
  entries. It decides only which of several invalid fields the error names.
\<close>

definition checkEntry ::
    "((string \<times> string) list \<Rightarrow> (string \<times> string) list) \<Rightarrow> Catalogue \<Rightarrow> Release \<Rightarrow> string + unit" where
  "checkEntry iter catalogue entry =
     (if rel_Version entry = [] \<or> TrimSpace (rel_Version entry) \<noteq> rel_Version entry
        then Inl (''invalid release version '' @ Quote (rel_Version entry))
      else if catalogue (rel_Version entry) \<noteq> None
        then Inl (''duplicate release '' @ Quote (rel_Version entry))
      else case ValidateVersion (tgt_Version (rel_Schema entry)) of
          Inl err \<Rightarrow> Inl (''release '' @ rel_Version entry @ '': '' @ err)
        | Inr _ \<Rightarrow>
            (case find (\<lambda>(field, value). invalidField value) (iter (requiredFields entry)) of
               Some (field, value) \<Rightarrow> Inl (''release '' @ rel_Version entry @ '' has invalid '' @ field)
             | None \<Rightarrow> Inr ()))"

fun loadEntries ::
    "((string \<times> string) list \<Rightarrow> (string \<times> string) list) \<Rightarrow> Release list \<Rightarrow> Catalogue \<Rightarrow> string + Catalogue" where
  "loadEntries iter [] catalogue = Inr catalogue"
| "loadEntries iter (entry # entries) catalogue =
     (case checkEntry iter catalogue entry of
        Inl err \<Rightarrow> Inl err
      | Inr _ \<Rightarrow> loadEntries iter entries (catalogue(rel_Version entry \<mapsto> entry)))"

definition Load ::
    "((string \<times> string) list \<Rightarrow> (string \<times> string) list) \<Rightarrow> string + Release list \<Rightarrow> string + Catalogue" where
  "Load iter decoded =
     (case decoded of
        Inl err \<Rightarrow> Inl err
      | Inr entries \<Rightarrow>
          (case loadEntries iter entries (\<lambda>_. None) of
             Inl err \<Rightarrow> Inl err
           | Inr catalogue \<Rightarrow>
               if entries = [] then Inl ''release catalogue is empty'' else Inr catalogue))"

definition Select :: "Catalogue \<Rightarrow> string \<Rightarrow> string \<Rightarrow> string \<Rightarrow> SelectionError + Release" where
  "Select c version current pending =
     (if version = [] then
        Inl \<lparr>se_Reason = ''VersionRequired'',
             se_Message = ''Set spec.version to the installed TAMOSS release before reconciliation can continue''\<rparr>
      else case c version of
          None \<Rightarrow>
            Inl \<lparr>se_Reason = ''UnsupportedVersion'',
                 se_Message = ''Release '' @ Quote version @ '' is not supported by this operator installation''\<rparr>
        | Some target \<Rightarrow>
            if pending \<noteq> [] \<and> pending \<noteq> version then
              Inl \<lparr>se_Reason = ''UpgradeInProgress'',
                   se_Message = ''Complete the selected upgrade to '' @ Quote pending @ '' before changing spec.version''\<rparr>
            else if current \<noteq> [] \<and> current \<noteq> version \<and>
                (rel_Version (deref zeroRelease (c current)) = [] \<or> current \<notin> set (rel_UpgradeFrom target)) then
              Inl \<lparr>se_Reason = ''UnsupportedUpgrade'',
                   se_Message = ''Release '' @ Quote current @ '' cannot be upgraded directly to '' @ Quote version\<rparr>
            else Inr target)"

section \<open>What a loaded catalogue guarantees\<close>

definition wf_release :: "Release \<Rightarrow> bool" where
  "wf_release r \<longleftrightarrow>
     rel_Version r \<noteq> [] \<and> TrimSpace (rel_Version r) = rel_Version r \<and>
     ValidateVersion (tgt_Version (rel_Schema r)) = Inr () \<and>
     (\<forall>(field, value) \<in> set (requiredFields r). \<not> invalidField value)"

definition wf_catalogue :: "Catalogue \<Rightarrow> bool" where
  "wf_catalogue c \<longleftrightarrow> (\<forall>v r. c v = Some r \<longrightarrow> rel_Version r = v \<and> wf_release r)"

text \<open>A small catalogue for the concrete instances below.\<close>

definition exampleImages :: Images where
  "exampleImages = \<lparr>img_API = ''api'', img_UI = ''ui'', img_Console = ''console'', img_PostgresClient = ''pg'',
     img_CNPGPostgresVersion = ''17'', img_RustFS = ''rustfs'', img_TAMSin = ''tamsin''\<rparr>"

definition exampleRelease :: "string \<Rightarrow> string list \<Rightarrow> Release" where
  "exampleRelease v from = \<lparr>rel_Version = v, rel_SourceCommit = [], rel_UpgradeFrom = from,
     rel_Schema = \<lparr>tgt_Version = v, tgt_PreviousVersion = [], tgt_DatabaseRevision = ''1'', tgt_TAMSAPI = ''7''\<rparr>,
     rel_Images = exampleImages\<rparr>"

definition exampleCatalogue :: Catalogue where
  "exampleCatalogue = [''1.0'' \<mapsto> exampleRelease ''1.0'' [], ''1.1'' \<mapsto> exampleRelease ''1.1'' [''1.0'']]"

lemma checkEntry_wf:
  assumes iter: "set (iter (requiredFields entry)) = set (requiredFields entry)"
    and ok: "checkEntry iter c entry = Inr u"
  shows "wf_release entry" "c (rel_Version entry) = None"
proof -
  have "find (\<lambda>(field, value). invalidField value) (iter (requiredFields entry)) = None"
    "ValidateVersion (tgt_Version (rel_Schema entry)) = Inr ()"
    using ok by (auto simp: checkEntry_def split: if_splits sum.splits option.splits prod.splits)
  then show "wf_release entry" "c (rel_Version entry) = None"
    using ok iter unfolding wf_release_def find_None_iff
    by (auto simp: checkEntry_def split: if_splits)
qed

lemma checkEntry_fresh: "c (rel_Version e) = None \<Longrightarrow> checkEntry iter c e = checkEntry iter Map.empty e"
  by (simp add: checkEntry_def)

lemma loadEntries_ok:
  assumes iter: "\<And>xs. set (iter xs) = set xs"
    and "loadEntries iter es c0 = Inr c" "wf_catalogue c0"
  shows "wf_catalogue c \<and> dom c = dom c0 \<union> rel_Version ` set es \<and> distinct (map rel_Version es) \<and>
      (\<forall>e \<in> set es. c (rel_Version e) = Some e \<and> c0 (rel_Version e) = None) \<and> (\<forall>v \<in> dom c0. c v = c0 v)"
  using assms(2,3)
proof (induction es arbitrary: c0)
  case (Cons entry es)
  then obtain u where chk: "checkEntry iter c0 entry = Inr u"
    and rest: "loadEntries iter es (c0(rel_Version entry \<mapsto> entry)) = Inr c"
    by (auto split: sum.splits)
  note wf = checkEntry_wf [OF iter chk]
  have "wf_catalogue (c0(rel_Version entry \<mapsto> entry))"
    using Cons.prems(2) wf(1) by (auto simp: wf_catalogue_def)
  from Cons.IH [OF rest this] wf(2) show ?case
    by (auto simp: fun_upd_def domIff split: if_splits)
qed simp

lemma Load_ok:
  assumes "\<And>xs. set (iter xs) = set xs" and "Load iter decoded = Inr c"
  obtains es where "decoded = Inr es" "es \<noteq> []" "wf_catalogue c" "dom c = rel_Version ` set es"
    "distinct (map rel_Version es)" "\<forall>e \<in> set es. c (rel_Version e) = Some e"
proof -
  obtain es where es: "decoded = Inr es" "es \<noteq> []" "loadEntries iter es (\<lambda>_. None) = Inr c"
    using assms(2) by (auto simp: Load_def split: sum.splits if_splits)
  moreover have "wf_catalogue (\<lambda>_. None)" by (simp add: wf_catalogue_def)
  ultimately show thesis using loadEntries_ok [OF assms(1) es(3)] that by auto
qed

lemma wf_catalogue_Version: "wf_catalogue c \<Longrightarrow> c v = Some r \<Longrightarrow> rel_Version r = v \<and> v \<noteq> []"
  by (auto simp: wf_catalogue_def wf_release_def)

text \<open>On a well-formed catalogue an absent key is exactly a zero release.\<close>

lemma wf_catalogue_zero: "wf_catalogue c \<Longrightarrow> rel_Version (deref zeroRelease (c v)) = [] \<longleftrightarrow> c v = None"
  by (cases "c v") (auto simp: zeroRelease_def dest: wf_catalogue_Version)

lemma Select_Inr:
  "Select c version current pending = Inr r \<Longrightarrow>
     version \<noteq> [] \<and> c version = Some r \<and> (pending = [] \<or> pending = version) \<and>
     (current = [] \<or> current = version \<or> current \<in> set (rel_UpgradeFrom r))"
  by (auto simp: Select_def split: if_splits option.splits)

section \<open>Properties\<close>

text \<open>
  C27: a catalogue that \<open>Load\<close> accepts contains exactly the entries of the file, under their own
  versions and without duplicates, and each entry passed the validation: a trimmed version, a schema
  version that is no placeholder, and every image and revision field set and free of blanks. This
  holds for every order in which Go ranges over the map of required fields.
\<close>

theorem Load_validates:
  assumes "\<And>xs. set (iter xs) = set xs"
    and "Load iter decoded = Inr c"
  shows "\<exists>es. decoded = Inr es \<and> es \<noteq> [] \<and> distinct (map rel_Version es) \<and>
    dom c = rel_Version ` set es \<and> (\<forall>e \<in> set es. c (rel_Version e) = Some e) \<and>
    (\<forall>v r. c v = Some r \<longrightarrow> rel_Version r = v \<and> wf_release r)"
proof -
  obtain es where "decoded = Inr es" "es \<noteq> []" "wf_catalogue c" "dom c = rel_Version ` set es"
    "distinct (map rel_Version es)" "\<forall>e \<in> set es. c (rel_Version e) = Some e"
    using Load_ok [OF assms] .
  then show ?thesis by (auto simp: wf_catalogue_def)
qed

lemma exampleCatalogue_loads:
  "Load rev (Inr [exampleRelease ''1.0'' [], exampleRelease ''1.1'' [''1.0'']]) = Inr exampleCatalogue"
proof -
  let ?a = "exampleRelease ''1.0'' []" and ?b = "exampleRelease ''1.1'' [''1.0'']"
  have a: "checkEntry rev Map.empty ?a = Inr ()" by code_simp
  have v: "rel_Version ?a = ''1.0''" "rel_Version ?b = ''1.1''" by (simp_all add: exampleRelease_def)
  have "checkEntry rev Map.empty ?b = Inr ()" by code_simp
  then have b: "checkEntry rev [''1.0'' \<mapsto> ?a] ?b = Inr ()"
    by (subst checkEntry_fresh) (simp_all add: v)
  show ?thesis by (simp add: Load_def a b v exampleCatalogue_def)
qed

theorem Load_validates_witness:
  "\<exists>es. Inr [exampleRelease ''1.0'' [], exampleRelease ''1.1'' [''1.0'']] = (Inr es :: string + Release list) \<and>
    es \<noteq> [] \<and> distinct (map rel_Version es) \<and>
    dom exampleCatalogue = rel_Version ` set es \<and> (\<forall>e \<in> set es. exampleCatalogue (rel_Version e) = Some e) \<and>
    (\<forall>v r. exampleCatalogue v = Some r \<longrightarrow> rel_Version r = v \<and> wf_release r)"
  by (rule Load_validates [of rev]) (simp, rule exampleCatalogue_loads)

text \<open>
  C26: on a loaded catalogue \<open>Select\<close> succeeds exactly when the wanted version is in the catalogue, no
  other upgrade is pending, and the running version, if any, is the wanted one or a release of the
  catalogue that the target lists in \<open>upgradeFrom\<close>; its result is then the wanted release. No release
  outside \<open>upgradeFrom\<close> is skipped over and a pending target cannot be changed.
\<close>

theorem Select_iff:
  assumes "\<And>xs. set (iter xs) = set xs" and "Load iter decoded = Inr c"
  shows "Select c version current pending = Inr r \<longleftrightarrow>
    c version = Some r \<and> (pending = [] \<or> pending = version) \<and>
    (current = [] \<or> current = version \<or> current \<in> dom c \<and> current \<in> set (rel_UpgradeFrom r))"
proof -
  have wf: "wf_catalogue c" using Load_ok [OF assms] by metis
  show ?thesis
    using wf_catalogue_Version [OF wf, of version] wf_catalogue_zero [OF wf, of current]
    by (auto simp: Select_def split: option.splits)
qed

theorem Select_iff_witness:
  "Select exampleCatalogue ''1.1'' ''1.0'' [] = Inr (exampleRelease ''1.1'' [''1.0''])"
  using exampleCatalogue_loads
  by (subst Select_iff [of rev]) (simp_all add: exampleCatalogue_def exampleRelease_def)

end
