(* ===== verification/Go_Url.thy ===== *)
theory Go_Url
  imports Go_Base
begin

text \<open>
  Package \<open>net/url\<close>: \<open>Parse\<close>, \<open>ParseRequestURI\<close>, \<open>PathUnescape\<close>, and the methods \<open>String\<close>,
  \<open>EscapedPath\<close>, \<open>Hostname\<close>, \<open>Port\<close> and \<open>IsAbs\<close> of \<open>URL\<close>. Every parse failure is \<^const>\<open>None\<close>: the
  code under verification only tests whether there was one.
\<close>

datatype encoding = encodePath | encodePathSegment | encodeHost | encodeZone
  | encodeUserPassword | encodeFragment

record URL =
  Scheme :: string
  Opaque :: string
  User :: "(string \<times> string option) option"
  Host :: string
  Path :: string
  RawPath :: string
  OmitHost :: bool
  ForceQuery :: bool
  RawQuery :: string
  Fragment :: string
  RawFragment :: string

definition emptyURL :: URL where
  "emptyURL = \<lparr>Scheme = [], Opaque = [], User = None, Host = [], Path = [], RawPath = [],
     OmitHost = False, ForceQuery = False, RawQuery = [], Fragment = [], RawFragment = []\<rparr>"

section \<open>Escaping\<close>

definition isAlpha :: "char \<Rightarrow> bool" where
  "isAlpha c \<longleftrightarrow> CHR ''a'' \<le> c \<and> c \<le> CHR ''z'' \<or> CHR ''A'' \<le> c \<and> c \<le> CHR ''Z''"

definition isDigit :: "char \<Rightarrow> bool" where
  "isDigit c \<longleftrightarrow> CHR ''0'' \<le> c \<and> c \<le> CHR ''9''"

definition shouldEscape :: "char \<Rightarrow> encoding \<Rightarrow> bool" where
  "shouldEscape c mode =
     (if isAlpha c \<or> isDigit c then False
      else if (mode = encodeHost \<or> mode = encodeZone) \<and> c \<in> set (''!$&()*+,;=:[]<>'' @ [CHR 0x27, CHR 0x22])
        then False
      else if c \<in> set ''-_.~'' then False
      else if c \<in> set ''$&+,/:;=?@'' then
        (case mode of
           encodePath \<Rightarrow> c = CHR ''?''
         | encodePathSegment \<Rightarrow> c \<in> set ''/;,?''
         | encodeUserPassword \<Rightarrow> c \<in> set ''@/?:''
         | encodeFragment \<Rightarrow> False
         | _ \<Rightarrow> True)
      else \<not> (mode = encodeFragment \<and> c \<in> set ''!()*''))"

definition ishex :: "char \<Rightarrow> bool" where
  "ishex c \<longleftrightarrow> isDigit c \<or> CHR ''a'' \<le> c \<and> c \<le> CHR ''f'' \<or> CHR ''A'' \<le> c \<and> c \<le> CHR ''F''"

definition unhex :: "char \<Rightarrow> nat" where
  "unhex c =
     (if isDigit c then of_char c - 48
      else if CHR ''a'' \<le> c then of_char c - 97 + 10 else of_char c - 65 + 10)"

definition upperhex :: "nat \<Rightarrow> char" where
  "upperhex n = ''0123456789ABCDEF'' ! (n mod 16)"

definition escapeByte :: "encoding \<Rightarrow> char \<Rightarrow> string" where
  "escapeByte mode c =
     (if shouldEscape c mode
      then [CHR ''%'', upperhex (of_char c div 16), upperhex (of_char c mod 16)] else [c])"

definition escape :: "string \<Rightarrow> encoding \<Rightarrow> string" where
  "escape s mode = concat (map (escapeByte mode) s)"

definition decodable :: "encoding \<Rightarrow> char \<Rightarrow> char \<Rightarrow> bool" where
  "decodable mode a b \<longleftrightarrow>
     ishex a \<and> ishex b \<and>
     (let is25 = (a = CHR ''2'' \<and> b = CHR ''5''); v = (char_of (16 * unhex a + unhex b) :: char)
      in (mode = encodeHost \<longrightarrow> unhex a \<ge> 8 \<or> is25) \<and>
         (mode = encodeZone \<longrightarrow> is25 \<or> v = CHR '' '' \<or> \<not> shouldEscape v encodeHost))"

fun unescape :: "string \<Rightarrow> encoding \<Rightarrow> string option" where
  "unescape [] mode = Some []"
| "unescape (c # s) mode =
     (if c = CHR ''%'' then
        (case s of
           a # b # r \<Rightarrow>
             if decodable mode a b
             then map_option (\<lambda>t. char_of (16 * unhex a + unhex b) # t) (unescape r mode)
             else None
         | _ \<Rightarrow> None)
      else if (mode = encodeHost \<or> mode = encodeZone) \<and> c < CHR 0x80 \<and> shouldEscape c mode then None
      else map_option (\<lambda>t. c # t) (unescape s mode))"

definition PathUnescape :: "string \<Rightarrow> string option" where
  "PathUnescape s = unescape s encodePathSegment"

definition validEncoded :: "string \<Rightarrow> encoding \<Rightarrow> bool" where
  "validEncoded s mode =
     list_all (\<lambda>c. c \<in> set (''!$&()*+,;=:@[]%'' @ [CHR 0x27]) \<or> \<not> shouldEscape c mode) s"

section \<open>Parsing\<close>

text \<open>\<open>getScheme\<close>: \<^const>\<open>None\<close> is the error, the pair is the scheme (empty when there is none) and the rest.\<close>

fun getSchemeFrom :: "nat \<Rightarrow> string \<Rightarrow> (string \<times> string) option option" where
  "getSchemeFrom i [] = Some None"
| "getSchemeFrom i (c # s) =
     (if isAlpha c then map_option (map_option (\<lambda>(a, b). (c # a, b))) (getSchemeFrom (Suc i) s)
      else if isDigit c \<or> c \<in> set ''+-.'' then
        (if i = 0 then Some None
         else map_option (map_option (\<lambda>(a, b). (c # a, b))) (getSchemeFrom (Suc i) s))
      else if c = CHR '':'' then (if i = 0 then None else Some (Some ([], s)))
      else Some None)"

definition getScheme :: "string \<Rightarrow> (string \<times> string) option" where
  "getScheme raw = (case getSchemeFrom 0 raw of None \<Rightarrow> None
     | Some None \<Rightarrow> Some ([], raw) | Some (Some p) \<Rightarrow> Some p)"

definition validOptionalPort :: "string \<Rightarrow> bool" where
  "validOptionalPort port = (case port of [] \<Rightarrow> True | c # s \<Rightarrow> c = CHR '':'' \<and> list_all isDigit s)"

definition parseHost :: "string \<Rightarrow> string option" where
  "parseHost host =
     (if HasPrefix host ''['' then
        (let i = LastIndexByte host (CHR '']'')
         in if i < 0 then None
            else if \<not> validOptionalPort (drop (nat i + 1) host) then None
            else (case Cut (take (nat i) host) ''%25'' of
                    None \<Rightarrow> unescape host encodeHost
                  | Some (h1, z) \<Rightarrow>
                      (case (unescape h1 encodeHost, unescape (''%25'' @ z) encodeZone,
                             unescape (drop (nat i) host) encodeHost) of
                         (Some a, Some b, Some c) \<Rightarrow> Some (a @ b @ c)
                       | _ \<Rightarrow> None)))
      else (let i = LastIndexByte host (CHR '':'')
            in if i \<ge> 0 \<and> \<not> validOptionalPort (drop (nat i) host) then None
               else unescape host encodeHost))"

definition validUserinfo :: "string \<Rightarrow> bool" where
  "validUserinfo s = list_all (\<lambda>c. isAlpha c \<or> isDigit c \<or> c \<in> set (''-._:~!$&()*+,;=%@'' @ [CHR 0x27])) s"

definition parseAuthority :: "string \<Rightarrow> ((string \<times> string option) option \<times> string) option" where
  "parseAuthority authority =
     (let i = LastIndexByte authority (CHR ''@'')
      in if i < 0 then map_option (\<lambda>h. (None, h)) (parseHost authority)
         else (case parseHost (drop (nat i + 1) authority) of
                 None \<Rightarrow> None
               | Some h \<Rightarrow>
                   (let info = take (nat i) authority
                    in if \<not> validUserinfo info then None
                       else (case Cut info '':'' of
                               None \<Rightarrow> map_option (\<lambda>u. (Some (u, None), h)) (unescape info encodeUserPassword)
                             | Some (u, p) \<Rightarrow>
                                 (case (unescape u encodeUserPassword, unescape p encodeUserPassword) of
                                    (Some u', Some p') \<Rightarrow> Some (Some (u', Some p'), h)
                                  | _ \<Rightarrow> None)))))"

definition setPath :: "URL \<Rightarrow> string \<Rightarrow> URL option" where
  "setPath u p =
     (case unescape p encodePath of
        None \<Rightarrow> None
      | Some path \<Rightarrow>
          Some (u\<lparr>Path := path, RawPath := (if p = escape path encodePath then [] else p)\<rparr>))"

definition splitQuery :: "string \<Rightarrow> string \<times> bool \<times> string" where
  "splitQuery rest =
     (if HasSuffix rest ''?'' \<and> length (filter (\<lambda>c. c = CHR ''?'') rest) = 1
      then (butlast rest, True, [])
      else (case Cut rest ''?'' of None \<Rightarrow> (rest, False, []) | Some (a, q) \<Rightarrow> (a, False, q)))"

definition parseRest :: "URL \<Rightarrow> string \<Rightarrow> bool \<Rightarrow> URL option" where
  "parseRest u rest viaRequest =
     (if \<not> HasPrefix rest ''/'' \<and> Scheme u \<noteq> [] then Some (u\<lparr>Opaque := rest\<rparr>)
      else if \<not> HasPrefix rest ''/'' \<and> viaRequest then None
      else if \<not> HasPrefix rest ''/'' \<and> CHR '':'' \<in> set (hd (Split (CHR ''/'') rest)) then None
      else if (Scheme u \<noteq> [] \<or> \<not> viaRequest \<and> \<not> HasPrefix rest ''///'') \<and> HasPrefix rest ''//'' then
        (let after = drop 2 rest;
             authority = takeWhile (\<lambda>c. c \<noteq> CHR ''/'') after;
             p = dropWhile (\<lambda>c. c \<noteq> CHR ''/'') after
         in case parseAuthority authority of
              None \<Rightarrow> None
            | Some (user, h) \<Rightarrow> setPath (u\<lparr>User := user, Host := h\<rparr>) p)
      else setPath (u\<lparr>OmitHost := (Scheme u \<noteq> [] \<and> HasPrefix rest ''/'')\<rparr>) rest)"

definition parse :: "string \<Rightarrow> bool \<Rightarrow> URL option" where
  "parse raw viaRequest =
     (if list_ex (\<lambda>c. c < CHR '' '' \<or> c = CHR 0x7F) raw then None
      else if raw = [] \<and> viaRequest then None
      else if raw = ''*'' then Some (emptyURL\<lparr>Path := ''*''\<rparr>)
      else (case getScheme raw of
              None \<Rightarrow> None
            | Some (scheme, rest) \<Rightarrow>
                (case splitQuery rest of (rest', force, q) \<Rightarrow>
                   parseRest (emptyURL\<lparr>Scheme := ToLower scheme, ForceQuery := force, RawQuery := q\<rparr>)
                     rest' viaRequest)))"

definition ParseRequestURI :: "string \<Rightarrow> URL option" where
  "ParseRequestURI raw = parse raw True"

definition Parse :: "string \<Rightarrow> URL option" where
  "Parse raw =
     (case Cut raw ''#'' of
        None \<Rightarrow> parse raw False
      | Some (u, frag) \<Rightarrow>
          (case parse u False of
             None \<Rightarrow> None
           | Some url \<Rightarrow>
               if frag = [] then Some url
               else (case unescape frag encodeFragment of
                       None \<Rightarrow> None
                     | Some f \<Rightarrow>
                         Some (url\<lparr>Fragment := f,
                           RawFragment := (if frag = escape f encodeFragment then [] else frag)\<rparr>))))"

section \<open>Methods of URL\<close>

definition IsAbs :: "URL \<Rightarrow> bool" where
  "IsAbs u \<longleftrightarrow> Scheme u \<noteq> []"

definition EscapedPath :: "URL \<Rightarrow> string" where
  "EscapedPath u =
     (if RawPath u \<noteq> [] \<and> validEncoded (RawPath u) encodePath \<and>
         unescape (RawPath u) encodePath = Some (Path u) then RawPath u
      else if Path u = ''*'' then ''*''
      else escape (Path u) encodePath)"

definition EscapedFragment :: "URL \<Rightarrow> string" where
  "EscapedFragment u =
     (if RawFragment u \<noteq> [] \<and> validEncoded (RawFragment u) encodeFragment \<and>
         unescape (RawFragment u) encodeFragment = Some (Fragment u) then RawFragment u
      else escape (Fragment u) encodeFragment)"

definition userString :: "(string \<times> string option) \<Rightarrow> string" where
  "userString up =
     (case up of (u, p) \<Rightarrow> escape u encodeUserPassword @
        (case p of None \<Rightarrow> [] | Some x \<Rightarrow> '':'' @ escape x encodeUserPassword))"

definition authorityString :: "URL \<Rightarrow> string" where
  "authorityString u =
     (if Scheme u = [] \<and> Host u = [] \<and> User u = None then []
      else if OmitHost u \<and> Host u = [] \<and> User u = None then []
      else (if Host u \<noteq> [] \<or> Path u \<noteq> [] \<or> User u \<noteq> None then ''//'' else []) @
           (case User u of None \<Rightarrow> [] | Some up \<Rightarrow> userString up @ ''@'') @
           escape (Host u) encodeHost)"

definition urlString :: "URL \<Rightarrow> string" where
  "urlString u =
     (let scheme = (if Scheme u = [] then [] else Scheme u @ '':'');
          head = scheme @ authorityString u;
          path = EscapedPath u;
          slash = (if path \<noteq> [] \<and> hd path \<noteq> CHR ''/'' \<and> Host u \<noteq> [] then ''/'' else []);
          dot = (if head @ slash = [] \<and> CHR '':'' \<in> set (hd (Split (CHR ''/'') path)) then ''./'' else []);
          body = (if Opaque u \<noteq> [] then scheme @ Opaque u else head @ slash @ dot @ path)
      in body @ (if ForceQuery u \<or> RawQuery u \<noteq> [] then ''?'' @ RawQuery u else []) @
         (if Fragment u \<noteq> [] then ''#'' @ EscapedFragment u else []))"

definition splitHostPort :: "string \<Rightarrow> string \<times> string" where
  "splitHostPort hostPort =
     (let colon = LastIndexByte hostPort (CHR '':'');
          (h, p) = (if colon \<ge> 0 \<and> validOptionalPort (drop (nat colon) hostPort)
                    then (take (nat colon) hostPort, drop (nat colon + 1) hostPort)
                    else (hostPort, []))
      in (if HasPrefix h ''['' \<and> HasSuffix h '']'' then butlast (tl h) else h, p))"

definition Hostname :: "URL \<Rightarrow> string" where
  "Hostname u = fst (splitHostPort (Host u))"

definition Port :: "URL \<Rightarrow> string" where
  "Port u = snd (splitHostPort (Host u))"

lemmas go_url_defs [go_eval] =
  emptyURL_def isAlpha_def isDigit_def shouldEscape_def ishex_def unhex_def upperhex_def
  escapeByte_def escape_def decodable_def PathUnescape_def validEncoded_def getScheme_def
  validOptionalPort_def parseHost_def validUserinfo_def parseAuthority_def setPath_def
  splitQuery_def parseRest_def parse_def ParseRequestURI_def Parse_def IsAbs_def EscapedPath_def
  userString_def authorityString_def urlString_def splitHostPort_def Hostname_def Port_def

section \<open>What a parsed URL satisfies\<close>

lemma setPath_fields:
  "setPath u p = Some u' \<Longrightarrow> Scheme u' = Scheme u \<and> Opaque u' = Opaque u \<and> User u' = User u \<and>
     Host u' = Host u \<and> Fragment u' = Fragment u \<and> RawQuery u' = RawQuery u \<and> OmitHost u' = OmitHost u"
  by (auto simp: setPath_def split: option.splits)

lemma if_chain_Some:
  "(if a then x else if b then None else if c then None else if d then y else z) = Some u \<Longrightarrow>
   x = Some u \<or> y = Some u \<or> (\<not> d \<and> z = Some u)"
  by (auto split: if_splits)

lemma parseRest_cases:
  assumes "parseRest u rest v = Some u'"
  obtains (opaque) "u' = u\<lparr>Opaque := rest\<rparr>"
    | (authority) user h p where "setPath (u\<lparr>User := user, Host := h\<rparr>) p = Some u'"
    | (path) b where "setPath (u\<lparr>OmitHost := b\<rparr>) rest = Some u'"
  using if_chain_Some [OF assms [unfolded parseRest_def Let_def]]
  by (auto split: option.split_asm prod.split_asm)

text \<open>A parsed URL has an opaque part or a host, never both; \<open>ParseRequestURI\<close> yields no fragment.\<close>

lemma parseRest_shape:
  assumes "parseRest u rest v = Some u'" "Opaque u = []" "Host u = []" "Fragment u = []" "\<not> OmitHost u"
  shows "(Opaque u' = [] \<or> Host u' = []) \<and> Fragment u' = [] \<and> (OmitHost u' \<longrightarrow> Host u' = [])"
  using assms(1)
  by (cases rule: parseRest_cases) (use assms(2-5) in \<open>auto dest!: setPath_fields\<close>)

lemma parse_shape:
  assumes "parse raw v = Some u"
  shows "(Opaque u = [] \<or> Host u = []) \<and> Fragment u = [] \<and> (OmitHost u \<longrightarrow> Host u = [])"
  using assms unfolding parse_def
  by (auto simp: emptyURL_def split: if_splits option.splits prod.splits dest!: parseRest_shape)

lemma ParseRequestURI_no_fragment: "ParseRequestURI raw = Some u \<Longrightarrow> Fragment u = []"
  by (simp add: ParseRequestURI_def parse_shape)

lemma ParseRequestURI_no_opaque: "ParseRequestURI raw = Some u \<Longrightarrow> Host u \<noteq> [] \<Longrightarrow> Opaque u = []"
  using parse_shape by (fastforce simp: ParseRequestURI_def)

text \<open>The printed form of a URL with a scheme and a host starts with both.\<close>

lemma urlString_prefix:
  assumes "Scheme u \<noteq> []" "Host u \<noteq> []" "Opaque u = []" "User u = None"
  shows "\<exists>rest. urlString u = Scheme u @ ''://'' @ escape (Host u) encodeHost @ rest"
  using assms by (simp add: urlString_def authorityString_def Let_def)

section \<open>Escaping and unescaping a path\<close>

lemma unescape_path_modes: "unescape s encodePathSegment = unescape s encodePath"
proof -
  have "decodable encodePathSegment a b = decodable encodePath a b" for a b
    by (simp add: decodable_def)
  then show ?thesis
    by (induction s encodePath rule: unescape.induct) (auto split: list.splits)
qed

lemma upperhex_digit: "ishex (upperhex n)" "n < 16 \<Longrightarrow> unhex (upperhex n) = n"
proof -
  have all: "list_all (\<lambda>k. ishex (upperhex k) \<and> unhex (upperhex k) = k) [0..<16]" by code_simp
  then have "ishex (upperhex (n mod 16))" unfolding list_all_iff by simp
  then show "ishex (upperhex n)" by (simp add: upperhex_def)
  show "unhex (upperhex n) = n" if "n < 16" using all that unfolding list_all_iff by simp
qed

lemma escapeByte_path:
  "decodable encodePath (upperhex (of_char c div 16)) (upperhex (of_char c mod 16))"
  "char_of (16 * unhex (upperhex (of_char c div 16)) + unhex (upperhex (of_char c mod 16))) = c"
  "shouldEscape (CHR ''%'') encodePath"
proof -
  show "decodable encodePath (upperhex (of_char c div 16)) (upperhex (of_char c mod 16))"
    by (simp add: decodable_def upperhex_digit)
  have "of_char c < (256 :: nat)" by (rule nat_of_char_less_256)
  then have "of_char c div 16 < (16 :: nat)" by (simp add: div_less_iff_less_mult)
  then show "char_of (16 * unhex (upperhex (of_char c div 16)) + unhex (upperhex (of_char c mod 16))) = c"
    by (simp add: upperhex_digit mult_div_mod_eq)
  show "shouldEscape (CHR ''%'') encodePath" by code_simp
qed

lemma unescape_escape_path: "unescape (escape s encodePath) encodePath = Some s"
proof (induction s)
  case (Cons c s)
  then show ?case
    by (auto simp: escape_def escapeByte_def escapeByte_path)
qed (simp add: escape_def)

text \<open>Unescaping the escaped path of a URL gives its decoded path.\<close>

lemma PathUnescape_EscapedPath: "PathUnescape (EscapedPath u) = Some (Path u)"
  by (auto simp: PathUnescape_def EscapedPath_def unescape_path_modes unescape_escape_path)

end
