(* ===== verification/Defaults.thy ===== *)
theory Defaults
  imports Tamoss_Resource Releases Go_Url
begin

text \<open>
  Operator-owned defaults: \<open>internal/controller/defaults/profile.go\<close>, which completes a Tamoss spec for
  its installation profile and release, \<open>installation.go\<close>, which fills in site settings before it, and
  the rendering of image references in \<open>workload_renderer/render.go\<close>. The Go functions mutate the object
  behind a pointer; here each returns the updated spec. The object's name is an argument where the
  code reads it. Fields that the code sets when they are omitted are written with \<^const>\<open>orElse\<close> and
  \<^const>\<open>orPtr\<close>.
\<close>

section \<open>Small helpers\<close>

definition setBool :: "bool option \<Rightarrow> bool \<Rightarrow> bool option" where
  "setBool target value = orPtr target value"

definition setReplicas :: "int \<Rightarrow> WorkloadCommonSpec \<Rightarrow> WorkloadCommonSpec" where
  "setReplicas value spec = spec\<lparr>wc_ReplicaCount := orPtr (wc_ReplicaCount spec) value\<rparr>"

definition setEnvDefault :: "string \<Rightarrow> string \<Rightarrow> (string \<rightharpoonup> string) \<Rightarrow> (string \<rightharpoonup> string)" where
  "setEnvDefault name value target = (case target name of None \<Rightarrow> target(name \<mapsto> value) | Some _ \<Rightarrow> target)"

definition setResourceDefault :: "string \<Rightarrow> string \<Rightarrow> ResourceList \<Rightarrow> ResourceList" where
  "setResourceDefault name value target =
     (case target name of None \<Rightarrow> target(name \<mapsto> MustParse value) | Some _ \<Rightarrow> target)"

definition defaultResources :: "string \<Rightarrow> string \<Rightarrow> string \<Rightarrow> string \<Rightarrow> ResourceRequirements \<Rightarrow> ResourceRequirements" where
  "defaultResources requestCPU requestMemory limitCPU limitMemory r =
     r\<lparr>rr_Requests := setResourceDefault ''memory'' requestMemory (setResourceDefault ''cpu'' requestCPU (rr_Requests r)),
       rr_Limits := setResourceDefault ''memory'' limitMemory (setResourceDefault ''cpu'' limitCPU (rr_Limits r))\<rparr>"

definition defaultWorkloadResources ::
    "string \<Rightarrow> string \<Rightarrow> string \<Rightarrow> string \<Rightarrow> WorkloadCommonSpec \<Rightarrow> WorkloadCommonSpec" where
  "defaultWorkloadResources requestCPU requestMemory limitCPU limitMemory spec =
     spec\<lparr>wc_Resources := defaultResources requestCPU requestMemory limitCPU limitMemory (wc_Resources spec)\<rparr>"

definition httpProbeOnPort :: "string \<Rightarrow> string \<Rightarrow> int \<Rightarrow> int \<Rightarrow> int \<Rightarrow> Probe" where
  "httpProbeOnPort path port periodSeconds timeoutSeconds failureThreshold =
     \<lparr>pr_HTTPGet = Some \<lparr>hga_Path = path, hga_Port = FromString port\<rparr>, pr_PeriodSeconds = periodSeconds,
      pr_TimeoutSeconds = timeoutSeconds, pr_FailureThreshold = failureThreshold\<rparr>"

definition httpProbe :: "string \<Rightarrow> int \<Rightarrow> int \<Rightarrow> int \<Rightarrow> Probe" where
  "httpProbe path periodSeconds timeoutSeconds failureThreshold =
     httpProbeOnPort path ''http'' periodSeconds timeoutSeconds failureThreshold"

definition setProbes :: "Probe \<Rightarrow> Probe \<Rightarrow> Probe \<Rightarrow> WorkloadCommonSpec \<Rightarrow> WorkloadCommonSpec" where
  "setProbes readiness liveness startup spec =
     spec\<lparr>wc_ReadinessProbe := orPtr (wc_ReadinessProbe spec) readiness,
          wc_LivenessProbe := orPtr (wc_LivenessProbe spec) liveness,
          wc_StartupProbe := orPtr (wc_StartupProbe spec) startup\<rparr>"

definition defaultWorkerProbes :: "WorkloadCommonSpec \<Rightarrow> WorkloadCommonSpec" where
  "defaultWorkerProbes = setProbes (httpProbeOnPort ''/readyz'' ''metrics'' 10 5 3)
     (httpProbeOnPort ''/healthz'' ''metrics'' 30 5 3) (httpProbeOnPort ''/healthz'' ''metrics'' 10 5 12)"

definition defaultAPIProbes :: "WorkloadCommonSpec \<Rightarrow> WorkloadCommonSpec" where
  "defaultAPIProbes = setProbes (httpProbe ''/readyz'' 10 5 3) (httpProbe ''/healthz'' 30 5 3)
     (httpProbe ''/healthz'' 10 5 12)"

definition defaultUIProbes :: "WorkloadCommonSpec \<Rightarrow> WorkloadCommonSpec" where
  "defaultUIProbes = setProbes (httpProbe ''/healthz'' 10 5 3) (httpProbe ''/healthz'' 30 5 3)
     (httpProbe ''/healthz'' 10 5 12)"

definition defaultConsoleProbes :: "WorkloadCommonSpec \<Rightarrow> WorkloadCommonSpec" where
  "defaultConsoleProbes = setProbes (httpProbe ''/ui-api/v1/readyz'' 10 5 3)
     (httpProbe ''/ui-api/v1/healthz'' 30 5 3) (httpProbe ''/ui-api/v1/healthz'' 10 5 12)"

definition zeroPodSecurityContext :: PodSecurityContext where
  "zeroPodSecurityContext = \<lparr>psc_RunAsNonRoot = None, psc_RunAsUser = None, psc_RunAsGroup = None,
     psc_SeccompProfile = None\<rparr>"

definition zeroSecurityContext :: SecurityContext where
  "zeroSecurityContext = \<lparr>sc_RunAsNonRoot = None, sc_AllowPrivilegeEscalation = None,
     sc_ReadOnlyRootFilesystem = None, sc_Capabilities = None\<rparr>"

definition restrictPod :: "PodSecurityContext \<Rightarrow> PodSecurityContext" where
  "restrictPod p =
     p\<lparr>psc_RunAsNonRoot := orPtr (psc_RunAsNonRoot p) True,
       psc_SeccompProfile := orPtr (psc_SeccompProfile p) ''RuntimeDefault''\<rparr>"

definition dropAll :: "Capabilities \<Rightarrow> Capabilities" where
  "dropAll c = c\<lparr>cap_Drop := orElse (cap_Drop c) [''ALL'']\<rparr>"

definition restrictContainer :: "SecurityContext \<Rightarrow> SecurityContext" where
  "restrictContainer s =
     s\<lparr>sc_RunAsNonRoot := orPtr (sc_RunAsNonRoot s) True,
       sc_AllowPrivilegeEscalation := orPtr (sc_AllowPrivilegeEscalation s) False,
       sc_Capabilities := Some (dropAll (deref \<lparr>cap_Add = [], cap_Drop = []\<rparr> (sc_Capabilities s)))\<rparr>"

definition defaultRestrictedWorkloadSecurity :: "WorkloadCommonSpec \<Rightarrow> WorkloadCommonSpec" where
  "defaultRestrictedWorkloadSecurity spec =
     spec\<lparr>wc_PodSecurityContext := Some (restrictPod (deref zeroPodSecurityContext (wc_PodSecurityContext spec))),
          wc_SecurityContext := Some (restrictContainer (deref zeroSecurityContext (wc_SecurityContext spec)))\<rparr>"

definition defaultConsoleSecurity :: "WorkloadCommonSpec \<Rightarrow> WorkloadCommonSpec" where
  "defaultConsoleSecurity spec =
     (let spec = defaultRestrictedWorkloadSecurity spec
      in spec\<lparr>wc_SecurityContext := map_option
           (\<lambda>s. s\<lparr>sc_ReadOnlyRootFilesystem := orPtr (sc_ReadOnlyRootFilesystem s) True\<rparr>)
           (wc_SecurityContext spec)\<rparr>)"

section \<open>Network policy rules\<close>

definition networkPolicyTCPPort :: "int \<Rightarrow> NetworkPolicyPort" where
  "networkPolicyTCPPort port = \<lparr>npp_Protocol = Some ''TCP'', npp_Port = Some (FromInt port)\<rparr>"

definition networkPolicyUDPPort :: "int \<Rightarrow> NetworkPolicyPort" where
  "networkPolicyUDPPort port = \<lparr>npp_Protocol = Some ''UDP'', npp_Port = Some (FromInt port)\<rparr>"

definition dnsEgressRule :: NetworkPolicyRule where
  "dnsEgressRule = \<lparr>npr_Peers = [], npr_Ports =
     [networkPolicyTCPPort 53, networkPolicyUDPPort 53, networkPolicyTCPPort 8053, networkPolicyUDPPort 8053]\<rparr>"

definition serviceIngressRules :: "int list \<Rightarrow> NetworkPolicyRule list" where
  "serviceIngressRules ports = [\<lparr>npr_Peers = [], npr_Ports = map networkPolicyTCPPort ports\<rparr>]"

definition appEgressRules :: "NetworkPolicyRule list" where
  "appEgressRules = [dnsEgressRule,
     \<lparr>npr_Peers = [], npr_Ports = map networkPolicyTCPPort [80, 443, 5432, 9000, 8080]\<rparr>]"

text \<open>The loop of \<open>tcpEgressRule\<close> keeps the first occurrence of every port.\<close>

fun uniquePorts :: "int list \<Rightarrow> int list \<Rightarrow> int list" where
  "uniquePorts seen [] = []"
| "uniquePorts seen (p # ps) =
     (if p \<in> set seen then uniquePorts seen ps else p # uniquePorts (p # seen) ps)"

definition tcpEgressRule :: "int list \<Rightarrow> NetworkPolicyRule" where
  "tcpEgressRule portNumbers =
     \<lparr>npr_Peers = [], npr_Ports = map networkPolicyTCPPort (uniquePorts [] portNumbers)\<rparr>"

definition uiEgressRules :: "int \<Rightarrow> int \<Rightarrow> int \<Rightarrow> bool \<Rightarrow> int list \<Rightarrow> NetworkPolicyRule list" where
  "uiEgressRules apiServicePort consoleServicePort consoleTargetPort consoleEnabled forwardAuthPorts =
     [dnsEgressRule,
      tcpEgressRule ([apiServicePort, 8000] @
        (if consoleEnabled then [consoleServicePort, consoleTargetPort] else []) @ forwardAuthPorts)]"

definition appLabels :: "string \<Rightarrow> string \<Rightarrow> string \<Rightarrow> (string \<rightharpoonup> string)" where
  "appLabels appName instance' component =
     [''app.kubernetes.io/name'' \<mapsto> appName, ''app.kubernetes.io/instance'' \<mapsto> instance',
      ''app.kubernetes.io/component'' \<mapsto> component]"

definition consoleIngressRules :: "string \<Rightarrow> TamossSpec \<Rightarrow> int \<Rightarrow> NetworkPolicyRule list" where
  "consoleIngressRules name s port =
     [\<lparr>npr_Peers = [\<lparr>npe_PodSelector = Some \<lparr>ls_MatchLabels =
          appLabels (orElse (ts_NameOverride s) ''tamoss'') name ''ui''\<rparr>, npe_IPBlock = None\<rparr>],
       npr_Ports = [networkPolicyTCPPort port]\<rparr>]"

definition consoleEgressRules :: "IPBlock list \<Rightarrow> NetworkPolicyRule list" where
  "consoleEgressRules apiServerIPBlocks =
     [dnsEgressRule,
      \<lparr>npr_Peers = map (\<lambda>b. \<lparr>npe_PodSelector = None, npe_IPBlock = Some b\<rparr>) apiServerIPBlocks,
       npr_Ports = [networkPolicyTCPPort 443, networkPolicyTCPPort 6443]\<rparr>]"

definition firstContainerPort :: "ContainerPort list \<Rightarrow> int \<Rightarrow> int" where
  "firstContainerPort ports fallback =
     (case ports of [] \<Rightarrow> fallback | p # _ \<Rightarrow> if cp_ContainerPort p = 0 then fallback else cp_ContainerPort p)"

definition firstServicePort :: "ServicePort list \<Rightarrow> int \<Rightarrow> int" where
  "firstServicePort ports fallback =
     (case ports of [] \<Rightarrow> fallback | p # _ \<Rightarrow> if sp_Port p = 0 then fallback else sp_Port p)"

text \<open>\<open>authentikBaseURL\<close> and \<open>OutpostExternalService\<close> of \<open>auth/authentik/proxy_outpost.go\<close>.\<close>

definition authentikBaseURL :: "AuthSpec \<Rightarrow> string" where
  "authentikBaseURL a =
     (case auth_AuthentikBlueprints a of
        None \<Rightarrow> []
      | Some ab \<Rightarrow> TrimSpace (if ab_InternalURL ab \<noteq> [] then ab_InternalURL ab else ab_IssuerURL ab))"

text \<open>\<open>strconv.ParseInt(s, 10, 32)\<close> on a string of digits: \<^const>\<open>None\<close> is a range or syntax error.\<close>

definition parsePort :: "string \<Rightarrow> int option" where
  "parsePort s =
     (let v = foldl (\<lambda>acc c. 10 * acc + int (of_char c) - 48) 0 s
      in if s = [] \<or> \<not> list_all isDigit s \<or> v > MaxInt32 then None else Some v)"

definition outpostServicePort :: "AuthSpec \<Rightarrow> int" where
  "outpostServicePort a =
     (case Parse (authentikBaseURL a) of
        None \<Rightarrow> 0
      | Some u \<Rightarrow>
          if Host u = [] then 0
          else (case parsePort (Port u) of
                  Some p \<Rightarrow> if p > 0 then p else (if Scheme u = ''https'' then 443 else 80)
                | None \<Rightarrow> if Scheme u = ''https'' then 443 else 80))"

definition forwardAuthPorts :: "AuthSpec \<Rightarrow> int list" where
  "forwardAuthPorts a =
     (if authProvider a = ''authentik-blueprints'' \<and> RequiredForRuntime a
      then (let p = outpostServicePort a in [if p = 0 then 80 else p, 9000]) else [])"

definition defaultRules :: "NetworkPolicyRule list \<Rightarrow> NetworkPolicyRule list \<Rightarrow> NetworkPolicyRulesSpec \<Rightarrow> NetworkPolicyRulesSpec" where
  "defaultRules ingress egress r =
     r\<lparr>nps_Ingress := orElse (nps_Ingress r) ingress, nps_Egress := orElse (nps_Egress r) egress\<rparr>"

definition defaultMultiServerNetworkPolicy :: "string \<Rightarrow> TamossSpec \<Rightarrow> TamossSpec" where
  "defaultMultiServerNetworkPolicy name s =
     (let np = (ts_NetworkPolicy s)\<lparr>np_Enabled := setBool (np_Enabled (ts_NetworkPolicy s)) True\<rparr>
      in if \<not> networkPolicyIsEnabled np then s\<lparr>ts_NetworkPolicy := np\<rparr>
         else s\<lparr>ts_NetworkPolicy := np\<lparr>
           np_API := defaultRules (serviceIngressRules [8000, 9090]) appEgressRules (np_API np),
           np_UI := defaultRules (serviceIngressRules [firstContainerPort (ui_Ports (ts_UI s)) 8080])
             (uiEgressRules (firstServicePort (svc_APIPorts (ts_Service s)) 8000)
                (firstServicePort (svc_ConsolePorts (ts_Service s)) 8080) 8080 (ConsoleEnabled s)
                (forwardAuthPorts (ts_Auth s))) (np_UI np),
           np_Worker := defaultRules (serviceIngressRules [9090]) appEgressRules (np_Worker np),
           np_Console := defaultRules (consoleIngressRules name s 8080)
             (consoleEgressRules (np_KubernetesAPIIPBlocks np)) (np_Console np)\<rparr>\<rparr>)"

definition defaultConsoleNetworkPolicy :: "string \<Rightarrow> TamossSpec \<Rightarrow> TamossSpec" where
  "defaultConsoleNetworkPolicy name s =
     (if \<not> ConsoleEnabled s \<or> \<not> networkPolicyIsEnabled (ts_NetworkPolicy s) then s
      else s\<lparr>ts_NetworkPolicy := (ts_NetworkPolicy s)\<lparr>np_Console :=
             defaultRules (consoleIngressRules name s 8080)
               (consoleEgressRules (np_KubernetesAPIIPBlocks (ts_NetworkPolicy s)))
               (np_Console (ts_NetworkPolicy s))\<rparr>\<rparr>)"

definition defaultAffinity :: "string \<Rightarrow> string \<Rightarrow> string \<Rightarrow> WorkloadCommonSpec \<Rightarrow> WorkloadCommonSpec" where
  "defaultAffinity name nameOverride component spec =
     spec\<lparr>wc_Affinity := orPtr (wc_Affinity spec)
       \<lparr>aff_PodAntiAffinityPreferred = [\<lparr>wpat_Weight = 100, wpat_TopologyKey = ''kubernetes.io/hostname'',
          wpat_LabelSelector = Some \<lparr>ls_MatchLabels =
            appLabels (orElse nameOverride ''tamoss'') name component\<rparr>\<rparr>]\<rparr>\<rparr>"

section \<open>Authentication\<close>

definition externalAuthConfigured :: "AuthExternalSpec option \<Rightarrow> bool" where
  "externalAuthConfigured external =
     (case external of
        None \<Rightarrow> False
      | Some x \<Rightarrow>
          (let o2 = ax_OAuth2 x
           in oa_Enabled o2 \<or> oa_Issuer o2 \<noteq> [] \<or> oa_JWKSURI o2 \<noteq> [] \<or> oa_Audience o2 \<noteq> [] \<or>
              oa_ClientCredentialsSecret o2 \<noteq> []))"

definition defaultTokenOnlyAuth :: "AuthSpec \<Rightarrow> AuthSpec" where
  "defaultTokenOnlyAuth a =
     (if authProvider a = ''none'' then a
      else if authProvider a = ''authentik-blueprints'' then a
      else (let x = deref \<lparr>ax_OAuth2 = zeroOAuth2\<rparr> (auth_External a);
                o2 = ax_OAuth2 x
            in a\<lparr>auth_ProvidedBy := ''external'', auth_Required := True,
                 auth_External := Some (x\<lparr>ax_OAuth2 := o2\<lparr>oa_Algorithms :=
                   orElse (oa_Algorithms o2) [''RS256'']\<rparr>\<rparr>)\<rparr>))"

definition fillAuthentik :: "AuthentikBlueprintsSpec \<Rightarrow> AuthentikBlueprintsSpec" where
  "fillAuthentik b =
     b\<lparr>ab_PlatformNamespace := orElse (ab_PlatformNamespace b) ''auth'',
       ab_APITokenSecretRef :=
         \<lparr>skr_Name = orElse (skr_Name (ab_APITokenSecretRef b)) ''authentik'',
          skr_Key = orElse (skr_Key (ab_APITokenSecretRef b)) ''AUTHENTIK_BOOTSTRAP_TOKEN''\<rparr>\<rparr>"

definition defaultAuthentikBlueprints :: "AuthSpec \<Rightarrow> AuthSpec" where
  "defaultAuthentikBlueprints a =
     (if authProvider a = ''external'' \<and> externalAuthConfigured (auth_External a) then a
      else let a = (if auth_ProvidedBy a = [] \<or> authProvider a = ''external''
                    then a\<lparr>auth_ProvidedBy := ''authentik-blueprints'', auth_External := None\<rparr> else a)
           in if authProvider a \<noteq> ''authentik-blueprints'' then a
              else a\<lparr>auth_Required := True,
                     auth_AuthentikBlueprints := Some (fillAuthentik (deref zeroAuthentik (auth_AuthentikBlueprints a)))\<rparr>)"

definition defaultAuthentikGroupBindings :: "AuthSpec \<Rightarrow> AuthSpec" where
  "defaultAuthentikGroupBindings a =
     (if authProvider a \<noteq> ''authentik-blueprints'' then a
      else (let b = deref zeroAuthentik (auth_AuthentikBlueprints a)
            in a\<lparr>auth_AuthentikBlueprints := Some (b\<lparr>ab_GroupBindings := orElse (ab_GroupBindings b)
                   [\<lparr>agb_GroupName = ''authentik Admins'', agb_Permissions = [''admin'']\<rparr>]\<rparr>)\<rparr>))"

definition defaultAuthentikInternalURL :: "AuthSpec \<Rightarrow> AuthSpec" where
  "defaultAuthentikInternalURL a =
     (case auth_AuthentikBlueprints a of
        None \<Rightarrow> a
      | Some b \<Rightarrow>
          if authProvider a \<noteq> ''authentik-blueprints'' \<or> ab_InternalURL b \<noteq> [] \<or> ab_PlatformNamespace b = []
          then a
          else a\<lparr>auth_AuthentikBlueprints := Some (b\<lparr>ab_InternalURL :=
                 ''http://authentik-server.'' @ ab_PlatformNamespace b @ ''.svc.cluster.local''\<rparr>)\<rparr>)"

section \<open>Public endpoints\<close>

record publicEndpointProfileDefaults =
  pd_BaseDomain :: string
  pd_IssuerName :: string
  pd_TLSSecretName :: string
  pd_S3TLSSecretName :: string

abbreviation "certManagerIssuerAnnotation \<equiv> ''cert-manager.io/cluster-issuer''"
abbreviation "traefikTLSAnnotation \<equiv> ''traefik.ingress.kubernetes.io/router.tls''"

definition defaultIngress :: "string \<Rightarrow> IngressSpec \<Rightarrow> IngressSpec" where
  "defaultIngress issuer i =
     (let i = i\<lparr>ing_Enabled := setBool (ing_Enabled i) True,
                ing_ClassName := orElse (ing_ClassName i) ''traefik'',
                ing_Annotations := orPtr (ing_Annotations i) [certManagerIssuerAnnotation \<mapsto> issuer]\<rparr>
      in if ing_ClassName i = ''traefik''
         then i\<lparr>ing_Annotations := map_option (setEnvDefault traefikTLSAnnotation ''true'') (ing_Annotations i)\<rparr>
         else i)"

definition defaultPlatformPublicEndpointWithoutAuthentik ::
    "publicEndpointProfileDefaults \<Rightarrow> TamossSpec \<Rightarrow> TamossSpec" where
  "defaultPlatformPublicEndpointWithoutAuthentik d s =
     (let e = ts_PublicEndpoint s
      in s\<lparr>ts_PublicEndpoint := e\<lparr>pe_BaseDomain := orElse (pe_BaseDomain e) (pd_BaseDomain d),
             pe_TLSSecretName := orElse (pe_TLSSecretName e) (pd_TLSSecretName d),
             pe_S3TLSSecretName := orElse (pe_S3TLSSecretName e) (pd_S3TLSSecretName d)\<rparr>,
           ts_Ingress := defaultIngress (pd_IssuerName d) (ts_Ingress s)\<rparr>)"

definition defaultPlatformPublicEndpoint :: "publicEndpointProfileDefaults \<Rightarrow> TamossSpec \<Rightarrow> TamossSpec" where
  "defaultPlatformPublicEndpoint d s =
     ts_Auth_update defaultAuthentikBlueprints (defaultPlatformPublicEndpointWithoutAuthentik d s)"

definition normalizeBaseDomain :: "string \<Rightarrow> string" where
  "normalizeBaseDomain value =
     TrimSuffix (TrimPrefix (TrimPrefix (TrimSpace value) ''https://'') ''http://'') ''/''"

definition defaultIngressEndpoints :: "string \<Rightarrow> string \<Rightarrow> string \<Rightarrow> IngressSpec \<Rightarrow> IngressSpec" where
  "defaultIngressEndpoints apiHost uiHost tlsSecret i =
     (if \<not> ingressIsEnabled i then i
      else i\<lparr>ing_APIHost := orElse (ing_APIHost i) apiHost,
             ing_UIWebHost := orElse (ing_UIWebHost i) uiHost,
             ing_TLS := (case ing_TLS i of
                 [] \<Rightarrow> [\<lparr>itls_Hosts = [apiHost, uiHost], itls_SecretName = tlsSecret\<rparr>]
               | x # xs \<Rightarrow> x\<lparr>itls_SecretName := orElse (itls_SecretName x) tlsSecret,
                             itls_Hosts := orElse (itls_Hosts x) [apiHost, uiHost]\<rparr> # xs)\<rparr>)"

definition defaultHTTPRouteEndpoints :: "string \<Rightarrow> string \<Rightarrow> HTTPRouteSpec \<Rightarrow> HTTPRouteSpec" where
  "defaultHTTPRouteEndpoints apiHost uiHost h =
     (if \<not> hr_Enabled h then h
      else h\<lparr>hr_APIHostnames := orElse (hr_APIHostnames h) [apiHost],
             hr_UIHostnames := orElse (hr_UIHostnames h) [uiHost]\<rparr>)"

definition defaultAuthentikEndpoints :: "string \<Rightarrow> AuthSpec \<Rightarrow> AuthSpec" where
  "defaultAuthentikEndpoints authentikURL a =
     (if authProvider a \<noteq> ''authentik-blueprints'' then a
      else (let b = deref zeroAuthentik (auth_AuthentikBlueprints a)
            in defaultAuthentikInternalURL
                 (a\<lparr>auth_AuthentikBlueprints := Some (b\<lparr>ab_IssuerURL := orElse (ab_IssuerURL b) authentikURL\<rparr>)\<rparr>)))"

definition defaultManagedS3PublicEndpoint :: "string \<Rightarrow> string \<Rightarrow> S3PublicEndpointSpec \<Rightarrow> S3PublicEndpointSpec" where
  "defaultManagedS3PublicEndpoint s3URL tlsSecret e =
     e\<lparr>s3p_URL := orElse (s3p_URL e) s3URL, s3p_TLSSecretName := orElse (s3p_TLSSecretName e) tlsSecret\<rparr>"

definition defaultS3PublicEndpoint :: "string \<Rightarrow> string \<Rightarrow> S3BackendSpec \<Rightarrow> S3BackendSpec" where
  "defaultS3PublicEndpoint s3URL tlsSecret b =
     (if s3Provider b = ''rustfs-operator''
      then b\<lparr>s3_RustFSOperator := map_option
             (rfs_PublicEndpoint_update (defaultManagedS3PublicEndpoint s3URL tlsSecret)) (s3_RustFSOperator b)\<rparr>
      else b)"

definition applyPublicEndpointDefaults :: "TamossSpec \<Rightarrow> TamossSpec" where
  "applyPublicEndpointDefaults s =
     (let baseDomain = normalizeBaseDomain (pe_BaseDomain (ts_PublicEndpoint s))
      in if baseDomain = [] then s
         else (let apiHost = ''api.'' @ baseDomain; uiHost = ''app.'' @ baseDomain;
                   e = ts_PublicEndpoint s
               in s\<lparr>ts_PublicEndpoint := e\<lparr>pe_UIURL := orElse (pe_UIURL e) (''https://app.'' @ baseDomain)\<rparr>,
                    ts_Ingress := defaultIngressEndpoints apiHost uiHost (pe_TLSSecretName e) (ts_Ingress s),
                    ts_HTTPRoute := defaultHTTPRouteEndpoints apiHost uiHost (ts_HTTPRoute s),
                    ts_Auth := defaultAuthentikEndpoints (''https://auth.'' @ baseDomain) (ts_Auth s),
                    ts_Backends := (ts_Backends s)\<lparr>be_S3 := defaultS3PublicEndpoint (''https://s3.'' @ baseDomain)
                      (pe_S3TLSSecretName e) (be_S3 (ts_Backends s))\<rparr>\<rparr>))"

section \<open>Backends\<close>

definition defaultCNPG :: "int \<Rightarrow> string \<Rightarrow> bool \<Rightarrow> bool \<Rightarrow> DBBackendSpec \<Rightarrow> DBBackendSpec" where
  "defaultCNPG instances storageSize applyFixtures enablePodMonitor d =
     (let d = (if db_ProvidedBy d = [] \<and> db_External d = None then d\<lparr>db_ProvidedBy := ''cnpg''\<rparr> else d)
      in if dbProvider d \<noteq> ''cnpg'' then d
         else (let c = deref zeroCNPG (db_CNPG d)
               in d\<lparr>db_ApplyFixtures := setBool (db_ApplyFixtures d) applyFixtures,
                    db_CNPG := Some (c\<lparr>
                      cnpg_Instances := (if cnpg_Instances c = 0 then instances else cnpg_Instances c),
                      cnpg_Storage := (cnpg_Storage c)\<lparr>bst_Size := orElse (bst_Size (cnpg_Storage c)) storageSize\<rparr>,
                      cnpg_Monitoring := \<lparr>cmon_EnablePodMonitor =
                        setBool (cmon_EnablePodMonitor (cnpg_Monitoring c)) enablePodMonitor\<rparr>\<rparr>)\<rparr>))"

definition defaultCNPGResources :: "string \<Rightarrow> string \<Rightarrow> string \<Rightarrow> string \<Rightarrow> DBBackendSpec \<Rightarrow> DBBackendSpec" where
  "defaultCNPGResources requestCPU requestMemory limitCPU limitMemory d =
     (if dbProvider d \<noteq> ''cnpg'' then d
      else d\<lparr>db_CNPG := map_option
             (cnpg_Resources_update (defaultResources requestCPU requestMemory limitCPU limitMemory)) (db_CNPG d)\<rparr>)"

definition defaultRustFSOperator :: "int \<Rightarrow> int \<Rightarrow> string \<Rightarrow> S3BackendSpec \<Rightarrow> S3BackendSpec" where
  "defaultRustFSOperator servers volumesPerServer storageSize b =
     (let b = (if s3_ProvidedBy b = [] \<and> s3_External b = None then b\<lparr>s3_ProvidedBy := ''rustfs-operator''\<rparr> else b)
      in if s3Provider b \<noteq> ''rustfs-operator'' then b
         else (let r = deref zeroRustFS (s3_RustFSOperator b)
               in b\<lparr>s3_RustFSOperator := Some (r\<lparr>
                      rfs_Pools := orElse (rfs_Pools r)
                        [\<lparr>pool_Name = ''pool-0'', pool_Servers = servers, pool_VolumesPerServer = volumesPerServer,
                          pool_Storage = \<lparr>bst_Size = storageSize, bst_StorageClass = []\<rparr>\<rparr>],
                      rfs_Bucket := (rfs_Bucket r)\<lparr>rfb_Name := orElse (rfb_Name (rfs_Bucket r)) ''tamoss''\<rparr>\<rparr>)\<rparr>))"

definition setRustFSEnvDefault :: "string \<Rightarrow> string \<Rightarrow> S3BackendSpec \<Rightarrow> S3BackendSpec" where
  "setRustFSEnvDefault name value b =
     b\<lparr>s3_RustFSOperator := map_option
       (rfs_Env_update (\<lambda>env. if list_ex (\<lambda>e. ev_Name e = name) env then env
          else env @ [\<lparr>ev_Name = name, ev_Value = value, ev_SecretKeyRef = None\<rparr>])) (s3_RustFSOperator b)\<rparr>"

section \<open>Profiles\<close>

definition onAPI :: "(WorkloadCommonSpec \<Rightarrow> WorkloadCommonSpec) \<Rightarrow> TamossSpec \<Rightarrow> TamossSpec" where
  "onAPI f s = ts_API_update (api_Common_update f) s"

definition onWorker :: "(WorkloadCommonSpec \<Rightarrow> WorkloadCommonSpec) \<Rightarrow> TamossSpec \<Rightarrow> TamossSpec" where
  "onWorker f s = ts_Worker_update (wrk_Common_update f) s"

definition onUI :: "(WorkloadCommonSpec \<Rightarrow> WorkloadCommonSpec) \<Rightarrow> TamossSpec \<Rightarrow> TamossSpec" where
  "onUI f s = ts_UI_update (ui_Common_update f) s"

definition onConsole :: "(WorkloadCommonSpec \<Rightarrow> WorkloadCommonSpec) \<Rightarrow> TamossSpec \<Rightarrow> TamossSpec" where
  "onConsole f s = ts_Console_update (con_Common_update f) s"

definition onDB :: "(DBBackendSpec \<Rightarrow> DBBackendSpec) \<Rightarrow> TamossSpec \<Rightarrow> TamossSpec" where
  "onDB f s = ts_Backends_update (be_DB_update f) s"

definition onS3 :: "(S3BackendSpec \<Rightarrow> S3BackendSpec) \<Rightarrow> TamossSpec \<Rightarrow> TamossSpec" where
  "onS3 f s = ts_Backends_update (be_S3_update f) s"

definition enableWorker :: "TamossSpec \<Rightarrow> TamossSpec" where
  "enableWorker s = ts_Worker_update (wrk_Enabled_update (\<lambda>e. setBool e True)) s"

text \<open>A sequence of \<open>setEnvDefault\<close> calls on one component.\<close>

definition setEnvDefaults :: "(string \<times> string) list \<Rightarrow> WorkloadCommonSpec \<Rightarrow> WorkloadCommonSpec" where
  "setEnvDefaults kvs spec = spec\<lparr>wc_Env := foldl (\<lambda>env (k, v). setEnvDefault k v env) (wc_Env spec) kvs\<rparr>"

definition setPDB :: "WorkloadCommonSpec \<Rightarrow> WorkloadCommonSpec" where
  "setPDB spec = wc_PDB_update (pdb_Enabled_update (\<lambda>e. setBool e True)) spec"

definition applyLocalKind :: "TamossSpec \<Rightarrow> TamossSpec" where
  "applyLocalKind s =
     (let s = ts_Ingest_update (is_Mode_update (\<lambda>m. orElse m IngestSourcePolicyPublicHTTPS)) s;
          s = defaultPlatformPublicEndpoint \<lparr>pd_BaseDomain = ''tamoss.localtest.me'',
                pd_IssuerName = ''tamoss-selfsigned'', pd_TLSSecretName = ''tamoss-localtest-tls'',
                pd_S3TLSSecretName = ''tamoss-localtest-s3-tls''\<rparr> s;
          s = enableWorker s;
          s = onAPI (setEnvDefaults [(''TAMOSS_S3_CONNECT_TIMEOUT_SECONDS'', ''1''),
                (''TAMOSS_S3_READ_TIMEOUT_SECONDS'', ''2''),
                (''TAMOSS_WEBHOOK_ALLOWED_HOSTS'', ''.svc.cluster.local'')]) s;
          s = onWorker (setEnvDefaults [(''TAMOSS_WORKER_POLL_INTERVAL_SECONDS'', ''1''),
                (''TAMOSS_WORKER_MAX_REQUESTS'', ''25''),
                (''TAMOSS_WEBHOOK_ALLOWED_HOSTS'', ''.svc.cluster.local'')]) s;
          s = onUI (setEnvDefaults [(''TAMOSS_API_URL'', ''/api'')]) s;
          s = onDB (defaultCNPG 1 ''10Gi'' False False) s;
          s = onS3 (defaultRustFSOperator 1 4 ''10Gi'') s
      in onS3 (setRustFSEnvDefault ''RUSTFS_UNSAFE_BYPASS_DISK_CHECK'' ''true'') s)"

definition applySingleServer :: "TamossSpec \<Rightarrow> TamossSpec" where
  "applySingleServer s =
     (let s = defaultPlatformPublicEndpoint \<lparr>pd_BaseDomain = [], pd_IssuerName = ''tamoss-public'',
                pd_TLSSecretName = ''tamoss-public-tls'', pd_S3TLSSecretName = ''tamoss-s3-public-tls''\<rparr> s;
          s = enableWorker s;
          s = onUI (setEnvDefaults [(''TAMOSS_API_URL'', ''/api'')]) s;
          s = onAPI (defaultWorkloadResources ''250m'' ''384Mi'' ''1'' ''768Mi'') s;
          s = onWorker (defaultWorkloadResources ''100m'' ''128Mi'' ''500m'' ''384Mi'') s;
          s = onUI (defaultWorkloadResources ''25m'' ''32Mi'' ''200m'' ''128Mi'') s;
          s = onAPI defaultRestrictedWorkloadSecurity s;
          s = onWorker defaultRestrictedWorkloadSecurity s;
          s = onUI defaultRestrictedWorkloadSecurity s;
          s = onDB (defaultCNPG 1 ''50Gi'' False False) s;
          s = onS3 (defaultRustFSOperator 1 4 ''100Gi'') s
      in onS3 (setRustFSEnvDefault ''RUSTFS_UNSAFE_BYPASS_DISK_CHECK'' ''true'') s)"

definition applyEdge :: "TamossSpec \<Rightarrow> TamossSpec" where
  "applyEdge s =
     (let s = defaultPlatformPublicEndpointWithoutAuthentik \<lparr>pd_BaseDomain = ''tamoss.edge'',
                pd_IssuerName = ''tamoss-edge-selfsigned'', pd_TLSSecretName = ''tamoss-edge-tls'',
                pd_S3TLSSecretName = ''tamoss-edge-s3-tls''\<rparr> s;
          s = ts_Auth_update (\<lambda>a. if authProvider a = ''authentik-blueprints''
                then defaultAuthentikBlueprints a else defaultTokenOnlyAuth a) s;
          s = enableWorker s;
          s = onAPI (setEnvDefaults [(''TAMOSS_DATABASE_POOL_MAX_SIZE'', ''3''),
                (''TAMOSS_API_THREAD_POOL_TOKENS'', ''16''), (''TAMOSS_S3_CONNECT_TIMEOUT_SECONDS'', ''2''),
                (''TAMOSS_S3_READ_TIMEOUT_SECONDS'', ''5''),
                (''TAMOSS_WEBHOOK_ALLOWED_HOSTS'', ''.svc.cluster.local'')]) s;
          s = onWorker (setEnvDefaults [(''TAMOSS_WORKER_POLL_INTERVAL_SECONDS'', ''5''),
                (''TAMOSS_WORKER_MAX_REQUESTS'', ''5''), (''TAMOSS_DATABASE_POOL_MAX_SIZE'', ''3''),
                (''TAMOSS_WEBHOOK_ALLOWED_HOSTS'', ''.svc.cluster.local'')]) s;
          s = onUI (setEnvDefaults [(''TAMOSS_API_URL'', ''/api'')]) s;
          s = onAPI (defaultWorkloadResources ''100m'' ''192Mi'' ''600m'' ''384Mi'') s;
          s = onWorker (defaultWorkloadResources ''100m'' ''128Mi'' ''500m'' ''384Mi'') s;
          s = onUI (defaultWorkloadResources ''25m'' ''32Mi'' ''150m'' ''96Mi'') s;
          s = onAPI defaultRestrictedWorkloadSecurity s;
          s = onWorker defaultRestrictedWorkloadSecurity s;
          s = onUI defaultRestrictedWorkloadSecurity s;
          s = onDB (defaultCNPG 1 ''10Gi'' False False) s;
          s = onDB (defaultCNPGResources ''100m'' ''256Mi'' ''800m'' ''768Mi'') s;
          s = onS3 (defaultRustFSOperator 1 4 ''10Gi'') s
      in onS3 (setRustFSEnvDefault ''RUSTFS_UNSAFE_BYPASS_DISK_CHECK'' ''true'') s)"

definition applyMultiServer :: "string \<Rightarrow> TamossSpec \<Rightarrow> TamossSpec" where
  "applyMultiServer name s =
     (let s = defaultPlatformPublicEndpoint \<lparr>pd_BaseDomain = [], pd_IssuerName = ''tamoss-public'',
                pd_TLSSecretName = ''tamoss-public-tls'', pd_S3TLSSecretName = ''tamoss-s3-public-tls''\<rparr> s;
          s = enableWorker s;
          s = onConsole (setReplicas 2) (onUI (setReplicas 2) (onWorker (setReplicas 2) (onAPI (setReplicas 2) s)));
          s = onConsole setPDB (onUI setPDB (onWorker setPDB (onAPI setPDB s)));
          s = onUI (setEnvDefaults [(''TAMOSS_API_URL'', ''/api'')]) s;
          s = onAPI (defaultWorkloadResources ''250m'' ''384Mi'' ''1'' ''768Mi'') s;
          s = onWorker (defaultWorkloadResources ''100m'' ''128Mi'' ''500m'' ''384Mi'') s;
          s = onUI (defaultWorkloadResources ''25m'' ''32Mi'' ''200m'' ''128Mi'') s;
          s = onAPI defaultRestrictedWorkloadSecurity s;
          s = onWorker defaultRestrictedWorkloadSecurity s;
          s = onUI defaultRestrictedWorkloadSecurity s;
          s = onAPI (defaultAffinity name (ts_NameOverride s) ''api'') s;
          s = onWorker (defaultAffinity name (ts_NameOverride s) ''worker'') s;
          s = onUI (defaultAffinity name (ts_NameOverride s) ''ui'') s;
          s = onConsole (defaultAffinity name (ts_NameOverride s) ''console'') s;
          s = defaultMultiServerNetworkPolicy name s;
          s = onDB (defaultCNPG 3 ''100Gi'' False True) s
      in onS3 (defaultRustFSOperator 4 4 ''100Gi'') s)"

definition applyProfile :: "string \<Rightarrow> TamossSpec \<Rightarrow> TamossSpec" where
  "applyProfile name s =
     (if ts_Profile s = TamossProfileLocalKind then applyLocalKind s
      else if ts_Profile s = TamossProfileSingleServer then applySingleServer s
      else if ts_Profile s = TamossProfileMultiServer then applyMultiServer name s
      else if ts_Profile s = TamossProfileEdge then applyEdge s
      else s)"

section \<open>Images and components\<close>

text \<open>\<open>defaultImage\<close> splits a reference into repository and tag, keeping tag and digest together.\<close>

definition imageSeparator :: "string \<Rightarrow> int" where
  "imageSeparator reference =
     (let at = IndexByte reference (CHR ''@'')
      in if at \<ge> 0 then
           (let before = take (nat at) reference; colon = LastIndexByte before (CHR '':'')
            in if colon > LastIndexByte before (CHR ''/'') then colon else at)
         else LastIndexByte reference (CHR '':''))"

definition splitImage :: "string \<Rightarrow> string \<times> string" where
  "splitImage reference =
     (let separator = imageSeparator reference
      in if separator > LastIndexByte reference (CHR ''/'') then
           (take (nat separator) reference,
            (if reference ! nat separator = CHR ''@'' then ''@'' else []) @ drop (nat separator + 1) reference)
         else (reference, []))"

definition defaultImage :: "string \<Rightarrow> ImageSpec \<Rightarrow> ImageSpec" where
  "defaultImage reference img =
     (case splitImage reference of (repository, tag) \<Rightarrow>
        img\<lparr>is_Repository := orElse (is_Repository img) repository,
              is_Tag := orElse (is_Tag img) tag,
              is_PullPolicy := orElse (is_PullPolicy img) ''IfNotPresent''\<rparr>)"

definition applyImageDefaults :: "Images \<Rightarrow> TamossSpec \<Rightarrow> TamossSpec" where
  "applyImageDefaults images s =
     (let s = onDB (\<lambda>d. if dbProvider d = ''cnpg'' then d\<lparr>db_CNPG := orPtr (db_CNPG d) zeroCNPG\<rparr> else d) s;
          s = onS3 (\<lambda>b. if s3Provider b = ''rustfs-operator''
                        then b\<lparr>s3_RustFSOperator := orPtr (s3_RustFSOperator b) zeroRustFS\<rparr> else b) s;
          s = ts_API_update (api_Image_update (defaultImage (img_API images))) s;
          s = ts_UI_update (ui_Image_update (defaultImage (img_UI images))) s;
          s = ts_Console_update (con_Image_update (defaultImage (img_Console images))) s;
          s = ts_Images_update (\<lambda>i. i\<lparr>ci_SchemaMigrationPostgresClient :=
                 orElse (ci_SchemaMigrationPostgresClient i) (img_PostgresClient images),
               ci_TAMSin := orElse (ci_TAMSin i) (img_TAMSin images)\<rparr>) s;
          s = onDB (db_CNPG_update (map_option (cnpg_PostgresVersion_update
                (\<lambda>v. orElse v (img_CNPGPostgresVersion images))))) s
      in onS3 (s3_RustFSOperator_update (map_option (rfs_Image_update (\<lambda>v. orElse v (img_RustFS images))))) s)"

definition applyBaseComponentDefaults :: "string \<Rightarrow> TamossSpec \<Rightarrow> TamossSpec" where
  "applyBaseComponentDefaults name s =
     (let s = ts_API_update (api_Enabled_update (\<lambda>e. setBool e True)) s;
          s = ts_Worker_update (wrk_Enabled_update (\<lambda>e. setBool e False)) s;
          s = ts_UI_update (ui_Enabled_update (\<lambda>e. setBool e True)) s;
          s = ts_Console_update (con_Enabled_update (\<lambda>e. setBool e False)) s;
          s = onConsole (setReplicas 1) (onUI (setReplicas 1) (onWorker (setReplicas 1) (onAPI (setReplicas 1) s)));
          s = onAPI defaultAPIProbes s;
          s = onWorker defaultWorkerProbes s;
          s = onUI defaultUIProbes s;
          s = onConsole defaultConsoleProbes s;
          s = onConsole (defaultWorkloadResources ''25m'' ''32Mi'' ''200m'' ''128Mi'') s;
          s = onConsole defaultConsoleSecurity s
      in defaultConsoleNetworkPolicy name s)"

definition applySpec :: "string \<Rightarrow> Images \<Rightarrow> TamossSpec \<Rightarrow> TamossSpec" where
  "applySpec name images s =
     (let s = applyProfile name s;
          s = applyImageDefaults images s;
          s = ts_Ingest_update (is_Mode_update (\<lambda>m. orElse m IngestSourcePolicyDisabled)) s;
          s = ts_Auth_update defaultAuthentikGroupBindings s;
          s = applyPublicEndpointDefaults s
      in applyBaseComponentDefaults name s)"

definition Apply :: "Tamoss \<Rightarrow> Images \<Rightarrow> Tamoss" where
  "Apply tamoss images = tm_Spec_update (applySpec (tm_Name tamoss) images) tamoss"

text \<open>\<open>image\<close> of \<open>workload_renderer/render.go\<close>, which prints the reference of a container.\<close>

definition renderImage :: "string \<Rightarrow> string \<Rightarrow> string" where
  "renderImage repository tag =
     (let repository = orElse repository ''livewyer/tamoss-api''; tag = orElse tag ''dev''
      in if HasPrefix tag ''@'' then repository @ tag else repository @ '':'' @ tag)"

section \<open>Installation defaults (installation.go)\<close>

record InstallationAuthentik =
  ia_PlatformNamespace :: string
  ia_IssuerURL :: string
  ia_InternalURL :: string
  ia_APITokenSecretRef :: SecretKeyRefSpec

record Installation =
  in_Profile :: string
  in_BaseDomain :: string
  in_IngressClassName :: string
  in_ClusterIssuer :: string
  in_ConsoleEnabled :: "bool option"
  in_Authentik :: InstallationAuthentik
  in_source :: string
  in_revision :: string
  in_loadError :: "string option"

definition defaultString :: "string \<Rightarrow> string \<Rightarrow> string" where
  "defaultString target value = orElse target (TrimSuffix value ''/'')"

definition invalidInstallationURL :: "string \<Rightarrow> bool" where
  "invalidInstallationURL value =
     (case Parse value of
        None \<Rightarrow> True
      | Some u \<Rightarrow> (Scheme u \<noteq> ''https'' \<and> Scheme u \<noteq> ''http'') \<or> Host u = [] \<or> User u \<noteq> None \<or>
                  RawQuery u \<noteq> [] \<or> Fragment u \<noteq> [])"

text \<open>
  \<open>validate\<close>; the map of DNS fields is ranged over in an unspecified order, which decides only which
  of several invalid fields the error names; \<open>iter\<close> is that order.
\<close>

definition installationValidate ::
    "kube_lib \<Rightarrow> ((string \<times> string) list \<Rightarrow> (string \<times> string) list) \<Rightarrow> Installation \<Rightarrow> string + unit" where
  "installationValidate lib iter c =
     (if in_Profile c \<notin> {[], TamossProfileLocalKind, TamossProfileEdge, TamossProfileSingleServer, TamossProfileMultiServer}
      then Inl ''installation profile is not supported''
      else case find (\<lambda>(field, value). value \<noteq> [] \<and> \<not> IsDNS1123Subdomain lib value)
          (iter [(''baseDomain'', in_BaseDomain c), (''ingressClassName'', in_IngressClassName c),
           (''clusterIssuer'', in_ClusterIssuer c),
           (''authentik.platformNamespace'', ia_PlatformNamespace (in_Authentik c)),
           (''authentik.apiTokenSecretRef.name'', skr_Name (ia_APITokenSecretRef (in_Authentik c)))]) of
          Some (field, value) \<Rightarrow> Inl (''installation '' @ field @ '' must be a DNS name'')
        | None \<Rightarrow>
            if skr_Key (ia_APITokenSecretRef (in_Authentik c)) \<noteq> [] \<and>
               \<not> IsConfigMapKey lib (skr_Key (ia_APITokenSecretRef (in_Authentik c)))
            then Inl ''installation Authentik token reference has an invalid key''
            else if list_ex (\<lambda>value. value \<noteq> [] \<and> invalidInstallationURL value)
                [ia_IssuerURL (in_Authentik c), ia_InternalURL (in_Authentik c)]
            then Inl ''installation Authentik URLs must be HTTP or HTTPS base URLs without credentials''
            else Inr ())"

definition Revision :: "Installation option \<Rightarrow> string" where
  "Revision c = (case c of None \<Rightarrow> [] | Some c \<Rightarrow> in_revision c)"

definition AppliedTo :: "Installation option \<Rightarrow> Tamoss \<Rightarrow> bool" where
  "AppliedTo c tamoss \<longleftrightarrow> tst_AppliedDefaultsRevision (tm_Status tamoss) = Revision c"

definition managedAuth :: "TamossSpec \<Rightarrow> bool" where
  "managedAuth s \<longleftrightarrow>
     authProvider (ts_Auth s) = ''authentik-blueprints'' \<or>
     (ts_Profile s \<noteq> [] \<and> ts_Profile s \<noteq> TamossProfileEdge \<and> authProvider (ts_Auth s) \<noteq> ''none'' \<and>
      \<not> externalAuthConfigured (auth_External (ts_Auth s)))"

definition installAuthentik :: "Installation \<Rightarrow> AuthentikBlueprintsSpec \<Rightarrow> AuthentikBlueprintsSpec" where
  "installAuthentik c b =
     (let ia = in_Authentik c;
          issuer = defaultString (ab_IssuerURL b) (ia_IssuerURL ia)
      in b\<lparr>ab_PlatformNamespace := defaultString (ab_PlatformNamespace b) (ia_PlatformNamespace ia),
           ab_IssuerURL := (if issuer = [] \<and> in_BaseDomain c \<noteq> [] then ''https://auth.'' @ in_BaseDomain c else issuer),
           ab_InternalURL := defaultString (ab_InternalURL b) (ia_InternalURL ia),
           ab_APITokenSecretRef :=
             \<lparr>skr_Name = defaultString (skr_Name (ab_APITokenSecretRef b)) (skr_Name (ia_APITokenSecretRef ia)),
              skr_Key = defaultString (skr_Key (ab_APITokenSecretRef b)) (skr_Key (ia_APITokenSecretRef ia))\<rparr>\<rparr>)"

definition installSpec :: "kube_lib \<Rightarrow> Installation \<Rightarrow> Tamoss \<Rightarrow> string + TamossSpec" where
  "installSpec lib c tamoss =
     (let s = tm_Spec tamoss;
          s = s\<lparr>ts_Profile := orElse (ts_Profile s) (in_Profile c)\<rparr>;
          derive = (pe_BaseDomain (ts_PublicEndpoint s) = [] \<and> in_BaseDomain c \<noteq> []);
          domain = tm_Name tamoss @ ''.'' @ tm_Namespace tamoss @ ''.'' @ in_BaseDomain c
      in if derive \<and> \<not> IsDNS1123Subdomain lib (''app.'' @ domain)
         then Inl ''derived instance domain exceeds DNS limits; set spec.publicEndpoint.baseDomain''
         else (let e = ts_PublicEndpoint s; i = ts_Ingress s;
                   s = s\<lparr>ts_PublicEndpoint := e\<lparr>pe_BaseDomain := (if derive then domain else pe_BaseDomain e),
                            pe_TLSSecretName := defaultString (pe_TLSSecretName e) (ResourceName tamoss ''tls''),
                            pe_S3TLSSecretName := defaultString (pe_S3TLSSecretName e) (ResourceName tamoss ''s3-tls'')\<rparr>,
                         ts_Ingress := i\<lparr>ing_ClassName := defaultString (ing_ClassName i) (in_IngressClassName c),
                            ing_Annotations := (if ing_Annotations i = None \<and> in_ClusterIssuer c \<noteq> []
                              then Some [certManagerIssuerAnnotation \<mapsto> in_ClusterIssuer c] else ing_Annotations i)\<rparr>,
                         ts_Console := (ts_Console s)\<lparr>con_Enabled :=
                            (case con_Enabled (ts_Console s) of None \<Rightarrow> in_ConsoleEnabled c | Some b \<Rightarrow> Some b)\<rparr>\<rparr>
               in if managedAuth s
                  then Inr (ts_Auth_update (\<lambda>a. a\<lparr>auth_AuthentikBlueprints :=
                         Some (installAuthentik c (deref zeroAuthentik (auth_AuthentikBlueprints a)))\<rparr>) s)
                  else Inr s))"

definition installationApply :: "kube_lib \<Rightarrow> Installation option \<Rightarrow> Tamoss \<Rightarrow> string + Tamoss" where
  "installationApply lib c tamoss =
     (case c of
        None \<Rightarrow> Inr tamoss
      | Some c \<Rightarrow>
          (case in_loadError c of
             Some err \<Rightarrow> Inl (''invalid installation defaults: '' @ err)
           | None \<Rightarrow>
               (case installSpec lib c tamoss of
                  Inl err \<Rightarrow> Inl err
                | Inr s \<Rightarrow> Inr (tamoss\<lparr>tm_Spec := s\<rparr>))))"

end
