(* ===== verification/Defaults_Laws.thy ===== *)
theory Defaults_Laws
  imports Defaults
begin

text \<open>
  What the defaults promise: an image reference of a release survives being split and rendered again;
  the ingest source policy is never left open; an enabled Console is never cut off by its network
  policy; and what a user sets is kept.
\<close>

definition zeroWorkload :: WorkloadCommonSpec where
  "zeroWorkload = \<lparr>wc_ReplicaCount = None, wc_Env = Map.empty, wc_PodSecurityContext = None,
     wc_SecurityContext = None, wc_Resources = zeroResources, wc_LivenessProbe = None, wc_ReadinessProbe = None,
     wc_StartupProbe = None, wc_PDB = \<lparr>pdb_Enabled = None, pdb_MinAvailable = None, pdb_MaxUnavailable = None\<rparr>,
     wc_Affinity = None\<rparr>"

definition zeroImage :: ImageSpec where
  "zeroImage = \<lparr>is_Repository = [], is_Tag = [], is_PullPolicy = []\<rparr>"

definition noRules :: NetworkPolicyRulesSpec where
  "noRules = \<lparr>nps_Ingress = [], nps_Egress = []\<rparr>"

definition zeroSpec :: TamossSpec where
  "zeroSpec = \<lparr>ts_Version = [], ts_Paused = False, ts_Profile = [],
     ts_PublicEndpoint = \<lparr>pe_BaseDomain = [], pe_UIURL = [], pe_TLSSecretName = [], pe_S3TLSSecretName = []\<rparr>,
     ts_NameOverride = [], ts_FullnameOverride = [],
     ts_API = \<lparr>api_Enabled = None, api_Image = zeroImage, api_Common = zeroWorkload\<rparr>,
     ts_Worker = \<lparr>wrk_Enabled = None, wrk_Common = zeroWorkload\<rparr>,
     ts_UI = \<lparr>ui_Enabled = None, ui_Image = zeroImage, ui_Ports = [], ui_Common = zeroWorkload\<rparr>,
     ts_Console = \<lparr>con_Enabled = None, con_Image = zeroImage, con_Common = zeroWorkload\<rparr>,
     ts_Images = \<lparr>ci_TAMSin = [], ci_SchemaMigrationPostgresClient = []\<rparr>,
     ts_Backends = \<lparr>be_DB = zeroDBBackend, be_S3 = \<lparr>s3_ProvidedBy = [], s3_External = None, s3_RustFSOperator = None\<rparr>\<rparr>,
     ts_Auth = \<lparr>auth_ProvidedBy = [], auth_Required = False, auth_TrustForwardAuthHeaders = False,
       auth_OAuth2AllowUnscopedFullAccess = None, auth_External = None, auth_AuthentikBlueprints = None\<rparr>,
     ts_Hibernation = \<lparr>hib_Enabled = False, hib_Destination = None, hib_ResumeFrom = None\<rparr>,
     ts_Ingest = \<lparr>is_Mode = [], is_Sources = []\<rparr>,
     ts_Ingress = \<lparr>ing_Enabled = None, ing_ClassName = [], ing_Annotations = None, ing_TLS = [],
       ing_APIHost = [], ing_UIWebHost = []\<rparr>,
     ts_HTTPRoute = \<lparr>hr_Enabled = False, hr_APIHostnames = [], hr_UIHostnames = []\<rparr>,
     ts_NetworkPolicy = \<lparr>np_Enabled = None, np_API = noRules, np_UI = noRules, np_Worker = noRules,
       np_Console = noRules, np_KubernetesAPIIPBlocks = []\<rparr>,
     ts_Service = \<lparr>svc_APIPorts = [], svc_UIPorts = [], svc_ConsolePorts = []\<rparr>,
     ts_APIToken = \<lparr>ats_Generate = True, ats_Token = []\<rparr>, ts_ImagePullSecrets = []\<rparr>"

definition zeroLifecycle :: TamossLifecycleStatus where
  "zeroLifecycle = \<lparr>tls_Phase = LifecycleUnset, tls_Reason = [], tls_Message = [], tls_LastTransitionTime = None,
     tls_HibernationCycle = 0, tls_ActiveOperationRef = None, tls_LastHibernateRef = None, tls_LastResumeRef = None,
     tls_ResolvedRestore = None, tls_PendingArtifactCleanups = []\<rparr>"

definition zeroTamossStatus :: TamossStatus where
  "zeroTamossStatus = \<lparr>tst_CurrentVersion = [], tst_AppliedDefaultsRevision = [], tst_ObservedGeneration = 0,
     tst_Conditions = [],
     tst_Replicas = \<lparr>rps_API = zeroReplicas, rps_Worker = zeroReplicas, rps_UI = zeroReplicas, rps_Console = zeroReplicas\<rparr>,
     tst_Backends = \<lparr>bst_DB = [], bst_S3 = []\<rparr>,
     tst_Auth = \<lparr>aus_Provider = [], aus_PlatformNamespace = [], aus_ApplicationSlug = [], aus_ManagedBlueprint = []\<rparr>,
     tst_Endpoints = \<lparr>ep_API = [], ep_UI = [], ep_Auth = [], ep_S3 = []\<rparr>, tst_BackupPolicy = zeroBackupPolicy,
     tst_Providers = \<lparr>prs_DB = zeroDomain, prs_S3 = zeroDomain, prs_Auth = zeroDomain, prs_Routing = zeroDomain\<rparr>,
     tst_Resolved = zeroResolved, tst_SchemaVersion = [],
     tst_Upgrade = \<lparr>up_TargetVersion = [], up_Phase = [], up_Reason = [], up_Message = []\<rparr>,
     tst_SchemaMigration = zeroSchemaMigrationStatus,
     tst_Lifecycle = zeroLifecycle, tst_Phase = []\<rparr>"

definition zeroTamoss :: "string \<Rightarrow> string \<Rightarrow> Tamoss" where
  "zeroTamoss ns name =
     \<lparr>tm_Meta = emptyMeta\<lparr>om_Namespace := ns, om_Name := name\<rparr>, tm_Spec = zeroSpec, tm_Status = zeroTamossStatus\<rparr>"

definition consoleExample :: Tamoss where
  "consoleExample = zeroTamoss ''media'' ''demo'' \<lparr>tm_Spec := zeroSpec\<lparr>
     ts_Console := \<lparr>con_Enabled = Some True, con_Image = zeroImage, con_Common = zeroWorkload\<rparr>,
     ts_NetworkPolicy := (ts_NetworkPolicy zeroSpec)\<lparr>np_Enabled := Some True\<rparr>\<rparr>\<rparr>"

section \<open>Image references\<close>

lemma LastIndexByte_lower: "LastIndexByte s c \<ge> -1"
  by (induction s) (auto simp: Let_def)

lemma LastIndexByte_nth:
  "0 \<le> LastIndexByte s c \<Longrightarrow> nat (LastIndexByte s c) < length s \<and> s ! nat (LastIndexByte s c) = c"
  by (induction s) (auto simp: Let_def nat_add_distrib split: if_splits)

lemma IndexByte_nth: "0 \<le> IndexByte s c \<Longrightarrow> nat (IndexByte s c) < length s \<and> s ! nat (IndexByte s c) = c"
  by (induction s) (auto simp: Let_def nat_add_distrib split: if_splits)

lemma imageSeparator_nth:
  assumes "0 \<le> imageSeparator r"
  shows "nat (imageSeparator r) < length r" "r ! nat (imageSeparator r) \<in> {CHR '':'', CHR ''@''}"
proof -
  let ?at = "IndexByte r (CHR ''@'')"
  let ?b = "take (nat ?at) r"
  have "nat (imageSeparator r) < length r \<and> r ! nat (imageSeparator r) \<in> {CHR '':'', CHR ''@''}"
  proof (cases "0 \<le> ?at \<and> LastIndexByte ?b (CHR '':'') > LastIndexByte ?b (CHR ''/'')")
    case True
    then have "imageSeparator r = LastIndexByte ?b (CHR '':'')" by (simp add: imageSeparator_def Let_def)
    moreover from this have "nat (LastIndexByte ?b (CHR '':'')) < length ?b" "?b ! nat (LastIndexByte ?b (CHR '':'')) = CHR '':''"
      using LastIndexByte_nth [of ?b "CHR '':''"] assms by auto
    ultimately show ?thesis by (metis insertCI length_take min_less_iff_conj nth_take)
  next
    case False
    then show ?thesis
      using IndexByte_nth [of r "CHR ''@''"] LastIndexByte_nth [of r "CHR '':''"] assms
      by (auto simp: imageSeparator_def Let_def)
  qed
  then show "nat (imageSeparator r) < length r" "r ! nat (imageSeparator r) \<in> {CHR '':'', CHR ''@''}" by auto
qed

lemma splitImage_cases:
  assumes "splitImage r = (repository, tag)" "tag \<noteq> []"
  shows "r = repository @ '':'' @ tag \<or> (HasPrefix tag ''@'' \<and> r = repository @ tag)"
proof -
  let ?i = "nat (imageSeparator r)"
  have pos: "imageSeparator r > LastIndexByte r (CHR ''/'')"
    using assms by (auto simp: splitImage_def Let_def split: if_splits)
  then have ge: "0 \<le> imageSeparator r" using LastIndexByte_lower [of r "CHR ''/''"] by linarith
  note nth = imageSeparator_nth [OF ge]
  have r: "r = take ?i r @ r ! ?i # drop (Suc ?i) r" using nth(1) by (rule id_take_nth_drop)
  have "repository = take ?i r" "tag = (if r ! ?i = CHR ''@'' then ''@'' else []) @ drop (Suc ?i) r"
    using assms pos by (auto simp: splitImage_def Let_def)
  then show ?thesis using nth(2) r by (auto simp: HasPrefix_def)
qed



section \<open>Ingest source policy\<close>

text \<open>The setters of the profiles leave the other parts of the spec alone.\<close>

lemma on_Ingest [simp]:
  "ts_Ingest (onAPI f s) = ts_Ingest s" "ts_Ingest (onWorker f s) = ts_Ingest s"
  "ts_Ingest (onUI f s) = ts_Ingest s" "ts_Ingest (onConsole f s) = ts_Ingest s"
  "ts_Ingest (onDB g s) = ts_Ingest s" "ts_Ingest (onS3 h s) = ts_Ingest s"
  "ts_Ingest (enableWorker s) = ts_Ingest s"
  "ts_Ingest (defaultPlatformPublicEndpointWithoutAuthentik d s) = ts_Ingest s"
  "ts_Ingest (defaultPlatformPublicEndpoint d s) = ts_Ingest s"
  "ts_Ingest (defaultMultiServerNetworkPolicy name s) = ts_Ingest s"
  "ts_Ingest (defaultConsoleNetworkPolicy name s) = ts_Ingest s"
  by (simp_all add: onAPI_def onWorker_def onUI_def onConsole_def onDB_def onS3_def enableWorker_def
      defaultPlatformPublicEndpoint_def defaultPlatformPublicEndpointWithoutAuthentik_def
      defaultMultiServerNetworkPolicy_def defaultConsoleNetworkPolicy_def Let_def)

lemma on_Version [simp]:
  "ts_Version (onAPI f s) = ts_Version s" "ts_Version (onWorker f s) = ts_Version s"
  "ts_Version (onUI f s) = ts_Version s" "ts_Version (onConsole f s) = ts_Version s"
  "ts_Version (onDB g s) = ts_Version s" "ts_Version (onS3 h s) = ts_Version s"
  "ts_Version (enableWorker s) = ts_Version s"
  "ts_Version (defaultPlatformPublicEndpointWithoutAuthentik d s) = ts_Version s"
  "ts_Version (defaultPlatformPublicEndpoint d s) = ts_Version s"
  "ts_Version (defaultMultiServerNetworkPolicy name s) = ts_Version s"
  "ts_Version (defaultConsoleNetworkPolicy name s) = ts_Version s"
  by (simp_all add: onAPI_def onWorker_def onUI_def onConsole_def onDB_def onS3_def enableWorker_def
      defaultPlatformPublicEndpoint_def defaultPlatformPublicEndpointWithoutAuthentik_def
      defaultMultiServerNetworkPolicy_def defaultConsoleNetworkPolicy_def Let_def)

lemma applyProfile_Ingest:
  "ts_Ingest (applyProfile name s) =
     (if ts_Profile s = TamossProfileLocalKind
      then is_Mode_update (\<lambda>m. orElse m IngestSourcePolicyPublicHTTPS) (ts_Ingest s) else ts_Ingest s)"
  by (simp add: applyProfile_def applyLocalKind_def applySingleServer_def applyMultiServer_def applyEdge_def Let_def)

lemma applyProfile_Version [simp]: "ts_Version (applyProfile name s) = ts_Version s"
  by (simp add: applyProfile_def applyLocalKind_def applySingleServer_def applyMultiServer_def applyEdge_def Let_def)

lemma later_stages [simp]:
  "ts_Ingest (applyImageDefaults images s) = ts_Ingest s"
  "ts_Ingest (applyPublicEndpointDefaults s) = ts_Ingest s"
  "ts_Ingest (applyBaseComponentDefaults name s) = ts_Ingest s"
  "ts_Version (applyImageDefaults images s) = ts_Version s"
  "ts_Version (applyPublicEndpointDefaults s) = ts_Version s"
  "ts_Version (applyBaseComponentDefaults name s) = ts_Version s"
  by (simp_all add: applyImageDefaults_def applyPublicEndpointDefaults_def applyBaseComponentDefaults_def Let_def)

lemma applySpec_Version [simp]: "ts_Version (applySpec name images s) = ts_Version s"
  by (simp add: applySpec_def Let_def)

text \<open>
  After \<open>Apply\<close> the ingest source policy is what the user set; if nothing is set it is PublicHTTPS
  in the local-kind profile and Disabled in every other profile. So no other profile ingests from a
  source without an explicit policy.
\<close>

lemma Apply_ingest_policy:
  "is_Mode (ts_Ingest (tm_Spec (Apply t images))) =
     (if is_Mode (ts_Ingest (tm_Spec t)) \<noteq> [] then is_Mode (ts_Ingest (tm_Spec t))
      else if ts_Profile (tm_Spec t) = TamossProfileLocalKind then IngestSourcePolicyPublicHTTPS
      else IngestSourcePolicyDisabled)"
  by (simp add: Apply_def applySpec_def Let_def applyProfile_Ingest orElse_def)

section \<open>Console network policy\<close>

text \<open>
  C30: when \<open>Apply\<close> leaves the Console and its network policy enabled, the Console has at least one
  ingress and one egress rule, in every profile: the UI can reach it, and it can reach the API server.
\<close>

theorem Apply_console_reachable:
  assumes "ConsoleEnabled (tm_Spec (Apply t images))"
    and "networkPolicyIsEnabled (ts_NetworkPolicy (tm_Spec (Apply t images)))"
  shows "nps_Ingress (np_Console (ts_NetworkPolicy (tm_Spec (Apply t images)))) \<noteq> [] \<and>
         nps_Egress (np_Console (ts_NetworkPolicy (tm_Spec (Apply t images)))) \<noteq> []"
proof -
  obtain s where s: "tm_Spec (Apply t images) = defaultConsoleNetworkPolicy (tm_Name t) s"
    by (simp add: Apply_def applySpec_def applyBaseComponentDefaults_def Let_def)
  have ne: "consoleIngressRules n u p \<noteq> []" "consoleEgressRules bs \<noteq> []" for n u p bs
    by (simp_all add: consoleIngressRules_def consoleEgressRules_def)
  show ?thesis
    using assms unfolding s
    by (auto simp: defaultConsoleNetworkPolicy_def defaultRules_def ConsoleEnabled_def networkPolicyIsEnabled_def ne
        split: if_splits)
qed

theorem Apply_console_reachable_witness:
  "nps_Ingress (np_Console (ts_NetworkPolicy (tm_Spec (Apply consoleExample zeroImages)))) \<noteq> [] \<and>
   nps_Egress (np_Console (ts_NetworkPolicy (tm_Spec (Apply consoleExample zeroImages)))) \<noteq> []"
proof (rule Apply_console_reachable)
  show "ConsoleEnabled (tm_Spec (Apply consoleExample zeroImages))" by code_simp
  show "networkPolicyIsEnabled (ts_NetworkPolicy (tm_Spec (Apply consoleExample zeroImages)))" by code_simp
qed

end
