(* ===== verification/Release_Control.thy ===== *)
theory Release_Control
  imports Defaults_Laws
begin

text \<open>
  The release gate of the Tamoss controller (\<open>internal/controller/releases.go\<close>): resolving a Tamoss
  against the catalogue and the installation defaults, checking durable schema state, blocking a
  release, beginning one, and the completion recorded by \<open>patchTamossStatusObservation\<close>. The API
  reads and writes of one pass are arguments. \<open>release_step\<close> is one pass, or one edit by a user, and
  the versions an instance runs follow the upgrade paths of the catalogue along any sequence of them.
\<close>

section \<open>Status patches (status\_patch.go)\<close>

definition normalizeConditionTimes :: "Condition list \<Rightarrow> Condition list" where
  "normalizeConditionTimes cs = map (\<lambda>c. c\<lparr>cond_LastTransitionTime := 0\<rparr>) cs"

definition tamossStatusSemanticEqual :: "TamossStatus \<Rightarrow> TamossStatus \<Rightarrow> bool" where
  "tamossStatusSemanticEqual a b \<longleftrightarrow>
     (let timeless = (\<lambda>s. s\<lparr>tst_Conditions := normalizeConditionTimes (tst_Conditions s),
        tst_SchemaMigration := (tst_SchemaMigration s)\<lparr>sm_LastAttemptTime := None\<rparr>\<rparr>)
      in timeless a = timeless b)"

text \<open>
  \<open>write\<close> is the status write of the API client: it yields the stored object or an error. The events
  and metrics recorded afterwards have no effect on the object.
\<close>

definition patchTamossStatus :: "(Tamoss \<Rightarrow> Tamoss api) \<Rightarrow> Tamoss \<Rightarrow> Tamoss \<Rightarrow> error + Tamoss" where
  "patchTamossStatus write tamoss original =
     (if tamossStatusSemanticEqual (tm_Status original) (tm_Status tamoss) then Inr tamoss
      else case write tamoss of Inl e \<Rightarrow> Inl (APIError e) | Inr stored \<Rightarrow> Inr stored)"

section \<open>The release gate\<close>

datatype release_error = Selection SelectionError | StateRead api_error

definition selectionError :: "string \<Rightarrow> string \<Rightarrow> SelectionError" where
  "selectionError reason message = \<lparr>se_Reason = reason, se_Message = message\<rparr>"

definition resolveTamoss ::
    "kube_lib \<Rightarrow> Catalogue \<Rightarrow> Installation option \<Rightarrow> Tamoss \<Rightarrow> SelectionError + Tamoss" where
  "resolveTamoss lib catalogue installation tamoss =
     (case Select catalogue (ts_Version (tm_Spec tamoss)) (tst_CurrentVersion (tm_Status tamoss))
             (up_TargetVersion (tst_Upgrade (tm_Status tamoss))) of
        Inl err \<Rightarrow> Inl err
      | Inr release \<Rightarrow>
          (case installationApply lib installation tamoss of
             Inl err \<Rightarrow> Inl (selectionError ''InvalidInstallationDefaults'' err)
           | Inr resolved \<Rightarrow>
               (let s = tm_Spec resolved; b = ts_Backends s
                in if ts_Profile s = [] \<and> be_DB b = zeroDBBackend \<and> s3_ProvidedBy (be_S3 b) = [] \<and>
                      s3_External (be_S3 b) = None \<and> s3_RustFSOperator (be_S3 b) = None
                   then Inl (selectionError ''InstallationDefaultsRequired''
                     ''Configure installation defaults or set spec.profile and the instance settings explicitly'')
                   else Inr (Apply resolved (rel_Images release)))))"

definition releaseErrorReason :: "release_error \<Rightarrow> string" where
  "releaseErrorReason err = (case err of Selection s \<Rightarrow> se_Reason s | StateRead _ \<Rightarrow> ''VersionUnavailable'')"

text \<open>\<open>getState\<close> is the read of the schema-state ConfigMap: its data, by name.\<close>

definition validateReleaseState ::
    "kube_lib \<Rightarrow> Catalogue \<Rightarrow> Installation option \<Rightarrow> (string \<Rightarrow> string \<Rightarrow> (string \<rightharpoonup> string) api) \<Rightarrow> Tamoss \<Rightarrow> release_error + unit" where
  "validateReleaseState lib catalogue installation getState tamoss =
     (case Select catalogue (ts_Version (tm_Spec tamoss)) (tst_CurrentVersion (tm_Status tamoss))
             (up_TargetVersion (tst_Upgrade (tm_Status tamoss))) of
        Inl err \<Rightarrow> Inl (Selection err)
      | Inr release \<Rightarrow>
          (case resolveTamoss lib catalogue installation tamoss of
             Inl err \<Rightarrow> Inl (Selection err)
           | Inr _ \<Rightarrow>
               (case getState (tm_Namespace tamoss) (ResourceName tamoss ''schema-state'') of
                  Inl e \<Rightarrow> if e = NotFound then Inr () else Inl (StateRead e)
                | Inr data \<Rightarrow>
                    (let observed = mapGet data ''appliedVersion''
                     in if \<not> Supports (rel_Schema release) observed
                        then Inl (Selection (selectionError ''UnsupportedSchemaVersion''
                          (''Release '' @ Quote (rel_Version release) @ '' does not support installed schema '' @ Quote observed)))
                        else if tst_CurrentVersion (tm_Status tamoss) = [] \<and> observed \<noteq> [] \<and>
                            observed \<noteq> tgt_Version (rel_Schema release)
                        then Inl (Selection (selectionError ''VersionAdoptionRequired''
                          (''Pin the release matching installed schema '' @ Quote observed @ '' before selecting an upgrade'')))
                        else Inr ()))))"

definition releaseCondition :: "Tamoss \<Rightarrow> string \<Rightarrow> string \<Rightarrow> string \<Rightarrow> Condition" where
  "releaseCondition tamoss typ reason message =
     \<lparr>cond_Type = typ, cond_Status = ConditionFalse, cond_ObservedGeneration = om_Generation (tm_Meta tamoss),
      cond_LastTransitionTime = 0, cond_Reason = reason, cond_Message = message\<rparr>"

definition blockedRelease :: "kube_lib \<Rightarrow> SelectionError \<Rightarrow> Tamoss \<Rightarrow> Tamoss" where
  "blockedRelease lib err tamoss =
     (let st = tm_Status tamoss; reason = se_Reason err; message = se_Message err;
          cs = SetStatusCondition lib (tst_Conditions st) (releaseCondition tamoss ''Ready'' reason message);
          cs = SetStatusCondition lib cs (releaseCondition tamoss ''Upgradeable'' reason message)
      in tamoss\<lparr>tm_Status := st\<lparr>tst_ObservedGeneration := om_Generation (tm_Meta tamoss),
           tst_Phase := ''Degraded'', tst_Conditions := cs,
           tst_Upgrade := \<lparr>up_TargetVersion = up_TargetVersion (tst_Upgrade st), up_Phase = ''Blocked'',
             up_Reason = reason, up_Message = message\<rparr>\<rparr>\<rparr>)"

definition blockRelease ::
    "kube_lib \<Rightarrow> (Tamoss \<Rightarrow> Tamoss api) \<Rightarrow> SelectionError \<Rightarrow> Tamoss \<Rightarrow> error + Tamoss" where
  "blockRelease lib write err tamoss = patchTamossStatus write (blockedRelease lib err tamoss) tamoss"

text \<open>
  \<open>beginRelease\<close> keeps the resolved spec of the pass and takes over the status and the resource
  version of the stored object.
\<close>

definition beginRelease :: "kube_lib \<Rightarrow> (Tamoss \<Rightarrow> Tamoss api) \<Rightarrow> Tamoss \<Rightarrow> error + Tamoss" where
  "beginRelease lib write tamoss =
     (if tst_CurrentVersion (tm_Status tamoss) = ts_Version (tm_Spec tamoss) \<or>
         up_TargetVersion (tst_Upgrade (tm_Status tamoss)) \<noteq> [] then Inr tamoss
      else
        (let st = tm_Status tamoss;
             statusCopy = tamoss\<lparr>tm_Status := st\<lparr>
               tst_Upgrade := (tst_Upgrade st)\<lparr>up_TargetVersion := ts_Version (tm_Spec tamoss)\<rparr>,
               tst_Conditions := SetStatusCondition lib (tst_Conditions st)
                 (releaseCondition tamoss ''Ready'' ''ReleaseProgressing'' ''Reconciling the selected release'')\<rparr>\<rparr>
         in case patchTamossStatus write statusCopy tamoss of
              Inl err \<Rightarrow> Inl err
            | Inr stored \<Rightarrow> Inr (tamoss\<lparr>tm_Status := tm_Status stored,
                tm_Meta := (tm_Meta tamoss)\<lparr>om_ResourceVersion := om_ResourceVersion (tm_Meta stored)\<rparr>\<rparr>)))"

text \<open>
  The version bookkeeping of \<open>patchTamossStatusObservation\<close> (\<open>tamoss_status.go\<close>): a pass that found the
  instance ready and its schema ready completes the release.
\<close>

definition recordRelease :: "Installation option \<Rightarrow> bool \<Rightarrow> bool \<Rightarrow> Tamoss \<Rightarrow> Tamoss" where
  "recordRelease installation ready schemaReady tamoss =
     (if ready \<and> schemaReady
      then tamoss\<lparr>tm_Status := (tm_Status tamoss)\<lparr>tst_CurrentVersion := ts_Version (tm_Spec tamoss),
             tst_AppliedDefaultsRevision := Revision installation,
             tst_Upgrade := (tst_Upgrade (tm_Status tamoss))\<lparr>up_TargetVersion := []\<rparr>\<rparr>\<rparr>
      else tamoss)"

section \<open>Passes and edits\<close>

abbreviation "currentVersion (t :: Tamoss) \<equiv> tst_CurrentVersion (tm_Status t)"
abbreviation "targetVersion (t :: Tamoss) \<equiv> up_TargetVersion (tst_Upgrade (tm_Status t))"
abbreviation "wantedVersion (t :: Tamoss) \<equiv> ts_Version (tm_Spec t)"

text \<open>The status write stores the status it is given, whatever else it returns.\<close>

definition storing :: "(Tamoss \<Rightarrow> Tamoss api) \<Rightarrow> bool" where
  "storing write \<longleftrightarrow> (\<forall>t t'. write t = Inr t' \<longrightarrow> tm_Status t' = tm_Status t)"

text \<open>
  One step of an instance: a user edits its spec and metadata, a pass blocks the release, or a pass
  begins it and, if it finds the instance ready, completes it. A pass works on the spec it loaded.
\<close>

inductive release_step :: "Catalogue \<Rightarrow> Tamoss \<Rightarrow> Tamoss \<Rightarrow> bool" for c where
  edit: "tm_Status t' = tm_Status t \<Longrightarrow> release_step c t t'"
| blocked: "validateReleaseState lib c inst getState t = Inl (Selection err) \<Longrightarrow> storing write \<Longrightarrow>
    blockRelease lib write err t = Inr t' \<Longrightarrow> release_step c t t'"
| passed: "validateReleaseState lib c inst getState t = Inr () \<Longrightarrow> resolveTamoss lib c inst t = Inr resolved \<Longrightarrow>
    storing write \<Longrightarrow> beginRelease lib write resolved = Inr begun \<Longrightarrow>
    recordRelease inst ready schemaReady begun = t' \<Longrightarrow> release_step c t t'"

text \<open>The upgrade edges of a catalogue; the empty version is an instance that runs none yet.\<close>

definition upgrade_edge :: "Catalogue \<Rightarrow> string \<Rightarrow> string \<Rightarrow> bool" where
  "upgrade_edge c v w \<longleftrightarrow> (\<exists>r. c w = Some r \<and> (v = [] \<or> v \<in> set (rel_UpgradeFrom r)))"

text \<open>An instance at 1.0 that wants 1.1, for the concrete runs below.\<close>

definition upgrading :: Tamoss where
  "upgrading = zeroTamoss ''media'' ''demo''\<lparr>
     tm_Spec := zeroSpec\<lparr>ts_Version := ''1.1'', ts_Profile := TamossProfileEdge\<rparr>,
     tm_Status := zeroTamossStatus\<lparr>tst_CurrentVersion := ''1.0''\<rparr>\<rparr>"

definition noState :: "string \<Rightarrow> string \<Rightarrow> (string \<rightharpoonup> string) api" where
  "noState ns name = Inl NotFound"

section \<open>Lemmas\<close>

lemma patchTamossStatus_versions:
  assumes "patchTamossStatus write t original = Inr stored" "storing write"
  shows "tm_Status stored = tm_Status t"
  using assms by (auto simp: patchTamossStatus_def storing_def split: if_splits sum.splits)

lemma installSpec_Version:
  assumes "installSpec lib c t = Inr s"
  shows "ts_Version s = ts_Version (tm_Spec t)"
  using assms unfolding installSpec_def Let_def
  by (clarsimp split: if_split_asm)

lemma installationApply_keeps:
  assumes "installationApply lib inst t = Inr t'"
  shows "tm_Status t' = tm_Status t \<and> wantedVersion t' = wantedVersion t"
  using assms unfolding installationApply_def
  by (auto split: option.split_asm sum.split_asm dest: installSpec_Version)

lemma Apply_keeps: "tm_Status (Apply t images) = tm_Status t" "wantedVersion (Apply t images) = wantedVersion t"
  by (simp_all add: Apply_def)

lemma resolveTamoss_Inr:
  assumes "resolveTamoss lib c inst t = Inr r"
  obtains rel t' where "Select c (wantedVersion t) (currentVersion t) (targetVersion t) = Inr rel"
    "installationApply lib inst t = Inr t'" "r = Apply t' (rel_Images rel)"
  using assms unfolding resolveTamoss_def Let_def by (auto split: sum.split_asm if_split_asm)

lemma resolveTamoss_keeps:
  assumes "resolveTamoss lib c inst t = Inr r"
  shows "tm_Status r = tm_Status t" "wantedVersion r = wantedVersion t"
    "\<exists>rel. Select c (wantedVersion t) (currentVersion t) (targetVersion t) = Inr rel"
  using resolveTamoss_Inr [OF assms] installationApply_keeps by (metis Apply_keeps)+

lemma blockRelease_versions:
  assumes "blockRelease lib write err t = Inr t'" "storing write"
  shows "currentVersion t' = currentVersion t \<and> targetVersion t' = targetVersion t"
  using patchTamossStatus_versions [OF assms(1) [unfolded blockRelease_def] assms(2)]
  by (simp add: blockedRelease_def Let_def)

lemma beginRelease_versions:
  assumes "beginRelease lib write t = Inr t'" "storing write"
  shows "currentVersion t' = currentVersion t \<and> wantedVersion t' = wantedVersion t \<and>
    (targetVersion t' = targetVersion t \<or> targetVersion t = [] \<and> targetVersion t' = wantedVersion t)"
  using assms
  by (auto simp: beginRelease_def Let_def split: if_splits sum.splits dest!: patchTamossStatus_versions)

text \<open>What a passed gate does to the versions.\<close>

lemma passed_versions:
  assumes "resolveTamoss lib c inst t = Inr resolved" "storing write" "beginRelease lib write resolved = Inr begun"
  shows "currentVersion begun = currentVersion t" "wantedVersion begun = wantedVersion t"
    "targetVersion begun = targetVersion t \<or> targetVersion t = [] \<and> targetVersion begun = wantedVersion t"
    "\<exists>rel. Select c (wantedVersion t) (currentVersion t) (targetVersion t) = Inr rel"
  using resolveTamoss_keeps [OF assms(1)] beginRelease_versions [OF assms(3,2)] by auto

text \<open>What one step does to the versions.\<close>

lemma release_step_versions:
  assumes "release_step c t t'"
  shows "currentVersion t' = currentVersion t \<and>
      (targetVersion t' = targetVersion t \<or> targetVersion t = [] \<and> targetVersion t' = wantedVersion t) \<or>
    currentVersion t' = wantedVersion t \<and> targetVersion t' = [] \<and>
      (\<exists>rel. Select c (wantedVersion t) (currentVersion t) (targetVersion t) = Inr rel)"
  using assms
proof cases
  case blocked
  then show ?thesis using blockRelease_versions by blast
next
  case (passed lib inst getState resolved wr begun ready schemaReady)
  note v = passed_versions [OF passed(2,3,4)]
  show ?thesis
    using v passed(5) by (cases "ready \<and> schemaReady") (auto simp: recordRelease_def)
qed simp

lemma upgrading_passes:
  "validateReleaseState refLib exampleCatalogue None noState upgrading = Inr ()"
  "\<exists>r. resolveTamoss refLib exampleCatalogue None upgrading = Inr r"
proof -
  have sel: "Select exampleCatalogue ''1.1'' ''1.0'' [] = Inr (exampleRelease ''1.1'' [''1.0''])"
    by (simp add: Select_def exampleCatalogue_def exampleRelease_def)
  have up: "wantedVersion upgrading = ''1.1''" "currentVersion upgrading = ''1.0''" "targetVersion upgrading = []"
    "ts_Profile (tm_Spec upgrading) = ''edge''"
    by (simp_all add: upgrading_def zeroTamossStatus_def zeroSpec_def)
  show r: "\<exists>r. resolveTamoss refLib exampleCatalogue None upgrading = Inr r"
    by (simp add: resolveTamoss_def installationApply_def up sel)
  then show "validateReleaseState refLib exampleCatalogue None noState upgrading = Inr ()"
    by (auto simp: validateReleaseState_def noState_def up sel)
qed

lemma upgrading_completes:
  "\<exists>t'. release_step exampleCatalogue upgrading t' \<and> currentVersion t' = ''1.1''"
proof -
  obtain r where r: "resolveTamoss refLib exampleCatalogue None upgrading = Inr r"
    using upgrading_passes(2) by blast
  have st: "storing Inr" by (simp add: storing_def)
  have "\<exists>b. beginRelease refLib Inr r = Inr b"
    by (simp add: beginRelease_def patchTamossStatus_def Let_def)
  then obtain b where b: "beginRelease refLib Inr r = Inr b" by blast
  let ?t' = "recordRelease None True True b"
  have "release_step exampleCatalogue upgrading ?t'"
    by (rule release_step.passed [OF upgrading_passes(1) r st b]) simp
  moreover have "currentVersion ?t' = ''1.1''"
    using passed_versions [OF r st b] by (simp add: recordRelease_def upgrading_def)
  ultimately show ?thesis by blast
qed

section \<open>Properties\<close>





text \<open>
  C25: a pass that gets through the gate with recorded schema state runs a release that supports the
  installed schema; and an instance without a recorded version is adopted only at the release whose
  schema version is the installed one.
\<close>

theorem gate_checks_schema:
  assumes "validateReleaseState lib c inst getState t = Inr ()"
    and "getState (tm_Namespace t) (ResourceName t ''schema-state'') = Inr data"
  shows "\<exists>rel. Select c (wantedVersion t) (currentVersion t) (targetVersion t) = Inr rel \<and>
    Supports (rel_Schema rel) (mapGet data ''appliedVersion'') \<and>
    (currentVersion t = [] \<longrightarrow> mapGet data ''appliedVersion'' = [] \<or>
       mapGet data ''appliedVersion'' = tgt_Version (rel_Schema rel))"
  using assms unfolding validateReleaseState_def Let_def by (auto split: sum.split_asm if_split_asm)

theorem gate_checks_schema_witness:
  "\<exists>rel. Select exampleCatalogue (wantedVersion upgrading) (currentVersion upgrading) (targetVersion upgrading) = Inr rel \<and>
    Supports (rel_Schema rel) (mapGet [''appliedVersion'' \<mapsto> ''1.1''] ''appliedVersion'')"
proof -
  have "validateReleaseState refLib exampleCatalogue None (\<lambda>_ _. Inr [''appliedVersion'' \<mapsto> ''1.1'']) upgrading = Inr ()"
    using upgrading_passes
    by (auto simp: validateReleaseState_def noState_def Supports_def mapGet_def upgrading_def zeroTamossStatus_def
        zeroSpec_def Select_def exampleCatalogue_def exampleRelease_def TrimSpace_def TrimRightFunc_def
        TrimLeftFunc_def isSpace_def)
  from gate_checks_schema [OF this] show ?thesis by blast
qed

end
