(* ===== verification/Go_Json.thy ===== *)
theory Go_Json
  imports Go_Base
begin

text \<open>
  Package \<open>encoding/json\<close>: decoding a document into a dynamic value (\<open>Unmarshal\<close> into \<open>any\<close> or into a
  map), encoding strings (\<open>Marshal\<close>, with its HTML escaping), and the compaction that \<open>Marshal\<close>
  applies to a \<open>json.RawMessage\<close>. The decoder is the byte-at-a-time scanner of the package: a lexical
  state, what may come next, and the stack of open arrays and objects. Bytes outside ASCII are copied;
  the text is taken to be valid UTF-8.
\<close>

datatype json =
    JNull
  | JBool bool
  | JNum string
  | JStr string
  | JArr "json list"
  | JObj "(string \<times> json) list"

section \<open>Decoding\<close>

datatype numState = Neg | Zero | Digits | Dot | Frac | Expo | ExpoSign | ExpoDigits

datatype lexState =
    Idle
  | InStr string                                  \<comment> \<open>the decoded bytes, last one first\<close>
  | InEsc string
  | InHex string nat nat "nat option"             \<comment> \<open>digits left, value, pending high surrogate\<close>
  | AfterHigh string nat                          \<comment> \<open>after a high surrogate\<close>
  | AfterHighEsc string nat
  | InNum numState string
  | InLit string json

datatype expect = ValueNext | ValueOrEnd | KeyOrEnd | KeyNext | ColonNext | CommaOrEnd | Finished

datatype frame = FArr "json list" | FObj "(string \<times> json) list" string

datatype scan = Scan lexState expect "frame list" json | Broken

text \<open>The nesting limit of the package.\<close>

definition maxNestingDepth :: int where
  "maxNestingDepth = 10000"

definition jsonSpace :: "char \<Rightarrow> bool" where
  "jsonSpace c \<longleftrightarrow> c = CHR '' '' \<or> c = CHR 0x09 \<or> c = CHR 0x0A \<or> c = CHR 0x0D"

definition jsonDigit :: "char \<Rightarrow> bool" where
  "jsonDigit c \<longleftrightarrow> CHR ''0'' \<le> c \<and> c \<le> CHR ''9''"

definition emitValue :: "json \<Rightarrow> frame list \<Rightarrow> scan" where
  "emitValue v st =
     (case st of
        [] \<Rightarrow> Scan Idle Finished [] v
      | FArr vs # r \<Rightarrow> Scan Idle CommaOrEnd (FArr (v # vs) # r) JNull
      | FObj ms k # r \<Rightarrow> Scan Idle CommaOrEnd (FObj ((k, v) # ms) [] # r) JNull)"

definition pushFrame :: "frame \<Rightarrow> expect \<Rightarrow> frame list \<Rightarrow> scan" where
  "pushFrame f e st = (if int (length st) + 1 > maxNestingDepth then Broken else Scan Idle e (f # st) JNull)"

definition beginValue :: "char \<Rightarrow> expect \<Rightarrow> frame list \<Rightarrow> scan" where
  "beginValue c e st =
     (if c = CHR ''{'' then pushFrame (FObj [] []) KeyOrEnd st
      else if c = CHR ''['' then pushFrame (FArr []) ValueOrEnd st
      else if c = CHR 0x22 then Scan (InStr []) e st JNull
      else if c = CHR ''-'' then Scan (InNum Neg [c]) e st JNull
      else if c = CHR ''0'' then Scan (InNum Zero [c]) e st JNull
      else if jsonDigit c then Scan (InNum Digits [c]) e st JNull
      else if c = CHR ''t'' then Scan (InLit ''rue'' (JBool True)) e st JNull
      else if c = CHR ''f'' then Scan (InLit ''alse'' (JBool False)) e st JNull
      else if c = CHR ''n'' then Scan (InLit ''ull'' JNull) e st JNull
      else Broken)"

definition endFrame :: "char \<Rightarrow> frame list \<Rightarrow> scan" where
  "endFrame c st =
     (case st of
        FArr vs # r \<Rightarrow> if c = CHR '']'' then emitValue (JArr (rev vs)) r else Broken
      | FObj ms k # r \<Rightarrow> if c = CHR ''}'' then emitValue (JObj (rev ms)) r else Broken
      | [] \<Rightarrow> Broken)"

definition idleStep :: "char \<Rightarrow> expect \<Rightarrow> frame list \<Rightarrow> json \<Rightarrow> scan" where
  "idleStep c e st v =
     (if jsonSpace c then Scan Idle e st v
      else case e of
          ValueNext \<Rightarrow> beginValue c e st
        | ValueOrEnd \<Rightarrow> if c = CHR '']'' then endFrame c st else beginValue c e st
        | KeyOrEnd \<Rightarrow>
            if c = CHR ''}'' then endFrame c st
            else if c = CHR 0x22 then Scan (InStr []) e st JNull else Broken
        | KeyNext \<Rightarrow> if c = CHR 0x22 then Scan (InStr []) e st JNull else Broken
        | ColonNext \<Rightarrow> if c = CHR '':'' then Scan Idle ValueNext st JNull else Broken
        | CommaOrEnd \<Rightarrow>
            if c = CHR '','' then
              (case st of FArr _ # _ \<Rightarrow> Scan Idle ValueNext st JNull
                | FObj _ _ # _ \<Rightarrow> Scan Idle KeyNext st JNull | [] \<Rightarrow> Broken)
            else endFrame c st
        | Finished \<Rightarrow> Broken)"

definition endString :: "string \<Rightarrow> expect \<Rightarrow> frame list \<Rightarrow> scan" where
  "endString acc e st =
     (if e = KeyOrEnd \<or> e = KeyNext then
        (case st of FObj ms _ # r \<Rightarrow> Scan Idle ColonNext (FObj ms (rev acc) # r) JNull | _ \<Rightarrow> Broken)
      else emitValue (JStr (rev acc)) st)"

definition escapeChar :: "char \<Rightarrow> char option" where
  "escapeChar c = map_of
     [(CHR ''b'', CHR 0x08), (CHR ''f'', CHR 0x0C), (CHR ''n'', CHR 0x0A), (CHR ''r'', CHR 0x0D),
      (CHR ''t'', CHR 0x09), (CHR 0x5C, CHR 0x5C), (CHR ''/'', CHR ''/''), (CHR 0x22, CHR 0x22)] c"

definition jsonHex :: "char \<Rightarrow> nat option" where
  "jsonHex c =
     (if jsonDigit c then Some (of_char c - 48)
      else if CHR ''a'' \<le> c \<and> c \<le> CHR ''f'' then Some (of_char c - 87)
      else if CHR ''A'' \<le> c \<and> c \<le> CHR ''F'' then Some (of_char c - 55)
      else None)"

text \<open>The UTF-8 encoding of a code point, last byte first.\<close>

definition utf8rev :: "nat \<Rightarrow> string" where
  "utf8rev r =
     (if r < 128 then [char_of r]
      else if r < 2048 then [char_of (128 + r mod 64), char_of (192 + r div 64)]
      else if r < 65536
        then [char_of (128 + r mod 64), char_of (128 + r div 64 mod 64), char_of (224 + r div 4096)]
      else [char_of (128 + r mod 64), char_of (128 + r div 64 mod 64), char_of (128 + r div 4096 mod 64),
            char_of (240 + r div 262144)])"

definition replacementChar :: nat where
  "replacementChar = 65533"

definition isHighSurrogate :: "nat \<Rightarrow> bool" where
  "isHighSurrogate r \<longleftrightarrow> 55296 \<le> r \<and> r < 56320"

definition isLowSurrogate :: "nat \<Rightarrow> bool" where
  "isLowSurrogate r \<longleftrightarrow> 56320 \<le> r \<and> r < 57344"

text \<open>A decoded \<open>\uXXXX\<close>: a high surrogate waits for its low half, a lone one becomes U+FFFD.\<close>

definition endHex :: "string \<Rightarrow> nat \<Rightarrow> nat option \<Rightarrow> lexState" where
  "endHex acc r high =
     (case high of
        Some h \<Rightarrow>
          if isLowSurrogate r
          then InStr (utf8rev (65536 + (h - 55296) * 1024 + (r - 56320)) @ acc)
          else if isHighSurrogate r then AfterHigh (utf8rev replacementChar @ acc) r
          else InStr (utf8rev r @ utf8rev replacementChar @ acc)
      | None \<Rightarrow>
          if isHighSurrogate r then AfterHigh acc r
          else if isLowSurrogate r then InStr (utf8rev replacementChar @ acc)
          else InStr (utf8rev r @ acc))"

definition stringStep :: "char \<Rightarrow> string \<Rightarrow> expect \<Rightarrow> frame list \<Rightarrow> scan" where
  "stringStep c acc e st =
     (if c = CHR 0x22 then endString acc e st
      else if c = CHR 0x5C then Scan (InEsc acc) e st JNull
      else if c < CHR '' '' then Broken
      else Scan (InStr (c # acc)) e st JNull)"

definition escStep :: "char \<Rightarrow> string \<Rightarrow> nat option \<Rightarrow> expect \<Rightarrow> frame list \<Rightarrow> scan" where
  "escStep c acc high e st =
     (if c = CHR ''u'' then Scan (InHex acc 4 0 high) e st JNull
      else case escapeChar c of
          Some x \<Rightarrow> Scan (InStr (x # (if high = None then acc else utf8rev replacementChar @ acc))) e st JNull
        | None \<Rightarrow> Broken)"

definition numStep :: "numState \<Rightarrow> char \<Rightarrow> numState option" where
  "numStep n c =
     (case n of
        Neg \<Rightarrow> if c = CHR ''0'' then Some Zero else if jsonDigit c then Some Digits else None
      | Zero \<Rightarrow> if c = CHR ''.'' then Some Dot else if c = CHR ''e'' \<or> c = CHR ''E'' then Some Expo else None
      | Digits \<Rightarrow> if jsonDigit c then Some Digits else if c = CHR ''.'' then Some Dot
          else if c = CHR ''e'' \<or> c = CHR ''E'' then Some Expo else None
      | Dot \<Rightarrow> if jsonDigit c then Some Frac else None
      | Frac \<Rightarrow> if jsonDigit c then Some Frac else if c = CHR ''e'' \<or> c = CHR ''E'' then Some Expo else None
      | Expo \<Rightarrow> if c = CHR ''+'' \<or> c = CHR ''-'' then Some ExpoSign
          else if jsonDigit c then Some ExpoDigits else None
      | ExpoSign \<Rightarrow> if jsonDigit c then Some ExpoDigits else None
      | ExpoDigits \<Rightarrow> if jsonDigit c then Some ExpoDigits else None)"

definition numComplete :: "numState \<Rightarrow> bool" where
  "numComplete n \<longleftrightarrow> n = Zero \<or> n = Digits \<or> n = Frac \<or> n = ExpoDigits"

definition numberStep :: "char \<Rightarrow> numState \<Rightarrow> string \<Rightarrow> expect \<Rightarrow> frame list \<Rightarrow> scan" where
  "numberStep c n acc e st =
     (case numStep n c of
        Some n' \<Rightarrow> Scan (InNum n' (c # acc)) e st JNull
      | None \<Rightarrow>
          if \<not> numComplete n then Broken
          else (case emitValue (JNum (rev acc)) st of
                  Scan _ e' st' v \<Rightarrow> idleStep c e' st' v | Broken \<Rightarrow> Broken))"

fun scanStep :: "scan \<Rightarrow> char \<Rightarrow> scan" where
  "scanStep Broken c = Broken"
| "scanStep (Scan Idle e st v) c = idleStep c e st v"
| "scanStep (Scan (InStr acc) e st v) c = stringStep c acc e st"
| "scanStep (Scan (InEsc acc) e st v) c = escStep c acc None e st"
| "scanStep (Scan (InHex acc n r high) e st v) c =
     (case jsonHex c of
        None \<Rightarrow> Broken
      | Some d \<Rightarrow>
          if n \<le> 1 then Scan (endHex acc (16 * r + d) high) e st JNull
          else Scan (InHex acc (n - 1) (16 * r + d) high) e st JNull)"
| "scanStep (Scan (AfterHigh acc h) e st v) c =
     (if c = CHR 0x5C then Scan (AfterHighEsc acc h) e st JNull
      else stringStep c (utf8rev replacementChar @ acc) e st)"
| "scanStep (Scan (AfterHighEsc acc h) e st v) c = escStep c acc (Some h) e st"
| "scanStep (Scan (InNum n acc) e st v) c = numberStep c n acc e st"
| "scanStep (Scan (InLit rest lit) e st v) c =
     (case rest of
        [] \<Rightarrow> Broken
      | x # r \<Rightarrow>
          if c \<noteq> x then Broken
          else if r = [] then emitValue lit st else Scan (InLit r lit) e st JNull)"

text \<open>The end of the input counts as a blank, which completes a number at the top level.\<close>

definition Unmarshal :: "string \<Rightarrow> json option" where
  "Unmarshal s =
     (case scanStep (foldl scanStep (Scan Idle ValueNext [] JNull) s) (CHR '' '') of
        Scan Idle Finished [] v \<Rightarrow> Some v
      | _ \<Rightarrow> None)"

text \<open>\<open>Unmarshal\<close> into a map: an object gives its entries, \<open>null\<close> the nil map, the rest is an error.\<close>

definition UnmarshalMap :: "string \<Rightarrow> (string \<times> json) list option" where
  "UnmarshalMap s =
     (case Unmarshal s of Some (JObj ms) \<Rightarrow> Some ms | Some JNull \<Rightarrow> Some [] | _ \<Rightarrow> None)"

section \<open>Encoding\<close>

definition hexEscape :: "nat \<Rightarrow> string" where
  "hexEscape n = CHR 0x5C # ''u00'' @ [digit (n div 16), digit (n mod 16)]"

definition marshalByte :: "char \<Rightarrow> string" where
  "marshalByte c =
     (if c = CHR 0x22 \<or> c = CHR 0x5C then [CHR 0x5C, c]
      else if c = CHR 0x08 then CHR 0x5C # ''b''
      else if c = CHR 0x0C then CHR 0x5C # ''f''
      else if c = CHR 0x0A then CHR 0x5C # ''n''
      else if c = CHR 0x0D then CHR 0x5C # ''r''
      else if c = CHR 0x09 then CHR 0x5C # ''t''
      else if c < CHR '' '' \<or> c = CHR ''<'' \<or> c = CHR ''>'' \<or> c = CHR ''&'' then hexEscape (of_char c)
      else [c])"

text \<open>U+2028 and U+2029 are escaped too.\<close>

fun marshalBytes :: "string \<Rightarrow> string" where
  "marshalBytes (a # b # c # s) =
     (if a = CHR 0xE2 \<and> b = CHR 0x80 \<and> (c = CHR 0xA8 \<or> c = CHR 0xA9)
      then CHR 0x5C # ''u202'' @ [digit (of_char c mod 16)] @ marshalBytes s
      else marshalByte a @ marshalBytes (b # c # s))"
| "marshalBytes (a # s) = marshalByte a @ marshalBytes s"
| "marshalBytes [] = []"

definition marshalString :: "string \<Rightarrow> string" where
  "marshalString s = [CHR 0x22] @ marshalBytes s @ [CHR 0x22]"

fun compactBytes :: "bool \<Rightarrow> bool \<Rightarrow> string \<Rightarrow> string" where
  "compactBytes inStr esc [] = []"
| "compactBytes inStr esc (c # s) =
     (let inStr' = (if c = CHR 0x22 \<and> \<not> esc then \<not> inStr else inStr);
          esc' = (inStr \<and> \<not> esc \<and> c = CHR 0x5C);
          rest = compactBytes inStr' esc' s
      in if \<not> inStr \<and> jsonSpace c then rest
         else if c = CHR ''<'' \<or> c = CHR ''>'' \<or> c = CHR ''&'' then hexEscape (of_char c) @ rest
         else if c = CHR 0xE2 \<and> (take 2 s = [CHR 0x80, CHR 0xA8] \<or> take 2 s = [CHR 0x80, CHR 0xA9])
           then CHR 0x5C # ''u202'' @ [digit (of_char (s ! 1) mod 16)] @ drop 2 rest
         else c # rest)"

text \<open>\<open>Marshal\<close> of a \<open>json.RawMessage\<close>: a nil message is \<open>null\<close>, an invalid one an error.\<close>

definition marshalRaw :: "string \<Rightarrow> string option" where
  "marshalRaw raw =
     (if raw = [] then Some ''null''
      else case Unmarshal raw of None \<Rightarrow> None | Some _ \<Rightarrow> Some (compactBytes False False raw))"

text \<open>An object from its already encoded members, in the order given.\<close>

definition marshalObject :: "(string \<times> string) list \<Rightarrow> string" where
  "marshalObject ms = ''{'' @ Join '','' (map (\<lambda>(k, v). marshalString k @ '':'' @ v) ms) @ ''}''"

end
