(* ===== verification/Ingest_Types.thy ===== *)
theory Ingest_Types
  imports Release_Control Go_Json
begin

text \<open>
  The IngestRun resource (\<open>api/v1alpha1/ingestrun_types.go\<close>), the validation and encoding of its output
  metadata (\<open>ingestrun_output.go\<close>) and the tag union it shares with storage backends
  (\<open>storagebackend_tags.go\<close>). A Go map from tags to raw JSON is its association list in ascending order
  of keys, the order in which the code visits it; an option tells the nil map or slice from an empty
  one where the code compares specs with \<open>reflect.DeepEqual\<close>.
\<close>

section \<open>The resource\<close>

datatype IngestRunPhase = IngestUnset | IngestPending | IngestQueued | IngestRunning | IngestSucceeded
  | IngestPartiallySucceeded | IngestFailed | IngestCancelled

record IngestRunInput =
  iri_Kind :: string
  iri_URI :: string
  iri_SourceRef :: "string option"

record IngestRunReference =
  irr_Name :: string
  irr_UID :: string

record IngestRunTAMSFlowProfile =
  ifp_Format :: string
  ifp_Index :: int
  ifp_ProfileID :: string
  ifp_ProfileRef :: "string option"

record IngestRunOptions =
  iro_StorageBackendRef :: "string option"
  iro_Verify :: "bool option"
  iro_DryRun :: bool
  iro_MaxInputs :: int
  iro_Concurrency :: int
  iro_TAMSFlowProfiles :: "IngestRunTAMSFlowProfile list option"

record IngestRunFlowMetadata =
  ifm_Label :: string
  ifm_Description :: string
  ifm_Tags :: "(string \<times> string) list option"

record IngestRunOutputIntent =
  ioi_FlowMetadata :: IngestRunFlowMetadata

record IngestRunSpec =
  irs_TamossRef :: string
  irs_Input :: IngestRunInput
  irs_Profile :: string
  irs_SizeClass :: string
  irs_Options :: IngestRunOptions
  irs_Output :: "IngestRunOutputIntent option"
  irs_DesiredState :: string
  irs_RetryOf :: "IngestRunReference option"

record IngestRunJobStatus =
  ijs_Name :: string
  ijs_UID :: string

record IngestRunResolvedSourceStatus =
  irsrc_Name :: string
  irsrc_PolicyDigest :: string

record IngestRunResolvedFlowProfileStatus =
  irp_Format :: string
  irp_Index :: int
  irp_ProfileID :: string
  irp_ProfileRef :: string

record IngestRunProgressStatus =
  ipg_InputsTotal :: int
  ipg_InputsCompleted :: int
  ipg_InputsSucceeded :: int
  ipg_InputsFailed :: int
  ipg_BytesUploaded :: int

record IngestRunResultStatus =
  irt_Key :: string
  irt_SHA256 :: string
  irt_Size :: int
  irt_MediaType :: string
  irt_Verified :: bool

record IngestRunOutputFlowStatus =
  iof_ID :: string
  iof_Format :: string
  iof_Role :: string

record IngestRunOutputStatus =
  ios_RootFlowID :: string
  ios_SourceID :: string
  ios_MemberFlows :: "IngestRunOutputFlowStatus list option"
  ios_MemberFlowsTruncated :: bool

record IngestRunStatus =
  ist_ObservedGeneration :: int
  ist_Phase :: IngestRunPhase
  ist_Conditions :: "Condition list"
  ist_JobRef :: IngestRunJobStatus
  ist_ResolvedSource :: IngestRunResolvedSourceStatus
  ist_ResolvedTAMSFlowProfiles :: "IngestRunResolvedFlowProfileStatus list option"
  ist_TamsinRunID :: string
  ist_Attempt :: int
  ist_Progress :: IngestRunProgressStatus
  ist_LastEventSequence :: int
  ist_ResultRef :: IngestRunResultStatus
  ist_Output :: "IngestRunOutputStatus option"
  ist_StartedAt :: "time option"
  ist_CompletedAt :: "time option"

record IngestRun =
  ir_Meta :: ObjectMeta
  ir_Spec :: IngestRunSpec
  ir_Status :: IngestRunStatus

abbreviation "ir_Name r \<equiv> om_Name (ir_Meta r)"
abbreviation "ir_Namespace r \<equiv> om_Namespace (ir_Meta r)"

section \<open>Tags and output metadata\<close>

datatype tag_error = TagInvalidJSON string | TagNotStrings string | TagNotStringOrArray string

definition isJStr :: "json \<Rightarrow> bool" where
  "isJStr v = (case v of JStr _ \<Rightarrow> True | _ \<Rightarrow> False)"

definition validateTag :: "string \<times> string \<Rightarrow> tag_error option" where
  "validateTag kv =
     (case kv of (key, raw) \<Rightarrow>
        (case Unmarshal raw of
           None \<Rightarrow> Some (TagInvalidJSON key)
         | Some (JStr _) \<Rightarrow> None
         | Some (JArr items) \<Rightarrow> if list_all isJStr items then None else Some (TagNotStrings key)
         | Some _ \<Rightarrow> Some (TagNotStringOrArray key)))"

fun ValidateTAMSTags :: "(string \<times> string) list \<Rightarrow> tag_error + unit" where
  "ValidateTAMSTags [] = Inr ()"
| "ValidateTAMSTags (kv # tags) =
     (case validateTag kv of Some e \<Rightarrow> Inl e | None \<Rightarrow> ValidateTAMSTags tags)"

text \<open>\<open>json.Marshal\<close> of the map of tags: \<^const>\<open>None\<close> when some raw value is not valid JSON.\<close>

fun marshalTags :: "(string \<times> string) list \<Rightarrow> (string \<times> string) list option" where
  "marshalTags [] = Some []"
| "marshalTags ((k, raw) # tags) =
     (case (marshalRaw raw, marshalTags tags) of
        (Some v, Some rest) \<Rightarrow> Some ((k, v) # rest)
      | _ \<Rightarrow> None)"

text \<open>\<open>IngestRunFlowMetadataJSON\<close>; \<open>encoding/json\<close> writes the keys in ascending order.\<close>

definition IngestRunFlowMetadataJSON :: "IngestRunOutputIntent option \<Rightarrow> string option" where
  "IngestRunFlowMetadataJSON output =
     (case output of
        None \<Rightarrow> Some []
      | Some intent \<Rightarrow>
          (let m = ioi_FlowMetadata intent; tags = deref [] (ifm_Tags m)
           in case marshalTags tags of
                None \<Rightarrow> None
              | Some encoded \<Rightarrow>
                  Some (marshalObject
                    ((if ifm_Description m \<noteq> [] then [(''description'', marshalString (ifm_Description m))] else []) @
                     (if ifm_Label m \<noteq> [] then [(''label'', marshalString (ifm_Label m))] else []) @
                     (if tags \<noteq> [] then [(''tags'', marshalObject encoded)] else [])))))"

datatype output_error = MetadataEmpty | ReservedTag | BadTag tag_error | EncodeFailed | MetadataTooLarge

definition maxIngestRunOutputMetadataBytes :: nat where
  "maxIngestRunOutputMetadataBytes = 16 * 1024"

definition reservedTag :: "string \<Rightarrow> bool" where
  "reservedTag key = HasPrefix (ToLower key) ''_tamsin_''"

definition ValidateIngestRunOutput :: "IngestRunOutputIntent option \<Rightarrow> output_error + unit" where
  "ValidateIngestRunOutput output =
     (case output of
        None \<Rightarrow> Inr ()
      | Some intent \<Rightarrow>
          (let m = ioi_FlowMetadata intent; tags = deref [] (ifm_Tags m)
           in if ifm_Label m = [] \<and> ifm_Description m = [] \<and> tags = [] then Inl MetadataEmpty
              else if list_ex (\<lambda>(key, _). reservedTag key) tags then Inl ReservedTag
              else case ValidateTAMSTags tags of
                  Inl e \<Rightarrow> Inl (BadTag e)
                | Inr _ \<Rightarrow>
                    (case IngestRunFlowMetadataJSON output of
                       None \<Rightarrow> Inl EncodeFailed
                     | Some encoded \<Rightarrow>
                         if length encoded > maxIngestRunOutputMetadataBytes then Inl MetadataTooLarge
                         else Inr ())))"

section \<open>Example metadata\<close>

definition dq :: char where
  "dq = CHR 0x22"

definition exampleOutput :: IngestRunOutputIntent where
  "exampleOutput = \<lparr>ioi_FlowMetadata = \<lparr>ifm_Label = ''News'', ifm_Description = [],
     ifm_Tags = Some [(''genre'', [dq] @ ''live'' @ [dq])]\<rparr>\<rparr>"

section \<open>Lemmas\<close>

lemma ValidateTAMSTags_ok:
  "ValidateTAMSTags tags = Inr u \<longleftrightarrow> (\<forall>kv \<in> set tags. validateTag kv = None)"
  by (induction tags) (auto split: option.splits)

lemma validateTag_ok:
  "validateTag (key, raw) = None \<longleftrightarrow>
     (\<exists>s. Unmarshal raw = Some (JStr s)) \<or> (\<exists>vs. Unmarshal raw = Some (JArr vs) \<and> list_all isJStr vs)"
  by (auto simp: validateTag_def split: option.splits json.splits)

lemma Unmarshal_ne: "Unmarshal [] = None"
  by (simp add: Unmarshal_def idleStep_def jsonSpace_def)

lemma marshalRaw_ok: "Unmarshal raw \<noteq> None \<Longrightarrow> marshalRaw raw \<noteq> None"
  by (auto simp: marshalRaw_def)

lemma marshalTags_ok:
  "ValidateTAMSTags tags = Inr u \<Longrightarrow> marshalTags tags \<noteq> None"
proof (induction tags)
  case (Cons kv tags)
  obtain key raw where kv: "kv = (key, raw)" by (cases kv)
  with Cons.prems have "validateTag (key, raw) = None" and rest: "ValidateTAMSTags tags = Inr u"
    by (auto split: option.splits)
  then have "marshalRaw raw \<noteq> None" using marshalRaw_ok by (auto simp: validateTag_ok)
  with Cons.IH [OF rest] show ?case by (auto simp: kv)
qed simp

text \<open>
  C28: an output intent that passes validation can be encoded when the Job is built, within the size
  limit, so the encoding error after the gates of \<open>Reconcile\<close> is never returned; its tags are strings
  or arrays of strings and none uses the reserved prefix. Validation itself never fails to encode.
\<close>

theorem valid_output_encodes:
  "ValidateIngestRunOutput out \<noteq> Inl EncodeFailed \<and>
   (ValidateIngestRunOutput out = Inr () \<longrightarrow>
      (\<exists>encoded. IngestRunFlowMetadataJSON out = Some encoded \<and>
         length encoded \<le> maxIngestRunOutputMetadataBytes) \<and>
      (\<forall>intent. out = Some intent \<longrightarrow>
         (\<forall>(key, raw) \<in> set (deref [] (ifm_Tags (ioi_FlowMetadata intent))).
            \<not> reservedTag key \<and>
            ((\<exists>s. Unmarshal raw = Some (JStr s)) \<or>
             (\<exists>vs. Unmarshal raw = Some (JArr vs) \<and> list_all isJStr vs)))))"
proof (cases out)
  case None
  then show ?thesis by (simp add: ValidateIngestRunOutput_def IngestRunFlowMetadataJSON_def)
next
  case (Some intent)
  let ?tags = "deref [] (ifm_Tags (ioi_FlowMetadata intent))"
  have enc: "IngestRunFlowMetadataJSON out \<noteq> None" if "ValidateTAMSTags ?tags = Inr ()"
    using marshalTags_ok [OF that] by (auto simp: IngestRunFlowMetadataJSON_def Some Let_def)
  show ?thesis
  proof (cases "ValidateTAMSTags ?tags")
    case (Inl e)
    then show ?thesis by (simp add: ValidateIngestRunOutput_def Some Let_def)
  next
    case (Inr u)
    then have tags: "\<forall>(key, raw) \<in> set ?tags. (\<exists>s. Unmarshal raw = Some (JStr s)) \<or>
        (\<exists>vs. Unmarshal raw = Some (JArr vs) \<and> list_all isJStr vs)"
      using validateTag_ok by (fastforce simp: ValidateTAMSTags_ok)
    obtain e where "IngestRunFlowMetadataJSON (Some intent) = Some e" using enc Inr Some by auto
    with tags Inr show ?thesis
      by (auto simp: ValidateIngestRunOutput_def Some Let_def list_ex_iff)
  qed
qed

theorem valid_output_encodes_witness:
  "ValidateIngestRunOutput (Some exampleOutput) = Inr () \<and>
   (\<exists>encoded. IngestRunFlowMetadataJSON (Some exampleOutput) = Some encoded \<and>
      length encoded \<le> maxIngestRunOutputMetadataBytes)"
proof -
  have "ValidateIngestRunOutput (Some exampleOutput) = Inr ()" by code_simp
  then show ?thesis using valid_output_encodes [of "Some exampleOutput"] by blast
qed

end
