(* ===== verification/Go_Net.thy ===== *)
theory Go_Net
  imports Go_Hash
begin

text \<open>
  Package \<open>net\<close>: \<open>ParseIP\<close> (through \<open>netip.ParseAddr\<close>) and the classification methods of \<open>net.IP\<close>. An
  address is its 4 or 16 bytes; the nil slice of a failed parse is \<^const>\<open>None\<close>.
\<close>

type_synonym IP = "byte list"

section \<open>Parsing\<close>

definition decDigit :: "char \<Rightarrow> bool" where
  "decDigit c \<longleftrightarrow> CHR ''0'' \<le> c \<and> c \<le> CHR ''9''"

definition decValue :: "string \<Rightarrow> int" where
  "decValue s = foldl (\<lambda>acc c. 10 * acc + int (of_char c) - 48) 0 s"

text \<open>A decimal field: digits without a leading zero, at most 255.\<close>

definition parseIPv4Field :: "string \<Rightarrow> byte option" where
  "parseIPv4Field s =
     (if s \<noteq> [] \<and> list_all decDigit s \<and> length s \<le> 3 \<and> (length s = 1 \<or> hd s \<noteq> CHR ''0'') \<and> decValue s \<le> 255
      then Some (word_of_int (decValue s)) else None)"

definition parseIPv4 :: "string \<Rightarrow> IP option" where
  "parseIPv4 s =
     (case map parseIPv4Field (Split (CHR ''.'') s) of
        [Some a, Some b, Some c, Some d] \<Rightarrow> Some [a, b, c, d]
      | _ \<Rightarrow> None)"

text \<open>The hexadecimal digits at the front of a string, and the value of at most four of them.\<close>

definition hexGroup :: "string \<Rightarrow> string \<times> string" where
  "hexGroup s = (takeWhile (\<lambda>c. hexValue c \<noteq> None) s, dropWhile (\<lambda>c. hexValue c \<noteq> None) s)"

definition groupBytes :: "string \<Rightarrow> byte list" where
  "groupBytes ds =
     (let v = foldl (\<lambda>acc c. 16 * acc + int (deref 0 (hexValue c))) 0 ds
      in [word_of_int (v div 256), word_of_int (v mod 256)])"

text \<open>
  The loop over the groups: the groups that may still follow, the bytes so far, the position of the
  ellipsis and the rest of the string. It yields all bytes and the ellipsis.
\<close>

fun parseGroups :: "nat \<Rightarrow> byte list \<Rightarrow> nat option \<Rightarrow> string \<Rightarrow> (byte list \<times> nat option) option" where
  "parseGroups 0 bs ell s = (if s = [] then Some (bs, ell) else None)"
| "parseGroups (Suc n) bs ell s =
     (case hexGroup s of (ds, rest) \<Rightarrow>
        if ds = [] \<or> length ds > 4 then None
        else case rest of
            [] \<Rightarrow> Some (bs @ groupBytes ds, ell)
          | c # r \<Rightarrow>
              if c = CHR ''.'' then
                (if ell = None \<and> length bs \<noteq> 12 \<or> length bs > 12 then None
                 else map_option (\<lambda>v4. (bs @ v4, ell)) (parseIPv4 s))
              else if c \<noteq> CHR '':'' \<or> r = [] then None
              else if hd r = CHR '':'' then
                (if ell \<noteq> None then None
                 else if tl r = [] then Some (bs @ groupBytes ds, Some (length bs + 2))
                 else parseGroups n (bs @ groupBytes ds) (Some (length bs + 2)) (tl r))
              else parseGroups n (bs @ groupBytes ds) ell r)"

definition expandEllipsis :: "byte list \<times> nat option \<Rightarrow> IP option" where
  "expandEllipsis p =
     (case p of (bs, ell) \<Rightarrow>
        if length bs < 16 then
          (case ell of None \<Rightarrow> None
             | Some e \<Rightarrow> Some (take e bs @ replicate (16 - length bs) 0 @ drop e bs))
        else if ell \<noteq> None then None else Some bs)"

definition parseIPv6 :: "string \<Rightarrow> IP option" where
  "parseIPv6 s =
     (let parsed =
        (if HasPrefix s ''::'' then
           (if drop 2 s = [] then Some ([], Some 0) else parseGroups 8 [] (Some 0) (drop 2 s))
         else parseGroups 8 [] None s)
      in case parsed of None \<Rightarrow> None | Some p \<Rightarrow> expandEllipsis p)"

definition v4InV6 :: "byte list" where
  "v4InV6 = replicate 10 0 @ [0xff, 0xff]"

text \<open>A zone makes \<open>ParseIP\<close> fail, so a percent sign before the first dot or colon or after it does.\<close>

definition ParseIP :: "string \<Rightarrow> IP option" where
  "ParseIP s =
     (if CHR ''%'' \<in> set s then None
      else case find (\<lambda>c. c = CHR ''.'' \<or> c = CHR '':'') s of
          None \<Rightarrow> None
        | Some c \<Rightarrow> if c = CHR ''.'' then map_option (\<lambda>v4. v4InV6 @ v4) (parseIPv4 s) else parseIPv6 s)"

section \<open>Classification\<close>

definition To4 :: "IP \<Rightarrow> (byte \<times> byte \<times> byte \<times> byte) option" where
  "To4 ip =
     (case (if length ip = 16 \<and> take 12 ip = v4InV6 then drop 12 ip else ip) of
        [a, b, c, d] \<Rightarrow> Some (a, b, c, d) | _ \<Rightarrow> None)"

definition IsUnspecified :: "IP \<Rightarrow> bool" where
  "IsUnspecified ip \<longleftrightarrow> To4 ip = Some (0, 0, 0, 0) \<or> ip = replicate 16 0"

definition IsLoopback :: "IP \<Rightarrow> bool" where
  "IsLoopback ip = (case To4 ip of Some (a, b, c, d) \<Rightarrow> a = 127 | None \<Rightarrow> ip = replicate 15 0 @ [1])"

definition IsPrivate :: "IP \<Rightarrow> bool" where
  "IsPrivate ip =
     (case To4 ip of
        Some (a, b, c, d) \<Rightarrow> a = 10 \<or> (a = 172 \<and> b AND 0xf0 = 16) \<or> (a = 192 \<and> b = 168)
      | None \<Rightarrow> length ip = 16 \<and> ip ! 0 AND 0xfe = 0xfc)"

definition IsMulticast :: "IP \<Rightarrow> bool" where
  "IsMulticast ip =
     (case To4 ip of Some (a, b, c, d) \<Rightarrow> a AND 0xf0 = 0xe0 | None \<Rightarrow> length ip = 16 \<and> ip ! 0 = 0xff)"

definition IsLinkLocalMulticast :: "IP \<Rightarrow> bool" where
  "IsLinkLocalMulticast ip =
     (case To4 ip of
        Some (a, b, c, d) \<Rightarrow> a = 224 \<and> b = 0 \<and> c = 0
      | None \<Rightarrow> length ip = 16 \<and> ip ! 0 = 0xff \<and> ip ! 1 AND 0x0f = 0x02)"

definition IsLinkLocalUnicast :: "IP \<Rightarrow> bool" where
  "IsLinkLocalUnicast ip =
     (case To4 ip of
        Some (a, b, c, d) \<Rightarrow> a = 169 \<and> b = 254
      | None \<Rightarrow> length ip = 16 \<and> ip ! 0 = 0xfe \<and> ip ! 1 AND 0xc0 = 0x80)"

definition IsGlobalUnicast :: "IP \<Rightarrow> bool" where
  "IsGlobalUnicast ip \<longleftrightarrow>
     (length ip = 4 \<or> length ip = 16) \<and> To4 ip \<noteq> Some (255, 255, 255, 255) \<and> \<not> IsUnspecified ip \<and>
     \<not> IsLoopback ip \<and> \<not> IsMulticast ip \<and> \<not> IsLinkLocalUnicast ip"

lemma To4_v4 [simp]: "To4 [a, b, c, d] = Some (a, b, c, d)"
  by (simp add: To4_def)

lemma To4_mapped [simp]: "To4 (v4InV6 @ [a, b, c, d]) = Some (a, b, c, d)"
  by (simp add: To4_def v4InV6_def)

lemma parseIPv4_length: "parseIPv4 s = Some ip \<Longrightarrow> \<exists>a b c d. ip = [a, b, c, d]"
  by (auto simp: parseIPv4_def split: list.splits option.splits)

end
