(* ===== verification/Go_Path.thy ===== *)
theory Go_Path
  imports Go_Base
begin

text \<open>
  Package \<open>path\<close>: lexical cleaning and joining of slash-separated paths. \<open>Clean\<close> is written
  over the list of segments, with the segments kept so far as a stack; this is the
  normal form its documentation gives (no empty segment, no \<open>.\<close>, no \<open>..\<close> after a name, no
  \<open>..\<close> at the root).
\<close>

fun cleanSegs :: "bool \<Rightarrow> string list \<Rightarrow> string list \<Rightarrow> string list" where
  "cleanSegs rooted st [] = rev st"
| "cleanSegs rooted st (w # ws) =
     (if w = [] \<or> w = ''.'' then cleanSegs rooted st ws
      else if w = ''..'' then
        (case st of
           [] \<Rightarrow> cleanSegs rooted (if rooted then [] else [''..'']) ws
         | t # st' \<Rightarrow> if t = ''..'' then cleanSegs rooted (''..'' # st) ws
                     else cleanSegs rooted st' ws)
      else cleanSegs rooted (w # st) ws)"

definition Clean :: "string \<Rightarrow> string" where
  "Clean s =
     (if s = [] then ''.''
      else let rooted = (hd s = CHR ''/'');
               body = Join ''/'' (cleanSegs rooted [] (Split (CHR ''/'') s))
           in if rooted then CHR ''/'' # body
              else if body = [] then ''.'' else body)"

definition pathJoin :: "string list \<Rightarrow> string" where
  "pathJoin elems =
     (let ne = filter (\<lambda>e. e \<noteq> []) elems
      in if ne = [] then [] else Clean (Join ''/'' ne))"

lemmas go_path_defs [go_eval] = Clean_def pathJoin_def

text \<open>A segment that names one directory entry: not empty, not \<open>.\<close> and not \<open>..\<close>.\<close>

definition safeSegment :: "string \<Rightarrow> bool" where
  "safeSegment w \<longleftrightarrow> w \<noteq> [] \<and> w \<noteq> ''.'' \<and> w \<noteq> ''..'' \<and> CHR ''/'' \<notin> set w"

lemma cleanSegs_rooted_safe:
  assumes "\<And>w. w \<in> set ws \<Longrightarrow> CHR ''/'' \<notin> set w" and "\<And>w. w \<in> set st \<Longrightarrow> safeSegment w"
  shows "w \<in> set (cleanSegs True st ws) \<Longrightarrow> safeSegment w"
  using assms
proof (induction True st ws rule: cleanSegs.induct)
  case (2 st w' ws)
  show ?case
  proof (cases "w' = [] \<or> w' = ''.'' \<or> w' = ''..''")
    case True
    with 2 show ?thesis by (auto split: list.splits if_splits)
  next
    case False
    then have "safeSegment w'" using 2 by (simp add: safeSegment_def)
    with False 2 show ?thesis by auto
  qed
qed simp

text \<open>Cleaning a rooted path leaves a slash followed by safe segments.\<close>

lemma Clean_rooted:
  assumes "hd s = CHR ''/''" and "s \<noteq> []"
  obtains segs where "Clean s = CHR ''/'' # Join ''/'' segs"
    and "\<And>w. w \<in> set segs \<Longrightarrow> safeSegment w"
proof -
  let ?segs = "cleanSegs True [] (Split (CHR ''/'') s)"
  have "Clean s = CHR ''/'' # Join ''/'' ?segs"
    using assms by (simp add: Clean_def Let_def)
  moreover have "safeSegment w" if "w \<in> set ?segs" for w
    using cleanSegs_rooted_safe [OF _ _ that] Split_no_sep by (metis empty_iff list.set(1))
  ultimately show thesis using that by blast
qed

text \<open>Safe segments are a fixed point of cleaning.\<close>

lemma cleanSegs_safe:
  "(\<And>w. w \<in> set ws \<Longrightarrow> safeSegment w) \<Longrightarrow> cleanSegs rooted st ws = rev st @ ws"
  by (induction ws arbitrary: st) (auto simp: safeSegment_def)

lemma Join_ne: "ws \<noteq> [] \<Longrightarrow> (\<And>w. w \<in> set ws \<Longrightarrow> w \<noteq> []) \<Longrightarrow> Join sep ws \<noteq> []"
  by (induction sep ws rule: Join.induct) auto

lemma hd_Join: "w \<noteq> [] \<Longrightarrow> hd (Join sep (w # ws)) = hd w"
  by (cases ws) auto

lemma Clean_safe:
  assumes "ws \<noteq> []" and safe: "\<And>w. w \<in> set ws \<Longrightarrow> safeSegment w"
  shows "Clean (Join ''/'' ws) = Join ''/'' ws"
proof -
  have ne: "Join ''/'' ws \<noteq> []" using assms by (intro Join_ne) (auto simp: safeSegment_def)
  obtain w ws' where ws: "ws = w # ws'" using assms(1) by (cases ws) auto
  have "w \<noteq> []" "CHR ''/'' \<notin> set w" using safe ws by (auto simp: safeSegment_def)
  then have hd: "hd (Join ''/'' ws) \<noteq> CHR ''/''" using ws hd_Join [of w] by (metis hd_in_set)
  have "Split (CHR ''/'') (Join ''/'' ws) = ws"
    using assms by (intro Split_Join) (auto simp: safeSegment_def)
  with ne hd safe show ?thesis by (simp add: Clean_def Let_def cleanSegs_safe)
qed

text \<open>Joining safe relative paths keeps every element in place.\<close>

lemma Join_append:
  "us \<noteq> [] \<Longrightarrow> vs \<noteq> [] \<Longrightarrow> Join sep (us @ vs) = Join sep us @ sep @ Join sep vs"
proof (induction sep us rule: Join.induct)
  case (2 sep w)
  then show ?case by (cases vs) auto
qed auto

lemma pathJoin_safe:
  assumes "us \<noteq> []" "vs \<noteq> []"
    and "\<And>w. w \<in> set us \<Longrightarrow> safeSegment w" "\<And>w. w \<in> set vs \<Longrightarrow> safeSegment w"
  shows "pathJoin (Join ''/'' us # vs) = Join ''/'' us @ ''/'' @ Join ''/'' vs"
proof -
  have ne: "Join ''/'' us \<noteq> []" using assms by (intro Join_ne) (auto simp: safeSegment_def)
  have "filter (\<lambda>e. e \<noteq> []) vs = vs"
    using assms(4) by (auto simp: safeSegment_def intro: filter_True)
  then have "pathJoin (Join ''/'' us # vs) = Clean (Join ''/'' (Join ''/'' us # vs))"
    using ne by (simp add: pathJoin_def)
  also have "Join ''/'' (Join ''/'' us # vs) = Join ''/'' (us @ vs)"
    using assms(1,2) by (simp add: Join_Cons Join_append)
  also have "Clean \<dots> = Join ''/'' (us @ vs)"
    using assms by (intro Clean_safe) auto
  finally show ?thesis using assms(1,2) by (simp add: Join_append)
qed

end
