(* ===== verification/Ingest_Resolvers.thy ===== *)
theory Ingest_Resolvers
  imports Ingest_Types Go_Net Go_Path
begin

text \<open>
  The source-policy resolver and the endpoint resolver of an ingest run (\<open>ingest_resolvers.go\<close>), and the
  checks the controller makes on what they return (\<open>validateResolvedIngestInputs\<close> and
  \<open>validateIngestEndpoint\<close> of \<open>ingestrun_controller.go\<close>). Secret reads and DNS are arguments.
\<close>

section \<open>Types\<close>

record ResolvedIngestInputs =
  rii_Selectors :: "string list"
  rii_ExpectedInputs :: int
  rii_SourceName :: string
  rii_PolicyDigest :: string
  rii_CredentialSecretName :: string
  rii_CredentialKind :: string
  rii_S3Endpoint :: string
  rii_S3Region :: string
  rii_S3PathStyle :: bool

record tamsinHTTPSourcePolicy =
  thp_Origin :: string
  thp_PathPrefixes :: "string list"
  thp_AllowPrivateAddresses :: bool

record tamsinS3SourcePolicy =
  tsp_Endpoint :: string
  tsp_Bucket :: string
  tsp_KeyPrefixes :: "string list"
  tsp_PathStyle :: bool
  tsp_AllowPrivateAddresses :: bool

record tamsinSourcePolicy =
  pol_Version :: string
  pol_Mode :: string
  pol_HTTP :: "tamsinHTTPSourcePolicy option"
  pol_S3 :: "tamsinS3SourcePolicy option"

text \<open>An error of the resolver: a message of its own, or a message around a failed read of a Secret.\<close>

datatype source_error = Rejected string | SecretRead string api_error

abbreviation "IngestKindHTTP \<equiv> ''HTTP''"
abbreviation "IngestKindS3 \<equiv> ''S3''"
abbreviation "httpCredentialSecretKey \<equiv> ''TAMSIN_SOURCE_HTTP_HEADERS''"
abbreviation "s3AccessKeySecretKey \<equiv> ''AWS_ACCESS_KEY_ID''"
abbreviation "s3SecretKeySecretKey \<equiv> ''AWS_SECRET_ACCESS_KEY''"
abbreviation "s3SessionTokenSecretKey \<equiv> ''AWS_SESSION_TOKEN''"

text \<open>Running the error-returning checks one after the other: the first error wins.\<close>

definition thenCheck :: "'e + 'a \<Rightarrow> ('a \<Rightarrow> 'e + 'b) \<Rightarrow> 'e + 'b" where
  "thenCheck r k = (case r of Inl e \<Rightarrow> Inl e | Inr x \<Rightarrow> k x)"

definition wrapRejected :: "string \<Rightarrow> source_error + 'a \<Rightarrow> source_error + 'a" where
  "wrapRejected msg r = (case r of Inl (Rejected e) \<Rightarrow> Inl (Rejected (msg @ '': '' @ e)) | _ \<Rightarrow> r)"

section \<open>The policy snapshot and its digest\<close>

text \<open>
  \<open>json.Marshal\<close> on the snapshot: the members in the order of the struct fields, a member with
  \<open>omitempty\<close> left out when its value is empty.
\<close>

definition omitEmpty :: "bool \<Rightarrow> string \<Rightarrow> string \<Rightarrow> (string \<times> string) list" where
  "omitEmpty isEmpty k v = (if isEmpty then [] else [(k, v)])"

definition marshalStrings :: "string list \<Rightarrow> string" where
  "marshalStrings xs = ''['' @ Join '','' (map marshalString xs) @ '']''"

definition marshalHTTPPolicy :: "tamsinHTTPSourcePolicy \<Rightarrow> string" where
  "marshalHTTPPolicy p = marshalObject
     ([(''origin'', marshalString (thp_Origin p))] @
      omitEmpty (thp_PathPrefixes p = []) ''pathPrefixes'' (marshalStrings (thp_PathPrefixes p)) @
      omitEmpty (\<not> thp_AllowPrivateAddresses p) ''allowPrivateAddresses'' ''true'')"

definition marshalS3Policy :: "tamsinS3SourcePolicy \<Rightarrow> string" where
  "marshalS3Policy p = marshalObject
     ([(''endpoint'', marshalString (tsp_Endpoint p)), (''bucket'', marshalString (tsp_Bucket p))] @
      omitEmpty (tsp_KeyPrefixes p = []) ''keyPrefixes'' (marshalStrings (tsp_KeyPrefixes p)) @
      omitEmpty (\<not> tsp_PathStyle p) ''pathStyle'' ''true'' @
      omitEmpty (\<not> tsp_AllowPrivateAddresses p) ''allowPrivateAddresses'' ''true'')"

definition marshalPolicy :: "tamsinSourcePolicy \<Rightarrow> string" where
  "marshalPolicy p = marshalObject
     ([(''version'', marshalString (pol_Version p)), (''mode'', marshalString (pol_Mode p))] @
      (case pol_HTTP p of None \<Rightarrow> [] | Some h \<Rightarrow> [(''http'', marshalHTTPPolicy h)]) @
      (case pol_S3 p of None \<Rightarrow> [] | Some s \<Rightarrow> [(''s3'', marshalS3Policy s)]))"

definition marshalSnapshot :: "string \<Rightarrow> tamsinSourcePolicy \<Rightarrow> string \<Rightarrow> string \<Rightarrow> string" where
  "marshalSnapshot sourceName policy credential region = marshalObject
     ([(''sourceName'', marshalString sourceName), (''policy'', marshalPolicy policy)] @
      omitEmpty (credential = []) ''credentialSecretName'' (marshalString credential) @
      omitEmpty (region = []) ''s3Region'' (marshalString region))"

definition resolvedSourcePolicy ::
    "string \<Rightarrow> string \<Rightarrow> tamsinSourcePolicy \<Rightarrow> LocalObjectReference option \<Rightarrow> string \<Rightarrow> S3IngestSourceSpec option
      \<Rightarrow> ResolvedIngestInputs" where
  "resolvedSourcePolicy selector sourceName policy secretRef credentialKind s3 =
     (let credential = (case secretRef of None \<Rightarrow> [] | Some ref \<Rightarrow> lref_Name ref);
          region = (case s3 of None \<Rightarrow> [] | Some s \<Rightarrow> sis_Region s)
      in \<lparr>rii_Selectors = [selector],
          rii_ExpectedInputs = (if s3 \<noteq> None \<and> HasSuffix selector ''/'' then 0 else 1),
          rii_SourceName = sourceName,
          rii_PolicyDigest = EncodeToString (Sum256 (marshalSnapshot sourceName policy credential region)),
          rii_CredentialSecretName = credential,
          rii_CredentialKind = credentialKind,
          rii_S3Endpoint = (case s3 of None \<Rightarrow> [] | Some s \<Rightarrow> sis_Endpoint s),
          rii_S3Region = region,
          rii_S3PathStyle = (case s3 of None \<Rightarrow> False | Some s \<Rightarrow> sis_PathStyle s)\<rparr>)"

section \<open>Selectors\<close>

definition validateIngestSelectorURL :: "string \<Rightarrow> string \<Rightarrow> source_error + URL" where
  "validateIngestSelectorURL raw scheme =
     (if length raw > 2048 then Inl (Rejected ''input URI exceeds 2048 bytes'')
      else case ParseRequestURI raw of
          None \<Rightarrow> Inl (Rejected (''input URI must be an absolute '' @ scheme @ '' URI''))
        | Some parsed \<Rightarrow>
            if Scheme parsed \<noteq> scheme \<or> Host parsed = []
            then Inl (Rejected (''input URI must be an absolute '' @ scheme @ '' URI''))
            else if User parsed \<noteq> None \<or> RawQuery parsed \<noteq> [] \<or> Fragment parsed \<noteq> []
            then Inl (Rejected ''input URI must not contain user information, a query, or a fragment'')
            else Inr parsed)"

definition validateSourceEndpoint :: "string \<Rightarrow> source_error + URL" where
  "validateSourceEndpoint raw =
     (case ParseRequestURI raw of
        None \<Rightarrow> Inl (Rejected ''must be an absolute HTTPS URL'')
      | Some parsed \<Rightarrow>
          if Scheme parsed \<noteq> ''https'' \<or> Host parsed = [] then Inl (Rejected ''must be an absolute HTTPS URL'')
          else if User parsed \<noteq> None \<or> RawQuery parsed \<noteq> [] \<or> Fragment parsed \<noteq> []
          then Inl (Rejected ''must not contain user information, a query, or a fragment'')
          else Inr parsed)"

definition canonicalHTTPPath :: "string \<Rightarrow> source_error + string" where
  "canonicalHTTPPath escapedPath =
     (case PathUnescape escapedPath of
        None \<Rightarrow> Inl (Rejected ''HTTP input path is not canonical'')
      | Some decoded \<Rightarrow>
          if Contains decoded [CHR 0x5C] then Inl (Rejected ''HTTP input path is not canonical'')
          else (let normalised = Clean (''/'' @ TrimPrefix decoded ''/'');
                    trimmed = orElse (TrimSuffix decoded ''/'') ''/''
                in if normalised \<noteq> trimmed then Inl (Rejected ''HTTP input path must not contain dot segments'')
                   else Inr normalised))"

definition matchesPathPrefix :: "string \<Rightarrow> string list \<Rightarrow> bool" where
  "matchesPathPrefix httpPath allowed \<longleftrightarrow>
     allowed = [] \<or>
     list_ex (\<lambda>p. let candidate = TrimSuffix p ''/''
                  in httpPath = candidate \<or> HasPrefix httpPath (TrimSuffix candidate ''/'' @ ''/'')) allowed"

definition matchesKeyPrefix :: "string \<Rightarrow> string list \<Rightarrow> bool" where
  "matchesKeyPrefix key allowed \<longleftrightarrow>
     allowed = [] \<or> list_ex (\<lambda>p. HasPrefix key (TrimPrefix p ''/'')) allowed"

fun canonicalPrefixes :: "string list \<Rightarrow> source_error + string list" where
  "canonicalPrefixes [] = Inr []"
| "canonicalPrefixes (p # ps) =
     (if \<not> HasPrefix p ''/'' then Inl (Rejected ''HTTP source path prefixes must start with /'')
      else case wrapRejected ''invalid HTTP source path prefix'' (canonicalHTTPPath p) of
          Inl e \<Rightarrow> Inl e
        | Inr c \<Rightarrow> (case canonicalPrefixes ps of Inl e \<Rightarrow> Inl e | Inr cs \<Rightarrow> Inr (c # cs)))"

definition validateNamedHTTPSelector :: "string \<Rightarrow> HTTPIngestSourceSpec \<Rightarrow> source_error + string" where
  "validateNamedHTTPSelector raw source =
     (case validateIngestSelectorURL raw ''https'' of
        Inl e \<Rightarrow> Inl e
      | Inr selector \<Rightarrow>
        case wrapRejected ''invalid HTTP source origin'' (validateSourceEndpoint (his_Origin source)) of
          Inl e \<Rightarrow> Inl e
        | Inr origin \<Rightarrow>
          if Path origin \<noteq> [] \<and> Path origin \<noteq> ''/'' then Inl (Rejected ''HTTP source origin must not contain a path'')
          else if \<not> EqualFold (Scheme selector) (Scheme origin) \<or> \<not> EqualFold (Host selector) (Host origin)
          then Inl (Rejected (''HTTP input is outside source origin '' @ Quote (his_Origin source)))
          else case canonicalHTTPPath (EscapedPath selector) of
              Inl e \<Rightarrow> Inl e
            | Inr selectorPath \<Rightarrow>
              case canonicalPrefixes (his_PathPrefixes source) of
                Inl e \<Rightarrow> Inl e
              | Inr allowed \<Rightarrow>
                  if \<not> matchesPathPrefix selectorPath allowed
                  then Inl (Rejected ''HTTP input path is outside the source path prefixes'')
                  else Inr (urlString selector))"

definition validateNamedS3Selector :: "string \<Rightarrow> S3IngestSourceSpec \<Rightarrow> source_error + string" where
  "validateNamedS3Selector raw source =
     (if TrimSpace (sis_Region source) = [] then Inl (Rejected ''S3 source region must not be empty'')
      else if TrimSpace (sis_Bucket source) = [] \<or> ContainsAny (sis_Bucket source) ''/@?# ''
      then Inl (Rejected ''S3 source bucket is invalid'')
      else if list_ex (\<lambda>p. p = [] \<or> HasPrefix p ''/'' \<or> ContainsAny p ''?#'') (sis_KeyPrefixes source)
      then Inl (Rejected ''S3 source key prefixes must be non-empty relative keys without queries or fragments'')
      else case validateIngestSelectorURL raw ''s3'' of
          Inl e \<Rightarrow> Inl e
        | Inr selector \<Rightarrow>
            if Host selector \<noteq> sis_Bucket source
            then Inl (Rejected (''S3 input bucket '' @ Quote (Host selector) @ '' does not match source bucket '' @
                        Quote (sis_Bucket source)))
            else (let key = TrimPrefix (EscapedPath selector) ''/''
                  in if key = [] then Inl (Rejected ''S3 input must select an object or bounded prefix'')
                     else if \<not> matchesKeyPrefix key (sis_KeyPrefixes source)
                     then Inl (Rejected ''S3 input key is outside the source key prefixes'')
                     else case wrapRejected ''invalid S3 source endpoint'' (validateSourceEndpoint (sis_Endpoint source)) of
                         Inl e \<Rightarrow> Inl e
                       | Inr endpoint \<Rightarrow>
                           if Path endpoint \<noteq> [] \<and> Path endpoint \<noteq> ''/''
                           then Inl (Rejected ''invalid S3 source endpoint: path is not permitted'')
                           else Inr (urlString selector)))"

section \<open>Hosts and credentials\<close>

definition isPublicIngestAddress :: "IP \<Rightarrow> bool" where
  "isPublicIngestAddress ip \<longleftrightarrow>
     IsGlobalUnicast ip \<and> \<not> IsPrivate ip \<and> \<not> IsLoopback ip \<and> \<not> IsLinkLocalUnicast ip \<and>
     \<not> IsLinkLocalMulticast ip \<and> \<not> IsMulticast ip \<and> \<not> IsUnspecified ip"

text \<open>\<open>lookup\<close> is \<open>LookupIPAddr\<close> of the host resolver: an error text or the addresses.\<close>

definition validateResolvedHost :: "(string \<Rightarrow> string + IP list) \<Rightarrow> string \<Rightarrow> bool \<Rightarrow> source_error + unit" where
  "validateResolvedHost lookup raw allowPrivate =
     (case ParseRequestURI raw of
        None \<Rightarrow> Inl (Rejected ''host is invalid'')
      | Some parsed \<Rightarrow>
          if Hostname parsed = [] then Inl (Rejected ''host is invalid'')
          else (case ParseIP (Hostname parsed) of
              Some ip \<Rightarrow>
                if \<not> allowPrivate \<and> \<not> isPublicIngestAddress ip
                then Inl (Rejected ''host resolves to a non-public address'') else Inr ()
            | None \<Rightarrow>
                (case lookup (Hostname parsed) of
                   Inl err \<Rightarrow> Inl (Rejected (''resolve host '' @ Quote (Hostname parsed) @ '': '' @ err))
                 | Inr addresses \<Rightarrow>
                     if addresses = [] then Inl (Rejected (''host '' @ Quote (Hostname parsed) @ '' resolved to no addresses''))
                     else if allowPrivate then Inr ()
                     else if list_ex (\<lambda>ip. \<not> isPublicIngestAddress ip) addresses
                     then Inl (Rejected (''host '' @ Quote (Hostname parsed) @ '' resolves to a non-public address''))
                     else Inr ())))"

definition validatePublicHTTPSSelector :: "(string \<Rightarrow> string + IP list) \<Rightarrow> string \<Rightarrow> source_error + string" where
  "validatePublicHTTPSSelector lookup raw =
     (case validateIngestSelectorURL raw ''https'' of
        Inl e \<Rightarrow> Inl e
      | Inr parsed \<Rightarrow>
          if Port parsed \<noteq> [] \<and> Port parsed \<noteq> ''443'' then Inl (Rejected ''public HTTPS input must use port 443'')
          else (case wrapRejected ''public HTTPS input is not permitted''
                       (validateResolvedHost lookup (urlString parsed) False) of
                  Inl e \<Rightarrow> Inl e
                | Inr _ \<Rightarrow> Inr (urlString parsed)))"

text \<open>\<open>json.Unmarshal\<close> into a slice of strings; a null element leaves the empty string.\<close>

definition unmarshalStrings :: "string \<Rightarrow> string list option" where
  "unmarshalStrings raw =
     (case Unmarshal raw of
        Some (JArr vs) \<Rightarrow>
          if list_all (\<lambda>v. isJStr v \<or> v = JNull) vs
          then Some (map (\<lambda>v. case v of JStr s \<Rightarrow> s | _ \<Rightarrow> []) vs) else None
      | Some JNull \<Rightarrow> Some []
      | _ \<Rightarrow> None)"

definition invalidHeader :: "string \<Rightarrow> bool" where
  "invalidHeader header =
     (case Cut header '':'' of
        None \<Rightarrow> True
      | Some (name, _) \<Rightarrow> TrimSpace name = [] \<or> ContainsAny header [CHR 0x0D, CHR 0x0A])"

definition secretData :: "(string \<rightharpoonup> string) \<Rightarrow> string \<Rightarrow> string" where
  "secretData d k = mapGet d k"

definition validateCredentialSecret ::
    "(string \<Rightarrow> string \<Rightarrow> (string \<rightharpoonup> string) api) \<Rightarrow> string \<Rightarrow> LocalObjectReference option \<Rightarrow> string
      \<Rightarrow> source_error + unit" where
  "validateCredentialSecret getSecret namespace ref kind =
     (case ref of
        None \<Rightarrow> Inr ()
      | Some ref \<Rightarrow>
          if TrimSpace (lref_Name ref) = [] then Inl (Rejected ''credentialSecretRef.name must not be empty'')
          else (case getSecret namespace (lref_Name ref) of
              Inl NotFound \<Rightarrow> Inl (Rejected (''credential Secret '' @ Quote (lref_Name ref) @ '' does not exist''))
            | Inl e \<Rightarrow> Inl (SecretRead (''read credential Secret '' @ Quote (lref_Name ref)) e)
            | Inr data \<Rightarrow>
                if kind = IngestKindHTTP then
                  (if secretData data httpCredentialSecretKey = []
                   then Inl (Rejected (''credential Secret '' @ Quote (lref_Name ref) @ '' does not contain '' @ httpCredentialSecretKey))
                   else (case unmarshalStrings (secretData data httpCredentialSecretKey) of
                       None \<Rightarrow> Inl (Rejected (''credential Secret '' @ Quote (lref_Name ref) @ '' key '' @
                                 httpCredentialSecretKey @ '' must be a non-empty JSON string array''))
                     | Some headers \<Rightarrow>
                         if headers = []
                         then Inl (Rejected (''credential Secret '' @ Quote (lref_Name ref) @ '' key '' @
                                 httpCredentialSecretKey @ '' must be a non-empty JSON string array''))
                         else if list_ex invalidHeader headers
                         then Inl (Rejected (''credential Secret '' @ Quote (lref_Name ref) @ '' key '' @
                                 httpCredentialSecretKey @ '' contains an invalid HTTP header''))
                         else Inr ()))
                else if kind = IngestKindS3 then
                  (if secretData data s3AccessKeySecretKey = [] \<or> secretData data s3SecretKeySecretKey = []
                   then Inl (Rejected (''credential Secret '' @ Quote (lref_Name ref) @ '' must contain '' @
                          s3AccessKeySecretKey @ '' and '' @ s3SecretKeySecretKey))
                   else Inr ())
                else Inr ()))"

section \<open>The resolvers\<close>

record SourcePolicyResolver =
  spr_getSecret :: "string \<Rightarrow> string \<Rightarrow> (string \<rightharpoonup> string) api"
  spr_lookup :: "string \<Rightarrow> string + IP list"

fun firstDuplicate :: "string list \<Rightarrow> string list \<Rightarrow> string option" where
  "firstDuplicate seen [] = None"
| "firstDuplicate seen (n # ns) = (if n \<in> set seen then Some n else firstDuplicate (n # seen) ns)"

definition resolveHTTPSource ::
    "SourcePolicyResolver \<Rightarrow> string \<Rightarrow> IngestRunInput \<Rightarrow> IngestSourceSpec \<Rightarrow> source_error + ResolvedIngestInputs" where
  "resolveHTTPSource r namespace inp source =
     (case (src_HTTP source, src_S3 source) of
        (Some http, None) \<Rightarrow>
          thenCheck (validateNamedHTTPSelector (iri_URI inp) http) (\<lambda>selector.
          thenCheck (wrapRejected ''HTTP source origin is not permitted''
            (validateResolvedHost (spr_lookup r) (his_Origin http) (his_AllowPrivateAddresses http))) (\<lambda>_.
          thenCheck (validateCredentialSecret (spr_getSecret r) namespace (his_CredentialSecretRef http) IngestKindHTTP) (\<lambda>_.
          Inr (resolvedSourcePolicy selector (src_Name source)
            \<lparr>pol_Version = ''1'', pol_Mode = ''restricted'',
             pol_HTTP = Some \<lparr>thp_Origin = his_Origin http, thp_PathPrefixes = his_PathPrefixes http,
               thp_AllowPrivateAddresses = his_AllowPrivateAddresses http\<rparr>,
             pol_S3 = None\<rparr> (his_CredentialSecretRef http) IngestKindHTTP None))))
      | _ \<Rightarrow> Inl (Rejected (''HTTP ingest source '' @ Quote (src_Name source) @ '' has invalid configuration'')))"

definition resolveS3Source ::
    "SourcePolicyResolver \<Rightarrow> string \<Rightarrow> IngestRunInput \<Rightarrow> IngestSourceSpec \<Rightarrow> source_error + ResolvedIngestInputs" where
  "resolveS3Source r namespace inp source =
     (case (src_S3 source, src_HTTP source) of
        (Some s3, None) \<Rightarrow>
          thenCheck (validateNamedS3Selector (iri_URI inp) s3) (\<lambda>selector.
          thenCheck (wrapRejected ''S3 source endpoint is not permitted''
            (validateResolvedHost (spr_lookup r) (sis_Endpoint s3) (sis_AllowPrivateAddresses s3))) (\<lambda>_.
          thenCheck (validateCredentialSecret (spr_getSecret r) namespace (sis_CredentialSecretRef s3) IngestKindS3) (\<lambda>_.
          Inr (resolvedSourcePolicy selector (src_Name source)
            \<lparr>pol_Version = ''1'', pol_Mode = ''restricted'', pol_HTTP = None,
             pol_S3 = Some \<lparr>tsp_Endpoint = sis_Endpoint s3, tsp_Bucket = sis_Bucket s3, tsp_KeyPrefixes = sis_KeyPrefixes s3,
               tsp_PathStyle = sis_PathStyle s3, tsp_AllowPrivateAddresses = sis_AllowPrivateAddresses s3\<rparr>\<rparr>
            (sis_CredentialSecretRef s3) IngestKindS3 (Some s3)))))
      | _ \<Rightarrow> Inl (Rejected (''S3 ingest source '' @ Quote (src_Name source) @ '' has invalid configuration'')))"

definition Resolve ::
    "SourcePolicyResolver \<Rightarrow> Tamoss \<Rightarrow> IngestRunInput \<Rightarrow> int \<Rightarrow> source_error + ResolvedIngestInputs" where
  "Resolve r tamoss inp maxInputs =
     (let mode = orElse (is_Mode (ts_Ingest (tm_Spec tamoss))) IngestSourcePolicyDisabled;
          sources = is_Sources (ts_Ingest (tm_Spec tamoss))
      in if mode = IngestSourcePolicyDisabled then Inl (Rejected ''ingest source policy is Disabled'')
         else if maxInputs < 1 then Inl (Rejected ''maxInputs must be positive'')
         else case firstDuplicate [] (map src_Name sources) of
             Some n \<Rightarrow> Inl (Rejected (''ingest source name '' @ Quote n @ '' is duplicated''))
           | None \<Rightarrow>
             (case iri_SourceRef inp of
                None \<Rightarrow>
                  if mode \<noteq> IngestSourcePolicyPublicHTTPS \<or> iri_Kind inp \<noteq> IngestKindHTTP
                  then Inl (Rejected (''sourceRef is required by source policy mode '' @ mode))
                  else thenCheck (validatePublicHTTPSSelector (spr_lookup r) (iri_URI inp)) (\<lambda>selector.
                    Inr (resolvedSourcePolicy selector ''public-https''
                      \<lparr>pol_Version = ''1'', pol_Mode = ''publicHTTPS'', pol_HTTP = None, pol_S3 = None\<rparr> None [] None))
              | Some ref \<Rightarrow>
                  (case find (\<lambda>s. src_Name s = ref) sources of
                     None \<Rightarrow> Inl (Rejected (''ingest source '' @ Quote ref @ '' does not exist''))
                   | Some source \<Rightarrow>
                       if iri_Kind inp \<noteq> src_Kind source
                       then Inl (Rejected (''ingest source '' @ Quote (src_Name source) @ '' is kind '' @
                              Quote (src_Kind source) @ '', not '' @ Quote (iri_Kind inp)))
                       else if iri_Kind inp = IngestKindHTTP
                       then resolveHTTPSource r (tm_Namespace tamoss) inp source
                       else if iri_Kind inp = IngestKindS3
                       then resolveS3Source r (tm_Namespace tamoss) inp source
                       else Inl (Rejected (''unsupported ingest input kind '' @ Quote (iri_Kind inp))))))"

text \<open>\<open>PublishedEndpointResolver.Resolve\<close>.\<close>

datatype endpoint_error = EndpointRead api_error | NotPublished string

definition publishedEndpointResolve :: "(string \<Rightarrow> string \<Rightarrow> Tamoss api) \<Rightarrow> string \<Rightarrow> string \<Rightarrow> endpoint_error + string" where
  "publishedEndpointResolve getTamoss namespace name =
     (case getTamoss namespace name of
        Inl e \<Rightarrow> Inl (EndpointRead e)
      | Inr tamoss \<Rightarrow>
          if ep_API (tst_Endpoints (tm_Status tamoss)) = []
          then Inl (NotPublished (''instance '' @ namespace @ ''/'' @ name @ '' has not published an API endpoint''))
          else Inr (ep_API (tst_Endpoints (tm_Status tamoss))))"

section \<open>The controller's checks on a resolved plan\<close>

definition maxIngestSelectors :: nat where
  "maxIngestSelectors = 32"

definition maxIngestSelectorBytes :: int where
  "maxIngestSelectorBytes = 32 * 1024"

definition checkSelector :: "string \<Rightarrow> string + unit" where
  "checkSelector location =
     (case Parse location of
        None \<Rightarrow> Inl ''input selector is not an absolute URL''
      | Some parsed \<Rightarrow>
          if \<not> IsAbs parsed then Inl ''input selector is not an absolute URL''
          else if User parsed \<noteq> None \<or> RawQuery parsed \<noteq> [] \<or> Fragment parsed \<noteq> []
          then Inl ''input selector contains credentials, query parameters, or a fragment''
          else if ToLower (Scheme parsed) = ''s3'' then
            (if Host parsed = [] \<or> Trim (Path parsed) ''/'' = []
             then Inl ''S3 input location requires a bucket and object key'' else Inr ())
          else if ToLower (Scheme parsed) = ''https'' then
            (if Host parsed = [] then Inl ''HTTP input location requires a host'' else Inr ())
          else Inl (''unsupported input location scheme '' @ Quote (Scheme parsed)))"

fun checkSelectors :: "int \<Rightarrow> string list \<Rightarrow> string + unit" where
  "checkSelectors totalBytes [] = Inr ()"
| "checkSelectors totalBytes (location # locations) =
     (if length location > 2048 then Inl ''input selector exceeds 2048 bytes''
      else if totalBytes + int (length location) > maxIngestSelectorBytes
      then Inl (''input selectors exceed '' @ Itoa maxIngestSelectorBytes @ '' bytes'')
      else case checkSelector location of
          Inl e \<Rightarrow> Inl e
        | Inr _ \<Rightarrow> checkSelectors (totalBytes + int (length location)) locations)"

definition validDigest :: "string \<Rightarrow> bool" where
  "validDigest d = (case DecodeString d of None \<Rightarrow> False | Some bs \<Rightarrow> length bs = 32)"

definition validateResolvedIngestInputs :: "ResolvedIngestInputs \<Rightarrow> int \<Rightarrow> string + unit" where
  "validateResolvedIngestInputs resolved maxInputs =
     (if rii_Selectors resolved = [] then Inl ''no input selectors''
      else if length (rii_Selectors resolved) > maxIngestSelectors
      then Inl (''resolved '' @ Itoa (int (length (rii_Selectors resolved))) @ '' top-level selectors, limit is '' @
             Itoa (int maxIngestSelectors))
      else if rii_ExpectedInputs resolved < 0 \<or> rii_ExpectedInputs resolved > maxInputs
      then Inl (''expected input count '' @ Itoa (rii_ExpectedInputs resolved) @ '' exceeds limit '' @ Itoa maxInputs)
      else if TrimSpace (rii_SourceName resolved) = [] then Inl ''resolved source policy is incomplete''
      else if \<not> validDigest (rii_PolicyDigest resolved) then Inl ''resolved source policy digest is invalid''
      else checkSelectors 0 (rii_Selectors resolved))"

definition validateIngestEndpoint :: "string \<Rightarrow> string + string" where
  "validateIngestEndpoint endpoint =
     (case Parse (TrimSpace endpoint) of
        None \<Rightarrow> Inl ''endpoint must be an HTTPS URL without userinfo, query, or fragment''
      | Some parsed \<Rightarrow>
          if Scheme parsed \<noteq> ''https'' \<or> Host parsed = [] \<or> User parsed \<noteq> None \<or> RawQuery parsed \<noteq> [] \<or>
             Fragment parsed \<noteq> []
          then Inl ''endpoint must be an HTTPS URL without userinfo, query, or fragment''
          else Inr (urlString parsed))"

end
