(* ===== verification/Ingest_Source_Laws.thy ===== *)
theory Ingest_Source_Laws
  imports Ingest_Resolvers
begin

text \<open>
  What the source policy guarantees. An accepted HTTP selector of a named source is on the origin of the
  source and, segment by segment, below one of its path prefixes; a public selector and every address its
  host resolves to are public; a named source never yields more than its own selector. The interfaces
  \<open>IngestInputResolver\<close> and \<open>IngestEndpointResolver\<close> are locales, interpreted on the two resolvers.
\<close>

section \<open>Canonical paths\<close>

lemma thenCheck_Inr [simp]: "thenCheck r k = Inr y \<longleftrightarrow> (\<exists>x. r = Inr x \<and> k x = Inr y)"
  by (auto simp: thenCheck_def split: sum.splits)

lemma wrapRejected_Inr [simp]: "wrapRejected msg r = Inr y \<longleftrightarrow> r = Inr y"
  by (auto simp: wrapRejected_def split: sum.splits source_error.splits)

text \<open>The path that a list of segments names.\<close>

definition pathOf :: "string list \<Rightarrow> string" where
  "pathOf segs = CHR ''/'' # Join ''/'' segs"

lemma canonicalHTTPPath_Inr:
  assumes "canonicalHTTPPath e = Inr p"
  obtains decoded segs where "PathUnescape e = Some decoded" "p = pathOf segs"
    "\<And>w. w \<in> set segs \<Longrightarrow> safeSegment w" "decoded = p \<or> decoded = p @ ''/'' \<or> decoded = [] \<and> segs = []"
proof -
  from assms obtain decoded where d: "PathUnescape e = Some decoded"
    and p: "p = Clean (''/'' @ TrimPrefix decoded ''/'')" "p = orElse (TrimSuffix decoded ''/'') ''/''"
    unfolding canonicalHTTPPath_def Let_def by (auto split: option.split_asm if_split_asm)
  obtain segs where segs: "p = pathOf segs" "\<And>w. w \<in> set segs \<Longrightarrow> safeSegment w"
    unfolding p(1) pathOf_def by (rule Clean_rooted [of "''/'' @ TrimPrefix decoded ''/''"]) auto
  have "decoded = p \<or> decoded = p @ ''/'' \<or> decoded = [] \<and> segs = []"
  proof (cases "TrimSuffix decoded ''/'' = []")
    case True
    then have "p = ''/''" using p(2) by simp
    moreover have "decoded = [] \<or> decoded = ''/''"
      using True by (cases decoded "''/''" rule: TrimSuffix_cases) auto
    moreover have "segs = []" if "Join ''/'' segs = []"
      using Join_ne [of segs "''/''"] segs(2) that by (auto simp: safeSegment_def)
    ultimately show ?thesis using segs(1) by (auto simp: pathOf_def)
  next
    case False
    then have "p = TrimSuffix decoded ''/''" using p(2) by simp
    then show ?thesis by (cases decoded "''/''" rule: TrimSuffix_cases) auto
  qed
  with d segs show thesis by (rule that)
qed

lemma Split_pathOf:
  assumes "\<And>w. w \<in> set segs \<Longrightarrow> safeSegment w" "segs \<noteq> []"
  shows "Split (CHR ''/'') (Join ''/'' segs) = segs"
  using assms by (intro Split_Join) (auto simp: safeSegment_def)

lemma pathOf_inj:
  assumes "pathOf us = pathOf vs" "\<And>w. w \<in> set us \<Longrightarrow> safeSegment w" "\<And>w. w \<in> set vs \<Longrightarrow> safeSegment w"
  shows "us = vs"
proof -
  have *: "Join ''/'' ws = [] \<longleftrightarrow> ws = []" if "\<And>w. w \<in> set ws \<Longrightarrow> safeSegment w" for ws
    using Join_ne [of ws "''/''"] that by (auto simp: safeSegment_def)
  have eq: "Join ''/'' us = Join ''/'' vs" using assms(1) by (simp add: pathOf_def)
  show ?thesis
  proof (cases "us = []")
    case True
    then show ?thesis using eq * [of vs] assms(3) by simp
  next
    case False
    have "Join ''/'' us \<noteq> []" using False * [of us] assms(2) by blast
    then have "vs \<noteq> []" using eq by (cases vs) auto
    from Split_pathOf [OF assms(3) this] have "Split (CHR ''/'') (Join ''/'' vs) = vs" .
    moreover have "Split (CHR ''/'') (Join ''/'' us) = us" by (rule Split_pathOf [OF assms(2) False])
    ultimately show ?thesis using eq by metis
  qed
qed

lemma pathOf_no_slash_end:
  assumes "\<And>w. w \<in> set segs \<Longrightarrow> safeSegment w" "segs \<noteq> []"
  shows "TrimSuffix (pathOf segs) ''/'' = pathOf segs"
proof -
  have "\<not> HasSuffix (pathOf segs) ''/''"
  proof
    assume "HasSuffix (pathOf segs) ''/''"
    then obtain t where t: "pathOf segs = t @ ''/''" by (auto simp: HasSuffix_iff)
    have "Join ''/'' segs \<noteq> []" using assms Join_ne [of segs "''/''"] by (auto simp: safeSegment_def)
    then obtain t' where "Join ''/'' segs = t' @ ''/''" using t by (cases t) (auto simp: pathOf_def)
    then have "Split (CHR ''/'') (t' @ ''/'') = segs" using Split_pathOf [OF assms] by simp
    then have "[] \<in> set segs" using Split_append_sep [of "CHR ''/''" t' "[]"] by auto
    then show False using assms(1) by (auto simp: safeSegment_def)
  qed
  then show ?thesis by (simp add: TrimSuffix_def)
qed

text \<open>On canonical paths the byte-wise prefix test of the code is a test on segments.\<close>

lemma matches_segments:
  assumes m: "pathOf segs = TrimSuffix (pathOf pre) ''/'' \<or>
        HasPrefix (pathOf segs) (TrimSuffix (TrimSuffix (pathOf pre) ''/'') ''/'' @ ''/'')"
    and segs: "\<And>w. w \<in> set segs \<Longrightarrow> safeSegment w" and pre: "\<And>w. w \<in> set pre \<Longrightarrow> safeSegment w"
  shows "prefix pre segs"
proof (cases "pre = []")
  case False
  have trim: "TrimSuffix (pathOf pre) ''/'' = pathOf pre" by (rule pathOf_no_slash_end [OF pre False])
  show ?thesis
  proof (cases "pathOf segs = pathOf pre")
    case True
    then show ?thesis using pathOf_inj [OF True segs pre] by simp
  next
    case ne: False
    then obtain r where "pathOf segs = pathOf pre @ ''/'' @ r"
      using m by (auto simp: trim HasPrefix_iff)
    then have eq: "Join ''/'' segs = Join ''/'' pre @ CHR ''/'' # r" by (simp add: pathOf_def)
    then have "segs \<noteq> []" by auto
    then have "segs = Split (CHR ''/'') (Join ''/'' pre @ CHR ''/'' # r)"
      unfolding eq [symmetric] by (metis Split_pathOf segs)
    then have "segs = pre @ Split (CHR ''/'') r" by (metis Split_append_sep Split_pathOf pre False)
    then show ?thesis by simp
  qed
qed simp

lemma canonicalPrefixes_Inr:
  "canonicalPrefixes ps = Inr cs \<Longrightarrow>
   length cs = length ps \<and> (\<forall>c \<in> set cs. \<exists>p \<in> set ps. HasPrefix p ''/'' \<and> canonicalHTTPPath p = Inr c)"
  by (induction ps arbitrary: cs) (auto split: if_split_asm sum.split_asm)

section \<open>Public addresses\<close>

lemma byte_exhaust:
  assumes "list_all (\<lambda>i. P (word_of_int i :: byte)) [0..255]"
  shows "P b"
proof -
  have "uint b \<in> {0..255}" using unsigned_less [of b, where ?'a = int] by simp
  then have "P (word_of_int (uint b))" using assms unfolding list_all_iff set_upto by blast
  then show ?thesis by simp
qed

lemma byte_masks:
  "(b :: byte) AND 0xf0 = 16 \<longleftrightarrow> 16 \<le> b \<and> b \<le> 31"
  "b AND 0xf0 = 0xe0 \<longleftrightarrow> 224 \<le> b \<and> b \<le> 239"
  "b AND 0xfe = 0xfc \<longleftrightarrow> 252 \<le> b \<and> b \<le> 253"
  "b AND 0xc0 = 0x80 \<longleftrightarrow> 128 \<le> b \<and> b \<le> 191"
proof -
  have "((b AND 0xf0 = 16) = (16 \<le> b \<and> b \<le> 31)) \<and> ((b AND 0xf0 = 0xe0) = (224 \<le> b \<and> b \<le> 239)) \<and>
        ((b AND 0xfe = 0xfc) = (252 \<le> b \<and> b \<le> 253)) \<and> ((b AND 0xc0 = 0x80) = (128 \<le> b \<and> b \<le> 191))"
    by (rule byte_exhaust [of "\<lambda>b. ((b AND 0xf0 = 16) = (16 \<le> b \<and> b \<le> 31)) \<and>
        ((b AND 0xf0 = 0xe0) = (224 \<le> b \<and> b \<le> 239)) \<and> ((b AND 0xfe = 0xfc) = (252 \<le> b \<and> b \<le> 253)) \<and>
        ((b AND 0xc0 = 0x80) = (128 \<le> b \<and> b \<le> 191))"]) code_simp
  then show "b AND 0xf0 = 16 \<longleftrightarrow> 16 \<le> b \<and> b \<le> 31" "b AND 0xf0 = 0xe0 \<longleftrightarrow> 224 \<le> b \<and> b \<le> 239"
    "b AND 0xfe = 0xfc \<longleftrightarrow> 252 \<le> b \<and> b \<le> 253" "b AND 0xc0 = 0x80 \<longleftrightarrow> 128 \<le> b \<and> b \<le> 191"
    by blast+
qed

lemma To4_length: "To4 ip = Some q \<Longrightarrow> length ip = 4 \<or> length ip = 16"
  by (auto simp: To4_def split: if_split_asm list.split_asm)

lemma To4_special: "To4 (replicate 16 0) = None" "To4 (replicate 15 0 @ [1]) = None"
  by code_simp+

lemmas ip_class_defs = isPublicIngestAddress_def IsGlobalUnicast_def IsPrivate_def IsLoopback_def IsLinkLocalUnicast_def
  IsLinkLocalMulticast_def IsMulticast_def IsUnspecified_def

text \<open>
  C35: the address filter of the source policy. An IPv4 address, also one written as an IPv4-mapped IPv6
  address, is public exactly when it is none of 0.0.0.0, 10/8, 127/8, 169.254/16, 172.16/12, 192.168/16,
  224/4 and 255.255.255.255; an IPv6 address exactly when it is none of ::, ::1, fc00::/7, fe80::/10
  and ff00::/8.
\<close>

theorem public_address_iff:
  "isPublicIngestAddress ip \<longleftrightarrow>
     (case To4 ip of
        Some (a, b, c, d) \<Rightarrow>
          (a, b, c, d) \<notin> {(0, 0, 0, 0), (255, 255, 255, 255)} \<and> a \<notin> {10, 127} \<and>
          \<not> (a = 169 \<and> b = 254) \<and> \<not> (a = 172 \<and> 16 \<le> b \<and> b \<le> 31) \<and> \<not> (a = 192 \<and> b = 168) \<and>
          \<not> (224 \<le> a \<and> a \<le> 239)
      | None \<Rightarrow>
          length ip = 16 \<and> ip \<noteq> replicate 16 0 \<and> ip \<noteq> replicate 15 0 @ [1] \<and>
          \<not> (252 \<le> ip ! 0 \<and> ip ! 0 \<le> 253) \<and> ip ! 0 \<noteq> 255 \<and>
          \<not> (ip ! 0 = 254 \<and> 128 \<le> ip ! 1 \<and> ip ! 1 \<le> 191))"
proof (cases "To4 ip")
  case None
  then have "length ip \<noteq> 4"
    by (auto simp: To4_def length_Suc_conv numeral_eq_Suc split: if_split_asm)
  with None show ?thesis by (auto simp: ip_class_defs byte_masks)
next
  case (Some q)
  obtain a b c d where q: "q = (a, b, c, d)" by (cases q)
  have len: "length ip = 4 \<or> length ip = 16" by (rule To4_length [OF Some])
  have ne: "ip \<noteq> replicate 16 0" using Some To4_special(1) by (metis option.distinct(1))
  have ll: "224 \<le> a \<and> a \<le> 239" if "a = 224" using that by simp
  show ?thesis
    unfolding ip_class_defs byte_masks Some q option.case prod.case option.inject insert_iff empty_iff
    using len ne ll by blast
qed

section \<open>Accepted selectors\<close>

lemma validateIngestSelectorURL_Inr:
  assumes "validateIngestSelectorURL raw scheme = Inr u"
  shows "ParseRequestURI raw = Some u \<and> Scheme u = scheme \<and> Host u \<noteq> [] \<and> User u = None \<and> RawQuery u = [] \<and>
     length raw \<le> 2048"
  using assms unfolding validateIngestSelectorURL_def by (cases "User u") (auto split: if_split_asm option.split_asm)

lemma validateSourceEndpoint_Inr:
  assumes "validateSourceEndpoint raw = Inr u"
  shows "ParseRequestURI raw = Some u \<and> Scheme u = ''https'' \<and> Host u \<noteq> [] \<and> User u = None"
  using assms unfolding validateSourceEndpoint_def by (cases "User u") (auto split: if_split_asm option.split_asm)

lemma validateNamedHTTPSelector_Inr:
  assumes "validateNamedHTTPSelector raw source = Inr selector"
  obtains u origin p ps where "validateIngestSelectorURL raw ''https'' = Inr u"
    "validateSourceEndpoint (his_Origin source) = Inr origin" "EqualFold (Host u) (Host origin)"
    "canonicalHTTPPath (EscapedPath u) = Inr p" "canonicalPrefixes (his_PathPrefixes source) = Inr ps"
    "matchesPathPrefix p ps" "selector = urlString u"
  using assms unfolding validateNamedHTTPSelector_def
  by (auto split: sum.split_asm if_split_asm)

lemma matchesPathPrefix_segments:
  assumes "matchesPathPrefix (pathOf segs) ps" "canonicalPrefixes raw = Inr ps" "raw \<noteq> []"
    and safe: "\<And>w. w \<in> set segs \<Longrightarrow> safeSegment w"
  shows "\<exists>p \<in> set raw. \<exists>pre. canonicalHTTPPath p = Inr (pathOf pre) \<and> prefix pre segs"
proof -
  have ps: "length ps = length raw" "\<And>c. c \<in> set ps \<Longrightarrow> \<exists>p \<in> set raw. canonicalHTTPPath p = Inr c"
    using canonicalPrefixes_Inr [OF assms(2)] by auto
  then have "ps \<noteq> []" using assms(3) by auto
  then obtain c where c: "c \<in> set ps"
    and m: "pathOf segs = TrimSuffix c ''/'' \<or> HasPrefix (pathOf segs) (TrimSuffix (TrimSuffix c ''/'') ''/'' @ ''/'')"
    using assms(1) unfolding matchesPathPrefix_def Let_def list_ex_iff by blast
  from ps(2) [OF c] obtain p where p: "p \<in> set raw" "canonicalHTTPPath p = Inr c" by blast
  from p(2) obtain pre where "c = pathOf pre" "\<And>w. w \<in> set pre \<Longrightarrow> safeSegment w"
    by (metis canonicalHTTPPath_Inr)
  with m p safe show ?thesis using matches_segments [of segs pre] by blast
qed

text \<open>
  C32: an HTTP selector accepted for a named source is an HTTPS URL without credentials or query on the host
  of the source's origin. Its decoded path consists of plain segments, none empty, a dot or two dots,
  and when the source lists path prefixes these segments start with all segments of one of them, so
  neither an encoded dot segment nor a longer sibling name gets around the restriction. The selector
  handed on starts with that scheme and host.
\<close>

theorem named_http_selector_contained:
  assumes "validateNamedHTTPSelector raw source = Inr selector"
  shows "\<exists>u origin segs.
    ParseRequestURI raw = Some u \<and> ParseRequestURI (his_Origin source) = Some origin \<and>
    Scheme u = ''https'' \<and> User u = None \<and> RawQuery u = [] \<and> EqualFold (Host u) (Host origin) \<and>
    (Path u = pathOf segs \<or> Path u = pathOf segs @ ''/'' \<or> Path u = [] \<and> segs = []) \<and>
    (\<forall>w \<in> set segs. safeSegment w) \<and>
    (his_PathPrefixes source = [] \<or>
      (\<exists>p \<in> set (his_PathPrefixes source). \<exists>pre. canonicalHTTPPath p = Inr (pathOf pre) \<and> prefix pre segs)) \<and>
    HasPrefix selector (''https://'' @ escape (Host u) encodeHost)"
proof -
  from assms obtain u origin p ps where u: "validateIngestSelectorURL raw ''https'' = Inr u"
    and o: "validateSourceEndpoint (his_Origin source) = Inr origin" "EqualFold (Host u) (Host origin)"
    and p: "canonicalHTTPPath (EscapedPath u) = Inr p" and ps: "canonicalPrefixes (his_PathPrefixes source) = Inr ps"
    and m: "matchesPathPrefix p ps" and sel: "selector = urlString u"
    by (rule validateNamedHTTPSelector_Inr)
  note u' = validateIngestSelectorURL_Inr [OF u] and o' = validateSourceEndpoint_Inr [OF o(1)]
  obtain decoded segs where d: "PathUnescape (EscapedPath u) = Some decoded" "p = pathOf segs"
    and safe: "\<And>w. w \<in> set segs \<Longrightarrow> safeSegment w"
    and shape: "decoded = p \<or> decoded = p @ ''/'' \<or> decoded = [] \<and> segs = []"
    using canonicalHTTPPath_Inr [OF p] by metis
  have "decoded = Path u" using d(1) by (simp add: PathUnescape_EscapedPath)
  moreover have "\<exists>q \<in> set (his_PathPrefixes source). \<exists>pre. canonicalHTTPPath q = Inr (pathOf pre) \<and> prefix pre segs"
    if "his_PathPrefixes source \<noteq> []"
    using matchesPathPrefix_segments [OF m [unfolded d(2)] ps that safe] .
  moreover have "HasPrefix selector (''https://'' @ escape (Host u) encodeHost)"
    using urlString_prefix [of u] u' ParseRequestURI_no_opaque [of raw u] unfolding sel HasPrefix_iff by auto
  ultimately show ?thesis using u' o' o(2) shape d(2) safe by blast
qed

text \<open>A source for the examples: one host, one directory.\<close>

definition mediaSource :: HTTPIngestSourceSpec where
  "mediaSource = \<lparr>his_Origin = ''https://media.example'', his_PathPrefixes = [''/in''], his_AllowPrivateAddresses = False,
     his_CredentialSecretRef = None\<rparr>"

theorem named_http_selector_contained_witness:
  "validateNamedHTTPSelector ''https://MEDIA.example/in/a%20b'' mediaSource = Inr ''https://MEDIA.example/in/a%20b'' \<and>
   (\<exists>u. ParseRequestURI ''https://MEDIA.example/in/a%20b'' = Some u \<and> User u = None)"
proof -
  have *: "validateNamedHTTPSelector ''https://MEDIA.example/in/a%20b'' mediaSource = Inr ''https://MEDIA.example/in/a%20b''"
    by code_simp
  show ?thesis using * named_http_selector_contained [OF *] by blast
qed

lemma validateResolvedHost_Inr:
  assumes "validateResolvedHost lookup raw False = Inr ()"
  shows "\<exists>v. ParseRequestURI raw = Some v \<and> Hostname v \<noteq> [] \<and>
    (case ParseIP (Hostname v) of
       Some ip \<Rightarrow> isPublicIngestAddress ip
     | None \<Rightarrow> \<exists>as. lookup (Hostname v) = Inr as \<and> as \<noteq> [] \<and> list_all isPublicIngestAddress as)"
  using assms unfolding validateResolvedHost_def
  by (auto simp: list_all_iff list_ex_iff split: option.split_asm if_split_asm sum.split_asm)

text \<open>
  C33: a selector accepted without a named source is an HTTPS URL without credentials or query, on port 443,
  and the host of the very string handed to the Job is a public address literal or resolves, at the
  time of the check, to at least one address and to public addresses only.
\<close>

theorem public_selector_resolves_publicly:
  assumes "validatePublicHTTPSSelector lookup raw = Inr selector"
  shows "\<exists>u v. ParseRequestURI raw = Some u \<and> Scheme u = ''https'' \<and> User u = None \<and> RawQuery u = [] \<and>
    Port u \<in> {[], ''443''} \<and> selector = urlString u \<and> ParseRequestURI selector = Some v \<and>
    (case ParseIP (Hostname v) of
       Some ip \<Rightarrow> isPublicIngestAddress ip
     | None \<Rightarrow> \<exists>as. lookup (Hostname v) = Inr as \<and> as \<noteq> [] \<and> list_all isPublicIngestAddress as)"
proof -
  from assms obtain u where u: "validateIngestSelectorURL raw ''https'' = Inr u" "Port u = [] \<or> Port u = ''443''"
    "validateResolvedHost lookup (urlString u) False = Inr ()" "selector = urlString u"
    unfolding validatePublicHTTPSSelector_def by (auto split: sum.split_asm if_split_asm)
  then show ?thesis
    using validateIngestSelectorURL_Inr [OF u(1)] validateResolvedHost_Inr [OF u(3)] by auto
qed

theorem public_selector_resolves_publicly_witness:
  "validatePublicHTTPSSelector (\<lambda>h. Inr [[203, 0, 113, 7]]) ''https://media.example/a.ts'' =
     Inr ''https://media.example/a.ts'' \<and>
   (\<exists>u. ParseRequestURI ''https://media.example/a.ts'' = Some u \<and> Port u \<in> {[], ''443''})"
proof -
  have *: "validatePublicHTTPSSelector (\<lambda>h. Inr [[203, 0, 113, 7]]) ''https://media.example/a.ts'' =
     Inr ''https://media.example/a.ts''"
    by code_simp
  show ?thesis using * public_selector_resolves_publicly [OF *] by blast
qed

section \<open>The resolver interfaces\<close>

text \<open>
  \<open>IngestInputResolver\<close>: what the controller relies on. A plan has one selector, announces at most one
  input and carries a digest; none is made for a limit below one or while the policy is Disabled.
\<close>

locale ingest_input_resolver =
  fixes resolve :: "Tamoss \<Rightarrow> IngestRunInput \<Rightarrow> int \<Rightarrow> 'e + ResolvedIngestInputs"
  assumes one_selector: "resolve t i m = Inr plan \<Longrightarrow> \<exists>selector. rii_Selectors plan = [selector]"
    and at_most_one: "resolve t i m = Inr plan \<Longrightarrow> rii_ExpectedInputs plan \<in> {0, 1}"
    and positive: "resolve t i m = Inr plan \<Longrightarrow> 1 \<le> m"
    and digest: "resolve t i m = Inr plan \<Longrightarrow> validDigest (rii_PolicyDigest plan)"
    and enabled: "resolve t i m = Inr plan \<Longrightarrow> is_Mode (ts_Ingest (tm_Spec t)) \<notin> {[], IngestSourcePolicyDisabled}"
begin

text \<open>Of the controller's checks on a plan only those on the source name and on the selector can fail.\<close>

lemma plan_checks:
  assumes "resolve t i m = Inr plan"
  shows "validateResolvedIngestInputs plan m =
    (if TrimSpace (rii_SourceName plan) = [] then Inl ''resolved source policy is incomplete''
     else checkSelectors 0 (rii_Selectors plan))"
  using one_selector [OF assms] at_most_one [OF assms] positive [OF assms] digest [OF assms]
  by (auto simp: validateResolvedIngestInputs_def maxIngestSelectors_def)

lemma disabled_rejects: "is_Mode (ts_Ingest (tm_Spec t)) \<in> {[], IngestSourcePolicyDisabled} \<Longrightarrow> \<exists>e. resolve t i m = Inl e"
  using enabled by (cases "resolve t i m") blast+

end

lemma resolvedSourcePolicy_plan:
  "\<exists>selector. rii_Selectors (resolvedSourcePolicy sel name pol ref kind s3) = [selector]"
  "rii_ExpectedInputs (resolvedSourcePolicy sel name pol ref kind s3) \<in> {0, 1}"
  "validDigest (rii_PolicyDigest (resolvedSourcePolicy sel name pol ref kind s3))"
  by (auto simp: resolvedSourcePolicy_def Let_def validDigest_def)

lemma resolveSource_plan:
  "resolveHTTPSource r ns inp source = Inr plan \<Longrightarrow>
     \<exists>http selector pol. src_HTTP source = Some http \<and> src_S3 source = None \<and>
       validateNamedHTTPSelector (iri_URI inp) http = Inr selector \<and>
       validateResolvedHost (spr_lookup r) (his_Origin http) (his_AllowPrivateAddresses http) = Inr () \<and>
       validateCredentialSecret (spr_getSecret r) ns (his_CredentialSecretRef http) IngestKindHTTP = Inr () \<and>
       plan = resolvedSourcePolicy selector (src_Name source) pol (his_CredentialSecretRef http) IngestKindHTTP None"
  "resolveS3Source r ns inp source = Inr plan \<Longrightarrow>
     \<exists>s3 selector pol. src_S3 source = Some s3 \<and> src_HTTP source = None \<and>
       validateNamedS3Selector (iri_URI inp) s3 = Inr selector \<and>
       validateResolvedHost (spr_lookup r) (sis_Endpoint s3) (sis_AllowPrivateAddresses s3) = Inr () \<and>
       validateCredentialSecret (spr_getSecret r) ns (sis_CredentialSecretRef s3) IngestKindS3 = Inr () \<and>
       plan = resolvedSourcePolicy selector (src_Name source) pol (sis_CredentialSecretRef s3) IngestKindS3 (Some s3)"
  by (auto simp: resolveHTTPSource_def resolveS3Source_def split: option.split_asm)

lemma find_name: "find (\<lambda>s. src_Name s = ref) sources = Some source \<Longrightarrow> source \<in> set sources \<and> src_Name source = ref"
  by (auto simp: find_Some_iff)

lemma Resolve_cases:
  assumes "Resolve r t inp m = Inr plan"
  obtains (public) selector pol where "is_Mode (ts_Ingest (tm_Spec t)) = IngestSourcePolicyPublicHTTPS"
      "iri_SourceRef inp = None" "iri_Kind inp = IngestKindHTTP" "1 \<le> m"
      "validatePublicHTTPSSelector (spr_lookup r) (iri_URI inp) = Inr selector"
      "plan = resolvedSourcePolicy selector ''public-https'' pol None [] None"
    | (named) source where "is_Mode (ts_Ingest (tm_Spec t)) \<notin> {[], IngestSourcePolicyDisabled}"
      "iri_SourceRef inp = Some (src_Name source)" "source \<in> set (is_Sources (ts_Ingest (tm_Spec t)))"
      "src_Kind source = iri_Kind inp" "1 \<le> m"
      "iri_Kind inp = IngestKindHTTP \<and> resolveHTTPSource r (tm_Namespace t) inp source = Inr plan \<or>
       iri_Kind inp = IngestKindS3 \<and> resolveS3Source r (tm_Namespace t) inp source = Inr plan"
proof (cases "iri_SourceRef inp")
  case None
  with assms have "orElse (is_Mode (ts_Ingest (tm_Spec t))) IngestSourcePolicyDisabled = IngestSourcePolicyPublicHTTPS"
    "iri_Kind inp = IngestKindHTTP" "1 \<le> m"
    "\<exists>selector. validatePublicHTTPSSelector (spr_lookup r) (iri_URI inp) = Inr selector \<and>
       resolvedSourcePolicy selector ''public-https''
         \<lparr>pol_Version = ''1'', pol_Mode = ''publicHTTPS'', pol_HTTP = None, pol_S3 = None\<rparr> None [] None = plan"
    unfolding Resolve_def Let_def by (simp_all split: if_split_asm option.split_asm)
  moreover from this(1) have "is_Mode (ts_Ingest (tm_Spec t)) = IngestSourcePolicyPublicHTTPS"
    by (simp add: orElse_def split: if_split_asm)
  ultimately show thesis using public None by blast
next
  case (Some ref)
  with assms have m: "orElse (is_Mode (ts_Ingest (tm_Spec t))) IngestSourcePolicyDisabled \<noteq> IngestSourcePolicyDisabled" "1 \<le> m"
    and rest: "(case find (\<lambda>s. src_Name s = ref) (is_Sources (ts_Ingest (tm_Spec t))) of
        None \<Rightarrow> False
      | Some source \<Rightarrow> src_Kind source = iri_Kind inp \<and>
          (iri_Kind inp = IngestKindHTTP \<and> resolveHTTPSource r (tm_Namespace t) inp source = Inr plan \<or>
           iri_Kind inp = IngestKindS3 \<and> resolveS3Source r (tm_Namespace t) inp source = Inr plan))"
    unfolding Resolve_def Let_def by (simp_all split: if_split_asm option.split_asm)
  have mode: "is_Mode (ts_Ingest (tm_Spec t)) \<notin> {[], IngestSourcePolicyDisabled}"
    using m(1) by (auto simp: orElse_def split: if_split_asm)
  from rest obtain source where "find (\<lambda>s. src_Name s = ref) (is_Sources (ts_Ingest (tm_Spec t))) = Some source"
    and "src_Kind source = iri_Kind inp"
    and "iri_Kind inp = IngestKindHTTP \<and> resolveHTTPSource r (tm_Namespace t) inp source = Inr plan \<or>
      iri_Kind inp = IngestKindS3 \<and> resolveS3Source r (tm_Namespace t) inp source = Inr plan"
    by (auto split: option.split_asm)
  with mode m(2) Some show thesis using named find_name by metis
qed

lemma Resolve_plan_shape:
  assumes "Resolve r t inp m = Inr plan"
  shows "\<exists>sel name pol ref kind s3. plan = resolvedSourcePolicy sel name pol ref kind s3"
  using assms
proof (cases rule: Resolve_cases)
  case (named source)
  then show ?thesis using resolveSource_plan [of r "tm_Namespace t" inp source plan] by metis
qed blast

interpretation source_policy: ingest_input_resolver "Resolve r" for r
proof
  fix t i m plan
  assume r: "Resolve r t i m = Inr plan"
  obtain sel name pol ref kind s3 where p: "plan = resolvedSourcePolicy sel name pol ref kind s3"
    using Resolve_plan_shape [OF r] by blast
  show "\<exists>selector. rii_Selectors plan = [selector]" "rii_ExpectedInputs plan \<in> {0, 1}" "validDigest (rii_PolicyDigest plan)"
    unfolding p by (rule resolvedSourcePolicy_plan)+
  from r show "1 \<le> m" by (cases rule: Resolve_cases)
  from r show "is_Mode (ts_Ingest (tm_Spec t)) \<notin> {[], IngestSourcePolicyDisabled}" by (cases rule: Resolve_cases) auto
qed

text \<open>\<open>IngestEndpointResolver\<close>: an endpoint that is handed out is not empty.\<close>

locale ingest_endpoint_resolver =
  fixes resolve :: "string \<Rightarrow> string \<Rightarrow> 'e + string"
  assumes published: "resolve namespace name = Inr endpoint \<Longrightarrow> endpoint \<noteq> []"

interpretation published: ingest_endpoint_resolver "publishedEndpointResolve getTamoss" for getTamoss
  by unfold_locales (auto simp: publishedEndpointResolve_def split: sum.split_asm if_split_asm)


definition publicTamoss :: Tamoss where
  "publicTamoss = (zeroTamoss ''media'' ''demo'')\<lparr>tm_Spec := zeroSpec\<lparr>ts_Ingest :=
     \<lparr>is_Mode = IngestSourcePolicyPublicHTTPS, is_Sources = []\<rparr>\<rparr>\<rparr>"

definition publicInput :: IngestRunInput where
  "publicInput = \<lparr>iri_Kind = IngestKindHTTP, iri_URI = ''https://media.example/a.ts'', iri_SourceRef = None\<rparr>"

definition publicResolver :: SourcePolicyResolver where
  "publicResolver = \<lparr>spr_getSecret = \<lambda>_ _. Inl NotFound, spr_lookup = \<lambda>_. Inr [[203, 0, 113, 7]]\<rparr>"

lemma publicSelector: "validatePublicHTTPSSelector (spr_lookup publicResolver) (iri_URI publicInput) = Inr ''https://media.example/a.ts''"
  by code_simp

lemma publicPlan: "\<exists>pol. Resolve publicResolver publicTamoss publicInput 1 =
    Inr (resolvedSourcePolicy ''https://media.example/a.ts'' ''public-https'' pol None [] None)"
  using publicSelector by (auto simp: Resolve_def thenCheck_def publicTamoss_def publicInput_def)


section \<open>What the selector checks let through\<close>

text \<open>
  \<open>url.ParseRequestURI\<close> does not split off a fragment, so the test for one never fires: a number sign
  stays in the path and is printed as \<open>%23\<close>.
\<close>

lemma fragment_test_is_dead:
  "validateIngestSelectorURL raw scheme \<noteq> Inl (Rejected m) \<or> length raw > 2048 \<or>
   (case ParseRequestURI raw of None \<Rightarrow> True | Some u \<Rightarrow> Scheme u \<noteq> scheme \<or> Host u = [] \<or> User u \<noteq> None \<or> RawQuery u \<noteq> [])"
  by (auto simp: validateIngestSelectorURL_def dest: ParseRequestURI_no_fragment split: option.splits)

lemma fragment_accepted:
  "validateNamedHTTPSelector ''https://media.example/in/a#b'' mediaSource = Inr ''https://media.example/in/a%23b''"
  by code_simp

text \<open>Key prefixes are compared with the escaped key, so a prefix with a space admits none of its keys.\<close>

definition spacedSource :: S3IngestSourceSpec where
  "spacedSource = \<lparr>sis_Endpoint = ''https://s3.example'', sis_Region = ''r1'', sis_Bucket = ''media'',
     sis_KeyPrefixes = [''my dir/''], sis_PathStyle = False, sis_AllowPrivateAddresses = False,
     sis_CredentialSecretRef = None\<rparr>"

lemma spaced_prefix_admits_nothing:
  "validateNamedS3Selector ''s3://media/my dir/a.ts'' spacedSource =
     Inl (Rejected ''S3 input key is outside the source key prefixes'')"
  "validateNamedS3Selector ''s3://media/my%20dir/a.ts'' spacedSource =
     Inl (Rejected ''S3 input key is outside the source key prefixes'')"
  by code_simp+

end
