(* ===== verification/Kube_Job.thy ===== *)
theory Kube_Job
  imports Kube
begin

text \<open>
  Jobs and Pods: the parts of the \<open>batch\<close> and \<open>core\<close> API types that the controllers render or read.
\<close>

section \<open>Jobs and Pods\<close>

record JobCondition =
  jc_Type :: string
  jc_Status :: ConditionStatus
  jc_LastTransitionTime :: time

record JobStatus =
  jst_Active :: int
  jst_StartTime :: "time option"
  jst_CompletionTime :: "time option"
  jst_Conditions :: "JobCondition list"

record VolumeMount =
  vm_Name :: string
  vm_MountPath :: string
  vm_ReadOnly :: bool

text \<open>
  A volume is an \<open>emptyDir\<close> with a size limit, a downward-API projection of fields to files, or a
  ConfigMap with the default mode and the items to project.
\<close>

datatype VolumeSource = EmptyDir Quantity | DownwardAPI "(string \<times> string) list"
  | ConfigMapVolume string "int option" "(string \<times> string) list"

record Volume =
  vol_Name :: string
  vol_Source :: VolumeSource

record Container =
  ctr_Name :: string
  ctr_Image :: string
  ctr_ImagePullPolicy :: string
  ctr_Command :: "string list"
  ctr_Args :: "string list"
  ctr_Env :: "EnvVar list"
  ctr_Resources :: ResourceRequirements
  ctr_SecurityContext :: "SecurityContext option"
  ctr_VolumeMounts :: "VolumeMount list"

record PodTemplateSpec =
  pt_Labels :: "string \<rightharpoonup> string"
  pt_Annotations :: "string \<rightharpoonup> string"
  pt_AutomountServiceAccountToken :: "bool option"
  pt_EnableServiceLinks :: "bool option"
  pt_RestartPolicy :: string
  pt_TerminationGracePeriodSeconds :: "int option"
  pt_ImagePullSecrets :: "LocalObjectReference list"
  pt_SecurityContext :: "PodSecurityContext option"
  pt_Containers :: "Container list"
  pt_Volumes :: "Volume list"

record JobSpec =
  jsp_BackoffLimit :: int
  jsp_ActiveDeadlineSeconds :: "int option"
  jsp_TTLSecondsAfterFinished :: "int option"
  jsp_Template :: PodTemplateSpec

record Job =
  job_Meta :: ObjectMeta
  job_Spec :: JobSpec
  job_Status :: JobStatus

definition newJobStatus :: JobStatus where
  "newJobStatus = \<lparr>jst_Active = 0, jst_StartTime = None, jst_CompletionTime = None, jst_Conditions = []\<rparr>"

record ContainerStateTerminated =
  cst_ExitCode :: int
  cst_FinishedAt :: time

record ContainerStatus =
  cs_Name :: string
  cs_Terminated :: "ContainerStateTerminated option"

record Pod =
  pod_Meta :: ObjectMeta
  pod_ContainerStatuses :: "ContainerStatus list"

record ConfigMap =
  cm_Meta :: ObjectMeta
  cm_Data :: "string \<rightharpoonup> string"

abbreviation "job_Name j \<equiv> om_Name (job_Meta j)"
abbreviation "job_Namespace j \<equiv> om_Namespace (job_Meta j)"
abbreviation "job_UID j \<equiv> om_UID (job_Meta j)"

text \<open>\<open>podOwnedByJobUID\<close> of \<open>ingestrun_controller.go\<close>, \<open>jobSucceeded\<close> and \<open>jobFailed\<close> of \<open>schema_controller.go\<close>.\<close>

definition podOwnedByJobUID :: "Pod \<Rightarrow> string \<Rightarrow> bool" where
  "podOwnedByJobUID pod jobUID =
     list_ex (\<lambda>owner. or_Kind owner = ''Job'' \<and> or_UID owner = jobUID) (om_OwnerReferences (pod_Meta pod))"

definition jobSucceeded :: "Job \<Rightarrow> bool" where
  "jobSucceeded job = list_ex (\<lambda>c. jc_Type c = ''Complete'' \<and> jc_Status c = ConditionTrue) (jst_Conditions (job_Status job))"

definition jobFailed :: "Job \<Rightarrow> bool" where
  "jobFailed job = list_ex (\<lambda>c. jc_Type c = ''Failed'' \<and> jc_Status c = ConditionTrue) (jst_Conditions (job_Status job))"

end
