(* ===== verification/Ingest_Job.thy ===== *)
theory Ingest_Job
  imports Ingest_Source_Laws Kube_Job "HOL-Library.Product_Lexorder"
begin

text \<open>
  The TAMSin Job of an ingest run: the names derived from a run, and \<open>desiredIngestJob\<close> with its helpers
  (\<open>ingestrun_controller.go\<close>, from \<open>ingestJobResources\<close> to the end).
\<close>

abbreviation "ingestRunLabel \<equiv> ''tamoss.livewyer.io/ingest-run''"
abbreviation "ingestRunTargetLabel \<equiv> ''tamoss.livewyer.io/tamoss''"
abbreviation "ingestSourceAnnotation \<equiv> ''tamoss.livewyer.io/ingest-source''"
abbreviation "ingestSourcePolicyAnnotation \<equiv> ''tamoss.livewyer.io/ingest-source-policy-digest''"
abbreviation "ingestFlowMetadataAnnotation \<equiv> ''tamoss.livewyer.io/flow-metadata''"
abbreviation "ingestFlowMetadataVolume \<equiv> ''flow-metadata''"
abbreviation "ingestFlowMetadataMountPath \<equiv> ''/etc/tamsin/flow-metadata''"

section \<open>Names and images\<close>

definition nameDigest :: "string \<Rightarrow> string" where
  "nameDigest s = take 10 (EncodeToString (Sum256 s))"

definition ingestJobName :: "string \<Rightarrow> string" where
  "ingestJobName runName =
     (if length ''tamsin-'' + length runName \<le> 63 then ''tamsin-'' @ runName
      else (let maxRunLength = 63 - length ''tamsin-'' - length (nameDigest runName) - 1
            in ''tamsin-'' @ TrimRight (take maxRunLength runName) ''-.'' @ ''-'' @ nameDigest runName))"

definition ingestRunSelectorValue :: "string \<Rightarrow> string" where
  "ingestRunSelectorValue runName =
     (if length runName \<le> 63 then runName
      else TrimRight (take 52 runName) ''-.'' @ ''-'' @ nameDigest runName)"

definition isImmutableImageReference :: "string \<Rightarrow> bool" where
  "isImmutableImageReference img =
     (case Cut (TrimSpace img) ''@sha256:'' of
        None \<Rightarrow> False
      | Some (repository, dig) \<Rightarrow> repository \<noteq> [] \<and> length dig = 64 \<and> list_all isHexLower dig)"

section \<open>The Job\<close>

record ingestJobResources =
  ijr_Concurrency :: int
  ijr_StagingByteBudget :: string
  ijr_TemporarySize :: Quantity
  ijr_Requests :: ResourceList
  ijr_Limits :: ResourceList

definition ingestResources ::
    "int \<Rightarrow> string \<Rightarrow> string \<Rightarrow> string \<Rightarrow> string \<Rightarrow> string \<Rightarrow> string \<Rightarrow> string \<Rightarrow> string \<Rightarrow> ingestJobResources" where
  "ingestResources concurrency budget temporarySize requestCPU requestMemory requestStorage limitCPU limitMemory limitStorage =
     \<lparr>ijr_Concurrency = concurrency, ijr_StagingByteBudget = budget, ijr_TemporarySize = MustParse temporarySize,
      ijr_Requests = [''cpu'' \<mapsto> MustParse requestCPU, ''memory'' \<mapsto> MustParse requestMemory,
        ''ephemeral-storage'' \<mapsto> MustParse requestStorage],
      ijr_Limits = [''cpu'' \<mapsto> MustParse limitCPU, ''memory'' \<mapsto> MustParse limitMemory,
        ''ephemeral-storage'' \<mapsto> MustParse limitStorage]\<rparr>"

definition resourcesForIngestRun :: "string \<Rightarrow> ingestJobResources" where
  "resourcesForIngestRun sizeClass =
     (if sizeClass = ''small'' then ingestResources 1 ''4GiB'' ''6Gi'' ''250m'' ''1Gi'' ''8Gi'' ''2'' ''2Gi'' ''10Gi''
      else if sizeClass = ''large'' then ingestResources 8 ''80GiB'' ''100Gi'' ''2'' ''4Gi'' ''110Gi'' ''8'' ''12Gi'' ''120Gi''
      else ingestResources 4 ''16GiB'' ''20Gi'' ''1'' ''2Gi'' ''24Gi'' ''4'' ''6Gi'' ''30Gi'')"

definition ingestVerifyMode :: "bool \<Rightarrow> string" where
  "ingestVerifyMode verify = (if verify then ''auto'' else ''none'')"

text \<open>
  \<open>formatOrder\<close>: an unknown format indexes the zero value of the map. The sort of the source is not
  stable, but the API schema makes format and index a key of the list, so there are no ties.
\<close>

definition formatOrder :: "string \<Rightarrow> int" where
  "formatOrder f = deref 0 (map_of [(''video'', 0), (''audio'', 1), (''image'', 2), (''data'', 3)] f)"

definition assignmentKey :: "IngestRunTAMSFlowProfile \<Rightarrow> int \<times> int" where
  "assignmentKey a = (formatOrder (ifp_Format a), ifp_Index a)"

definition assignmentArgument :: "IngestRunTAMSFlowProfile \<Rightarrow> string" where
  "assignmentArgument a = ifp_Format a @ '':'' @ Itoa (ifp_Index a) @ ''='' @ ifp_ProfileID a"

definition tamsFlowProfileArguments :: "IngestRunTAMSFlowProfile list \<Rightarrow> string list" where
  "tamsFlowProfileArguments assignments =
     concat (map (\<lambda>a. [''--tams-flow-profile'', assignmentArgument a]) (sort_key assignmentKey assignments))"

definition sourceSecretEnv :: "string \<Rightarrow> string \<Rightarrow> bool \<Rightarrow> EnvVar" where
  "sourceSecretEnv key secretName optional =
     \<lparr>ev_Name = key, ev_Value = [],
      ev_SecretKeyRef = Some \<lparr>sks_Name = secretName, sks_Key = key, sks_Optional = Some optional\<rparr>\<rparr>"

definition ingestArgs ::
    "IngestRunSpec \<Rightarrow> Tamoss \<Rightarrow> string \<Rightarrow> string \<Rightarrow> string \<Rightarrow> ResolvedIngestInputs \<Rightarrow> string list" where
  "ingestArgs spec tamoss endpoint storageID flowMetadata resolved =
     (let opts = irs_Options spec;
          jobResources = resourcesForIngestRun (irs_SizeClass spec);
          concurrency = (if iro_Concurrency opts = 0 then ijr_Concurrency jobResources else iro_Concurrency opts)
      in [''ingest'', ''--endpoint'', endpoint, ''--format'', ''json'', ''--log-format'', ''json'', ''--progress'', ''none'',
          ''--profile'', irs_Profile spec, ''--max-inputs'', Itoa (iro_MaxInputs opts), ''--concurrency'', Itoa concurrency,
          ''--staging-byte-budget'', ijr_StagingByteBudget jobResources,
          ''--verify='' @ ingestVerifyMode (deref True (iro_Verify opts))] @
         (if rii_S3Endpoint resolved \<noteq> []
          then [''--s3-endpoint'', rii_S3Endpoint resolved, ''--s3-region'', rii_S3Region resolved] @
               (if rii_S3PathStyle resolved then [''--s3-path-style''] else [])
          else []) @
         (if iro_DryRun opts then [''--dry-run=exact''] else []) @
         tamsFlowProfileArguments (deref [] (iro_TAMSFlowProfiles opts)) @
         (if ts_Profile (tm_Spec tamoss) = TamossProfileLocalKind then [''--insecure-skip-verify''] else []) @
         (if storageID \<noteq> [] then [''--storage-id'', storageID] else []) @
         (if flowMetadata \<noteq> [] then [''--flow-metadata'', ingestFlowMetadataMountPath @ ''/flow-metadata.json''] else []) @
         concat (map (\<lambda>selector. [''--input'', selector]) (rii_Selectors resolved)))"

definition ingestEnv :: "Tamoss \<Rightarrow> ResolvedIngestInputs \<Rightarrow> EnvVar list" where
  "ingestEnv tamoss resolved =
     [\<lparr>ev_Name = ''TAMSIN_AUTH_MODE'', ev_Value = ''bearer'', ev_SecretKeyRef = None\<rparr>,
      \<lparr>ev_Name = ''TAMSIN_AUTH_TOKEN'', ev_Value = [],
       ev_SecretKeyRef = Some \<lparr>sks_Name = ResourceName tamoss ''api-token'', sks_Key = ''TAMOSS_API_TOKEN'', sks_Optional = None\<rparr>\<rparr>] @
     (if rii_CredentialSecretName resolved = [] then []
      else if rii_CredentialKind resolved = IngestKindHTTP
      then [sourceSecretEnv httpCredentialSecretKey (rii_CredentialSecretName resolved) False]
      else if rii_CredentialKind resolved = IngestKindS3
      then [sourceSecretEnv s3AccessKeySecretKey (rii_CredentialSecretName resolved) False,
            sourceSecretEnv s3SecretKeySecretKey (rii_CredentialSecretName resolved) False,
            sourceSecretEnv s3SessionTokenSecretKey (rii_CredentialSecretName resolved) True]
      else [])"

definition ingestLabels :: "IngestRun \<Rightarrow> IngestRunSpec \<Rightarrow> string \<rightharpoonup> string" where
  "ingestLabels run spec =
     [''app.kubernetes.io/name'' \<mapsto> ''tamsin'', ''app.kubernetes.io/component'' \<mapsto> ''ingest'',
      ''app.kubernetes.io/managed-by'' \<mapsto> ''tamoss-operator'', ''app.kubernetes.io/instance'' \<mapsto> irs_TamossRef spec,
      ingestRunLabel \<mapsto> ingestRunSelectorValue (ir_Name run), ingestRunTargetLabel \<mapsto> irs_TamossRef spec]"

definition ingestContainer ::
    "IngestRunSpec \<Rightarrow> Tamoss \<Rightarrow> string \<Rightarrow> string \<Rightarrow> string \<Rightarrow> string \<Rightarrow> ResolvedIngestInputs \<Rightarrow> Container" where
  "ingestContainer spec tamoss endpoint img storageID flowMetadata resolved =
     (let jobResources = resourcesForIngestRun (irs_SizeClass spec)
      in \<lparr>ctr_Name = ''tamsin'', ctr_Image = img, ctr_ImagePullPolicy = ''IfNotPresent'', ctr_Command = [],
          ctr_Args = ingestArgs spec tamoss endpoint storageID flowMetadata resolved,
          ctr_Env = ingestEnv tamoss resolved,
          ctr_Resources = \<lparr>rr_Requests = ijr_Requests jobResources, rr_Limits = ijr_Limits jobResources\<rparr>,
          ctr_SecurityContext = Some \<lparr>sc_RunAsNonRoot = None, sc_AllowPrivilegeEscalation = Some False,
            sc_ReadOnlyRootFilesystem = Some True, sc_Capabilities = Some \<lparr>cap_Add = [], cap_Drop = [''ALL'']\<rparr>\<rparr>,
          ctr_VolumeMounts = [\<lparr>vm_Name = ''temporary-media'', vm_MountPath = ''/tmp'', vm_ReadOnly = False\<rparr>] @
            (if flowMetadata \<noteq> []
             then [\<lparr>vm_Name = ingestFlowMetadataVolume, vm_MountPath = ingestFlowMetadataMountPath, vm_ReadOnly = True\<rparr>]
             else [])\<rparr>)"

definition ingestPodTemplate ::
    "IngestRun \<Rightarrow> IngestRunSpec \<Rightarrow> Tamoss \<Rightarrow> string \<Rightarrow> string \<Rightarrow> string \<Rightarrow> string \<Rightarrow> ResolvedIngestInputs \<Rightarrow> PodTemplateSpec" where
  "ingestPodTemplate run spec tamoss endpoint img storageID flowMetadata resolved =
     \<lparr>pt_Labels = ingestLabels run spec,
      pt_Annotations = (if flowMetadata \<noteq> [] then [ingestFlowMetadataAnnotation \<mapsto> flowMetadata] else Map.empty),
      pt_AutomountServiceAccountToken = Some False, pt_EnableServiceLinks = Some False, pt_RestartPolicy = ''Never'',
      pt_TerminationGracePeriodSeconds = Some 90, pt_ImagePullSecrets = ts_ImagePullSecrets (tm_Spec tamoss),
      pt_SecurityContext = Some \<lparr>psc_RunAsNonRoot = Some True, psc_RunAsUser = Some 65532, psc_RunAsGroup = Some 65532,
        psc_SeccompProfile = Some ''RuntimeDefault''\<rparr>,
      pt_Containers = [ingestContainer spec tamoss endpoint img storageID flowMetadata resolved],
      pt_Volumes = [\<lparr>vol_Name = ''temporary-media'',
          vol_Source = EmptyDir (ijr_TemporarySize (resourcesForIngestRun (irs_SizeClass spec)))\<rparr>] @
        (if flowMetadata \<noteq> []
         then [\<lparr>vol_Name = ingestFlowMetadataVolume,
                vol_Source = DownwardAPI [(''flow-metadata.json'',
                  ''metadata.annotations['' @ [CHR 0x27] @ ingestFlowMetadataAnnotation @ [CHR 0x27] @ '']'')]\<rparr>]
         else [])\<rparr>"

definition desiredIngestJob ::
    "IngestRun \<Rightarrow> IngestRunSpec \<Rightarrow> Tamoss \<Rightarrow> string \<Rightarrow> string \<Rightarrow> string \<Rightarrow> string \<Rightarrow> ResolvedIngestInputs \<Rightarrow> Job" where
  "desiredIngestJob run spec tamoss endpoint img storageID flowMetadata resolved =
     \<lparr>job_Meta = emptyMeta\<lparr>om_Name := ingestJobName (ir_Name run), om_Namespace := ir_Namespace run,
        om_Labels := ingestLabels run spec,
        om_Annotations := [ingestSourceAnnotation \<mapsto> rii_SourceName resolved,
          ingestSourcePolicyAnnotation \<mapsto> rii_PolicyDigest resolved]\<rparr>,
      job_Spec = \<lparr>jsp_BackoffLimit = 0, jsp_ActiveDeadlineSeconds = Some 21600, jsp_TTLSecondsAfterFinished = Some 3600,
        jsp_Template = ingestPodTemplate run spec tamoss endpoint img storageID flowMetadata resolved\<rparr>,
      job_Status = newJobStatus\<rparr>"

section \<open>Examples\<close>

definition exampleRunSpec :: IngestRunSpec where
  "exampleRunSpec = \<lparr>irs_TamossRef = ''demo'', irs_Input = publicInput, irs_Profile = ''essence-segments@1'',
     irs_SizeClass = ''standard'',
     irs_Options = \<lparr>iro_StorageBackendRef = None, iro_Verify = Some True, iro_DryRun = False, iro_MaxInputs = 1,
       iro_Concurrency = 0, iro_TAMSFlowProfiles = None\<rparr>,
     irs_Output = None, irs_DesiredState = ''Running'', irs_RetryOf = None\<rparr>"

definition zeroRunStatus :: IngestRunStatus where
  "zeroRunStatus = \<lparr>ist_ObservedGeneration = 0, ist_Phase = IngestUnset, ist_Conditions = [],
     ist_JobRef = \<lparr>ijs_Name = [], ijs_UID = []\<rparr>, ist_ResolvedSource = \<lparr>irsrc_Name = [], irsrc_PolicyDigest = []\<rparr>,
     ist_ResolvedTAMSFlowProfiles = None, ist_TamsinRunID = [], ist_Attempt = 0,
     ist_Progress = \<lparr>ipg_InputsTotal = 0, ipg_InputsCompleted = 0, ipg_InputsSucceeded = 0, ipg_InputsFailed = 0,
       ipg_BytesUploaded = 0\<rparr>,
     ist_LastEventSequence = 0,
     ist_ResultRef = \<lparr>irt_Key = [], irt_SHA256 = [], irt_Size = 0, irt_MediaType = [], irt_Verified = False\<rparr>,
     ist_Output = None, ist_StartedAt = None, ist_CompletedAt = None\<rparr>"

definition exampleRun :: IngestRun where
  "exampleRun = \<lparr>ir_Meta = emptyMeta\<lparr>om_Name := ''r'', om_Namespace := ''media'', om_UID := ''u1'', om_Generation := 1\<rparr>,
     ir_Spec = exampleRunSpec, ir_Status = zeroRunStatus\<rparr>"

definition examplePlan :: ResolvedIngestInputs where
  "examplePlan = \<lparr>rii_Selectors = [''https://media.example/a.ts''], rii_ExpectedInputs = 1, rii_SourceName = ''public-https'',
     rii_PolicyDigest = replicate 64 (CHR ''0''), rii_CredentialSecretName = [], rii_CredentialKind = [],
     rii_S3Endpoint = [], rii_S3Region = [], rii_S3PathStyle = False\<rparr>"

section \<open>Derived names\<close>

text \<open>
  A name that the operator derives from the name of a run must fit into a label value or a DNS label
  and may not end in a separator.
\<close>

locale bounded_name =
  fixes derive :: "string \<Rightarrow> string"
  assumes at_most_63: "length (derive n) \<le> 63"
    and ends_well: "n \<noteq> [] \<Longrightarrow> last n \<notin> set ''-.'' \<Longrightarrow> derive n \<noteq> [] \<and> last (derive n) \<notin> set ''-.''"

lemma length_nameDigest [simp]: "length (nameDigest s) = 10"
  by (simp add: nameDigest_def)

lemma nameDigest_hex: "list_all isHexLower (nameDigest s)"
  unfolding nameDigest_def using EncodeToString_hex by (metis list_all_append append_take_drop_id)

lemma nameDigest_last: "nameDigest s \<noteq> []" "last (nameDigest s) \<notin> set ''-.''"
proof -
  show ne: "nameDigest s \<noteq> []" by (metis length_nameDigest list.size(3) zero_neq_numeral)
  have "isHexLower (last (nameDigest s))" using nameDigest_hex ne by (metis last_in_set list_all_iff)
  moreover have "\<not> isHexLower (CHR ''-'')" "\<not> isHexLower (CHR ''.'')" by code_simp+
  ultimately show "last (nameDigest s) \<notin> set ''-.''" by auto
qed

lemma length_TrimRight_take: "length (TrimRight (take k s) cutset) \<le> k"
  using length_TrimRightFunc_le [of "\<lambda>c. c \<in> set cutset" "take k s"] by (simp add: TrimRight_def)

interpretation job_name: bounded_name ingestJobName
proof
  fix n :: string
  show "length (ingestJobName n) \<le> 63"
    using length_TrimRight_take [of 45 n "''-.''"] by (simp add: ingestJobName_def Let_def)
  assume "n \<noteq> []" "last n \<notin> set ''-.''"
  then show "ingestJobName n \<noteq> [] \<and> last (ingestJobName n) \<notin> set ''-.''"
    using nameDigest_last [of n] by (simp add: ingestJobName_def Let_def)
qed

interpretation selector_value: bounded_name ingestRunSelectorValue
proof
  fix n :: string
  show "length (ingestRunSelectorValue n) \<le> 63"
    using length_TrimRight_take [of 52 n "''-.''"] by (simp add: ingestRunSelectorValue_def)
  assume "n \<noteq> []" "last n \<notin> set ''-.''"
  then show "ingestRunSelectorValue n \<noteq> [] \<and> last (ingestRunSelectorValue n) \<notin> set ''-.''"
    using nameDigest_last [of n] by (simp add: ingestRunSelectorValue_def)
qed



end
