(* ===== verification/Ingest_Stream.thy ===== *)
theory Ingest_Stream
  imports Ingest_Job "HOL-Library.List_Lexorder" "HOL-Library.Multiset"
begin

text \<open>
  The terminal event stream of a TAMSin Pod (\<open>ingest_stream.go\<close>): separating protocol records from the
  Pod log, reducing them, and the bounded summary that enters the status of a run. The reducer
  \<open>ingestevent.Reduce\<close> belongs to another module and is an argument; \<open>event_state\<close> has the fields of
  its result that the operator reads.
\<close>

section \<open>The reducer's state\<close>

datatype RunOutcome = RunSucceeded | RunPartial | RunInterrupted | RunFailed | RunUnknown string

record run_finished =
  rf_Outcome :: RunOutcome
  rf_ExitCode :: int
  rf_Total :: int
  rf_Succeeded :: int
  rf_Failed :: int
  rf_BytesUploaded :: int

record flow_result =
  fr_SourceID :: string
  fr_Role :: string

record planned_flow =
  pf_Format :: string
  pf_Role :: string

record event_input =
  ei_FinishedRootFlowID :: "string option"     \<comment> \<open>the root Flow of the finished event, if there was one\<close>
  ei_FlowResults :: "(string \<times> flow_result) list"
  ei_PlannedFlows :: "string \<rightharpoonup> planned_flow"

text \<open>
  The inputs are listed with their index; an index that is absent and a nil entry both read as nil.
  The results per Flow are the entries of a map, listed in the order of its iteration.
\<close>

record event_state =
  es_RunID :: string
  es_NextSequence :: int
  es_Finished :: "run_finished option"
  es_Inputs :: "(int \<times> event_input option) list"

datatype stream_error = StreamUnavailable | StreamInvalid | StreamPodList api_error

record ingestStreamSummary =
  sum_RunID :: string
  sum_LastSequence :: int
  sum_Outcome :: RunOutcome
  sum_ExitCode :: int
  sum_RunFinished :: bool
  sum_Total :: int
  sum_Succeeded :: int
  sum_Failed :: int
  sum_InputsCompleted :: int
  sum_BytesUploaded :: int
  sum_Output :: "IngestRunOutputStatus option"

section \<open>Reading the Pod log\<close>

definition ingestStreamMaxLineBytes :: int where
  "ingestStreamMaxLineBytes = 2 * 1024 * 1024"

definition ingestStreamMaxBytes :: int where
  "ingestStreamMaxBytes = 64 * 1024 * 1024"

definition maxIngestOutputMemberFlows :: nat where
  "maxIngestOutputMemberFlows = 16"

text \<open>
  A log stream: the bytes it delivers, and whether reading ends in an error instead of the end of file.
  \<open>io.LimitedReader\<close> cuts it off after \<open>ingestStreamMaxBytes + 1\<close> bytes.
\<close>

record log_stream =
  ls_Bytes :: string
  ls_ReadError :: bool

definition limitStream :: "log_stream \<Rightarrow> log_stream" where
  "limitStream s =
     (if int (length (ls_Bytes s)) \<ge> ingestStreamMaxBytes + 1
      then \<lparr>ls_Bytes = take (nat (ingestStreamMaxBytes + 1)) (ls_Bytes s), ls_ReadError = False\<rparr> else s)"

text \<open>
  \<open>bufio.Scanner\<close> with \<open>ScanLines\<close>: lines without their end of line; a last empty line is not
  delivered. A line that fills the whole buffer is \<open>ErrTooLong\<close>.
\<close>

definition dropCR :: "string \<Rightarrow> string" where
  "dropCR s = (if HasSuffix s [CHR 0x0D] then butlast s else s)"

definition rawLines :: "string \<Rightarrow> string list" where
  "rawLines s = (let ls = Split (CHR 0x0A) s in if last ls = [] then butlast ls else ls)"

definition scanLines :: "log_stream \<Rightarrow> string list option" where
  "scanLines s =
     (if list_ex (\<lambda>l. int (length l) \<ge> ingestStreamMaxLineBytes) (rawLines (ls_Bytes s)) \<or> ls_ReadError s then None
      else Some (map dropCR (rawLines (ls_Bytes s))))"

definition isProtocolRecord :: "string \<Rightarrow> bool" where
  "isProtocolRecord line =
     (line \<noteq> [] \<and> (case UnmarshalMap line of None \<Rightarrow> False | Some record \<Rightarrow> map_of record ''protocol'' \<noteq> None))"

definition extractIngestProtocolEvents :: "log_stream \<Rightarrow> stream_error + string" where
  "extractIngestProtocolEvents s =
     (case scanLines s of
        None \<Rightarrow> Inl StreamInvalid
      | Some lines \<Rightarrow> Inr (concat (map (\<lambda>l. l @ [CHR 0x0A]) (filter isProtocolRecord (map TrimSpace lines)))))"

section \<open>The summary\<close>

definition inputAt :: "event_state \<Rightarrow> int \<Rightarrow> event_input option" where
  "inputAt st i = (case map_of (es_Inputs st) i of None \<Rightarrow> None | Some x \<Rightarrow> x)"

definition zeroPlanned :: planned_flow where
  "zeroPlanned = \<lparr>pf_Format = [], pf_Role = []\<rparr>"

definition zeroFlowResult :: flow_result where
  "zeroFlowResult = \<lparr>fr_SourceID = [], fr_Role = []\<rparr>"

definition memberFlow :: "event_input \<Rightarrow> string \<Rightarrow> IngestRunOutputFlowStatus" where
  "memberFlow inp flowID =
     (let result = deref zeroFlowResult (map_of (ei_FlowResults inp) flowID);
          planned = deref zeroPlanned (ei_PlannedFlows inp flowID)
      in \<lparr>iof_ID = flowID, iof_Format = pf_Format planned, iof_Role = orElse (fr_Role result) (pf_Role planned)\<rparr>)"

definition ingestOutputFromState :: "event_state \<Rightarrow> IngestRunOutputStatus option" where
  "ingestOutputFromState st =
     (if length (es_Inputs st) \<noteq> 1 then None
      else case inputAt st 0 of
          None \<Rightarrow> None
        | Some inp \<Rightarrow>
            (case ei_FinishedRootFlowID inp of
               None \<Rightarrow> None
             | Some rootID \<Rightarrow>
                 if rootID = [] then None
                 else (case map_of (ei_FlowResults inp) rootID of
                     None \<Rightarrow> None
                   | Some root \<Rightarrow>
                       (let flowIDs = sort (filter (\<lambda>i. i \<noteq> rootID) (map fst (ei_FlowResults inp)))
                        in Some \<lparr>ios_RootFlowID = rootID, ios_SourceID = fr_SourceID root,
                             ios_MemberFlows = Some (map (memberFlow inp) (take maxIngestOutputMemberFlows flowIDs)),
                             ios_MemberFlowsTruncated = (length flowIDs > maxIngestOutputMemberFlows)\<rparr>))))"

text \<open>\<open>reduce\<close> is \<open>ingestevent.Reduce\<close>.\<close>

definition decodeIngestStream :: "(string \<Rightarrow> string + event_state) \<Rightarrow> log_stream \<Rightarrow> stream_error + ingestStreamSummary" where
  "decodeIngestStream reduce stream =
     (case extractIngestProtocolEvents (limitStream stream) of
        Inl e \<Rightarrow> Inl e
      | Inr events \<Rightarrow>
          if int (length (ls_Bytes stream)) \<ge> ingestStreamMaxBytes + 1 then Inl StreamInvalid
          else (case reduce events of
              Inl _ \<Rightarrow> Inl StreamInvalid
            | Inr st \<Rightarrow>
                (case es_Finished st of
                   None \<Rightarrow> Inl StreamInvalid
                 | Some finished \<Rightarrow>
                     if es_NextSequence st = 0 then Inl StreamInvalid
                     else if es_NextSequence st - 1 > MaxInt64 \<or> rf_Total finished > MaxInt32 \<or>
                         rf_Succeeded finished > MaxInt32 \<or> rf_Failed finished > MaxInt32 \<or>
                         rf_BytesUploaded finished > MaxInt64 \<or> int (length (es_Inputs st)) > MaxInt32 \<or>
                         rf_ExitCode finished < MinInt32 \<or> rf_ExitCode finished > MaxInt32
                     then Inl StreamInvalid
                     else Inr \<lparr>sum_RunID = es_RunID st, sum_LastSequence = es_NextSequence st - 1,
                       sum_Outcome = rf_Outcome finished, sum_ExitCode = rf_ExitCode finished, sum_RunFinished = True,
                       sum_Total = rf_Total finished, sum_Succeeded = rf_Succeeded finished,
                       sum_Failed = rf_Failed finished,
                       sum_InputsCompleted = int (length (filter
                         (\<lambda>(i, inp). case inp of None \<Rightarrow> False | Some x \<Rightarrow> ei_FinishedRootFlowID x \<noteq> None) (es_Inputs st))),
                       sum_BytesUploaded = rf_BytesUploaded finished,
                       sum_Output = ingestOutputFromState st\<rparr>)))"

section \<open>The terminal Pod\<close>

text \<open>The candidates in the order the two loops visit them: Pod name and terminated state.\<close>

definition terminatedContainers :: "Job \<Rightarrow> Pod list \<Rightarrow> (string \<times> ContainerStateTerminated) list" where
  "terminatedContainers job pods =
     [(om_Name (pod_Meta pod), terminated).
        pod \<leftarrow> pods, job_UID job \<noteq> [] \<and> podOwnedByJobUID pod (job_UID job),
        status \<leftarrow> pod_ContainerStatuses pod, cs_Name status = ''tamsin'',
        terminated \<leftarrow> (case cs_Terminated status of None \<Rightarrow> [] | Some x \<Rightarrow> [x])]"

definition laterTerminated ::
    "(string \<times> ContainerStateTerminated) option \<Rightarrow> string \<times> ContainerStateTerminated
      \<Rightarrow> (string \<times> ContainerStateTerminated) option" where
  "laterTerminated selected c =
     (case selected of
        None \<Rightarrow> Some c
      | Some s \<Rightarrow> if cst_FinishedAt (snd c) > cst_FinishedAt (snd s) then Some c else Some s)"

text \<open>\<open>listPods\<close> lists the Pods of a namespace that carry a label.\<close>

definition terminalIngestPodResult ::
    "(string \<Rightarrow> string \<times> string \<Rightarrow> Pod list api) \<Rightarrow> Job \<Rightarrow> stream_error + (string \<times> int) option" where
  "terminalIngestPodResult listPods job =
     (case listPods (job_Namespace job) (''job-name'', job_Name job) of
        Inl e \<Rightarrow> Inl (StreamPodList e)
      | Inr pods \<Rightarrow>
          Inr (map_option (\<lambda>(name, t). (name, cst_ExitCode t))
                 (foldl laterTerminated None (terminatedContainers job pods))))"

definition collectIngestStream ::
    "(string \<Rightarrow> string + event_state) \<Rightarrow> (string \<Rightarrow> string \<Rightarrow> string \<Rightarrow> log_stream api) option
      \<Rightarrow> (string \<Rightarrow> string \<times> string \<Rightarrow> Pod list api) \<Rightarrow> Job \<Rightarrow> stream_error + ingestStreamSummary" where
  "collectIngestStream reduce podLogs listPods job =
     (case podLogs of
        None \<Rightarrow> Inl StreamUnavailable
      | Some logs \<Rightarrow>
          (case terminalIngestPodResult listPods job of
             Inl e \<Rightarrow> Inl e
           | Inr None \<Rightarrow> Inl StreamUnavailable
           | Inr (Some (podName, exitCode)) \<Rightarrow>
               (case logs (job_Namespace job) podName ''tamsin'' of
                  Inl _ \<Rightarrow> Inl StreamUnavailable
                | Inr stream \<Rightarrow>
                    (case decodeIngestStream reduce stream of
                       Inl e \<Rightarrow> Inl e
                     | Inr summary \<Rightarrow>
                         if sum_ExitCode summary \<noteq> exitCode then Inl StreamInvalid else Inr summary))))"

definition applyIngestStreamSummary :: "IngestRunStatus \<Rightarrow> ingestStreamSummary option \<Rightarrow> IngestRunStatus" where
  "applyIngestStreamSummary status summary =
     (case summary of
        None \<Rightarrow> status
      | Some s \<Rightarrow>
          status\<lparr>ist_TamsinRunID := sum_RunID s,
            ist_LastEventSequence := max (ist_LastEventSequence status) (sum_LastSequence s),
            ist_Progress := \<lparr>ipg_InputsTotal = sum_Total s, ipg_InputsCompleted = sum_InputsCompleted s,
              ipg_InputsSucceeded = sum_Succeeded s, ipg_InputsFailed = sum_Failed s,
              ipg_BytesUploaded = sum_BytesUploaded s\<rparr>,
            ist_Output := sum_Output s\<rparr>)"

section \<open>Examples\<close>

definition exampleFlows :: "(string \<times> flow_result) list" where
  "exampleFlows = [(''root'', \<lparr>fr_SourceID = ''src'', fr_Role = []\<rparr>), (''b'', \<lparr>fr_SourceID = ''s2'', fr_Role = ''audio''\<rparr>),
     (''a'', \<lparr>fr_SourceID = ''s1'', fr_Role = []\<rparr>)]"

definition exampleInput :: event_input where
  "exampleInput = \<lparr>ei_FinishedRootFlowID = Some ''root'', ei_FlowResults = exampleFlows, ei_PlannedFlows = Map.empty\<rparr>"

definition exampleFinished :: run_finished where
  "exampleFinished = \<lparr>rf_Outcome = RunSucceeded, rf_ExitCode = 0, rf_Total = 1, rf_Succeeded = 1, rf_Failed = 0,
     rf_BytesUploaded = 10\<rparr>"

definition exampleState :: event_state where
  "exampleState = \<lparr>es_RunID = ''r1'', es_NextSequence = 5, es_Finished = Some exampleFinished,
     es_Inputs = [(0, Some exampleInput)]\<rparr>"

text \<open>A reducer for the examples: the state above when there is any event.\<close>

definition exampleReduce :: "string \<Rightarrow> string + event_state" where
  "exampleReduce events = (if events = [] then Inl ''no events'' else Inr exampleState)"

definition exampleLog :: log_stream where
  "exampleLog = \<lparr>ls_Bytes = ''starting up'' @ [CHR 0x0A] @ ''{'' @ [dq] @ ''protocol'' @ [dq] @ '':1}'' @ [CHR 0x0A], ls_ReadError = False\<rparr>"

definition examplePod :: "string \<Rightarrow> time \<Rightarrow> int \<Rightarrow> Pod" where
  "examplePod name finished code =
     \<lparr>pod_Meta = emptyMeta\<lparr>om_Name := name, om_OwnerReferences :=
        [\<lparr>or_APIVersion = ''batch/v1'', or_Kind = ''Job'', or_Name = ''tamsin-r'', or_UID = ''j1'', or_Controller = Some True\<rparr>]\<rparr>,
      pod_ContainerStatuses = [\<lparr>cs_Name = ''tamsin'',
        cs_Terminated = Some \<lparr>cst_ExitCode = code, cst_FinishedAt = finished\<rparr>\<rparr>]\<rparr>"

definition exampleJob :: "JobStatus \<Rightarrow> Job" where
  "exampleJob st =
     (desiredIngestJob exampleRun exampleRunSpec publicTamoss ''https://api.example'' ''img'' [] [] examplePlan)
       \<lparr>job_Meta := emptyMeta\<lparr>om_Name := ''tamsin-r'', om_Namespace := ''media'', om_UID := ''j1''\<rparr>, job_Status := st\<rparr>"

section \<open>Properties\<close>

lemma foldl_later:
  assumes "foldl laterTerminated acc xs = Some c"
  shows "(Some c = acc \<or> c \<in> set xs) \<and> (\<forall>x \<in> set xs. cst_FinishedAt (snd x) \<le> cst_FinishedAt (snd c)) \<and>
    (\<forall>a. acc = Some a \<longrightarrow> cst_FinishedAt (snd a) \<le> cst_FinishedAt (snd c))"
  using assms
proof (induction xs arbitrary: acc)
  case (Cons x xs)
  then have IH: "(Some c = laterTerminated acc x \<or> c \<in> set xs) \<and>
      (\<forall>y \<in> set xs. cst_FinishedAt (snd y) \<le> cst_FinishedAt (snd c)) \<and>
      (\<forall>a. laterTerminated acc x = Some a \<longrightarrow> cst_FinishedAt (snd a) \<le> cst_FinishedAt (snd c))"
    by simp
  then show ?case by (cases acc; cases x; cases c) (auto simp: laterTerminated_def split: if_split_asm)
qed simp

lemma terminalIngestPodResult_latest:
  assumes "terminalIngestPodResult listPods job = Inr (Some (name, code))"
  shows "\<exists>pods t. listPods (job_Namespace job) (''job-name'', job_Name job) = Inr pods \<and>
    (name, t) \<in> set (terminatedContainers job pods) \<and> cst_ExitCode t = code \<and>
    (\<forall>(n, t') \<in> set (terminatedContainers job pods). cst_FinishedAt t' \<le> cst_FinishedAt t)"
proof -
  from assms obtain pods c where pods: "listPods (job_Namespace job) (''job-name'', job_Name job) = Inr pods"
    and c: "foldl laterTerminated None (terminatedContainers job pods) = Some c" "name = fst c" "code = cst_ExitCode (snd c)"
    unfolding terminalIngestPodResult_def by (auto split: sum.split_asm prod.split_asm)
  show ?thesis using pods c(2,3) foldl_later [OF c(1)] by (intro exI [of _ pods] exI [of _ "snd c"]) auto
qed

lemma decodeIngestStream_Inr:
  assumes "decodeIngestStream reduce stream = Inr summary"
  shows "\<exists>events st finished. extractIngestProtocolEvents stream = Inr events \<and> reduce events = Inr st \<and>
    es_Finished st = Some finished \<and> sum_Outcome summary = rf_Outcome finished \<and> sum_ExitCode summary = rf_ExitCode finished \<and>
    sum_RunFinished summary \<and> isInt32 (sum_ExitCode summary) \<and> sum_LastSequence summary = es_NextSequence st - 1 \<and>
    sum_LastSequence summary \<le> MaxInt64 \<and> sum_BytesUploaded summary \<le> MaxInt64 \<and>
    sum_Total summary \<le> MaxInt32 \<and> sum_Succeeded summary \<le> MaxInt32 \<and> sum_Failed summary \<le> MaxInt32 \<and>
    sum_InputsCompleted summary \<le> MaxInt32 \<and> sum_Output summary = ingestOutputFromState st"
proof -
  from assms obtain events st finished where
    e: "extractIngestProtocolEvents (limitStream stream) = Inr events" "\<not> int (length (ls_Bytes stream)) \<ge> ingestStreamMaxBytes + 1"
      "reduce events = Inr st" "es_Finished st = Some finished"
    and b: "\<not> (es_NextSequence st - 1 > MaxInt64 \<or> rf_Total finished > MaxInt32 \<or>
       rf_Succeeded finished > MaxInt32 \<or> rf_Failed finished > MaxInt32 \<or>
       rf_BytesUploaded finished > MaxInt64 \<or> int (length (es_Inputs st)) > MaxInt32 \<or>
       rf_ExitCode finished < MinInt32 \<or> rf_ExitCode finished > MaxInt32)"
    and s: "summary = \<lparr>sum_RunID = es_RunID st, sum_LastSequence = es_NextSequence st - 1,
       sum_Outcome = rf_Outcome finished, sum_ExitCode = rf_ExitCode finished, sum_RunFinished = True,
       sum_Total = rf_Total finished, sum_Succeeded = rf_Succeeded finished, sum_Failed = rf_Failed finished,
       sum_InputsCompleted = int (length (filter
         (\<lambda>(i, inp). case inp of None \<Rightarrow> False | Some x \<Rightarrow> ei_FinishedRootFlowID x \<noteq> None) (es_Inputs st))),
       sum_BytesUploaded = rf_BytesUploaded finished, sum_Output = ingestOutputFromState st\<rparr>"
    unfolding decodeIngestStream_def by (auto split: sum.split_asm option.split_asm if_split_asm)
  have "limitStream stream = stream" using e(2) by (simp add: limitStream_def)
  moreover have "int (length (filter P (es_Inputs st))) \<le> MaxInt32" for P
    using b length_filter_le [of P "es_Inputs st"] by linarith
  ultimately show ?thesis
    using e b unfolding s by (intro exI [of _ events] exI [of _ st] exI [of _ finished]) (auto simp: isInt32_def)
qed

text \<open>
  C37: the stream that decides a run. A collected summary stems from the protocol records of the log of a Pod
  that is owned by the Job, of its \<open>tamsin\<close> container that terminated last; its exit code is the exit code
  of that container, and every counter fits the width of its status field.
\<close>

theorem collected_stream_is_authentic:
  assumes "collectIngestStream reduce podLogs listPods job = Inr summary"
  shows "\<exists>logs pods name t stream events st.
    podLogs = Some logs \<and> listPods (job_Namespace job) (''job-name'', job_Name job) = Inr pods \<and>
    (name, t) \<in> set (terminatedContainers job pods) \<and>
    (\<forall>(n, t') \<in> set (terminatedContainers job pods). cst_FinishedAt t' \<le> cst_FinishedAt t) \<and>
    logs (job_Namespace job) name ''tamsin'' = Inr stream \<and>
    extractIngestProtocolEvents stream = Inr events \<and> reduce events = Inr st \<and>
    sum_ExitCode summary = cst_ExitCode t \<and> map_option rf_Outcome (es_Finished st) = Some (sum_Outcome summary) \<and>
    isInt32 (sum_ExitCode summary) \<and> sum_LastSequence summary \<le> MaxInt64 \<and> sum_BytesUploaded summary \<le> MaxInt64 \<and>
    sum_Total summary \<le> MaxInt32 \<and> sum_Succeeded summary \<le> MaxInt32 \<and> sum_Failed summary \<le> MaxInt32 \<and>
    sum_InputsCompleted summary \<le> MaxInt32"
proof -
  from assms obtain logs name code stream where logs: "podLogs = Some logs"
    and pod: "terminalIngestPodResult listPods job = Inr (Some (name, code))"
    and s: "logs (job_Namespace job) name ''tamsin'' = Inr stream" "decodeIngestStream reduce stream = Inr summary"
      "sum_ExitCode summary = code"
    unfolding collectIngestStream_def by (auto split: option.split_asm sum.split_asm prod.split_asm if_split_asm)
  from terminalIngestPodResult_latest [OF pod] obtain pods t where
    "listPods (job_Namespace job) (''job-name'', job_Name job) = Inr pods" "(name, t) \<in> set (terminatedContainers job pods)"
    "cst_ExitCode t = code" "\<forall>(n, t') \<in> set (terminatedContainers job pods). cst_FinishedAt t' \<le> cst_FinishedAt t"
    by blast
  moreover from decodeIngestStream_Inr [OF s(2)] obtain events st finished where
    "extractIngestProtocolEvents stream = Inr events" "reduce events = Inr st" "es_Finished st = Some finished"
    "sum_Outcome summary = rf_Outcome finished"
    by blast
  ultimately show ?thesis
    using logs s decodeIngestStream_Inr [OF s(2)]
    by (intro exI [of _ logs] exI [of _ pods] exI [of _ name] exI [of _ t] exI [of _ stream] exI [of _ events] exI [of _ st]) auto
qed

theorem collected_stream_is_authentic_witness:
  "\<exists>summary. collectIngestStream exampleReduce (Some (\<lambda>_ _ _. Inr exampleLog))
       (\<lambda>_ _. Inr [examplePod ''p1'' 10 0, examplePod ''p0'' 5 1])
       (exampleJob \<lparr>jst_Active = 0, jst_StartTime = None, jst_CompletionTime = None, jst_Conditions = []\<rparr>) = Inr summary \<and>
     sum_Outcome summary = RunSucceeded \<and> isInt32 (sum_ExitCode summary)"
proof -
  have "(case collectIngestStream exampleReduce (Some (\<lambda>_ _ _. Inr exampleLog))
       (\<lambda>_ _. Inr [examplePod ''p1'' 10 0, examplePod ''p0'' 5 1])
       (exampleJob \<lparr>jst_Active = 0, jst_StartTime = None, jst_CompletionTime = None, jst_Conditions = []\<rparr>) of
     Inl e \<Rightarrow> False | Inr summary \<Rightarrow> sum_Outcome summary = RunSucceeded)"
    by code_simp
  then obtain summary where s: "collectIngestStream exampleReduce (Some (\<lambda>_ _ _. Inr exampleLog))
       (\<lambda>_ _. Inr [examplePod ''p1'' 10 0, examplePod ''p0'' 5 1])
       (exampleJob \<lparr>jst_Active = 0, jst_StartTime = None, jst_CompletionTime = None, jst_Conditions = []\<rparr>) = Inr summary"
    "sum_Outcome summary = RunSucceeded"
    by (auto split: sum.split_asm)
  show ?thesis using s collected_stream_is_authentic [OF s(1)] by blast
qed

text \<open>The order in which Go ranges over the map of results has no influence.\<close>

lemma sort_members: "mset xs = mset ys \<Longrightarrow> sort (filter P (map fst xs)) = sort (filter P (map fst ys))"
  by (rule properties_for_sort) (simp_all add: mset_filter mset_map)

lemma map_of_mset:
  assumes "mset xs = mset ys" "distinct (map fst ys)"
  shows "map_of xs = map_of ys"
proof -
  have "mset (map fst xs) = mset (map fst ys)" "set xs = set ys"
    using assms(1) by (simp_all only: mset_map) (rule mset_eq_setD)
  then have "distinct (map fst xs)" using assms(2) mset_eq_imp_distinct_iff by blast
  with assms(2) \<open>set xs = set ys\<close> show ?thesis by (simp add: map_of_inject_set)
qed

lemma length_members:
  assumes "distinct (map fst xs)" "map_of xs r = Some v"
  shows "length (filter (\<lambda>i. i \<noteq> r) (map fst xs)) = length xs - 1"
proof -
  have "r \<in> set (map fst xs)" using assms(2) by (force dest: map_of_SomeD)
  then have "filter (\<lambda>i. i \<noteq> r) (map fst xs) = remove1 r (map fst xs)"
    using assms(1) by (simp add: distinct_remove1_removeAll removeAll_filter_not_eq eq_commute)
  then show ?thesis using \<open>r \<in> set (map fst xs)\<close> by (simp add: length_remove1)
qed

lemma ingestOutputFromState_Some:
  assumes "ingestOutputFromState st = Some out" "inputAt st 0 = Some inp"
  obtains rootID root where "ei_FinishedRootFlowID inp = Some rootID" "rootID \<noteq> []"
    "map_of (ei_FlowResults inp) rootID = Some root"
    "out = (let flowIDs = sort (filter (\<lambda>i. i \<noteq> rootID) (map fst (ei_FlowResults inp)))
       in \<lparr>ios_RootFlowID = rootID, ios_SourceID = fr_SourceID root,
           ios_MemberFlows = Some (map (memberFlow inp) (take maxIngestOutputMemberFlows flowIDs)),
           ios_MemberFlowsTruncated = (length flowIDs > maxIngestOutputMemberFlows)\<rparr>)"
  using assms unfolding ingestOutputFromState_def by (auto split: if_split_asm option.split_asm)

lemma iof_ID_memberFlow [simp]: "iof_ID (memberFlow inp i) = i"
  by (simp add: memberFlow_def Let_def)

text \<open>
  C38: the published output of a run is bounded and deterministic. It lists at most 16 member Flows in
  strictly ascending order, never the root Flow, says whether it was cut short, and does not depend
  on the order in which Go iterates over the map of Flow results.
\<close>

theorem output_bounded_deterministic:
  assumes "ingestOutputFromState st = Some out" and "inputAt st 0 = Some inp" and "distinct (map fst (ei_FlowResults inp))"
  shows "(\<exists>members. ios_MemberFlows out = Some members \<and> length members \<le> 16 \<and>
      sorted (map iof_ID members) \<and> distinct (map iof_ID members) \<and> ios_RootFlowID out \<notin> set (map iof_ID members) \<and>
      set (map iof_ID members) \<subseteq> fst ` set (ei_FlowResults inp) \<and>
      (ios_MemberFlowsTruncated out \<longleftrightarrow> length (ei_FlowResults inp) > 17)) \<and>
    (\<forall>results'. mset results' = mset (ei_FlowResults inp) \<longrightarrow>
      ingestOutputFromState (st\<lparr>es_Inputs := [(0, Some (inp\<lparr>ei_FlowResults := results'\<rparr>))]\<rparr>) = Some out)"
proof
  obtain rootID root where root: "ei_FinishedRootFlowID inp = Some rootID" "rootID \<noteq> []"
    "map_of (ei_FlowResults inp) rootID = Some root"
    and out: "out = (let flowIDs = sort (filter (\<lambda>i. i \<noteq> rootID) (map fst (ei_FlowResults inp)))
       in \<lparr>ios_RootFlowID = rootID, ios_SourceID = fr_SourceID root,
           ios_MemberFlows = Some (map (memberFlow inp) (take maxIngestOutputMemberFlows flowIDs)),
           ios_MemberFlowsTruncated = (length flowIDs > maxIngestOutputMemberFlows)\<rparr>)"
    using ingestOutputFromState_Some [OF assms(1,2)] by metis
  define ids where "ids = sort (filter (\<lambda>i. i \<noteq> rootID) (map fst (ei_FlowResults inp)))"
  have ids: "sorted ids" "distinct ids" "rootID \<notin> set ids" "set ids \<subseteq> fst ` set (ei_FlowResults inp)"
    "length ids = length (ei_FlowResults inp) - 1"
    using assms(3) length_members [OF assms(3) root(3)] unfolding ids_def by auto
  have tk: "set (take 16 ids) \<subseteq> fst ` set (ei_FlowResults inp)" "rootID \<notin> set (take 16 ids)"
    using ids(3,4) set_take_subset [of 16 ids] by blast+
  have m: "map (iof_ID \<circ> memberFlow inp) xs = xs" for xs by (simp add: o_def)
  show "\<exists>members. ios_MemberFlows out = Some members \<and> length members \<le> 16 \<and>
      sorted (map iof_ID members) \<and> distinct (map iof_ID members) \<and> ios_RootFlowID out \<notin> set (map iof_ID members) \<and>
      set (map iof_ID members) \<subseteq> fst ` set (ei_FlowResults inp) \<and>
      (ios_MemberFlowsTruncated out \<longleftrightarrow> length (ei_FlowResults inp) > 17)"
    unfolding out Let_def ids_def [symmetric]
    using ids(1,2,5) tk by (simp add: m maxIngestOutputMemberFlows_def less_diff_conv image_image)
  show "\<forall>results'. mset results' = mset (ei_FlowResults inp) \<longrightarrow>
      ingestOutputFromState (st\<lparr>es_Inputs := [(0, Some (inp\<lparr>ei_FlowResults := results'\<rparr>))]\<rparr>) = Some out"
  proof (intro allI impI)
    fix results'
    assume eq: "mset results' = mset (ei_FlowResults inp)"
    note mo = map_of_mset [OF eq assms(3)]
    have mf: "memberFlow (inp\<lparr>ei_FlowResults := results'\<rparr>) = memberFlow inp"
      by (intro ext) (simp add: memberFlow_def mo)
    show "ingestOutputFromState (st\<lparr>es_Inputs := [(0, Some (inp\<lparr>ei_FlowResults := results'\<rparr>))]\<rparr>) = Some out"
      unfolding out ingestOutputFromState_def inputAt_def
      by (simp add: root mo mf sort_members [OF eq] Let_def)
  qed
qed

theorem output_bounded_deterministic_witness:
  "ingestOutputFromState (exampleState\<lparr>es_Inputs := [(0, Some (exampleInput\<lparr>ei_FlowResults := rev exampleFlows\<rparr>))]\<rparr>) =
     ingestOutputFromState exampleState"
proof -
  obtain out where out: "ingestOutputFromState exampleState = Some out"
  proof -
    have "ingestOutputFromState exampleState \<noteq> None" by code_simp
    then show thesis using that by auto
  qed
  have "inputAt exampleState 0 = Some exampleInput" "distinct (map fst (ei_FlowResults exampleInput))"
    "mset (rev exampleFlows) = mset (ei_FlowResults exampleInput)"
    by (simp_all add: inputAt_def exampleState_def exampleInput_def exampleFlows_def)
  with output_bounded_deterministic [OF out] out show ?thesis by metis
qed

text \<open>
  What else a Pod prints has no influence. Inserting lines that are not protocol records anywhere between
  the lines of a log leaves the extracted event stream unchanged.
\<close>

lemma log_noise_ignored:
  assumes "\<forall>l \<in> set lines. CHR 0x0A \<notin> set l \<and> int (length l) < ingestStreamMaxLineBytes"
  shows "extractIngestProtocolEvents \<lparr>ls_Bytes = concat (map (\<lambda>l. l @ [CHR 0x0A]) lines), ls_ReadError = False\<rparr> =
    extractIngestProtocolEvents \<lparr>ls_Bytes = concat (map (\<lambda>l. l @ [CHR 0x0A])
      (filter (\<lambda>l. isProtocolRecord (TrimSpace (dropCR l))) lines)), ls_ReadError = False\<rparr>"
proof -
  have split: "Split (CHR 0x0A) (concat (map (\<lambda>l. l @ [CHR 0x0A]) ls)) = ls @ [[]]"
    if "\<forall>l \<in> set ls. CHR 0x0A \<notin> set l" for ls
    using that by (induction ls) auto
  have ex: "extractIngestProtocolEvents \<lparr>ls_Bytes = concat (map (\<lambda>l. l @ [CHR 0x0A]) ls), ls_ReadError = False\<rparr> =
      Inr (concat (map (\<lambda>l. l @ [CHR 0x0A]) (filter isProtocolRecord (map TrimSpace (map dropCR ls)))))"
    if "\<forall>l \<in> set ls. CHR 0x0A \<notin> set l \<and> int (length l) < ingestStreamMaxLineBytes" for ls
  proof -
    have "rawLines (concat (map (\<lambda>l. l @ [CHR 0x0A]) ls)) = ls"
      using split [of ls] that by (simp add: rawLines_def)
    then show ?thesis using that by (auto simp: extractIngestProtocolEvents_def scanLines_def list_ex_iff)
  qed
  show ?thesis
    using assms by (subst (1 2) ex) (auto simp: filter_map o_def)
qed

lemma log_noise_ignored_example:
  "extractIngestProtocolEvents \<lparr>ls_Bytes = concat (map (\<lambda>l. l @ [CHR 0x0A]) [''noise'']), ls_ReadError = False\<rparr> =
   extractIngestProtocolEvents \<lparr>ls_Bytes = concat (map (\<lambda>l. l @ [CHR 0x0A])
      (filter (\<lambda>l. isProtocolRecord (TrimSpace (dropCR l))) [''noise''])), ls_ReadError = False\<rparr>"
  by (rule log_noise_ignored) (simp add: ingestStreamMaxLineBytes_def)

end
