(* ===== verification/Op_Status.thy ===== *)
theory Op_Status
  imports Kube
begin

text \<open>
  The condition helpers of \<open>internal/status/conditions.go\<close>, on top of the library functions
  \<open>meta.SetStatusCondition\<close> and \<open>meta.FindStatusCondition\<close>, with what they guarantee under
  \<^const>\<open>conditions_law\<close>.
\<close>

abbreviation "ConditionReady \<equiv> ''Ready''"
abbreviation "ConditionProgressing \<equiv> ''Progressing''"
abbreviation "ConditionPaused \<equiv> ''Paused''"

definition SetConditionStatus ::
    "kube_lib \<Rightarrow> Condition list \<Rightarrow> int \<Rightarrow> string \<Rightarrow> ConditionStatus \<Rightarrow> string \<Rightarrow> string \<Rightarrow> Condition list" where
  "SetConditionStatus lib conditions generation conditionType status reason message =
     SetStatusCondition lib conditions
       \<lparr>cond_Type = conditionType, cond_Status = status, cond_ObservedGeneration = generation,
        cond_LastTransitionTime = 0, cond_Reason = reason, cond_Message = message\<rparr>"

definition SetConditionBool ::
    "kube_lib \<Rightarrow> Condition list \<Rightarrow> int \<Rightarrow> string \<Rightarrow> bool \<Rightarrow> string \<Rightarrow> string \<Rightarrow> Condition list" where
  "SetConditionBool lib conditions generation conditionType ok reason message =
     SetConditionStatus lib conditions generation conditionType (if ok then ConditionTrue else ConditionFalse) reason message"

definition SetReconciliationActive :: "kube_lib \<Rightarrow> Condition list \<Rightarrow> int \<Rightarrow> Condition list" where
  "SetReconciliationActive lib conditions generation =
     SetConditionBool lib conditions generation ConditionPaused False ''ReconciliationActive'' ''Reconciliation is active''"

definition ConditionReason :: "Condition option \<Rightarrow> string \<Rightarrow> string" where
  "ConditionReason condition fallback =
     (case condition of Some c \<Rightarrow> if cond_Reason c \<noteq> [] then cond_Reason c else fallback | None \<Rightarrow> fallback)"

definition ConditionMessage :: "Condition option \<Rightarrow> string \<Rightarrow> string" where
  "ConditionMessage condition fallback =
     (case condition of Some c \<Rightarrow> if cond_Message c \<noteq> [] then cond_Message c else fallback | None \<Rightarrow> fallback)"

text \<open>\<open>meta.IsStatusConditionTrue\<close> by its documentation: the condition is present and True.\<close>

definition IsStatusConditionTrue :: "kube_lib \<Rightarrow> Condition list \<Rightarrow> string \<Rightarrow> bool" where
  "IsStatusConditionTrue lib conditions conditionType =
     (case FindStatusCondition lib conditions conditionType of None \<Rightarrow> False | Some c \<Rightarrow> cond_Status c = ConditionTrue)"

definition ConditionBecameTrue :: "kube_lib \<Rightarrow> Condition list \<Rightarrow> Condition list \<Rightarrow> string \<Rightarrow> bool" where
  "ConditionBecameTrue lib oldConditions newConditions conditionType =
     (case FindStatusCondition lib newConditions conditionType of
        None \<Rightarrow> False
      | Some new \<Rightarrow>
          cond_Status new = ConditionTrue \<and>
          (case FindStatusCondition lib oldConditions conditionType of None \<Rightarrow> True | Some old \<Rightarrow> cond_Status old \<noteq> ConditionTrue))"

definition ChangedConditionReason ::
    "kube_lib \<Rightarrow> Condition list \<Rightarrow> Condition list \<Rightarrow> string \<Rightarrow> (string \<times> string) option" where
  "ChangedConditionReason lib oldConditions newConditions conditionType =
     (case FindStatusCondition lib newConditions conditionType of
        None \<Rightarrow> None
      | Some new \<Rightarrow>
          (case FindStatusCondition lib oldConditions conditionType of
             Some old \<Rightarrow>
               if cond_Status old = cond_Status new \<and> cond_Reason old = cond_Reason new \<and> cond_Message old = cond_Message new
               then None else Some (cond_Reason new, cond_Message new)
           | None \<Rightarrow> Some (cond_Reason new, cond_Message new)))"

section \<open>Reading back what was set\<close>

lemma conditions_lawD:
  assumes "conditions_law lib"
  shows "\<exists>c'. FindStatusCondition lib (SetStatusCondition lib cs c) (cond_Type c) = Some c' \<and> sameCondition c' c"
    and "t \<noteq> cond_Type c \<Longrightarrow> FindStatusCondition lib (SetStatusCondition lib cs c) t = FindStatusCondition lib cs t"
  using assms unfolding conditions_law_def by blast+

lemma find_SetConditionStatus:
  assumes "conditions_law lib"
  shows "\<exists>c. FindStatusCondition lib (SetConditionStatus lib cs g t s r m) t = Some c \<and>
      cond_Status c = s \<and> cond_Reason c = r \<and> cond_Message c = m \<and> cond_ObservedGeneration c = g"
  using conditions_lawD(1) [OF assms, of cs "\<lparr>cond_Type = t, cond_Status = s, cond_ObservedGeneration = g,
      cond_LastTransitionTime = 0, cond_Reason = r, cond_Message = m\<rparr>"]
  by (auto simp: SetConditionStatus_def sameCondition_def)

lemma find_SetConditionStatus_other:
  "conditions_law lib \<Longrightarrow> t' \<noteq> t \<Longrightarrow>
   FindStatusCondition lib (SetConditionStatus lib cs g t s r m) t' = FindStatusCondition lib cs t'"
  by (simp add: SetConditionStatus_def conditions_lawD(2))

lemma isTrue_SetConditionBool [simp]:
  assumes "conditions_law lib"
  shows "IsStatusConditionTrue lib (SetConditionBool lib cs g t ok r m) t = ok"
    and "t' \<noteq> t \<Longrightarrow> IsStatusConditionTrue lib (SetConditionBool lib cs g t ok r m) t' = IsStatusConditionTrue lib cs t'"
proof -
  show "IsStatusConditionTrue lib (SetConditionBool lib cs g t ok r m) t = ok"
    using find_SetConditionStatus [OF assms, of cs g t "if ok then ConditionTrue else ConditionFalse" r m]
    by (auto simp: IsStatusConditionTrue_def SetConditionBool_def split: if_split_asm)
  show "IsStatusConditionTrue lib (SetConditionBool lib cs g t ok r m) t' = IsStatusConditionTrue lib cs t'" if "t' \<noteq> t"
    using find_SetConditionStatus_other [OF assms that] by (simp add: IsStatusConditionTrue_def SetConditionBool_def)
qed

end
