(* ===== verification/Ingest_Run.thy ===== *)
theory Ingest_Run
  imports Ingest_Stream Op_Status
begin

text \<open>
  The IngestRun controller (\<open>ingestrun_controller.go\<close>). \<open>ingest_env\<close> holds what one reconcile sees of the
  outside: the reads and writes of the API client, the uncached reader, the resolvers, the Pod logs,
  the event reducer and the clock. \<open>ingestReconcile\<close> is \<open>Reconcile\<close>: it yields the writes the API
  server accepted, in order, and the result handed to the work queue. A status patch carries the new
  status; a reconcile works on its own copy of the run, so that is all it changes of the stored one.
\<close>

section \<open>The environment and the writes\<close>

record live_reader =
  live_Job :: "string \<Rightarrow> string \<Rightarrow> Job api"
  live_Tamoss :: "string \<Rightarrow> string \<Rightarrow> Tamoss api"

record ingest_env =
  ie_lib :: kube_lib
  ie_Releases :: Catalogue
  ie_InstanceDefaults :: "Installation option"
  ie_WatchNamespaces :: WatchNamespaceSet
  ie_getRun :: "string \<Rightarrow> string \<Rightarrow> IngestRun api"
  ie_getJob :: "string \<Rightarrow> string \<Rightarrow> Job api"
  ie_getTamoss :: "string \<Rightarrow> string \<Rightarrow> Tamoss api"
  ie_getStorageBackend :: "string \<Rightarrow> string \<Rightarrow> StorageBackend api"
  ie_getFlowProfile :: "string \<Rightarrow> string \<Rightarrow> FlowProfile api"
  ie_listPods :: "string \<Rightarrow> string \<times> string \<Rightarrow> Pod list api"
  ie_APIReader :: "live_reader option"
  ie_InputResolver :: "(Tamoss \<Rightarrow> IngestRunInput \<Rightarrow> int \<Rightarrow> source_error + ResolvedIngestInputs) option"
  ie_EndpointResolver :: "(string \<Rightarrow> string \<Rightarrow> endpoint_error + string) option"
  ie_PodLogs :: "(string \<Rightarrow> string \<Rightarrow> string \<Rightarrow> log_stream api) option"
  ie_Reduce :: "string \<Rightarrow> string + event_state"
  ie_now :: time
  ie_metaNow :: time
  ie_createJob :: "Job \<Rightarrow> Job api"
  ie_deleteJob :: "Job \<Rightarrow> unit api"
  ie_patchStatus :: "IngestRunStatus \<Rightarrow> unit api"

datatype ingest_write = CreateJob Job | DeleteJob Job | PatchRunStatus IngestRunStatus

type_synonym ingest_outcome = "ingest_write list \<times> reconcile_result"

definition ingestRunRequeuePending :: Duration where
  "ingestRunRequeuePending = 15 * Second"

definition ingestRunRequeueCancel :: Duration where
  "ingestRunRequeueCancel = 2 * Second"

definition ingestTerminalObservationDeadline :: Duration where
  "ingestTerminalObservationDeadline = 15 * Minute"

text \<open>
  The results of the gates that return a value, a reason with a message, or an error: an error ends the
  reconcile, a reason holds the run in Pending.
\<close>

datatype 'a gate = Fail api_error | Hold string string | Pass 'a

section \<open>Spec, readiness, result\<close>

definition defaultIngestRunSpec :: "IngestRunSpec \<Rightarrow> IngestRunSpec" where
  "defaultIngestRunSpec spec =
     spec\<lparr>irs_Profile := orElse (irs_Profile spec) ''essence-segments@1'',
       irs_SizeClass := orElse (irs_SizeClass spec) ''standard'',
       irs_DesiredState := orElse (irs_DesiredState spec) ''Running'',
       irs_Options := (irs_Options spec)\<lparr>iro_Verify := orPtr (iro_Verify (irs_Options spec)) True,
         iro_MaxInputs := (if iro_MaxInputs (irs_Options spec) = 0 then 1000 else iro_MaxInputs (irs_Options spec))\<rparr>\<rparr>"

definition tamossReadyForIngest :: "kube_lib \<Rightarrow> Tamoss \<Rightarrow> Installation option \<Rightarrow> bool" where
  "tamossReadyForIngest lib tamoss installation \<longleftrightarrow>
     AppliedTo installation tamoss \<and> ts_Version (tm_Spec tamoss) \<noteq> [] \<and>
     tst_CurrentVersion (tm_Status tamoss) = ts_Version (tm_Spec tamoss) \<and>
     IsStatusConditionTrue lib (tst_Conditions (tm_Status tamoss)) ConditionReady \<and>
     tst_ObservedGeneration (tm_Status tamoss) = om_Generation (tm_Meta tamoss) \<and> apiIsEnabled (ts_API (tm_Spec tamoss))"

definition flowProfileReady :: "kube_lib \<Rightarrow> FlowProfile \<Rightarrow> bool" where
  "flowProfileReady lib profile \<longleftrightarrow>
     fpt_ObservedGeneration (fp_Status profile) = om_Generation (fp_Meta profile) \<and>
     IsStatusConditionTrue lib (fpt_Conditions (fp_Status profile)) ConditionReady"

definition isIngestRunTerminal :: "IngestRunPhase \<Rightarrow> bool" where
  "isIngestRunTerminal phase \<longleftrightarrow> phase \<in> {IngestSucceeded, IngestPartiallySucceeded, IngestFailed, IngestCancelled}"

definition ingestResultRequiredForPhase :: "IngestRunPhase \<Rightarrow> bool" where
  "ingestResultRequiredForPhase phase \<longleftrightarrow> phase = IngestSucceeded \<or> phase = IngestPartiallySucceeded"

definition ingestResultVerificationRequired :: "IngestRunResultStatus \<Rightarrow> bool" where
  "ingestResultVerificationRequired result \<longleftrightarrow> TrimSpace (irt_Key result) \<noteq> []"

definition isDigestVerifiedIngestResult :: "IngestRunResultStatus \<Rightarrow> bool" where
  "isDigestVerifiedIngestResult result \<longleftrightarrow>
     irt_Verified result \<and> TrimSpace (irt_Key result) \<noteq> [] \<and> irt_Size result > 0 \<and>
     TrimSpace (irt_MediaType result) \<noteq> [] \<and> length (irt_SHA256 result) = 64 \<and> list_all isHexLower (irt_SHA256 result)"

definition unverifiedResult :: "IngestRunResultStatus \<Rightarrow> bool" where
  "unverifiedResult result \<longleftrightarrow> ingestResultVerificationRequired result \<and> \<not> isDigestVerifiedIngestResult result"

section \<open>Phases of a Job\<close>

definition jobTerminalCondition :: "JobCondition \<Rightarrow> bool" where
  "jobTerminalCondition c \<longleftrightarrow> jc_Status c = ConditionTrue \<and> (jc_Type c = ''Complete'' \<or> jc_Type c = ''Failed'')"

definition ingestJobFinished :: "Job \<Rightarrow> bool" where
  "ingestJobFinished job = list_ex jobTerminalCondition (jst_Conditions (job_Status job))"

definition ingestJobTerminalReference :: "Job \<Rightarrow> time" where
  "ingestJobTerminalReference job =
     (case jst_CompletionTime (job_Status job) of
        Some t \<Rightarrow> t
      | None \<Rightarrow>
          (case find jobTerminalCondition (jst_Conditions (job_Status job)) of
             Some c \<Rightarrow> jc_LastTransitionTime c
           | None \<Rightarrow> 0))"

definition ingestObservationDeadlineExpired :: "time \<Rightarrow> time \<Rightarrow> bool" where
  "ingestObservationDeadlineExpired reference now \<longleftrightarrow>
     \<not> timeIsZero reference \<and> timeSub now reference > ingestTerminalObservationDeadline"

definition ingestStreamFailurePhase :: "Job \<Rightarrow> time \<Rightarrow> stream_error \<Rightarrow> IngestRunPhase \<times> string \<times> string" where
  "ingestStreamFailurePhase job now streamErr =
     (if streamErr = StreamInvalid
      then (IngestFailed, ''IngestProtocolInvalid'', ''TAMSin produced an invalid terminal event stream'')
      else if ingestObservationDeadlineExpired (ingestJobTerminalReference job) now
      then (IngestFailed, ''IngestResultUnavailable'',
            ''The terminal TAMSin event stream was not available within the observation deadline'')
      else (IngestRunning, ''IngestResultPending'',
            ''The Job is terminal, but its TAMSin event stream is not yet available''))"

definition finishedJobPhase ::
    "Job \<Rightarrow> IngestRunResultStatus \<Rightarrow> time \<Rightarrow> ingestStreamSummary \<Rightarrow> IngestRunPhase \<times> string \<times> string \<times> bool" where
  "finishedJobPhase job result now stream =
     (if (sum_Outcome stream = RunSucceeded \<or> sum_Outcome stream = RunPartial) \<and> unverifiedResult result then
        (if ingestObservationDeadlineExpired (ingestJobTerminalReference job) now
         then (IngestFailed, ''ResultVerificationTimeout'',
               ''A durable result was recorded but did not pass digest verification within the observation deadline'', False)
         else (IngestRunning, ''ResultVerificationPending'',
               ''A durable result was recorded but has not passed digest verification'', False))
      else (case sum_Outcome stream of
          RunSucceeded \<Rightarrow> (IngestSucceeded, ''IngestSucceeded'', ''TAMSin completed the ingest run'', False)
        | RunPartial \<Rightarrow> (IngestPartiallySucceeded, ''IngestPartiallySucceeded'',
            ''TAMSin completed with both successful and failed inputs'', False)
        | RunInterrupted \<Rightarrow> (IngestFailed, ''IngestInterrupted'', ''TAMSin was interrupted before the ingest completed'', False)
        | RunFailed \<Rightarrow> (IngestFailed, ''IngestFailed'', ''TAMSin reported an ingest failure'', False)
        | RunUnknown _ \<Rightarrow> (IngestFailed, ''IngestProtocolInvalid'', ''TAMSin reported an unknown terminal outcome'', False)))"

definition ingestPhaseFromJob ::
    "Job \<Rightarrow> IngestRunResultStatus \<Rightarrow> time \<Rightarrow> ingestStreamSummary option \<Rightarrow> IngestRunPhase \<times> string \<times> string \<times> bool" where
  "ingestPhaseFromJob job result now stream =
     (if ingestJobFinished job then
        (case stream of
           Some s \<Rightarrow>
             if sum_RunFinished s then finishedJobPhase job result now s
             else (IngestRunning, ''IngestResultPending'',
                   ''The Job is terminal, but its TAMSin event stream is not yet available'', False)
         | None \<Rightarrow> (IngestRunning, ''IngestResultPending'',
                    ''The Job is terminal, but its TAMSin event stream is not yet available'', False))
      else if jst_Active (job_Status job) > 0
      then (IngestRunning, ''IngestRunning'', ''TAMSin is processing media'', True)
      else if jst_StartTime (job_Status job) \<noteq> None
      then (IngestRunning, ''JobStarting'', ''The TAMSin Pod is starting'', True)
      else (IngestQueued, ''JobQueued'', ''The TAMSin Job is waiting to be scheduled'', True))"

section \<open>Recording a phase\<close>

text \<open>The phase, reason, message and progress that are recorded: success with an unverified result is not.\<close>

definition recordedPhase ::
    "IngestRunResultStatus \<Rightarrow> IngestRunPhase \<times> string \<times> string \<times> bool \<Rightarrow> IngestRunPhase \<times> string \<times> string \<times> bool" where
  "recordedPhase result p =
     (case p of (phase, reason, message, progressing) \<Rightarrow>
        if ingestResultRequiredForPhase phase \<and> unverifiedResult result
        then (IngestRunning, ''ResultVerificationPending'',
              ''A durable result was recorded but has not passed digest verification'', False)
        else (phase, reason, message, progressing))"

definition jobStatusFields :: "time \<Rightarrow> Job option \<Rightarrow> IngestRunStatus \<Rightarrow> IngestRunStatus" where
  "jobStatusFields now job st =
     (case job of
        None \<Rightarrow> st
      | Some j \<Rightarrow>
          st\<lparr>ist_JobRef := \<lparr>ijs_Name = job_Name j, ijs_UID = job_UID j\<rparr>,
            ist_ResolvedSource := \<lparr>irsrc_Name = mapGet (om_Annotations (job_Meta j)) ingestSourceAnnotation,
              irsrc_PolicyDigest = mapGet (om_Annotations (job_Meta j)) ingestSourcePolicyAnnotation\<rparr>,
            ist_StartedAt := orPtr (ist_StartedAt st) now\<rparr>)"

definition phaseConditions :: "kube_lib \<Rightarrow> int \<Rightarrow> IngestRunPhase \<times> string \<times> string \<times> bool \<Rightarrow> Condition list \<Rightarrow> Condition list" where
  "phaseConditions lib generation p conditions =
     (case p of (phase, reason, message, progressing) \<Rightarrow>
        SetConditionBool lib (SetConditionBool lib conditions generation ConditionReady (phase = IngestSucceeded) reason message)
          generation ConditionProgressing progressing reason message)"

definition phaseStatus ::
    "ingest_env \<Rightarrow> IngestRun \<Rightarrow> Job option \<Rightarrow> IngestRunPhase \<times> string \<times> string \<times> bool \<Rightarrow> int \<Rightarrow> int
      \<Rightarrow> ingestStreamSummary option \<Rightarrow> IngestRunStatus" where
  "phaseStatus env run job p inputsTotal attempt stream =
     (let st = applyIngestStreamSummary (ir_Status run) stream;
          p = recordedPhase (ist_ResultRef st) p;
          st = st\<lparr>ist_ObservedGeneration := om_Generation (ir_Meta run), ist_Phase := fst p,
            ist_Progress := (if inputsTotal > 0 then (ist_Progress st)\<lparr>ipg_InputsTotal := inputsTotal\<rparr> else ist_Progress st),
            ist_Attempt := (if attempt > 0 then attempt else ist_Attempt st)\<rparr>;
          st = jobStatusFields (ie_metaNow env) job st
      in st\<lparr>ist_CompletedAt := (if isIngestRunTerminal (fst p) then orPtr (ist_CompletedAt st) (ie_metaNow env) else ist_CompletedAt st),
            ist_Conditions := phaseConditions (ie_lib env) (om_Generation (ir_Meta run)) p (ist_Conditions st)\<rparr>)"

definition setIngestRunJobPhaseWithStream ::
    "ingest_env \<Rightarrow> IngestRun \<Rightarrow> Job option \<Rightarrow> IngestRunPhase \<times> string \<times> string \<times> bool \<Rightarrow> int \<Rightarrow> int
      \<Rightarrow> ingestStreamSummary option \<Rightarrow> ingest_outcome" where
  "setIngestRunJobPhaseWithStream env run job p inputsTotal attempt stream =
     (let st = phaseStatus env run job p inputsTotal attempt stream;
          (phase, reason, message, progressing) = recordedPhase (ist_ResultRef (ir_Status run)) p;
          result = (if \<not> isIngestRunTerminal phase \<and> \<not> progressing then requeueAfter ingestRunRequeuePending else noRequeue)
      in if ir_Status run = st then ([], Inr result)
         else (case ie_patchStatus env st of
             Inl e \<Rightarrow> ([], Inl (APIError e))
           | Inr _ \<Rightarrow> ([PatchRunStatus st], Inr result)))"

abbreviation "setIngestRunJobPhase env run job p inputsTotal attempt \<equiv>
  setIngestRunJobPhaseWithStream env run (Some job) p inputsTotal attempt None"

definition setIngestRunPhase :: "ingest_env \<Rightarrow> IngestRun \<Rightarrow> IngestRunPhase \<Rightarrow> string \<Rightarrow> string \<Rightarrow> bool \<Rightarrow> ingest_outcome" where
  "setIngestRunPhase env run phase reason message progressing =
     setIngestRunJobPhaseWithStream env run None (phase, reason, message, progressing) 0 0 None"

definition setIngestRunStaticPhase :: "ingest_env \<Rightarrow> IngestRun \<Rightarrow> IngestRunPhase \<Rightarrow> string \<Rightarrow> string \<Rightarrow> bool \<Rightarrow> ingest_outcome" where
  "setIngestRunStaticPhase env run phase reason message progressing =
     (case setIngestRunPhase env run phase reason message progressing of
        (writes, Inl e) \<Rightarrow> (writes, Inl e)
      | (writes, Inr _) \<Rightarrow> (writes, Inr noRequeue))"

section \<open>Ownership, cancellation, lost Jobs\<close>

definition ingestJobBelongsToRun :: "kube_lib \<Rightarrow> Job \<Rightarrow> IngestRun \<Rightarrow> IngestRunSpec \<Rightarrow> bool" where
  "ingestJobBelongsToRun lib job run spec \<longleftrightarrow>
     IsControlledBy lib (job_Meta job) (ir_Meta run) \<and>
     mapGet (om_Labels (job_Meta job)) ingestRunLabel = ingestRunSelectorValue (ir_Name run) \<and>
     mapGet (om_Labels (job_Meta job)) ingestRunTargetLabel = irs_TamossRef spec"

definition ingestRunPodsRemain :: "ingest_env \<Rightarrow> IngestRun \<Rightarrow> bool api" where
  "ingestRunPodsRemain env run =
     (case ie_listPods env (ir_Namespace run) (ingestRunLabel, ingestRunSelectorValue (ir_Name run)) of
        Inl e \<Rightarrow> Inl e
      | Inr pods \<Rightarrow>
          Inr (list_ex (\<lambda>pod. mapGet (om_Labels (pod_Meta pod)) ingestRunTargetLabel = irs_TamossRef (ir_Spec run) \<and>
                 (ijs_UID (ist_JobRef (ir_Status run)) = [] \<or>
                  podOwnedByJobUID pod (ijs_UID (ist_JobRef (ir_Status run))))) pods))"

text \<open>
  \<open>if err == nil && result.RequeueAfter == 0 { result.RequeueAfter = ingestRunRequeueCancel }\<close>.
\<close>

definition requeueCancel :: "ingest_outcome \<Rightarrow> ingest_outcome" where
  "requeueCancel outcome =
     (case outcome of
        (writes, Inr r) \<Rightarrow> (writes, Inr (if RequeueAfter r = 0 then requeueAfter ingestRunRequeueCancel else r))
      | (writes, Inl e) \<Rightarrow> (writes, Inl e))"

text \<open>
  \<open>if job.DeletionTimestamp.IsZero() { Delete, ignoring NotFound }\<close>, then the rest.
\<close>

definition deleteJobThen :: "ingest_env \<Rightarrow> Job \<Rightarrow> ingest_outcome \<Rightarrow> ingest_outcome" where
  "deleteJobThen env job rest =
     (if timePtrIsZero (om_DeletionTimestamp (job_Meta job)) then
        (case ie_deleteJob env job of
           Inl NotFound \<Rightarrow> rest
         | Inl e \<Rightarrow> ([], Inl (APIError e))
         | Inr _ \<Rightarrow> (DeleteJob job # fst rest, snd rest))
      else rest)"

definition reconcileIngestCancellation :: "ingest_env \<Rightarrow> IngestRun \<Rightarrow> Job option \<Rightarrow> ingest_outcome" where
  "reconcileIngestCancellation env run job =
     (case job of
        None \<Rightarrow>
          (case ingestRunPodsRemain env run of
             Inl e \<Rightarrow> ([], Inl (APIError e))
           | Inr podsRemain \<Rightarrow>
               if podsRemain
               then requeueCancel (setIngestRunPhase env run IngestRunning ''CancellationRequested''
                      ''The TAMSin Pod is terminating'' True)
               else setIngestRunPhase env run IngestCancelled ''Cancelled'' ''The ingest run was cancelled'' False)
      | Some j \<Rightarrow>
          deleteJobThen env j (requeueCancel (setIngestRunJobPhase env run j
            (IngestRunning, ''CancellationRequested'', ''The TAMSin Job is terminating'', True) 0 0)))"

definition ingestJobPresentLive :: "ingest_env \<Rightarrow> IngestRun \<Rightarrow> bool api" where
  "ingestJobPresentLive env run =
     (case ie_APIReader env of
        None \<Rightarrow> Inr False
      | Some reader \<Rightarrow>
          (case live_Job reader (ir_Namespace run) (ingestJobName (ir_Name run)) of
             Inr _ \<Rightarrow> Inr True
           | Inl e \<Rightarrow> if e = NotFound then Inr False else Inl e))"

definition reconcileMissingIngestJob :: "ingest_env \<Rightarrow> IngestRun \<Rightarrow> ingest_outcome" where
  "reconcileMissingIngestJob env run =
     (case ingestJobPresentLive env run of
        Inl e \<Rightarrow> ([], Inl (APIError e))
      | Inr present \<Rightarrow>
          if present then ([], Inr (requeueAfter ingestRunRequeueCancel))
          else setIngestRunPhase env run IngestFailed ''IngestJobMissing''
            ''The recorded TAMSin Job no longer exists, so the run outcome cannot be confirmed; the operator does not replay ingest automatically''
            False)"

definition abandonIngestRunForDeletedTamoss :: "ingest_env \<Rightarrow> IngestRun \<Rightarrow> Job \<Rightarrow> string \<Rightarrow> string \<Rightarrow> ingest_outcome" where
  "abandonIngestRunForDeletedTamoss env run job namespace name =
     (let abandon = deleteJobThen env job (setIngestRunJobPhase env run job
            (IngestFailed, ''TamossNotFound'',
             ''Tamoss '' @ namespace @ ''/'' @ name @ '' was deleted while the TAMSin Job was running'', False) 0 0)
      in case ie_APIReader env of
           None \<Rightarrow> abandon
         | Some reader \<Rightarrow>
             (case live_Tamoss reader namespace name of
                Inr _ \<Rightarrow> ([], Inr (requeueAfter ingestRunRequeueCancel))
              | Inl e \<Rightarrow> if e = NotFound then abandon else ([], Inl (APIError e))))"

section \<open>The gates before a Job is created\<close>

definition ingestRetryConfigurationMatches :: "IngestRunSpec \<Rightarrow> IngestRunSpec \<Rightarrow> bool" where
  "ingestRetryConfigurationMatches parent retry \<longleftrightarrow>
     parent\<lparr>irs_DesiredState := [], irs_RetryOf := None\<rparr> = retry\<lparr>irs_DesiredState := [], irs_RetryOf := None\<rparr>"

text \<open>The attempt number is an \<open>int32\<close>: the increment wraps around.\<close>

definition nextAttempt :: "int \<Rightarrow> int" where
  "nextAttempt parentAttempt = (let attempt = wrap32 (parentAttempt + 1) in if attempt < 2 then 2 else attempt)"

definition validateRetryParent :: "ingest_env \<Rightarrow> IngestRun \<Rightarrow> IngestRunSpec \<Rightarrow> int gate" where
  "validateRetryParent env run spec =
     (case irs_RetryOf spec of
        None \<Rightarrow> Pass 1
      | Some ref \<Rightarrow>
          if irr_Name ref = ir_Name run then Hold ''RetryParentInvalid'' ''An IngestRun cannot retry itself''
          else (case ie_getRun env (ir_Namespace run) (irr_Name ref) of
              Inl NotFound \<Rightarrow> Hold ''RetryParentNotFound''
                (''Retry parent '' @ ir_Namespace run @ ''/'' @ irr_Name ref @ '' does not exist'')
            | Inl e \<Rightarrow> Fail e
            | Inr parent \<Rightarrow>
                if om_UID (ir_Meta parent) \<noteq> irr_UID ref
                then Hold ''RetryParentReplaced'' ''The retry parent UID does not match the referenced IngestRun''
                else if irs_TamossRef (ir_Spec parent) \<noteq> irs_TamossRef spec
                then Hold ''RetryParentTargetMismatch'' ''The retry parent belongs to a different Tamoss instance''
                else if \<not> ingestRetryConfigurationMatches (defaultIngestRunSpec (ir_Spec parent)) spec
                then Hold ''RetryParentConfigurationMismatch''
                  (''A retry must preserve the parent'' @ [CHR 0x27] @ ''s input, profile, size class, options, and output intent'')
                else if \<not> isIngestRunTerminal (ist_Phase (ir_Status parent))
                then Hold ''RetryParentNotComplete'' ''The retry parent has not reached a terminal phase''
                else Pass (nextAttempt (ist_Attempt (ir_Status parent)))))"

definition resolveIngestStorageBackend :: "ingest_env \<Rightarrow> IngestRun \<Rightarrow> IngestRunSpec \<Rightarrow> string gate" where
  "resolveIngestStorageBackend env run spec =
     (case iro_StorageBackendRef (irs_Options spec) of
        None \<Rightarrow> Pass []
      | Some name \<Rightarrow>
          if name = [] then Pass []
          else (case ie_getStorageBackend env (ir_Namespace run) name of
              Inl NotFound \<Rightarrow> Hold ''IngestStorageBackendNotFound''
                (''StorageBackend '' @ ir_Namespace run @ ''/'' @ name @ '' does not exist'')
            | Inl e \<Rightarrow> Fail e
            | Inr sb \<Rightarrow>
                if sb_TamossRef (sbk_Spec sb) \<noteq> irs_TamossRef spec
                then Hold ''IngestStorageBackendTargetMismatch'' ''The selected StorageBackend belongs to a different Tamoss instance''
                else if \<not> timePtrIsZero (om_DeletionTimestamp (sbk_Meta sb))
                then Hold ''IngestStorageBackendNotReady'' ''The selected StorageBackend is being deleted''
                else (let backendSpec = storageBackendApplyDefaults (sbk_Spec sb) (om_Namespace (sbk_Meta sb)) (om_Name (sbk_Meta sb));
                          gen = om_Generation (sbk_Meta sb);
                          st = sbk_Status sb
                      in if sb_Usage backendSpec \<noteq> ''media''
                         then Hold ''IngestStorageBackendUsageInvalid'' ''The selected StorageBackend is not a media destination''
                         else if sbs_ObservedGeneration st \<noteq> gen \<or>
                             (case FindStatusCondition (ie_lib env) (sbs_Conditions st) ConditionReady of
                                None \<Rightarrow> True
                              | Some ready \<Rightarrow> cond_Status ready \<noteq> ConditionTrue \<or> cond_ObservedGeneration ready \<noteq> gen)
                         then Hold ''IngestStorageBackendNotReady''
                           ''The selected StorageBackend has not reached Ready for its current generation''
                         else if sbs_ResolvedBackendID st \<noteq> sb_ID backendSpec \<or> sbs_BackendID st \<noteq> sb_ID backendSpec
                         then Hold ''IngestStorageBackendIdentityPending''
                           ''The selected StorageBackend has not published its approved TAMS backend identity''
                         else Pass (sb_ID backendSpec))))"

definition flowProfileAssignmentFormat :: "string \<Rightarrow> string" where
  "flowProfileAssignmentFormat format =
     (if format = ''urn:x-nmos:format:video'' then ''video''
      else if format = ''urn:x-nmos:format:audio'' then ''audio''
      else if format = ''urn:x-tam:format:image'' then ''image''
      else if format = ''urn:x-nmos:format:data'' then ''data''
      else [])"

definition resolveAssignment ::
    "ingest_env \<Rightarrow> IngestRun \<Rightarrow> IngestRunSpec \<Rightarrow> IngestRunTAMSFlowProfile \<Rightarrow> IngestRunResolvedFlowProfileStatus gate" where
  "resolveAssignment env run spec a =
     (let item = \<lparr>irp_Format = ifp_Format a, irp_Index = ifp_Index a, irp_ProfileID = ifp_ProfileID a, irp_ProfileRef = []\<rparr>
      in case ifp_ProfileRef a of
           None \<Rightarrow> Pass item
         | Some name \<Rightarrow>
             (case ie_getFlowProfile env (ir_Namespace run) name of
                Inl NotFound \<Rightarrow> Hold ''IngestFlowProfileNotFound''
                  (''FlowProfile '' @ ir_Namespace run @ ''/'' @ name @ '' does not exist'')
              | Inl e \<Rightarrow> Fail e
              | Inr profile \<Rightarrow>
                  if fps_TamossRef (fp_Spec profile) \<noteq> irs_TamossRef spec
                  then Hold ''IngestFlowProfileTargetMismatch'' ''The selected FlowProfile belongs to a different Tamoss instance''
                  else if \<not> timePtrIsZero (om_DeletionTimestamp (fp_Meta profile)) \<or> \<not> flowProfileReady (ie_lib env) profile \<or>
                      fpt_ProfileID (fp_Status profile) = []
                  then Hold ''IngestFlowProfileNotReady''
                    (''FlowProfile '' @ ir_Namespace run @ ''/'' @ name @ '' has not reached Ready'')
                  else if flowProfileAssignmentFormat (fpr_Format (fpt_Resolved (fp_Status profile))) \<noteq> ifp_Format a
                  then Hold ''IngestFlowProfileFormatMismatch''
                    ''The selected FlowProfile format does not match the requested essence stream''
                  else Pass (item\<lparr>irp_ProfileID := fpt_ProfileID (fp_Status profile), irp_ProfileRef := name\<rparr>)))"

fun resolveIngestFlowProfiles ::
    "ingest_env \<Rightarrow> IngestRun \<Rightarrow> IngestRunSpec \<Rightarrow> IngestRunTAMSFlowProfile list \<Rightarrow> IngestRunResolvedFlowProfileStatus list gate" where
  "resolveIngestFlowProfiles env run spec [] = Pass []"
| "resolveIngestFlowProfiles env run spec (a # as) =
     (case resolveAssignment env run spec a of
        Fail e \<Rightarrow> Fail e
      | Hold r m \<Rightarrow> Hold r m
      | Pass item \<Rightarrow>
          (case resolveIngestFlowProfiles env run spec as of
             Fail e \<Rightarrow> Fail e | Hold r m \<Rightarrow> Hold r m | Pass items \<Rightarrow> Pass (item # items)))"

text \<open>
  \<open>persistResolvedIngestFlowProfiles\<close>: the status that has to be patched, if any. An empty list is
  recorded as nil, so the stored list and a fresh empty one count as equal only when it is nil.
\<close>

definition persistResolved ::
    "IngestRun \<Rightarrow> IngestRunResolvedFlowProfileStatus list \<Rightarrow> IngestRunStatus option" where
  "persistResolved run resolved =
     (let r = (if resolved = [] then None else Some resolved)
      in if ist_ResolvedTAMSFlowProfiles (ir_Status run) = r then None
         else Some ((ir_Status run)\<lparr>ist_ResolvedTAMSFlowProfiles := r\<rparr>))"

text \<open>
  \<open>resolveIngestFlowProfilesStage\<close>: on the left the outcome of a reconcile that stops here.
\<close>

definition resolveIngestFlowProfilesStage ::
    "ingest_env \<Rightarrow> IngestRun \<Rightarrow> IngestRunSpec \<Rightarrow> ingest_outcome + IngestRunResolvedFlowProfileStatus list" where
  "resolveIngestFlowProfilesStage env run spec =
     (let persist = (\<lambda>resolved rest. case persistResolved run resolved of
            None \<Rightarrow> rest
          | Some st \<Rightarrow>
              Inl (case ie_patchStatus env st of
                     Inl e \<Rightarrow> ([], Inl (APIError e))
                   | Inr _ \<Rightarrow> ([PatchRunStatus st], Inr (requeueAfter Second))))
      in case resolveIngestFlowProfiles env run spec (deref [] (iro_TAMSFlowProfiles (irs_Options spec))) of
           Fail e \<Rightarrow> Inl ([], Inl (APIError e))
         | Hold reason message \<Rightarrow> persist [] (Inl (setIngestRunPhase env run IngestPending reason message False))
         | Pass resolved \<Rightarrow> persist resolved (Inr resolved))"

definition assignProfiles :: "IngestRunResolvedFlowProfileStatus list \<Rightarrow> IngestRunSpec \<Rightarrow> IngestRunSpec" where
  "assignProfiles resolved spec =
     spec\<lparr>irs_Options := (irs_Options spec)\<lparr>iro_TAMSFlowProfiles :=
       map_option (\<lambda>as. map (\<lambda>(a, r). a\<lparr>ifp_ProfileID := irp_ProfileID r, ifp_ProfileRef := None\<rparr>) (zip as resolved))
         (iro_TAMSFlowProfiles (irs_Options spec))\<rparr>\<rparr>"

section \<open>Reconcile\<close>

text \<open>From \<open>desiredIngestJob\<close> to the end: create the Job and record it.\<close>

definition createIngestJob ::
    "ingest_env \<Rightarrow> IngestRun \<Rightarrow> IngestRunSpec \<Rightarrow> Tamoss \<Rightarrow> string \<Rightarrow> string \<Rightarrow> ResolvedIngestInputs \<Rightarrow> int \<Rightarrow> ingest_outcome" where
  "createIngestJob env run spec tamoss endpoint storageID resolved attempt =
     (case IngestRunFlowMetadataJSON (irs_Output spec) of
        None \<Rightarrow> ([], Inl (Errorf ''encode ingest Flow metadata''))
      | Some flowMetadata \<Rightarrow>
          (let desired = desiredIngestJob run spec tamoss endpoint (ci_TAMSin (ts_Images (tm_Spec tamoss))) storageID flowMetadata resolved
           in case SetControllerReference (ie_lib env) (ir_Meta run) (job_Meta desired) of
                Inl e \<Rightarrow> ([], Inl e)
              | Inr meta \<Rightarrow>
                  (case ie_createJob env (desired\<lparr>job_Meta := meta\<rparr>) of
                     Inl e \<Rightarrow> ([], if e = AlreadyExists then Inr (requeueAfter Second) else Inl (APIError e))
                   | Inr created \<Rightarrow>
                       (let outcome = setIngestRunJobPhase env run created
                              (IngestQueued, ''JobCreated'', ''The TAMSin Job was created'', True) (rii_ExpectedInputs resolved) attempt
                        in (CreateJob created # fst outcome, snd outcome)))))"

text \<open>From the source policy to the endpoint.\<close>

definition startIngestRun ::
    "ingest_env \<Rightarrow> IngestRun \<Rightarrow> IngestRunSpec \<Rightarrow> Tamoss \<Rightarrow> string \<Rightarrow> int
      \<Rightarrow> (Tamoss \<Rightarrow> IngestRunInput \<Rightarrow> int \<Rightarrow> source_error + ResolvedIngestInputs) \<Rightarrow> ingest_outcome" where
  "startIngestRun env run spec tamoss storageID attempt resolve =
     (case resolve tamoss (irs_Input spec) (iro_MaxInputs (irs_Options spec)) of
        Inl _ \<Rightarrow> setIngestRunPhase env run IngestPending ''InputPolicyRejected''
          ''The input is not permitted by the target Tamoss source policy'' False
      | Inr resolved \<Rightarrow>
          (case validateResolvedIngestInputs resolved (iro_MaxInputs (irs_Options spec)) of
             Inl _ \<Rightarrow> setIngestRunPhase env run IngestPending ''InvalidResolvedInput''
               ''The source-policy resolver returned an invalid ingest plan'' False
           | Inr _ \<Rightarrow>
               (case ie_EndpointResolver env of
                  None \<Rightarrow> setIngestRunStaticPhase env run IngestPending ''IngestEndpointResolverUnavailable''
                    ''The approved TLS ingest endpoint resolver is not configured'' False
                | Some resolveEndpoint \<Rightarrow>
                    (case resolveEndpoint (ir_Namespace run) (irs_TamossRef spec) of
                       Inl _ \<Rightarrow> setIngestRunPhase env run IngestPending ''IngestEndpointResolutionFailed''
                         ''The approved TAMSin endpoint could not be resolved'' False
                     | Inr endpoint \<Rightarrow>
                         (case validateIngestEndpoint endpoint of
                            Inl _ \<Rightarrow> setIngestRunStaticPhase env run IngestPending ''IngestEndpointInvalid''
                              ''The approved TAMSin endpoint must be an HTTPS URL without embedded credentials'' False
                          | Inr endpoint \<Rightarrow> createIngestJob env run spec tamoss endpoint storageID resolved attempt)))))"

text \<open>From the release of the target to the Flow Profiles.\<close>

definition admitIngestRun :: "ingest_env \<Rightarrow> IngestRun \<Rightarrow> IngestRunSpec \<Rightarrow> Tamoss \<Rightarrow> ingest_outcome" where
  "admitIngestRun env run spec tamoss =
     (case resolveTamoss (ie_lib env) (ie_Releases env) (ie_InstanceDefaults env) tamoss of
        Inl err \<Rightarrow> setIngestRunPhase env run IngestPending (se_Reason err) (se_Message err) False
      | Inr tamoss \<Rightarrow>
        if \<not> tamossReadyForIngest (ie_lib env) tamoss (ie_InstanceDefaults env)
        then setIngestRunPhase env run IngestPending ''TamossNotReady'' ''The target Tamoss instance is not Ready'' False
        else if TrimSpace (ci_TAMSin (ts_Images (tm_Spec tamoss))) = []
        then setIngestRunStaticPhase env run IngestPending ''TamsinRuntimeUnavailable''
          ''The operator has no immutable TAMSin image configured'' False
        else if \<not> isImmutableImageReference (ci_TAMSin (ts_Images (tm_Spec tamoss)))
        then setIngestRunStaticPhase env run IngestPending ''TamsinImageNotImmutable''
          ''spec.images.tamsin must use an immutable sha256 digest'' False
        else if \<not> ats_Generate (ts_APIToken (tm_Spec tamoss))
        then setIngestRunPhase env run IngestPending ''IngestAuthenticationUnavailable''
          ''IngestRun currently requires an operator-managed API token Secret'' False
        else (case validateRetryParent env run spec of
            Fail e \<Rightarrow> ([], Inl (APIError e))
          | Hold reason message \<Rightarrow> setIngestRunPhase env run IngestPending reason message False
          | Pass attempt \<Rightarrow>
            (case ie_InputResolver env of
               None \<Rightarrow> setIngestRunStaticPhase env run IngestPending ''InputResolverUnavailable''
                 ''The ingest source-policy resolver is not configured'' False
             | Some resolve \<Rightarrow>
               (case resolveIngestStorageBackend env run spec of
                  Fail e \<Rightarrow> ([], Inl (APIError e))
                | Hold reason message \<Rightarrow> setIngestRunPhase env run IngestPending reason message False
                | Pass storageID \<Rightarrow>
                  (case resolveIngestFlowProfilesStage env run spec of
                     Inl outcome \<Rightarrow> outcome
                   | Inr resolvedProfiles \<Rightarrow>
                       startIngestRun env run (assignProfiles resolvedProfiles spec) tamoss storageID attempt resolve)))))"

text \<open>An attempt that has a Job is tracked from the Job alone.\<close>

definition trackIngestJob :: "ingest_env \<Rightarrow> IngestRun \<Rightarrow> Job \<Rightarrow> ingest_outcome" where
  "trackIngestJob env run job =
     (if ingestJobFinished job then
        (case collectIngestStream (ie_Reduce env) (ie_PodLogs env) (ie_listPods env) job of
           Inl streamErr \<Rightarrow>
             (case ingestStreamFailurePhase job (ie_now env) streamErr of (phase, reason, message) \<Rightarrow>
                setIngestRunJobPhase env run job (phase, reason, message, False) 0 0)
         | Inr stream \<Rightarrow>
             setIngestRunJobPhaseWithStream env run (Some job)
               (ingestPhaseFromJob job (ist_ResultRef (ir_Status run)) (ie_now env) (Some stream)) 0 0 (Some stream))
      else setIngestRunJobPhaseWithStream env run (Some job)
             (ingestPhaseFromJob job (ist_ResultRef (ir_Status run)) (ie_now env) None) 0 0 None)"

definition reconcileIngestTarget :: "ingest_env \<Rightarrow> IngestRun \<Rightarrow> IngestRunSpec \<Rightarrow> Job option \<Rightarrow> ingest_outcome" where
  "reconcileIngestTarget env run spec job =
     (case ie_getTamoss env (ir_Namespace run) (irs_TamossRef spec) of
        Inl NotFound \<Rightarrow>
          (case job of
             Some j \<Rightarrow> abandonIngestRunForDeletedTamoss env run j (ir_Namespace run) (irs_TamossRef spec)
           | None \<Rightarrow> setIngestRunPhase env run IngestPending ''TamossNotFound''
               (''Tamoss '' @ ir_Namespace run @ ''/'' @ irs_TamossRef spec @ '' does not exist'') False)
      | Inl e \<Rightarrow> ([], Inl (APIError e))
      | Inr tamoss \<Rightarrow>
          (case job of
             Some j \<Rightarrow> trackIngestJob env run j
           | None \<Rightarrow>
               if ijs_Name (ist_JobRef (ir_Status run)) \<noteq> [] then reconcileMissingIngestJob env run
               else admitIngestRun env run spec tamoss))"

definition loadIngestJob :: "ingest_env \<Rightarrow> IngestRun \<Rightarrow> Job option api" where
  "loadIngestJob env run =
     (case ie_getJob env (ir_Namespace run) (ingestJobName (ir_Name run)) of
        Inl NotFound \<Rightarrow> Inr None | Inl e \<Rightarrow> Inl e | Inr job \<Rightarrow> Inr (Some job))"

text \<open>\<open>Reconcile\<close> after the run has been read.\<close>

definition reconcileIngestRun :: "ingest_env \<Rightarrow> IngestRun \<Rightarrow> ingest_outcome" where
  "reconcileIngestRun env run =
     (let spec = defaultIngestRunSpec (ir_Spec run)
      in if irs_Output spec \<noteq> None \<and> iro_MaxInputs (irs_Options spec) \<noteq> 1
         then setIngestRunStaticPhase env run IngestPending ''InvalidOutputIntent''
           ''Root Flow output metadata requires maxInputs to equal 1'' False
         else (case ValidateIngestRunOutput (irs_Output spec) of
             Inl _ \<Rightarrow> setIngestRunStaticPhase env run IngestPending ''InvalidOutputIntent''
               ''The Flow output metadata is invalid'' False
           | Inr _ \<Rightarrow>
             (case loadIngestJob env run of
                Inl e \<Rightarrow> ([], Inl (APIError e))
              | Inr job \<Rightarrow>
                  if isIngestRunTerminal (ist_Phase (ir_Status run)) then ([], Inr noRequeue)
                  else if (case job of None \<Rightarrow> False | Some j \<Rightarrow> \<not> ingestJobBelongsToRun (ie_lib env) j run spec)
                  then setIngestRunPhase env run IngestPending ''JobOwnershipConflict''
                    (''Job '' @ job_Namespace (the job) @ ''/'' @ job_Name (the job) @ '' is not owned by this IngestRun'') False
                  else if irs_DesiredState spec = ''Cancelled'' then reconcileIngestCancellation env run job
                  else reconcileIngestTarget env run spec job)))"

definition ingestReconcile :: "ingest_env \<Rightarrow> string \<Rightarrow> string \<Rightarrow> ingest_outcome" where
  "ingestReconcile env namespace name =
     (case ie_getRun env namespace name of
        Inl e \<Rightarrow> ([], ignoreNotFound e)
      | Inr run \<Rightarrow>
          if \<not> Allows (ie_WatchNamespaces env) (ir_Namespace run) then ([], Inr noRequeue)
          else reconcileIngestRun env run)"

section \<open>Examples\<close>

text \<open>A namespace with one Ready instance, one run, possibly its Job, and the Pods given.\<close>

definition readyTamoss :: Tamoss where
  "readyTamoss = upgrading\<lparr>
     tm_Spec := (tm_Spec upgrading)\<lparr>
       ts_Images := (ts_Images (tm_Spec upgrading))\<lparr>ci_TAMSin := ''tamsin@sha256:'' @ replicate 64 (CHR ''a'')\<rparr>,
       ts_APIToken := (ts_APIToken (tm_Spec upgrading))\<lparr>ats_Generate := True\<rparr>\<rparr>,
     tm_Status := (tm_Status upgrading)\<lparr>tst_CurrentVersion := ''1.1'', tst_ObservedGeneration := om_Generation (tm_Meta upgrading),
       tst_Conditions := SetConditionBool refLib [] 0 ConditionReady True ''Ready'' []\<rparr>\<rparr>"

definition exampleEnv :: "IngestRun \<Rightarrow> Job api \<Rightarrow> Pod list \<Rightarrow> ingest_env" where
  "exampleEnv run job pods =
     \<lparr>ie_lib = refLib, ie_Releases = exampleCatalogue, ie_InstanceDefaults = None, ie_WatchNamespaces = [],
      ie_getRun = (\<lambda>ns n. if n = ir_Name run then Inr run else Inl NotFound),
      ie_getJob = (\<lambda>ns n. case job of Inl e \<Rightarrow> Inl e | Inr j \<Rightarrow> if n = job_Name j then Inr j else Inl NotFound),
      ie_getTamoss = (\<lambda>ns n. Inr readyTamoss), ie_getStorageBackend = (\<lambda>ns n. Inl NotFound),
      ie_getFlowProfile = (\<lambda>ns n. Inl NotFound), ie_listPods = (\<lambda>ns sel. Inr pods), ie_APIReader = None,
      ie_InputResolver = Some (\<lambda>t i m. Inr examplePlan), ie_EndpointResolver = Some (\<lambda>ns n. Inr ''https://api.example''),
      ie_PodLogs = Some (\<lambda>ns p c. Inr exampleLog), ie_Reduce = exampleReduce, ie_now = 1000, ie_metaNow = 1000,
      ie_createJob = Inr, ie_deleteJob = (\<lambda>_. Inr ()), ie_patchStatus = (\<lambda>_. Inr ())\<rparr>"

definition finishedStatus :: JobStatus where
  "finishedStatus = \<lparr>jst_Active = 0, jst_StartTime = Some 10, jst_CompletionTime = Some 90,
     jst_Conditions = [\<lparr>jc_Type = ''Complete'', jc_Status = ConditionTrue, jc_LastTransitionTime = 90\<rparr>]\<rparr>"

definition ownExampleJob :: "JobStatus \<Rightarrow> Job" where
  "ownExampleJob st = (exampleJob st)\<lparr>job_Meta := (job_Meta (exampleJob st))\<lparr>
     om_Labels := [ingestRunLabel \<mapsto> ''r'', ingestRunTargetLabel \<mapsto> ''demo''],
     om_OwnerReferences := [\<lparr>or_APIVersion = ''v1alpha1'', or_Kind = ''IngestRun'', or_Name = ''r'', or_UID = ''u1'', or_Controller = Some True\<rparr>]\<rparr>\<rparr>"

definition cancelledRun :: IngestRun where
  "cancelledRun = exampleRun\<lparr>ir_Spec := exampleRunSpec\<lparr>irs_DesiredState := ''Cancelled''\<rparr>\<rparr>"

definition startedRun :: IngestRun where
  "startedRun = exampleRun\<lparr>ir_Status := zeroRunStatus\<lparr>ist_JobRef := \<lparr>ijs_Name = ''tamsin-r'', ijs_UID = ''j1''\<rparr>\<rparr>\<rparr>"

definition failedRun :: IngestRun where
  "failedRun = exampleRun\<lparr>ir_Status := zeroRunStatus\<lparr>ist_Phase := IngestFailed, ist_Attempt := 1\<rparr>\<rparr>"

definition retryRun :: IngestRun where
  "retryRun = exampleRun\<lparr>ir_Meta := (ir_Meta exampleRun)\<lparr>om_Name := ''s'', om_UID := ''u2''\<rparr>,
     ir_Spec := exampleRunSpec\<lparr>irs_RetryOf := Some \<lparr>irr_Name = ''r'', irr_UID = ''u1''\<rparr>\<rparr>\<rparr>"

definition createsJob :: "ingest_write \<Rightarrow> bool" where
  "createsJob w = (case w of CreateJob _ \<Rightarrow> True | _ \<Rightarrow> False)"

definition recordsPhase :: "IngestRunPhase \<Rightarrow> ingest_write \<Rightarrow> bool" where
  "recordsPhase phase w = (case w of PatchRunStatus st \<Rightarrow> ist_Phase st = phase | _ \<Rightarrow> False)"

end
