(* ===== verification/Ingest_Run_Laws.thy ===== *)
theory Ingest_Run_Laws
  imports Ingest_Run
begin

text \<open>
  What the IngestRun controller guarantees. \<open>ingest_cause\<close> lists, for every write of a reconcile, the
  situation it is made in; \<open>reconcile_cause\<close> shows that there are no others, and the properties follow
  from it. \<open>ingest_step\<close> is one reconcile of the stored run in any environment, or one edit that the
  API schema permits; the invariants hold along any sequence of such steps.
\<close>

section \<open>Situations of a write\<close>

definition validOutput :: "IngestRun \<Rightarrow> bool" where
  "validOutput run \<longleftrightarrow>
     (let spec = defaultIngestRunSpec (ir_Spec run)
      in (irs_Output spec \<noteq> None \<longrightarrow> iro_MaxInputs (irs_Options spec) = 1) \<and> ValidateIngestRunOutput (irs_Output spec) = Inr ())"

abbreviation "runPhase (run :: IngestRun) \<equiv> ist_Phase (ir_Status run)"
abbreviation "runSpec (run :: IngestRun) \<equiv> defaultIngestRunSpec (ir_Spec run)"
abbreviation "terminalRun (run :: IngestRun) \<equiv> isIngestRunTerminal (runPhase run)"
abbreviation "cancelRequested (run :: IngestRun) \<equiv> irs_DesiredState (runSpec run) = ''Cancelled''"

definition ownedJob :: "ingest_env \<Rightarrow> IngestRun \<Rightarrow> Job \<Rightarrow> bool" where
  "ownedJob env run job \<longleftrightarrow>
     ie_getJob env (ir_Namespace run) (ingestJobName (ir_Name run)) = Inr job \<and>
     ingestJobBelongsToRun (ie_lib env) job run (runSpec run)"

definition noJob :: "ingest_env \<Rightarrow> IngestRun \<Rightarrow> bool" where
  "noJob env run \<longleftrightarrow> ie_getJob env (ir_Namespace run) (ingestJobName (ir_Name run)) = Inl NotFound"

text \<open>Everything that has to hold before a Job is created, and the Job that is sent to the API server.\<close>

inductive admitted :: "ingest_env \<Rightarrow> IngestRun \<Rightarrow> Job \<Rightarrow> ResolvedIngestInputs \<Rightarrow> int \<Rightarrow> bool" for env run where
  admitted: "admitted env run (desired\<lparr>job_Meta := meta\<rparr>) plan attempt"
  if "ie_getTamoss env (ir_Namespace run) (irs_TamossRef (runSpec run)) = Inr stored"
    and "resolveTamoss (ie_lib env) (ie_Releases env) (ie_InstanceDefaults env) stored = Inr tamoss"
    and "tamossReadyForIngest (ie_lib env) tamoss (ie_InstanceDefaults env)"
    and "isImmutableImageReference (ci_TAMSin (ts_Images (tm_Spec tamoss)))"
    and "ats_Generate (ts_APIToken (tm_Spec tamoss))"
    and "validateRetryParent env run (runSpec run) = Pass attempt"
    and "ie_InputResolver env = Some resolve"
    and "resolveIngestStorageBackend env run (runSpec run) = Pass storageID"
    and "resolveIngestFlowProfiles env run (runSpec run) (deref [] (iro_TAMSFlowProfiles (irs_Options (runSpec run)))) = Pass profiles"
    and "resolve tamoss (irs_Input (runSpec run)) (iro_MaxInputs (irs_Options (runSpec run))) = Inr plan"
    and "validateResolvedIngestInputs plan (iro_MaxInputs (irs_Options (runSpec run))) = Inr ()"
    and "ie_EndpointResolver env = Some resolveEndpoint"
    and "resolveEndpoint (ir_Namespace run) (irs_TamossRef (runSpec run)) = Inr rawEndpoint"
    and "validateIngestEndpoint rawEndpoint = Inr endpoint"
    and "IngestRunFlowMetadataJSON (irs_Output (runSpec run)) = Some flowMetadata"
    and "desired = desiredIngestJob run (assignProfiles profiles (runSpec run)) tamoss endpoint
           (ci_TAMSin (ts_Images (tm_Spec tamoss))) storageID flowMetadata plan"
    and "SetControllerReference (ie_lib env) (ir_Meta run) (job_Meta desired) = Inr meta"

inductive ingest_cause :: "ingest_env \<Rightarrow> IngestRun \<Rightarrow> ingest_write \<Rightarrow> bool" for env run where
  invalid: "\<not> validOutput run \<Longrightarrow>
    ingest_cause env run (PatchRunStatus (phaseStatus env run None (IngestPending, reason, message, False) 0 0 None))"
| held: "validOutput run \<Longrightarrow> \<not> terminalRun run \<Longrightarrow>
    ingest_cause env run (PatchRunStatus (phaseStatus env run None (IngestPending, reason, message, False) 0 0 None))"
| profiles: "validOutput run \<Longrightarrow> \<not> terminalRun run \<Longrightarrow> noJob env run \<Longrightarrow>
    ingest_cause env run (PatchRunStatus ((ir_Status run)\<lparr>ist_ResolvedTAMSFlowProfiles := resolved\<rparr>))"
| cancelling: "validOutput run \<Longrightarrow> \<not> terminalRun run \<Longrightarrow> cancelRequested run \<Longrightarrow> noJob env run \<Longrightarrow>
    ingestRunPodsRemain env run = Inr True \<Longrightarrow>
    ingest_cause env run (PatchRunStatus (phaseStatus env run None (IngestRunning, reason, message, True) 0 0 None))"
| cancelled: "validOutput run \<Longrightarrow> \<not> terminalRun run \<Longrightarrow> cancelRequested run \<Longrightarrow> noJob env run \<Longrightarrow>
    ingestRunPodsRemain env run = Inr False \<Longrightarrow>
    ingest_cause env run (PatchRunStatus (phaseStatus env run None (IngestCancelled, reason, message, False) 0 0 None))"
| stopping: "validOutput run \<Longrightarrow> \<not> terminalRun run \<Longrightarrow> cancelRequested run \<Longrightarrow> ownedJob env run job \<Longrightarrow>
    w = DeleteJob job \<or> w = PatchRunStatus (phaseStatus env run (Some job) (IngestRunning, reason, message, True) 0 0 None) \<Longrightarrow>
    ingest_cause env run w"
| missing: "validOutput run \<Longrightarrow> \<not> terminalRun run \<Longrightarrow> \<not> cancelRequested run \<Longrightarrow> noJob env run \<Longrightarrow> ijs_Name (ist_JobRef (ir_Status run)) \<noteq> [] \<Longrightarrow>
    ingestJobPresentLive env run = Inr False \<Longrightarrow>
    ingest_cause env run (PatchRunStatus (phaseStatus env run None (IngestFailed, reason, message, False) 0 0 None))"
| abandoned: "validOutput run \<Longrightarrow> \<not> terminalRun run \<Longrightarrow> \<not> cancelRequested run \<Longrightarrow> ownedJob env run job \<Longrightarrow>
    ie_getTamoss env (ir_Namespace run) (irs_TamossRef (runSpec run)) = Inl NotFound \<Longrightarrow>
    w = DeleteJob job \<or> w = PatchRunStatus (phaseStatus env run (Some job) (IngestFailed, reason, message, False) 0 0 None) \<Longrightarrow>
    ingest_cause env run w"
| unavailable: "validOutput run \<Longrightarrow> \<not> terminalRun run \<Longrightarrow> \<not> cancelRequested run \<Longrightarrow> ownedJob env run job \<Longrightarrow> ingestJobFinished job \<Longrightarrow>
    ingestStreamFailurePhase job (ie_now env) e = (phase, reason, message) \<Longrightarrow>
    ingest_cause env run (PatchRunStatus (phaseStatus env run (Some job) (phase, reason, message, False) 0 0 None))"
| finished: "validOutput run \<Longrightarrow> \<not> terminalRun run \<Longrightarrow> \<not> cancelRequested run \<Longrightarrow> ownedJob env run job \<Longrightarrow> ingestJobFinished job \<Longrightarrow>
    collectIngestStream (ie_Reduce env) (ie_PodLogs env) (ie_listPods env) job = Inr stream \<Longrightarrow>
    ingest_cause env run (PatchRunStatus (phaseStatus env run (Some job)
      (ingestPhaseFromJob job (ist_ResultRef (ir_Status run)) (ie_now env) (Some stream)) 0 0 (Some stream)))"
| tracked: "validOutput run \<Longrightarrow> \<not> terminalRun run \<Longrightarrow> \<not> cancelRequested run \<Longrightarrow> ownedJob env run job \<Longrightarrow> \<not> ingestJobFinished job \<Longrightarrow>
    ingest_cause env run (PatchRunStatus (phaseStatus env run (Some job)
      (ingestPhaseFromJob job (ist_ResultRef (ir_Status run)) (ie_now env) None) 0 0 None))"
| created: "validOutput run \<Longrightarrow> \<not> terminalRun run \<Longrightarrow> \<not> cancelRequested run \<Longrightarrow> noJob env run \<Longrightarrow>
    ijs_Name (ist_JobRef (ir_Status run)) = [] \<Longrightarrow> admitted env run desired plan attempt \<Longrightarrow> ie_createJob env desired = Inr job \<Longrightarrow>
    w = CreateJob job \<or> w = PatchRunStatus (phaseStatus env run (Some job)
      (IngestQueued, reason, message, True) (rii_ExpectedInputs plan) attempt None) \<Longrightarrow>
    ingest_cause env run w"

section \<open>Every write has a cause\<close>

lemma set_phase_writes:
  "w \<in> set (fst (setIngestRunJobPhaseWithStream env run job p n a stream)) \<Longrightarrow>
     w = PatchRunStatus (phaseStatus env run job p n a stream)"
  by (auto simp: setIngestRunJobPhaseWithStream_def Let_def split: prod.split_asm if_split_asm sum.split_asm)

lemma setIngestRunPhase_writes:
  "w \<in> set (fst (setIngestRunPhase env run phase r m b)) \<Longrightarrow>
     w = PatchRunStatus (phaseStatus env run None (phase, r, m, b) 0 0 None)"
  unfolding setIngestRunPhase_def by (rule set_phase_writes)

lemma fst_setIngestRunStaticPhase [simp]:
  "fst (setIngestRunStaticPhase env run phase r m b) = fst (setIngestRunPhase env run phase r m b)"
  by (auto simp: setIngestRunStaticPhase_def split: prod.splits sum.splits)

lemma fst_requeueCancel [simp]: "fst (requeueCancel o') = fst o'"
  by (auto simp: requeueCancel_def split: prod.splits sum.splits)

lemma deleteJobThen_writes: "w \<in> set (fst (deleteJobThen env job rest)) \<Longrightarrow> w = DeleteJob job \<or> w \<in> set (fst rest)"
  by (auto simp: deleteJobThen_def split: if_split_asm sum.split_asm api_error.split_asm)

lemmas phase_writes = set_phase_writes setIngestRunPhase_writes

lemma cancellation_cause:
  assumes "w \<in> set (fst (reconcileIngestCancellation env run job))"
    and "validOutput run" "\<not> terminalRun run" "cancelRequested run"
    and "case job of None \<Rightarrow> noJob env run | Some j \<Rightarrow> ownedJob env run j"
  shows "ingest_cause env run w"
  using assms unfolding reconcileIngestCancellation_def
  by (auto split: option.split_asm sum.split_asm if_split_asm
      dest!: deleteJobThen_writes phase_writes intro: ingest_cause.intros)

lemma missing_cause:
  assumes "w \<in> set (fst (reconcileMissingIngestJob env run))"
    and "validOutput run" "\<not> terminalRun run" "\<not> cancelRequested run" "noJob env run" "ijs_Name (ist_JobRef (ir_Status run)) \<noteq> []"
  shows "ingest_cause env run w"
  using assms unfolding reconcileMissingIngestJob_def
  by (auto split: sum.split_asm if_split_asm dest!: phase_writes intro: ingest_cause.intros)

lemma abandon_cause:
  assumes "w \<in> set (fst (abandonIngestRunForDeletedTamoss env run job ns name))"
    and "validOutput run" "\<not> terminalRun run" "\<not> cancelRequested run" "ownedJob env run job"
    and "ie_getTamoss env (ir_Namespace run) (irs_TamossRef (runSpec run)) = Inl NotFound"
  shows "ingest_cause env run w"
  using assms unfolding abandonIngestRunForDeletedTamoss_def Let_def
  by (auto split: option.split_asm sum.split_asm if_split_asm dest!: deleteJobThen_writes phase_writes intro: ingest_cause.intros)

lemma track_cause:
  assumes "w \<in> set (fst (trackIngestJob env run job))"
    and "validOutput run" "\<not> terminalRun run" "\<not> cancelRequested run" "ownedJob env run job"
  shows "ingest_cause env run w"
  using assms unfolding trackIngestJob_def
  by (auto split: sum.split_asm if_split_asm prod.split_asm dest!: phase_writes intro: ingest_cause.intros)

lemma held_writes:
  assumes "w \<in> set (fst (setIngestRunPhase env run IngestPending r m False))" "validOutput run" "\<not> terminalRun run"
  shows "ingest_cause env run w"
  using assms by (auto dest!: phase_writes intro: ingest_cause.intros)

lemma profiles_stage_cause:
  assumes "resolveIngestFlowProfilesStage env run spec = Inl outcome" "w \<in> set (fst outcome)"
    and "validOutput run" "\<not> terminalRun run" "noJob env run"
  shows "ingest_cause env run w"
  using assms unfolding resolveIngestFlowProfilesStage_def persistResolved_def Let_def
  by (auto split: gate.split_asm option.split_asm sum.split_asm if_split_asm
      dest: held_writes intro: ingest_cause.profiles)

lemma profiles_stage_pass:
  "resolveIngestFlowProfilesStage env run spec = Inr ps \<Longrightarrow>
   resolveIngestFlowProfiles env run spec (deref [] (iro_TAMSFlowProfiles (irs_Options spec))) = Pass ps"
  unfolding resolveIngestFlowProfilesStage_def Let_def by (auto split: gate.split_asm option.split_asm)

lemma assignProfiles_fields [simp]:
  "irs_Output (assignProfiles ps spec) = irs_Output spec" "irs_Input (assignProfiles ps spec) = irs_Input spec"
  "iro_MaxInputs (irs_Options (assignProfiles ps spec)) = iro_MaxInputs (irs_Options spec)"
  "irs_TamossRef (assignProfiles ps spec) = irs_TamossRef spec"
  by (simp_all add: assignProfiles_def)

text \<open>What \<open>createIngestJob\<close> writes: the Job, then the status that records it.\<close>

lemma createIngestJob_writes:
  assumes "w \<in> set (fst (createIngestJob env run spec tamoss endpoint storageID plan attempt))"
  obtains flowMetadata meta job where "IngestRunFlowMetadataJSON (irs_Output spec) = Some flowMetadata"
    "SetControllerReference (ie_lib env) (ir_Meta run) (job_Meta (desiredIngestJob run spec tamoss endpoint
       (ci_TAMSin (ts_Images (tm_Spec tamoss))) storageID flowMetadata plan)) = Inr meta"
    "ie_createJob env ((desiredIngestJob run spec tamoss endpoint (ci_TAMSin (ts_Images (tm_Spec tamoss))) storageID
       flowMetadata plan)\<lparr>job_Meta := meta\<rparr>) = Inr job"
    "w = CreateJob job \<or> w = PatchRunStatus (phaseStatus env run (Some job)
       (IngestQueued, ''JobCreated'', ''The TAMSin Job was created'', True) (rii_ExpectedInputs plan) attempt None)"
  using assms unfolding createIngestJob_def Let_def
  by (auto split: option.split_asm sum.split_asm dest!: phase_writes)

lemma startIngestRun_writes:
  assumes "w \<in> set (fst (startIngestRun env run spec tamoss storageID attempt resolve))"
  obtains (held) r m where "w \<in> set (fst (setIngestRunPhase env run IngestPending r m False))"
  | (started) plan resolveEndpoint rawEndpoint endpoint where
      "resolve tamoss (irs_Input spec) (iro_MaxInputs (irs_Options spec)) = Inr plan"
      "validateResolvedIngestInputs plan (iro_MaxInputs (irs_Options spec)) = Inr ()"
      "ie_EndpointResolver env = Some resolveEndpoint"
      "resolveEndpoint (ir_Namespace run) (irs_TamossRef spec) = Inr rawEndpoint"
      "validateIngestEndpoint rawEndpoint = Inr endpoint"
      "w \<in> set (fst (createIngestJob env run spec tamoss endpoint storageID plan attempt))"
  using assms unfolding startIngestRun_def
  by (auto split: option.split_asm sum.split_asm)

lemma admitIngestRun_writes:
  assumes "w \<in> set (fst (admitIngestRun env run spec stored))"
  obtains (held) r m where "w \<in> set (fst (setIngestRunPhase env run IngestPending r m False))"
  | (staged) outcome where "resolveIngestFlowProfilesStage env run spec = Inl outcome" "w \<in> set (fst outcome)"
  | (started) tamoss attempt resolve storageID ps where
      "resolveTamoss (ie_lib env) (ie_Releases env) (ie_InstanceDefaults env) stored = Inr tamoss"
      "tamossReadyForIngest (ie_lib env) tamoss (ie_InstanceDefaults env)"
      "isImmutableImageReference (ci_TAMSin (ts_Images (tm_Spec tamoss)))"
      "ats_Generate (ts_APIToken (tm_Spec tamoss))"
      "validateRetryParent env run spec = Pass attempt"
      "ie_InputResolver env = Some resolve"
      "resolveIngestStorageBackend env run spec = Pass storageID"
      "resolveIngestFlowProfilesStage env run spec = Inr ps"
      "w \<in> set (fst (startIngestRun env run (assignProfiles ps spec) tamoss storageID attempt resolve))"
  using assms unfolding admitIngestRun_def
  by (auto split: option.split_asm sum.split_asm if_split_asm gate.split_asm)

lemma admit_cause:
  assumes w: "w \<in> set (fst (admitIngestRun env run (runSpec run) stored))"
    and run: "validOutput run" "\<not> terminalRun run" "\<not> cancelRequested run" "noJob env run" "ijs_Name (ist_JobRef (ir_Status run)) = []"
    and stored: "ie_getTamoss env (ir_Namespace run) (irs_TamossRef (runSpec run)) = Inr stored"
  shows "ingest_cause env run w"
  using w
proof (cases rule: admitIngestRun_writes)
  case (held r m)
  then show ?thesis using run(1,2) by (rule held_writes)
next
  case (staged outcome)
  then show ?thesis using run(1,2,4) by (rule profiles_stage_cause)
next
  case (started tamoss attempt resolve storageID ps)
  note gates = started(1-7) profiles_stage_pass [OF started(8)]
  from started(9) show ?thesis
  proof (cases rule: startIngestRun_writes)
    case (held r m)
    then show ?thesis using run(1,2) by (rule held_writes)
  next
    case (started plan resolveEndpoint rawEndpoint endpoint)
    note start = started(1-5) [unfolded assignProfiles_fields]
    from started(6) obtain flowMetadata meta job where
      fm: "IngestRunFlowMetadataJSON (irs_Output (assignProfiles ps (runSpec run))) = Some flowMetadata"
      and m: "SetControllerReference (ie_lib env) (ir_Meta run) (job_Meta (desiredIngestJob run (assignProfiles ps (runSpec run))
        tamoss endpoint (ci_TAMSin (ts_Images (tm_Spec tamoss))) storageID flowMetadata plan)) = Inr meta"
      and j: "ie_createJob env ((desiredIngestJob run (assignProfiles ps (runSpec run)) tamoss endpoint
        (ci_TAMSin (ts_Images (tm_Spec tamoss))) storageID flowMetadata plan)\<lparr>job_Meta := meta\<rparr>) = Inr job"
      and w: "w = CreateJob job \<or> w = PatchRunStatus (phaseStatus env run (Some job)
       (IngestQueued, ''JobCreated'', ''The TAMSin Job was created'', True) (rii_ExpectedInputs plan) attempt None)"
      by (rule createIngestJob_writes)
    have "admitted env run ((desiredIngestJob run (assignProfiles ps (runSpec run)) tamoss endpoint
        (ci_TAMSin (ts_Images (tm_Spec tamoss))) storageID flowMetadata plan)\<lparr>job_Meta := meta\<rparr>) plan attempt"
      by (rule admitted.intros [OF stored gates start fm [unfolded assignProfiles_fields] refl m])
    then show ?thesis using run j w by (rule_tac ingest_cause.created)
  qed
qed

lemma target_cause:
  assumes "w \<in> set (fst (reconcileIngestTarget env run (runSpec run) job))"
    and run: "validOutput run" "\<not> terminalRun run" "\<not> cancelRequested run"
    and job: "case job of None \<Rightarrow> noJob env run | Some j \<Rightarrow> ownedJob env run j"
  shows "ingest_cause env run w"
proof (cases "ie_getTamoss env (ir_Namespace run) (irs_TamossRef (runSpec run))")
  case (Inl e)
  then show ?thesis
    using assms unfolding reconcileIngestTarget_def
    by (cases e; cases job) (auto dest: held_writes abandon_cause)
next
  case (Inr stored)
  then show ?thesis
    using assms unfolding reconcileIngestTarget_def
    by (cases job) (auto split: if_split_asm dest: track_cause missing_cause admit_cause)
qed

lemma reconcile_cause:
  assumes "w \<in> set (fst (reconcileIngestRun env run))"
  shows "ingest_cause env run w"
proof (cases "validOutput run")
  case False
  then show ?thesis
    using assms unfolding reconcileIngestRun_def validOutput_def Let_def
    by (auto split: if_split_asm sum.split_asm dest!: phase_writes intro!: ingest_cause.invalid simp: validOutput_def Let_def)
next
  case True
  obtain job where job: "loadIngestJob env run = Inr job" and t: "\<not> terminalRun run"
    and rest: "w \<in> set (fst (if (case job of None \<Rightarrow> False | Some j \<Rightarrow> \<not> ingestJobBelongsToRun (ie_lib env) j run (runSpec run))
        then setIngestRunPhase env run IngestPending ''JobOwnershipConflict''
          (''Job '' @ job_Namespace (the job) @ ''/'' @ job_Name (the job) @ '' is not owned by this IngestRun'') False
        else if cancelRequested run then reconcileIngestCancellation env run job
        else reconcileIngestTarget env run (runSpec run) job))"
    using assms True unfolding reconcileIngestRun_def validOutput_def Let_def
    by (auto split: if_split_asm sum.split_asm)
  have own: "case job of None \<Rightarrow> noJob env run | Some j \<Rightarrow> ownedJob env run j"
    if "\<not> (case job of None \<Rightarrow> False | Some j \<Rightarrow> \<not> ingestJobBelongsToRun (ie_lib env) j run (runSpec run))"
    using job that unfolding loadIngestJob_def noJob_def ownedJob_def
    by (auto split: sum.split_asm api_error.split_asm option.split_asm)
  show ?thesis
    using rest own True t
    by (auto split: if_split_asm dest: held_writes cancellation_cause target_cause)
qed

lemma ingestReconcile_cause:
  assumes "w \<in> set (fst (ingestReconcile env ns name))"
  shows "\<exists>run. ie_getRun env ns name = Inr run \<and> Allows (ie_WatchNamespaces env) (ir_Namespace run) \<and> ingest_cause env run w"
  using assms unfolding ingestReconcile_def
  by (auto split: sum.split_asm if_split_asm dest: reconcile_cause)

text \<open>A reconcile makes at most two writes, and the second is a status patch.\<close>

definition shaped :: "ingest_write list \<Rightarrow> bool" where
  "shaped ws = (case ws of [] \<Rightarrow> True | w # ws' \<Rightarrow> ws' = [] \<or> (\<exists>st. ws' = [PatchRunStatus st]))"

lemma shaped_set_phase [simp]: "shaped (fst (setIngestRunJobPhaseWithStream env run job p n a stream))"
  by (auto simp: shaped_def setIngestRunJobPhaseWithStream_def Let_def split: prod.splits sum.splits)

lemma set_phase_short: "fst (setIngestRunJobPhaseWithStream env run job p n a stream) = [] \<or>
    (\<exists>st. fst (setIngestRunJobPhaseWithStream env run job p n a stream) = [PatchRunStatus st])"
  by (auto simp: setIngestRunJobPhaseWithStream_def Let_def split: prod.splits sum.splits)

lemma set_phase_length [simp]: "length (fst (setIngestRunJobPhaseWithStream env run job p n a stream)) \<le> Suc 0"
  using set_phase_short [of env run job p n a stream] by auto

lemma track_length: "length (fst (trackIngestJob env run job)) \<le> 1"
  by (simp add: trackIngestJob_def split: sum.split prod.split)

lemma shaped_Cons_set_phase [simp]: "shaped (w # fst (setIngestRunJobPhaseWithStream env run job p n a stream))"
  using set_phase_short [of env run job p n a stream] by (auto simp: shaped_def)

lemma shaped_setIngestRunPhase [simp]: "shaped (fst (setIngestRunPhase env run phase r m b))"
  by (simp add: setIngestRunPhase_def)

lemma shaped_short [simp]: "shaped []" "shaped [w]"
  by (simp_all add: shaped_def)

lemma shaped_deleteJobThen [simp]:
  assumes "shaped (fst rest)" "\<And>w. shaped (w # fst rest)"
  shows "shaped (fst (deleteJobThen env job rest))"
  using assms by (auto simp: deleteJobThen_def split: sum.splits api_error.splits)

lemma shaped_reconcile: "shaped (fst (reconcileIngestRun env run))"
proof -
  have create: "shaped (fst (createIngestJob env run spec tamoss endpoint storageID plan attempt))" for spec tamoss endpoint storageID plan attempt
    by (auto simp: createIngestJob_def Let_def split: option.splits sum.splits)
  have start: "shaped (fst (startIngestRun env run spec tamoss storageID attempt resolve))" for spec tamoss storageID attempt resolve
    by (auto simp: startIngestRun_def create split: option.splits sum.splits)
  have stage: "shaped (fst outcome)" if "resolveIngestFlowProfilesStage env run spec = Inl outcome" for spec outcome
    using that by (auto simp: resolveIngestFlowProfilesStage_def Let_def split: gate.split_asm option.split_asm sum.split_asm)
  have admit: "shaped (fst (admitIngestRun env run spec tamoss))" for spec tamoss
    unfolding admitIngestRun_def by (auto simp: start dest: stage split: sum.split gate.split option.split)
  have target: "shaped (fst (reconcileIngestTarget env run spec job))" for spec job
    unfolding reconcileIngestTarget_def abandonIngestRunForDeletedTamoss_def trackIngestJob_def reconcileMissingIngestJob_def Let_def
    by (auto simp: admit split: sum.splits api_error.splits option.splits prod.splits)
  have cancel: "shaped (fst (reconcileIngestCancellation env run job))" for job
    unfolding reconcileIngestCancellation_def by (auto split: sum.splits option.splits)
  show ?thesis
    unfolding reconcileIngestRun_def Let_def by (auto simp: target cancel split: sum.split)
qed

section \<open>The recorded status\<close>

lemma applyIngestStreamSummary_fields [simp]:
  "ist_ResultRef (applyIngestStreamSummary st s) = ist_ResultRef st"
  "ist_JobRef (applyIngestStreamSummary st s) = ist_JobRef st"
  "ist_Conditions (applyIngestStreamSummary st s) = ist_Conditions st"
  "ist_CompletedAt (applyIngestStreamSummary st s) = ist_CompletedAt st"
  "ist_StartedAt (applyIngestStreamSummary st s) = ist_StartedAt st"
  by (simp_all add: applyIngestStreamSummary_def split: option.splits)

lemma jobStatusFields_fields [simp]:
  "ist_Phase (jobStatusFields now job st) = ist_Phase st"
  "ist_ResultRef (jobStatusFields now job st) = ist_ResultRef st"
  "ist_Conditions (jobStatusFields now job st) = ist_Conditions st"
  "ist_CompletedAt (jobStatusFields now job st) = ist_CompletedAt st"
  "ist_JobRef (jobStatusFields now job st) =
     (case job of None \<Rightarrow> ist_JobRef st | Some j \<Rightarrow> \<lparr>ijs_Name = job_Name j, ijs_UID = job_UID j\<rparr>)"
  by (simp_all add: jobStatusFields_def split: option.splits)

lemma phaseStatus_fields:
  "ist_Phase (phaseStatus env run job p n a stream) = fst (recordedPhase (ist_ResultRef (ir_Status run)) p)"
  "ist_ResultRef (phaseStatus env run job p n a stream) = ist_ResultRef (ir_Status run)"
  "ist_JobRef (phaseStatus env run job p n a stream) =
     (case job of None \<Rightarrow> ist_JobRef (ir_Status run) | Some j \<Rightarrow> \<lparr>ijs_Name = job_Name j, ijs_UID = job_UID j\<rparr>)"
  "ist_CompletedAt (phaseStatus env run job p n a stream) =
     (if isIngestRunTerminal (fst (recordedPhase (ist_ResultRef (ir_Status run)) p))
      then orPtr (ist_CompletedAt (ir_Status run)) (ie_metaNow env) else ist_CompletedAt (ir_Status run))"
  "ist_Conditions (phaseStatus env run job p n a stream) =
     phaseConditions (ie_lib env) (om_Generation (ir_Meta run)) (recordedPhase (ist_ResultRef (ir_Status run)) p)
       (ist_Conditions (ir_Status run))"
  by (simp_all add: phaseStatus_def Let_def split: option.split)

lemma recordedPhase_fst:
  "fst (recordedPhase result (phase, r, m, b)) =
     (if ingestResultRequiredForPhase phase \<and> unverifiedResult result then IngestRunning else phase)"
  by (simp add: recordedPhase_def)

lemma recorded_not_success [simp]:
  "\<not> ingestResultRequiredForPhase phase \<Longrightarrow> recordedPhase result (phase, r, m, b) = (phase, r, m, b)"
  by (simp add: recordedPhase_def)

lemma required_phases [simp]:
  "ingestResultRequiredForPhase phase \<longleftrightarrow> phase = IngestSucceeded \<or> phase = IngestPartiallySucceeded"
  by (simp add: ingestResultRequiredForPhase_def)

lemma terminal_phases [simp]:
  "isIngestRunTerminal IngestSucceeded" "isIngestRunTerminal IngestPartiallySucceeded" "isIngestRunTerminal IngestFailed"
  "isIngestRunTerminal IngestCancelled" "\<not> isIngestRunTerminal IngestPending" "\<not> isIngestRunTerminal IngestRunning"
  "\<not> isIngestRunTerminal IngestQueued" "\<not> isIngestRunTerminal IngestUnset"
  by (simp_all add: isIngestRunTerminal_def)

lemma ingestStreamFailurePhase_phase:
  "ingestStreamFailurePhase job now e = (phase, r, m) \<Longrightarrow> phase = IngestFailed \<or> phase = IngestRunning"
  by (auto simp: ingestStreamFailurePhase_def split: if_split_asm)

lemma ingestPhaseFromJob_unfinished:
  "\<not> ingestJobFinished job \<Longrightarrow> fst (ingestPhaseFromJob job result now s) \<in> {IngestRunning, IngestQueued}"
  by (simp add: ingestPhaseFromJob_def)

lemma ingestPhaseFromJob_success:
  assumes "fst (recordedPhase result (ingestPhaseFromJob job result now (Some stream))) = phase" "ingestJobFinished job"
    "phase = IngestSucceeded \<or> phase = IngestPartiallySucceeded"
  shows "\<not> unverifiedResult result \<and> (phase = IngestSucceeded \<longleftrightarrow> sum_Outcome stream = RunSucceeded) \<and>
    (phase = IngestPartiallySucceeded \<longleftrightarrow> sum_Outcome stream = RunPartial)"
  using assms by (auto simp: ingestPhaseFromJob_def finishedJobPhase_def recordedPhase_def split: if_split_asm RunOutcome.split_asm)

text \<open>A run that is neither invalid nor terminal goes to cancellation or to its target.\<close>

lemma reconcile_dispatch:
  assumes "validOutput run" "\<not> terminalRun run" "case job of None \<Rightarrow> noJob env run | Some j \<Rightarrow> ownedJob env run j"
  shows "reconcileIngestRun env run = (if cancelRequested run then reconcileIngestCancellation env run job
    else reconcileIngestTarget env run (runSpec run) job)"
proof -
  have "loadIngestJob env run = Inr job"
    using assms(3) by (auto simp: loadIngestJob_def noJob_def ownedJob_def split: option.split_asm)
  then show ?thesis
    using assms by (auto simp: reconcileIngestRun_def validOutput_def Let_def ownedJob_def split: option.split_asm)
qed

section \<open>Concrete reconciles\<close>

lemma list_ex_recordsPhase: "list_ex (recordsPhase phase) ws \<longleftrightarrow> (\<exists>st. PatchRunStatus st \<in> set ws \<and> ist_Phase st = phase)"
proof -
  have "recordsPhase phase w \<longleftrightarrow> (\<exists>st. w = PatchRunStatus st \<and> ist_Phase st = phase)" for w
    by (cases w) (simp_all add: recordsPhase_def)
  then show ?thesis by (auto simp: list_ex_iff)
qed

lemma list_ex_createsJob: "list_ex createsJob ws \<longleftrightarrow> (\<exists>job. CreateJob job \<in> set ws)"
proof -
  have "createsJob w \<longleftrightarrow> (\<exists>job. w = CreateJob job)" for w by (cases w) (simp_all add: createsJob_def)
  then show ?thesis by (auto simp: list_ex_iff)
qed

lemma ready_resolves: "resolveTamoss refLib exampleCatalogue None readyTamoss = Inr (Apply readyTamoss exampleImages)"
  by (simp add: resolveTamoss_def readyTamoss_def upgrading_def zeroSpec_def zeroTamossStatus_def zeroTamoss_def
      Select_def exampleCatalogue_def exampleRelease_def installationApply_def)

lemma example_gates:
  "let t = Apply readyTamoss exampleImages
   in tamossReadyForIngest refLib t None \<and> TrimSpace (ci_TAMSin (ts_Images (tm_Spec t))) \<noteq> [] \<and>
      isImmutableImageReference (ci_TAMSin (ts_Images (tm_Spec t))) \<and> ats_Generate (ts_APIToken (tm_Spec t))"
  by code_simp

lemma example_creates: "list_ex createsJob (fst (startIngestRun (exampleEnv exampleRun (Inl NotFound) []) exampleRun
    (assignProfiles [] (runSpec exampleRun)) (Apply readyTamoss exampleImages) [] 1 (\<lambda>t i m. Inr examplePlan)))"
  by code_simp

lemma example_run:
  "ie_getRun (exampleEnv run job pods) ns (ir_Name run) = Inr run" "ie_lib (exampleEnv run job pods) = refLib"
  "ie_getJob (exampleEnv run (Inl e) pods) ns n = Inl e"
  "ie_getJob (exampleEnv run (Inr (ownExampleJob st)) pods) ns ''tamsin-r'' = Inr (ownExampleJob st)"
  "ingestJobName ''r'' = ''tamsin-r''"
  "validOutput exampleRun" "validOutput cancelledRun" "\<not> terminalRun exampleRun" "\<not> terminalRun cancelledRun"
  "ir_Name exampleRun = ''r''" "ir_Namespace exampleRun = ''media''" "ir_Name cancelledRun = ''r''"
  by (simp_all add: exampleEnv_def validOutput_def exampleRun_def cancelledRun_def exampleRunSpec_def defaultIngestRunSpec_def
      ValidateIngestRunOutput_def IngestRunFlowMetadataJSON_def zeroRunStatus_def isIngestRunTerminal_def orElse_def
      ownExampleJob_def exampleJob_def ingestJobName_def)

lemma example_reconcile:
  assumes "run = exampleRun \<or> run = cancelledRun"
  shows "ingestReconcile (exampleEnv run job pods) ''media'' ''r'' = reconcileIngestRun (exampleEnv run job pods) run"
  using assms by (auto simp: ingestReconcile_def exampleEnv_def exampleRun_def cancelledRun_def Allows_def)

lemma own_example_job: "ingestJobBelongsToRun refLib (ownExampleJob st) exampleRun (runSpec exampleRun)"
  by code_simp

lemma example_track:
  "ingestReconcile (exampleEnv exampleRun (Inr (ownExampleJob st)) pods) ''media'' ''r'' =
    trackIngestJob (exampleEnv exampleRun (Inr (ownExampleJob st)) pods) exampleRun (ownExampleJob st)"
proof -
  let ?job = "ownExampleJob st" and ?env = "exampleEnv exampleRun (Inr (ownExampleJob st)) pods"
  have "ownedJob ?env exampleRun ?job" "\<not> cancelRequested exampleRun"
    using own_example_job by (simp_all add: ownedJob_def example_run exampleRun_def exampleRunSpec_def defaultIngestRunSpec_def orElse_def)
  then show ?thesis
    by (simp add: example_reconcile reconcile_dispatch [where job = "Some ?job"] example_run)
       (simp add: reconcileIngestTarget_def exampleEnv_def)
qed

lemma example_success: "list_ex (recordsPhase IngestSucceeded)
    (fst (ingestReconcile (exampleEnv exampleRun (Inr (ownExampleJob finishedStatus)) [examplePod ''p'' 80 0]) ''media'' ''r''))"
  unfolding example_track by code_simp

lemma example_cancelled: "list_ex (recordsPhase IngestCancelled)
    (fst (ingestReconcile (exampleEnv cancelledRun (Inl NotFound) []) ''media'' ''r''))"
proof -
  let ?env = "exampleEnv cancelledRun (Inl NotFound) []"
  have "noJob ?env cancelledRun" "cancelRequested cancelledRun"
    by (simp_all add: noJob_def example_run cancelledRun_def exampleRunSpec_def defaultIngestRunSpec_def orElse_def)
  then have "ingestReconcile ?env ''media'' ''r'' = reconcileIngestCancellation ?env cancelledRun None"
    by (simp add: example_reconcile reconcile_dispatch [where job = None] example_run)
  moreover have "list_ex (recordsPhase IngestCancelled) (fst (reconcileIngestCancellation ?env cancelledRun None))" by code_simp
  ultimately show ?thesis by simp
qed

lemma example_created: "list_ex createsJob (fst (ingestReconcile (exampleEnv exampleRun (Inl NotFound) []) ''media'' ''r''))"
proof -
  let ?env = "exampleEnv exampleRun (Inl NotFound) []"
  have "noJob ?env exampleRun" "\<not> cancelRequested exampleRun"
    by (simp_all add: noJob_def example_run exampleRun_def exampleRunSpec_def defaultIngestRunSpec_def orElse_def)
  then have 1: "ingestReconcile ?env ''media'' ''r'' = admitIngestRun ?env exampleRun (runSpec exampleRun) readyTamoss"
    by (simp add: example_reconcile reconcile_dispatch [where job = None] example_run)
       (simp add: reconcileIngestTarget_def exampleEnv_def exampleRun_def zeroRunStatus_def)
  have "validateRetryParent ?env exampleRun (runSpec exampleRun) = Pass 1"
    "resolveIngestStorageBackend ?env exampleRun (runSpec exampleRun) = Pass []"
    "resolveIngestFlowProfiles ?env exampleRun (runSpec exampleRun) [] = Pass []"
    by code_simp+
  moreover from this(3) have "resolveIngestFlowProfilesStage ?env exampleRun (runSpec exampleRun) = Inr []"
    by (simp add: resolveIngestFlowProfilesStage_def persistResolved_def exampleRun_def exampleRunSpec_def
        defaultIngestRunSpec_def zeroRunStatus_def)
  ultimately have "admitIngestRun ?env exampleRun (runSpec exampleRun) readyTamoss =
    startIngestRun ?env exampleRun (assignProfiles [] (runSpec exampleRun)) (Apply readyTamoss exampleImages) [] 1 (\<lambda>t i m. Inr examplePlan)"
    using ready_resolves example_gates [unfolded Let_def] unfolding admitIngestRun_def by (simp add: exampleEnv_def)
  then show ?thesis using 1 example_creates by simp
qed

section \<open>Properties of one reconcile\<close>

text \<open>
  C1: success is never recorded on trust. If a reconcile records Succeeded or PartiallySucceeded, the run's own
  Job has finished, the event stream of its last terminated container was collected with exactly that
  outcome, and any durable result the run refers to is digest-verified.
\<close>

theorem success_is_verified:
  assumes "PatchRunStatus st \<in> set (fst (ingestReconcile env ns name))"
    and "ist_Phase st = IngestSucceeded \<or> ist_Phase st = IngestPartiallySucceeded"
  shows "\<exists>run job stream. ie_getRun env ns name = Inr run \<and> ownedJob env run job \<and> ingestJobFinished job \<and>
    collectIngestStream (ie_Reduce env) (ie_PodLogs env) (ie_listPods env) job = Inr stream \<and>
    sum_Outcome stream = (if ist_Phase st = IngestSucceeded then RunSucceeded else RunPartial) \<and>
    (ingestResultVerificationRequired (ist_ResultRef st) \<longrightarrow> isDigestVerifiedIngestResult (ist_ResultRef st))"
proof -
  from ingestReconcile_cause [OF assms(1)] obtain run where run: "ie_getRun env ns name = Inr run"
    and cause: "ingest_cause env run (PatchRunStatus st)" by blast
  from cause show ?thesis
  proof cases
    case (finished job stream)
    then have "fst (recordedPhase (ist_ResultRef (ir_Status run)) (ingestPhaseFromJob job (ist_ResultRef (ir_Status run)) (ie_now env) (Some stream))) =
        ist_Phase st"
      by (simp add: phaseStatus_fields)
    from ingestPhaseFromJob_success [OF this finished(6) assms(2)] show ?thesis
      using run finished assms(2) by (auto simp: phaseStatus_fields unverifiedResult_def)
  next
    case (tracked job)
    then show ?thesis
      using assms(2) ingestPhaseFromJob_unfinished [of job "ist_ResultRef (ir_Status run)" "ie_now env" None]
      by (cases "ingestPhaseFromJob job (ist_ResultRef (ir_Status run)) (ie_now env) None") (auto simp: phaseStatus_fields recordedPhase_fst)
  next
    case (unavailable job e phase r m)
    then show ?thesis using assms(2) ingestStreamFailurePhase_phase [OF unavailable(7)] by (auto simp: phaseStatus_fields)
  qed (use assms(2) in \<open>auto simp: phaseStatus_fields\<close>)
qed

theorem success_is_verified_witness:
  "\<exists>run job (stream :: ingestStreamSummary). ie_getRun (exampleEnv exampleRun (Inr (ownExampleJob finishedStatus)) [examplePod ''p'' 80 0]) ''media'' ''r'' = Inr run \<and>
    ownedJob (exampleEnv exampleRun (Inr (ownExampleJob finishedStatus)) [examplePod ''p'' 80 0]) run job \<and>
    ingestJobFinished job \<and> sum_Outcome stream = RunSucceeded"
proof -
  let ?env = "exampleEnv exampleRun (Inr (ownExampleJob finishedStatus)) [examplePod ''p'' 80 0]"
  from example_success obtain st where w: "PatchRunStatus st \<in> set (fst (ingestReconcile ?env ''media'' ''r''))"
    and st: "ist_Phase st = IngestSucceeded"
    unfolding list_ex_recordsPhase by blast
  from success_is_verified [OF w disjI1 [OF st]] obtain run job and stream :: ingestStreamSummary
    where "ie_getRun ?env ''media'' ''r'' = Inr run" "ownedJob ?env run job" "ingestJobFinished job"
    "sum_Outcome stream = (if ist_Phase st = IngestSucceeded then RunSucceeded else RunPartial)"
    by blast
  then show ?thesis using st by (intro exI conjI) simp_all
qed

text \<open>
  C3: a Job is created only when every gate is open: the run is not terminal, not cancelled, has no Job and has
  never recorded one, its output is valid, and the target, the image, the retry parent, the storage
  backend, the Flow Profiles, the source policy and the endpoint passed their checks. It is then the
  first and only Job of the reconcile.
\<close>

theorem job_creation_gated:
  assumes "CreateJob job \<in> set (fst (ingestReconcile env ns name))"
  shows "\<exists>run desired plan attempt. ie_getRun env ns name = Inr run \<and> validOutput run \<and> \<not> terminalRun run \<and>
    \<not> cancelRequested run \<and> noJob env run \<and> ijs_Name (ist_JobRef (ir_Status run)) = [] \<and>
    admitted env run desired plan attempt \<and> ie_createJob env desired = Inr job \<and>
    (fst (ingestReconcile env ns name) = [CreateJob job] \<or>
     (\<exists>st. fst (ingestReconcile env ns name) = [CreateJob job, PatchRunStatus st]))"
proof -
  have sh: "shaped (fst (ingestReconcile env ns name))"
    by (auto simp: ingestReconcile_def shaped_reconcile split: sum.split)
  have "fst (ingestReconcile env ns name) = [CreateJob job] \<or>
     (\<exists>st. fst (ingestReconcile env ns name) = [CreateJob job, PatchRunStatus st])"
    using sh assms by (auto simp: shaped_def split: list.split_asm)
  moreover from ingestReconcile_cause [OF assms] obtain run where "ie_getRun env ns name = Inr run" "ingest_cause env run (CreateJob job)"
    by blast
  from this(2,1) have "\<exists>run desired plan attempt. ie_getRun env ns name = Inr run \<and> validOutput run \<and> \<not> terminalRun run \<and>
    \<not> cancelRequested run \<and> noJob env run \<and> ijs_Name (ist_JobRef (ir_Status run)) = [] \<and>
    admitted env run desired plan attempt \<and> ie_createJob env desired = Inr job"
    by cases auto
  ultimately show ?thesis by blast
qed

theorem job_creation_gated_witness:
  "\<exists>job run desired plan attempt. ie_getRun (exampleEnv exampleRun (Inl NotFound) []) ''media'' ''r'' = Inr run \<and>
    noJob (exampleEnv exampleRun (Inl NotFound) []) run \<and>
    admitted (exampleEnv exampleRun (Inl NotFound) []) run desired plan attempt \<and>
    ie_createJob (exampleEnv exampleRun (Inl NotFound) []) desired = Inr job"
proof -
  let ?env = "exampleEnv exampleRun (Inl NotFound) []"
  from example_created obtain job where "CreateJob job \<in> set (fst (ingestReconcile ?env ''media'' ''r''))"
    unfolding list_ex_createsJob by blast
  then show ?thesis using job_creation_gated [of job ?env "''media''" "''r''"] by blast
qed

text \<open>
  C22: a run is recorded as Cancelled only on request, when its Job is gone and no Pod of it remains.
\<close>

theorem cancelled_only_when_stopped:
  assumes "PatchRunStatus st \<in> set (fst (ingestReconcile env ns name))" and "ist_Phase st = IngestCancelled"
    and "ie_getRun env ns name = Inr run" and "runPhase run \<noteq> IngestCancelled"
  shows "cancelRequested run \<and> noJob env run \<and> ingestRunPodsRemain env run = Inr False"
proof -
  have cause: "ingest_cause env run (PatchRunStatus st)" using ingestReconcile_cause [OF assms(1)] assms(3) by auto
  then show ?thesis
  proof cases
    case (finished job stream)
    then show ?thesis
      using assms(2) by (auto simp: phaseStatus_fields ingestPhaseFromJob_def finishedJobPhase_def recordedPhase_def split: if_split_asm RunOutcome.split_asm)
  next
    case (tracked job)
    then show ?thesis
      using assms(2) ingestPhaseFromJob_unfinished [of job "ist_ResultRef (ir_Status run)" "ie_now env" None]
      by (cases "ingestPhaseFromJob job (ist_ResultRef (ir_Status run)) (ie_now env) None") (auto simp: phaseStatus_fields recordedPhase_fst)
  next
    case (unavailable job e phase r m)
    then show ?thesis using assms(2) ingestStreamFailurePhase_phase [OF unavailable(7)] by (auto simp: phaseStatus_fields)
  qed (use assms(2,4) in \<open>auto simp: phaseStatus_fields\<close>)
qed

theorem cancelled_only_when_stopped_witness:
  "noJob (exampleEnv cancelledRun (Inl NotFound) []) cancelledRun \<and>
    ingestRunPodsRemain (exampleEnv cancelledRun (Inl NotFound) []) cancelledRun = Inr False"
proof -
  let ?env = "exampleEnv cancelledRun (Inl NotFound) []"
  from example_cancelled obtain st where st: "PatchRunStatus st \<in> set (fst (ingestReconcile ?env ''media'' ''r''))" "ist_Phase st = IngestCancelled"
    unfolding list_ex_recordsPhase by blast
  have "ie_getRun ?env ''media'' ''r'' = Inr cancelledRun" "runPhase cancelledRun \<noteq> IngestCancelled"
    by (simp_all add: exampleEnv_def cancelledRun_def exampleRun_def zeroRunStatus_def)
  from cancelled_only_when_stopped [OF st this] show ?thesis by blast
qed

end
