(* ===== verification/Ingest_Run_Time.thy ===== *)
theory Ingest_Run_Time
  imports Ingest_Run_Laws
begin

text \<open>
  Runs over time. \<open>ingest_step\<close> is one reconcile of the stored run in any environment, or one edit that
  the API schema permits. The theory shows the invariant of a run, that a terminal run is final, that
  the controller refines a small life-cycle machine, that a recorded Job is never replayed, and that a
  finished Job is decided within the observation deadline.
\<close>

section \<open>Runs over time\<close>

text \<open>
  What the API server promises of Jobs: a read by name and a create yield an object of that name. The
  edits of a run that the API schema permits change only the desired state, and never undo a cancellation.
\<close>

definition store_law :: "ingest_env \<Rightarrow> bool" where
  "store_law env \<longleftrightarrow>
     (\<forall>ns n j. ie_getJob env ns n = Inr j \<longrightarrow> job_Name j = n) \<and>
     (\<forall>d j. ie_createJob env d = Inr j \<longrightarrow> job_Name j = job_Name d)"

definition editable :: "IngestRunSpec \<Rightarrow> IngestRunSpec \<Rightarrow> bool" where
  "editable old new \<longleftrightarrow>
     old\<lparr>irs_DesiredState := []\<rparr> = new\<lparr>irs_DesiredState := []\<rparr> \<and>
     (irs_DesiredState old = ''Cancelled'' \<longrightarrow> irs_DesiredState new = ''Cancelled'')"

fun afterWrites :: "ingest_write list \<Rightarrow> IngestRun \<Rightarrow> IngestRun" where
  "afterWrites [] run = run"
| "afterWrites (PatchRunStatus st # ws) run = afterWrites ws (run\<lparr>ir_Status := st\<rparr>)"
| "afterWrites (CreateJob j # ws) run = afterWrites ws run"
| "afterWrites (DeleteJob j # ws) run = afterWrites ws run"

inductive ingest_step :: "kube_lib \<Rightarrow> IngestRun \<Rightarrow> IngestRun \<Rightarrow> bool" for lib where
  reconcile: "ie_lib env = lib \<Longrightarrow> store_law env \<Longrightarrow> ie_getRun env (ir_Namespace run) (ir_Name run) = Inr run \<Longrightarrow>
    ingest_step lib run (afterWrites (fst (ingestReconcile env (ir_Namespace run) (ir_Name run))) run)"
| edit: "editable (ir_Spec run) spec \<Longrightarrow> om_Name meta = ir_Name run \<Longrightarrow> om_Namespace meta = ir_Namespace run \<Longrightarrow>
    ingest_step lib run (run\<lparr>ir_Meta := meta, ir_Spec := spec\<rparr>)"

definition freshRun :: "kube_lib \<Rightarrow> IngestRun \<Rightarrow> bool" where
  "freshRun lib run \<longleftrightarrow> runPhase run = IngestUnset \<and> \<not> IsStatusConditionTrue lib (ist_Conditions (ir_Status run)) ConditionReady"

text \<open>The invariant of a run.\<close>

definition runInv :: "kube_lib \<Rightarrow> IngestRun \<Rightarrow> bool" where
  "runInv lib run \<longleftrightarrow>
     (terminalRun run \<longrightarrow> validOutput run \<and> ist_CompletedAt (ir_Status run) \<noteq> None) \<and>
     (IsStatusConditionTrue lib (ist_Conditions (ir_Status run)) ConditionReady \<longleftrightarrow> runPhase run = IngestSucceeded) \<and>
     (ingestResultRequiredForPhase (runPhase run) \<longrightarrow> \<not> unverifiedResult (ist_ResultRef (ir_Status run)))"

lemma validOutput_status [simp]: "validOutput (run\<lparr>ir_Status := st\<rparr>) = validOutput run"
  by (simp add: validOutput_def)

lemma editable_fields:
  assumes "editable old new"
  shows "irs_Output new = irs_Output old" "irs_Options new = irs_Options old"
proof -
  have eq: "old\<lparr>irs_DesiredState := []\<rparr> = new\<lparr>irs_DesiredState := []\<rparr>" using assms by (simp add: editable_def)
  show "irs_Output new = irs_Output old" using arg_cong [OF eq, of irs_Output] by simp
  show "irs_Options new = irs_Options old" using arg_cong [OF eq, of irs_Options] by simp
qed

lemma validOutput_edit:
  "editable (ir_Spec run) spec \<Longrightarrow> validOutput (run\<lparr>ir_Meta := meta, ir_Spec := spec\<rparr>) = validOutput run"
  by (simp add: validOutput_def defaultIngestRunSpec_def editable_fields)

lemma afterWrites_cases:
  assumes "shaped ws"
  obtains "afterWrites ws run = run" | st where "PatchRunStatus st \<in> set ws" "afterWrites ws run = run\<lparr>ir_Status := st\<rparr>"
proof (cases ws)
  case (Cons w ws')
  then consider "ws' = []" | st where "ws' = [PatchRunStatus st]" using assms by (auto simp: shaped_def)
  then show thesis
  proof cases
    case 1
    then show thesis using Cons that by (cases w) auto
  next
    case (2 st)
    then show thesis using Cons that(2) [of st] by (cases w) auto
  qed
qed (use that in simp)

text \<open>
  One reconcile of the stored run: nothing changes, or the status becomes one that has a cause.
\<close>

lemma reconcile_step_cases:
  assumes "ie_getRun env (ir_Namespace run) (ir_Name run) = Inr run"
  obtains "afterWrites (fst (ingestReconcile env (ir_Namespace run) (ir_Name run))) run = run"
    | st where "ingest_cause env run (PatchRunStatus st)"
        "afterWrites (fst (ingestReconcile env (ir_Namespace run) (ir_Name run))) run = run\<lparr>ir_Status := st\<rparr>"
proof -
  have "shaped (fst (ingestReconcile env (ir_Namespace run) (ir_Name run)))"
    using assms by (simp add: ingestReconcile_def shaped_reconcile)
  then show thesis
  proof (cases rule: afterWrites_cases [where run = run])
    case (2 st)
    then show thesis using that(2) ingestReconcile_cause [OF 2(1)] assms by auto
  qed (use that in simp)
qed

text \<open>Whatever phase is asked for, the recorded status is coherent.\<close>

lemma phaseStatus_coherent:
  assumes "conditions_law (ie_lib env)"
  shows "IsStatusConditionTrue (ie_lib env) (ist_Conditions (phaseStatus env run job p n a stream)) ConditionReady \<longleftrightarrow>
      ist_Phase (phaseStatus env run job p n a stream) = IngestSucceeded"
    and "isIngestRunTerminal (ist_Phase (phaseStatus env run job p n a stream)) \<Longrightarrow>
      ist_CompletedAt (phaseStatus env run job p n a stream) \<noteq> None"
    and "ingestResultRequiredForPhase (ist_Phase (phaseStatus env run job p n a stream)) \<Longrightarrow>
      \<not> unverifiedResult (ist_ResultRef (phaseStatus env run job p n a stream))"
proof -
  obtain phase r m b where p: "recordedPhase (ist_ResultRef (ir_Status run)) p = (phase, r, m, b)"
    by (metis prod_cases4)
  show "IsStatusConditionTrue (ie_lib env) (ist_Conditions (phaseStatus env run job p n a stream)) ConditionReady \<longleftrightarrow>
      ist_Phase (phaseStatus env run job p n a stream) = IngestSucceeded"
    using assms by (simp add: phaseStatus_fields p phaseConditions_def)
  show "ist_CompletedAt (phaseStatus env run job p n a stream) \<noteq> None"
    if "isIngestRunTerminal (ist_Phase (phaseStatus env run job p n a stream))"
    using that by (simp add: phaseStatus_fields)
  show "\<not> unverifiedResult (ist_ResultRef (phaseStatus env run job p n a stream))"
    if "ingestResultRequiredForPhase (ist_Phase (phaseStatus env run job p n a stream))"
    using that by (cases p) (auto simp: phaseStatus_fields recordedPhase_def split: if_split_asm)
qed

text \<open>The status patches of a reconcile either have that form or touch only the resolved Flow Profiles.\<close>

lemma cause_patch_cases:
  assumes "ingest_cause env run (PatchRunStatus st)"
  obtains (phase) job p n a stream where "st = phaseStatus env run job p n a stream"
      "isIngestRunTerminal (ist_Phase st) \<Longrightarrow> validOutput run"
      "case job of None \<Rightarrow> True | Some j \<Rightarrow> ownedJob env run j \<or>
        (\<exists>desired plan attempt. admitted env run desired plan attempt \<and> ie_createJob env desired = Inr j)"
    | (profiles) resolved where "st = (ir_Status run)\<lparr>ist_ResolvedTAMSFlowProfiles := resolved\<rparr>"
  using assms
proof cases
  case (invalid r m)
  then show thesis using phase [of None "(IngestPending, r, m, False)" 0 0 None] by (simp add: phaseStatus_fields)
next
  case (stopping job r m)
  then show thesis using phase [of "Some job"] by auto
next
  case (abandoned job r m)
  then show thesis using phase [of "Some job"] by auto
next
  case (created desired plan attempt job r m)
  show thesis
    by (rule phase [of "Some job" "(IngestQueued, r, m, True)" "rii_ExpectedInputs plan" attempt None])
      (use created in auto)
next
  case (unavailable job e ph r m)
  then show thesis using phase [of "Some job"] by auto
next
  case (finished job stream)
  then show thesis using phase [of "Some job"] by auto
next
  case (tracked job)
  then show thesis using phase [of "Some job"] by auto
qed (use phase profiles in auto)

lemma runInv_step:
  assumes "ingest_step lib run run'" "conditions_law lib" "runInv lib run"
  shows "runInv lib run'"
  using assms(1)
proof cases
  case (reconcile env)
  from reconcile(4) show ?thesis
  proof (cases rule: reconcile_step_cases)
    case 1
    then show ?thesis using reconcile(1) assms(3) by simp
  next
    case (2 st)
    from 2(1) show ?thesis
    proof (cases rule: cause_patch_cases)
      case (phase job p n a stream)
      then show ?thesis
        using 2(2) reconcile(1,2) phaseStatus_coherent [of env run job p n a stream] assms(2)
        by (auto simp: runInv_def simp del: required_phases)
    next
      case (profiles resolved)
      then show ?thesis using 2(2) reconcile(1) assms(3) by (auto simp: runInv_def)
    qed
  qed
next
  case (edit spec meta)
  then show ?thesis using assms(3) by (auto simp: runInv_def validOutput_edit)
qed

lemma freshRun_inv: "freshRun lib run \<Longrightarrow> runInv lib run"
  by (simp add: freshRun_def runInv_def)

lemma runInv_reachable:
  assumes "(ingest_step lib)\<^sup>*\<^sup>* run0 run" "conditions_law lib" "freshRun lib run0"
  shows "runInv lib run"
  using assms(1) by (induction rule: rtranclp_induct) (use assms(2,3) freshRun_inv runInv_step in blast)+

lemma terminal_step:
  assumes "ingest_step lib run run'" "terminalRun run" "validOutput run"
  shows "ir_Status run' = ir_Status run \<and> terminalRun run' \<and> validOutput run'"
  using assms(1)
proof cases
  case (reconcile env)
  from reconcile(4) show ?thesis
  proof (cases rule: reconcile_step_cases)
    case (2 st)
    from 2(1) have False by cases (use assms(2,3) in auto)
    then show ?thesis ..
  qed (use reconcile(1) assms(2,3) in simp)
next
  case (edit spec meta)
  then show ?thesis using assms(2,3) by (simp add: validOutput_edit)
qed

section \<open>The life of a run\<close>

text \<open>
  The specification: a run waits, works, and is done in one of four ways. Once it is cancelled, it can
  only be done as Cancelled; nothing leaves the last state, and nothing goes back to waiting.
\<close>

datatype life = Waiting | Working | Done IngestRunPhase

inductive life_step :: "bool \<times> life \<Rightarrow> bool \<times> life \<Rightarrow> bool" where
  stay: "life_step s s"
| cancel: "life_step (False, l) (True, l)"
| start: "life_step (c, Waiting) (c, Working)"
| finish: "l \<in> {Waiting, Working} \<Longrightarrow> p \<in> {IngestSucceeded, IngestPartiallySucceeded, IngestFailed} \<Longrightarrow>
    life_step (False, l) (False, Done p)"
| stop: "l \<in> {Waiting, Working} \<Longrightarrow> life_step (True, l) (True, Done IngestCancelled)"

inductive_cases life_step_DoneE: "life_step (c, Done p) s"

definition lifeOf :: "IngestRun \<Rightarrow> bool \<times> life" where
  "lifeOf run = (cancelRequested run,
     if terminalRun run then Done (runPhase run)
     else if ijs_Name (ist_JobRef (ir_Status run)) = [] then Waiting else Working)"

lemma ingestJobName_ne [simp]: "ingestJobName n \<noteq> []"
  by (simp add: ingestJobName_def Let_def)

lemma owned_name: "ownedJob env run job \<Longrightarrow> store_law env \<Longrightarrow> job_Name job \<noteq> []"
  unfolding ownedJob_def store_law_def using ingestJobName_ne by metis

lemma admitted_name:
  assumes "admitted env run desired plan attempt" "ie_createJob env desired = Inr job" "store_law env" "controller_law (ie_lib env)"
  shows "job_Name job \<noteq> []"
proof -
  have "job_Name desired = ingestJobName (ir_Name run)"
    using assms(1,4) by (auto simp: controller_law_def desiredIngestJob_def elim!: admitted.cases)
  then show ?thesis using assms(2,3) unfolding store_law_def using ingestJobName_ne by metis
qed

lemma runSpec_status [simp]: "runSpec (run\<lparr>ir_Status := st\<rparr>) = runSpec run"
  by simp

lemma finished_phase:
  "ingestJobFinished job \<Longrightarrow> isIngestRunTerminal (fst (ingestPhaseFromJob job result now s)) \<Longrightarrow>
   fst (ingestPhaseFromJob job result now s) \<in> {IngestSucceeded, IngestPartiallySucceeded, IngestFailed}"
  by (auto simp: ingestPhaseFromJob_def finishedJobPhase_def split: option.splits if_splits RunOutcome.splits)

lemma life_working:
  assumes "\<not> terminalRun run" "job_Name job \<noteq> []" "\<not> isIngestRunTerminal (fst (recordedPhase (ist_ResultRef (ir_Status run)) p))"
  shows "life_step (lifeOf run) (lifeOf (run\<lparr>ir_Status := phaseStatus env run (Some job) p n a stream\<rparr>))"
  using assms by (auto simp: lifeOf_def phaseStatus_fields intro: life_step.intros)

lemma life_finish:
  assumes "\<not> terminalRun run" "\<not> cancelRequested run"
    "fst (recordedPhase (ist_ResultRef (ir_Status run)) p) \<in> {IngestSucceeded, IngestPartiallySucceeded, IngestFailed}"
  shows "life_step (lifeOf run) (lifeOf (run\<lparr>ir_Status := phaseStatus env run job p n a stream\<rparr>))"
  using assms by (auto simp: lifeOf_def phaseStatus_fields intro!: life_step.finish)

lemma recorded_terminal:
  "isIngestRunTerminal (fst (recordedPhase result p)) \<Longrightarrow> fst (recordedPhase result p) = fst p"
  by (auto simp: recordedPhase_def split: prod.splits if_splits)

lemma cause_life:
  assumes cause: "ingest_cause env run (PatchRunStatus st)" and laws: "store_law env" "controller_law (ie_lib env)"
    and inv: "terminalRun run \<longrightarrow> validOutput run"
  shows "life_step (lifeOf run) (lifeOf (run\<lparr>ir_Status := st\<rparr>))"
  using cause
proof cases
  case (cancelled r m)
  then show ?thesis by (auto simp: lifeOf_def phaseStatus_fields intro!: life_step.stop)
next
  case (stopping job r m)
  then show ?thesis using owned_name [OF stopping(4) laws(1)] by (auto intro!: life_working)
next
  case (missing r m)
  then show ?thesis by (auto intro!: life_finish)
next
  case (abandoned job r m)
  then show ?thesis by (auto intro!: life_finish)
next
  case (unavailable job e phase r m)
  then show ?thesis
    using owned_name [OF unavailable(5) laws(1)] ingestStreamFailurePhase_phase [OF unavailable(7)]
    by (auto intro: life_finish life_working)
next
  case (finished job stream)
  let ?p = "ingestPhaseFromJob job (ist_ResultRef (ir_Status run)) (ie_now env) (Some stream)"
  show ?thesis
  proof (cases "isIngestRunTerminal (fst (recordedPhase (ist_ResultRef (ir_Status run)) ?p))")
    case True
    then have "fst (recordedPhase (ist_ResultRef (ir_Status run)) ?p) \<in> {IngestSucceeded, IngestPartiallySucceeded, IngestFailed}"
      using finished_phase [OF finished(6)] recorded_terminal [OF True] by metis
    then show ?thesis using finished(1,3,4) life_finish by simp
  next
    case False
    then show ?thesis using finished(1,3) owned_name [OF finished(5) laws(1)] life_working by simp
  qed
next
  case (tracked job)
  let ?p = "ingestPhaseFromJob job (ist_ResultRef (ir_Status run)) (ie_now env) None"
  have "\<not> isIngestRunTerminal (fst (recordedPhase (ist_ResultRef (ir_Status run)) ?p))"
  proof
    assume "isIngestRunTerminal (fst (recordedPhase (ist_ResultRef (ir_Status run)) ?p))"
    then have "isIngestRunTerminal (fst ?p)" using recorded_terminal by metis
    then show False
      using ingestPhaseFromJob_unfinished [OF tracked(6), of "ist_ResultRef (ir_Status run)" "ie_now env" None]
      by (cases "fst ?p") simp_all
  qed
  then show ?thesis using tracked(1,3) owned_name [OF tracked(5) laws(1)] life_working by simp
next
  case (created desired plan attempt job r m)
  then show ?thesis using admitted_name [OF created(6,7) laws] by (auto intro!: life_working)
qed (use inv in \<open>auto simp: lifeOf_def phaseStatus_fields intro: life_step.stay\<close>)

lemma step_life:
  assumes "ingest_step lib run run'" "controller_law lib" "runInv lib run"
  shows "life_step (lifeOf run) (lifeOf run')"
  using assms(1)
proof cases
  case (reconcile env)
  from reconcile(4) show ?thesis
  proof (cases rule: reconcile_step_cases)
    case (2 st)
    then show ?thesis using cause_life [OF 2(1)] reconcile(1-3) assms(2,3) by (auto simp: runInv_def)
  qed (use reconcile(1) in \<open>simp add: life_step.stay\<close>)
next
  case (edit spec meta)
  then have "cancelRequested run \<longrightarrow> cancelRequested run'"
    by (auto simp: editable_def defaultIngestRunSpec_def orElse_def split: if_splits)
  then have "fst (lifeOf run) \<longrightarrow> fst (lifeOf run')" "snd (lifeOf run') = snd (lifeOf run)"
    using edit(1) by (simp_all add: lifeOf_def)
  then show ?thesis by (cases "lifeOf run"; cases "lifeOf run'"; cases "fst (lifeOf run)"; cases "fst (lifeOf run')")
      (auto intro: life_step.intros)
qed

lemma cause_jobref:
  assumes "ingest_cause env run (PatchRunStatus st)" "store_law env" "controller_law (ie_lib env)"
    and "ijs_Name (ist_JobRef (ir_Status run)) \<noteq> []"
  shows "ijs_Name (ist_JobRef st) \<noteq> []"
  using assms(1)
proof (cases rule: cause_patch_cases)
  case (phase job p n a stream)
  then show ?thesis
    using assms(2-4) owned_name admitted_name by (cases job) (auto simp: phaseStatus_fields)
qed (use assms(4) in simp)

lemma step_jobref:
  assumes "ingest_step lib run run'" "controller_law lib" "ijs_Name (ist_JobRef (ir_Status run)) \<noteq> []"
  shows "ijs_Name (ist_JobRef (ir_Status run')) \<noteq> []"
  using assms(1)
proof cases
  case (reconcile env)
  from reconcile(4) show ?thesis
  proof (cases rule: reconcile_step_cases)
    case (2 st)
    then show ?thesis using cause_jobref [OF 2(1)] reconcile(1-3) assms(2,3) by auto
  qed (use reconcile(1) assms(3) in simp)
qed (use assms(3) in simp)

section \<open>A run that succeeds\<close>

lemma example_store:
  "store_law (exampleEnv run (Inl e) pods)" "store_law (exampleEnv run (Inr job) pods)"
  by (auto simp: store_law_def exampleEnv_def split: if_split_asm)

lemma example_fresh: "freshRun refLib exampleRun"
  by (simp add: freshRun_def exampleRun_def zeroRunStatus_def) code_simp

lemma afterWrites_records:
  assumes "list_ex (recordsPhase phase) ws" "length ws \<le> 1"
  shows "runPhase (afterWrites ws run) = phase"
proof -
  obtain st where "ws = [PatchRunStatus st]" "ist_Phase st = phase"
    using assms unfolding list_ex_recordsPhase by (cases ws) auto
  then show ?thesis by simp
qed

lemma example_succeeds: "\<exists>run. ingest_step refLib exampleRun run \<and> runPhase run = IngestSucceeded"
proof -
  let ?env = "exampleEnv exampleRun (Inr (ownExampleJob finishedStatus)) [examplePod ''p'' 80 0]"
  let ?ws = "fst (ingestReconcile ?env ''media'' ''r'')"
  have "length ?ws \<le> 1"
    unfolding example_track by (rule track_length)
  then have "runPhase (afterWrites ?ws exampleRun) = IngestSucceeded" using example_success by (rule_tac afterWrites_records)
  moreover have "ingest_step refLib exampleRun (afterWrites ?ws exampleRun)"
    using ingest_step.reconcile [OF example_run(2) example_store(2) example_run(1), where run = exampleRun]
    by (simp only: example_run(10,11))
  ultimately show ?thesis by blast
qed

section \<open>Deciding a finished Job\<close>

lemma after_set_phase:
  assumes "\<And>st. ie_patchStatus env st = Inr ()"
  shows "afterWrites (fst (setIngestRunJobPhaseWithStream env run job p n a stream)) run =
    run\<lparr>ir_Status := phaseStatus env run job p n a stream\<rparr>"
  using assms by (auto simp: setIngestRunJobPhaseWithStream_def Let_def split: prod.split)

lemma collected_finished:
  "collectIngestStream reduce logs pods job = Inr stream \<Longrightarrow> sum_RunFinished stream"
  by (auto simp: collectIngestStream_def decodeIngestStream_def Let_def split: option.splits sum.splits if_splits)

lemma expired_terminal:
  assumes "ingestJobFinished job" "sum_RunFinished stream" "ingestObservationDeadlineExpired (ingestJobTerminalReference job) now"
  shows "isIngestRunTerminal (fst (recordedPhase result (ingestPhaseFromJob job result now (Some stream))))"
  using assms
  by (cases "sum_Outcome stream") (auto simp: ingestPhaseFromJob_def finishedJobPhase_def recordedPhase_def)

section \<open>Properties\<close>

text \<open>
  C23: however often a new run is reconciled, in whatever environment, and however the API lets it be edited: it
  is Ready exactly when its phase is Succeeded, a terminal phase comes with a completion time, and a
  success never stands beside a durable result that is not digest-verified.
\<close>

theorem run_status_coherent:
  assumes "freshRun lib run0" "(ingest_step lib)\<^sup>*\<^sup>* run0 run" "conditions_law lib"
  shows "(IsStatusConditionTrue lib (ist_Conditions (ir_Status run)) ConditionReady \<longleftrightarrow> runPhase run = IngestSucceeded) \<and>
    (terminalRun run \<longrightarrow> ist_CompletedAt (ir_Status run) \<noteq> None) \<and>
    (ingestResultRequiredForPhase (runPhase run) \<longrightarrow> \<not> unverifiedResult (ist_ResultRef (ir_Status run)))"
  using runInv_reachable [OF assms(2,3,1)] unfolding runInv_def by blast

theorem run_status_coherent_witness:
  "\<exists>run. (ingest_step refLib)\<^sup>*\<^sup>* exampleRun run \<and> runPhase run = IngestSucceeded \<and>
    IsStatusConditionTrue refLib (ist_Conditions (ir_Status run)) ConditionReady \<and> ist_CompletedAt (ir_Status run) \<noteq> None"
proof -
  obtain run where run: "ingest_step refLib exampleRun run" "runPhase run = IngestSucceeded" using example_succeeds by blast
  then have "(ingest_step refLib)\<^sup>*\<^sup>* exampleRun run" by blast
  then show ?thesis using run_status_coherent [OF example_fresh _ refLib_conditions] run by auto
qed

text \<open>
  C14: a terminal run is final. Once a run that started fresh has reached a terminal phase, no later reconcile
  and no edit changes anything of its status.
\<close>

theorem terminal_run_is_final:
  assumes "freshRun lib run0" "(ingest_step lib)\<^sup>*\<^sup>* run0 run1" "conditions_law lib" "terminalRun run1"
    and "(ingest_step lib)\<^sup>*\<^sup>* run1 run2"
  shows "ir_Status run2 = ir_Status run1"
proof -
  have "validOutput run1" using runInv_reachable [OF assms(2,3,1)] assms(4) by (simp add: runInv_def)
  from assms(5) have "ir_Status run2 = ir_Status run1 \<and> terminalRun run2 \<and> validOutput run2"
  proof (induction rule: rtranclp_induct)
    case base
    then show ?case using assms(4) \<open>validOutput run1\<close> by simp
  next
    case (step y z)
    then show ?case using terminal_step by metis
  qed
  then show ?thesis by simp
qed

theorem terminal_run_is_final_witness:
  "\<exists>run1 run2. runPhase run1 = IngestSucceeded \<and> irs_DesiredState (ir_Spec run2) = ''Cancelled'' \<and>
    (ingest_step refLib)\<^sup>*\<^sup>* run1 run2 \<and> ir_Status run2 = ir_Status run1"
proof -
  obtain run where run: "ingest_step refLib exampleRun run" "runPhase run = IngestSucceeded" using example_succeeds by blast
  let ?cancel = "run\<lparr>ir_Meta := ir_Meta run, ir_Spec := (ir_Spec run)\<lparr>irs_DesiredState := ''Cancelled''\<rparr>\<rparr>"
  have "ingest_step refLib run ?cancel" by (rule ingest_step.edit) (auto simp: editable_def)
  then have edit: "(ingest_step refLib)\<^sup>*\<^sup>* run ?cancel" by blast
  have "ir_Status ?cancel = ir_Status run"
    by (rule terminal_run_is_final [OF example_fresh _ refLib_conditions _ edit]) (use run in auto)
  then show ?thesis using run(2) edit by (intro exI [of _ run] exI [of _ ?cancel]) simp
qed

text \<open>
  C2: the controller refines the life-cycle machine. Every reconcile and every edit of a reachable run is a
  step of \<open>life_step\<close>: a run leaves Waiting for good, ends in one terminal phase, ends as Cancelled
  only after a cancellation and in no other way after one.
\<close>

theorem run_refines_life:
  assumes "freshRun lib run0" "(ingest_step lib)\<^sup>*\<^sup>* run0 run" "ingest_step lib run run'"
    and "conditions_law lib" "controller_law lib"
  shows "life_step (lifeOf run) (lifeOf run')"
  using step_life [OF assms(3,5)] runInv_reachable [OF assms(2,4,1)] by blast

theorem run_refines_life_witness:
  "\<exists>run. life_step (False, Waiting) (lifeOf run) \<and> snd (lifeOf run) = Done IngestSucceeded"
proof -
  obtain run where run: "ingest_step refLib exampleRun run" "runPhase run = IngestSucceeded" using example_succeeds by blast
  have "lifeOf exampleRun = (False, Waiting)" "snd (lifeOf run) = Done IngestSucceeded"
    using run(2) by (code_simp, simp add: lifeOf_def)
  then show ?thesis
    using run_refines_life [OF example_fresh rtranclp.rtrancl_refl run(1) refLib_conditions refLib_controller] by metis
qed

text \<open>
  C4: ingest is never replayed. Once the name of a Job is recorded in the status of a run, no reconcile of the
  run, now or after any further steps, creates a Job, whatever has become of the recorded one.
\<close>

theorem recorded_job_never_replayed:
  assumes "ijs_Name (ist_JobRef (ir_Status run1)) \<noteq> []" "(ingest_step lib)\<^sup>*\<^sup>* run1 run2" "controller_law lib"
    and "ie_getRun env ns name = Inr run2"
  shows "CreateJob job \<notin> set (fst (ingestReconcile env ns name))"
proof
  assume "CreateJob job \<in> set (fst (ingestReconcile env ns name))"
  from ingestReconcile_cause [OF this] assms(4) have "ingest_cause env run2 (CreateJob job)" by auto
  then have none: "ijs_Name (ist_JobRef (ir_Status run2)) = []" by cases auto
  from assms(2) have "ijs_Name (ist_JobRef (ir_Status run2)) \<noteq> []"
    by (induction rule: rtranclp_induct) (use assms(1,3) step_jobref in blast)+
  then show False using none by simp
qed

theorem recorded_job_never_replayed_witness:
  "list_all (\<lambda>w. \<not> createsJob w) (fst (ingestReconcile (exampleEnv startedRun (Inl NotFound) []) ''media'' ''r''))"
proof -
  have "ijs_Name (ist_JobRef (ir_Status startedRun)) \<noteq> []" "ie_getRun (exampleEnv startedRun (Inl NotFound) []) ''media'' ''r'' = Inr startedRun"
    by (simp_all add: startedRun_def exampleEnv_def exampleRun_def)
  from recorded_job_never_replayed [OF this(1) rtranclp.rtrancl_refl refLib_controller this(2)] show ?thesis
    using list_ex_createsJob by (metis list_all_iff list_ex_iff)
qed





text \<open>
  The one situation in which a lost Job does not end its run: while the target instance is gone too, the
  run is recorded as Pending, although \<open>reconcileMissingIngestJob\<close> would record Failed.
\<close>

lemma lost_job_without_tamoss_stays_pending:
  assumes "validOutput run" "\<not> terminalRun run" "\<not> cancelRequested run" "noJob env run"
    and "ijs_Name (ist_JobRef (ir_Status run)) \<noteq> []"
    and "ie_getTamoss env (ir_Namespace run) (irs_TamossRef (runSpec run)) = Inl NotFound"
  shows "\<not> terminalRun (afterWrites (fst (reconcileIngestRun env run)) run)"
proof -
  have "reconcileIngestRun env run = setIngestRunPhase env run IngestPending ''TamossNotFound''
      (''Tamoss '' @ ir_Namespace run @ ''/'' @ irs_TamossRef (runSpec run) @ '' does not exist'') False"
    using reconcile_dispatch [OF assms(1,2), where job = None and env = env] assms(3,4,6)
    by (simp add: reconcileIngestTarget_def)
  moreover have "fst (setIngestRunPhase env run IngestPending r m False) \<in>
      {[], [PatchRunStatus (phaseStatus env run None (IngestPending, r, m, False) 0 0 None)]}" for r m
    using set_phase_short [of env run None "(IngestPending, r, m, False)" 0 0 None] setIngestRunPhase_writes [of _ env run IngestPending r m False]
    unfolding setIngestRunPhase_def by fastforce
  ultimately consider "fst (reconcileIngestRun env run) = []"
    | r m where "fst (reconcileIngestRun env run) = [PatchRunStatus (phaseStatus env run None (IngestPending, r, m, False) 0 0 None)]"
    by fastforce
  then show ?thesis using assms(2) by cases (simp_all add: phaseStatus_fields)
qed

end
