(* ===== verification/Go_Any.thy ===== *)
theory Go_Any
  imports Go_Json "HOL-Library.AList" "HOL-Library.List_Lexorder" "HOL-Library.Char_ord" "HOL-Library.Multiset"
begin

text \<open>
  Dynamic JSON values (\<open>map[string]any\<close>): decoding turns a number literal into a \<open>float64\<close>, encoding
  prints it in its shortest form. Both together are the argument \<open>number\<close>, which gives the text of a
  literal after the round trip, or \<open>None\<close> for one that is out of range. A Go map is an association
  list without duplicate keys; its order does not matter, and encoding sorts the keys.
\<close>

type_synonym fields = "(string \<times> json) list"

fun allNumbers :: "(string \<Rightarrow> bool) \<Rightarrow> json \<Rightarrow> bool" where
  "allNumbers ok (JNum n) = ok n"
| "allNumbers ok (JArr vs) = list_all (allNumbers ok) vs"
| "allNumbers ok (JObj ms) = list_all (\<lambda>(k, v). allNumbers ok v) ms"
| "allNumbers ok v = True"

text \<open>In a Go map the last of several members with the same key wins.\<close>

fun normalise :: "json \<Rightarrow> json" where
  "normalise (JArr vs) = JArr (map normalise vs)"
| "normalise (JObj ms) = JObj (AList.clearjunk (rev (map (\<lambda>(k, v). (k, normalise v)) ms)))"
| "normalise v = v"

text \<open>The type assertions \<open>v.(map[string]interface{})\<close> and \<open>v.(string)\<close> on an entry.\<close>

definition asMap :: "json option \<Rightarrow> fields option" where
  "asMap v = (case v of Some (JObj ms) \<Rightarrow> Some ms | _ \<Rightarrow> None)"

definition UnmarshalAnyMap :: "(string \<Rightarrow> string option) \<Rightarrow> string \<Rightarrow> fields option" where
  "UnmarshalAnyMap number s =
     (case UnmarshalMap s of
        None \<Rightarrow> None
      | Some ms \<Rightarrow> if allNumbers (\<lambda>n. number n \<noteq> None) (JObj ms) then asMap (Some (normalise (JObj ms))) else None)"

fun marshalAny :: "(string \<Rightarrow> string option) \<Rightarrow> json \<Rightarrow> string" where
  "marshalAny number JNull = ''null''"
| "marshalAny number (JBool b) = (if b then ''true'' else ''false'')"
| "marshalAny number (JNum n) = (case number n of None \<Rightarrow> [] | Some t \<Rightarrow> t)"
| "marshalAny number (JStr s) = marshalString s"
| "marshalAny number (JArr vs) = ''['' @ Join '','' (map (marshalAny number) vs) @ '']''"
| "marshalAny number (JObj ms) = marshalObject (sort_key fst (map (\<lambda>(k, v). (k, marshalAny number v)) ms))"

definition MarshalAnyMap :: "(string \<Rightarrow> string option) \<Rightarrow> fields \<Rightarrow> string" where
  "MarshalAnyMap number ms = marshalAny number (JObj ms)"

definition asString :: "json option \<Rightarrow> string option" where
  "asString v = (case v of Some (JStr s) \<Rightarrow> Some s | _ \<Rightarrow> None)"

text \<open>The encoding depends on the entries of a map, not on their order.\<close>

lemma filter_key: "distinct (map f xs) \<Longrightarrow> k \<in> set xs \<Longrightarrow> filter (\<lambda>x. f k = f x) xs = [k]"
proof (induction xs)
  case (Cons x xs)
  show ?case
  proof (cases "k = x")
    case True
    then have "filter (\<lambda>y. f k = f y) xs = []" using Cons.prems(1) by (auto simp: filter_empty_conv)
    then show ?thesis using True by simp
  next
    case False
    then have k: "k \<in> set xs" using Cons.prems(2) by simp
    moreover have "f k \<noteq> f x" using Cons.prems(1) imageI [OF k, of f] by auto
    ultimately show ?thesis using Cons by simp
  qed
qed simp

lemma sort_key_perm:
  assumes "mset xs = mset ys" "distinct (map f xs)"
  shows "sort_key f xs = sort_key f ys"
proof (rule properties_for_sort_key)
  have "mset (map f xs) = mset (map f ys)" using assms(1) by simp
  then have d: "distinct (map f ys)" using assms(2) mset_eq_imp_distinct_iff by blast
  show "mset (sort_key f ys) = mset xs" using assms(1) by simp
  show "sorted (map f (sort_key f ys))" by simp
  show "filter (\<lambda>x. f k = f x) (sort_key f ys) = filter (\<lambda>x. f k = f x) xs" if "k \<in> set (sort_key f ys)" for k
  proof -
    have "k \<in> set ys" "k \<in> set xs" using that assms(1) by (simp_all add: mset_eq_setD [OF assms(1)])
    then show ?thesis
      by (simp add: filter_sort filter_key [OF assms(2)] filter_key [OF d])
  qed
qed

lemma marshalAny_perm:
  assumes "mset ms = mset ms'" "distinct (map fst ms)"
  shows "marshalAny number (JObj ms) = marshalAny number (JObj ms')"
proof -
  have keys: "map fst (map (\<lambda>(k, v). (k, marshalAny number v)) ms) = map fst ms" by (induction ms) auto
  show ?thesis
    unfolding marshalAny.simps
    by (rule arg_cong [where f = marshalObject], rule sort_key_perm) (simp add: assms(1), simp only: keys assms(2))
qed

end
