(* ===== verification/Managed_Apply.thy ===== *)
theory Managed_Apply
  imports Go_Any Kube
begin

text \<open>
  Server-side apply of managed children (\<open>managed_apply.go\<close>): before every apply the operator moves
  foreign field-manager claims on the sections it is authoritative for to its own apply entry, so that
  the apply prunes what the desired object does not contain. The object itself enters through
  \<open>apply_store\<close>: the read of the live object and the two writes.
\<close>

section \<open>Managed fields\<close>

record ManagedFieldsEntry =
  mf_Manager :: string
  mf_Operation :: string
  mf_APIVersion :: string
  mf_Subresource :: string
  mf_FieldsType :: string
  mf_FieldsV1 :: "string option"

abbreviation "FieldOwner \<equiv> ''tamoss-operator''"
abbreviation "ManagedFieldsOperationApply \<equiv> ''Apply''"

definition reclaimedObjectSections :: "string list" where
  "reclaimedObjectSections = [''f:spec'', ''f:data'', ''f:binaryData'', ''f:stringData'', ''f:type'']"

definition serviceAllocatedFieldClaims :: "string list" where
  "serviceAllocatedFieldClaims = [''f:clusterIP'', ''f:clusterIPs'', ''f:ipFamilies'', ''f:ipFamilyPolicy'',
     ''f:healthCheckNodePort'', ''f:internalTrafficPolicy'', ''f:sessionAffinity'', ''f:sessionAffinityConfig'',
     ''f:allocateLoadBalancerNodePorts'', ''f:loadBalancerClass'']"

function mergeFieldsV1 :: "fields \<Rightarrow> fields \<Rightarrow> fields" where
  "mergeFieldsV1 dst [] = dst"
| "mergeFieldsV1 dst ((key, value) # src) =
     mergeFieldsV1 (AList.update key (case value of
         JObj srcMap \<Rightarrow> (case asMap (map_of dst key) of
             Some dstMap \<Rightarrow> JObj (mergeFieldsV1 dstMap srcMap) | None \<Rightarrow> value)
       | _ \<Rightarrow> value) dst) src"
  by pat_completeness auto
termination
  by (relation "measure (\<lambda>(dst, src). size_list (size_prod (\<lambda>_. 0) size) src)") auto

text \<open>
  One section of one foreign entry: the entry's fields, what has been reclaimed so far, and whether
  anything was moved. On a Service the allocated claims are dropped from the claim in place.
\<close>

definition reclaimSection :: "bool \<Rightarrow> string \<Rightarrow> fields \<times> fields \<times> bool \<Rightarrow> fields \<times> fields \<times> bool" where
  "reclaimSection isService section st =
     (case st of (fs, reclaimed, moved) \<Rightarrow>
        (case asMap (map_of fs section) of
           None \<Rightarrow> (fs, reclaimed, moved)
         | Some claim \<Rightarrow>
             if isService \<and> section = ''f:spec'' then
               (let kept = filter (\<lambda>(k, _). k \<notin> set serviceAllocatedFieldClaims) claim
                in if kept = [] then (AList.update section (JObj []) fs, reclaimed, moved)
                   else (AList.delete section fs, mergeFieldsV1 reclaimed [(section, JObj kept)], True))
             else (AList.delete section fs, mergeFieldsV1 reclaimed [(section, JObj claim)], True)))"

definition reclaimSections :: "bool \<Rightarrow> fields \<Rightarrow> fields \<Rightarrow> fields \<times> fields \<times> bool" where
  "reclaimSections isService fs reclaimed =
     fold (reclaimSection isService) reclaimedObjectSections (fs, reclaimed, False)"

definition isOwnerEntry :: "ManagedFieldsEntry \<Rightarrow> bool" where
  "isOwnerEntry e \<longleftrightarrow> mf_Manager e = FieldOwner \<and> mf_Operation e = ManagedFieldsOperationApply \<and> mf_Subresource e = []"

definition isForeignEntry :: "string \<Rightarrow> ManagedFieldsEntry \<Rightarrow> bool" where
  "isForeignEntry apiVersion e \<longleftrightarrow>
     \<not> isOwnerEntry e \<and> mf_Subresource e = [] \<and> mf_FieldsV1 e \<noteq> None \<and> mf_APIVersion e = apiVersion"

text \<open>
  The loop over the entries. A planned entry carries its fields when they have to be encoded anew.
\<close>

type_synonym planned_entry = "ManagedFieldsEntry \<times> fields option"

fun planReclaim ::
    "(string \<Rightarrow> string option) \<Rightarrow> string \<Rightarrow> string \<Rightarrow> bool \<Rightarrow> ManagedFieldsEntry list
      \<Rightarrow> planned_entry list \<Rightarrow> fields \<Rightarrow> nat option \<Rightarrow> error + planned_entry list \<times> fields \<times> nat option" where
  "planReclaim number name apiVersion isService [] nxt reclaimed ownerIndex = Inr (nxt, reclaimed, ownerIndex)"
| "planReclaim number name apiVersion isService (e # es) nxt reclaimed ownerIndex =
     (if isOwnerEntry e then
        planReclaim number name apiVersion isService es (nxt @ [(e, None)]) reclaimed (Some (length nxt))
      else if \<not> isForeignEntry apiVersion e then
        planReclaim number name apiVersion isService es (nxt @ [(e, None)]) reclaimed ownerIndex
      else (case UnmarshalAnyMap number (deref [] (mf_FieldsV1 e)) of
          None \<Rightarrow> Inl (Errorf (''decode managed fields of '' @ name @ '' by '' @ Quote (mf_Manager e)))
        | Some fs \<Rightarrow>
            (case reclaimSections isService fs reclaimed of (fs', reclaimed', moved) \<Rightarrow>
               planReclaim number name apiVersion isService es
                 (if \<not> moved then nxt @ [(e, None)] else if fs' \<noteq> [] then nxt @ [(e, Some fs')] else nxt)
                 reclaimed' ownerIndex)))"

definition encodeEntry :: "(string \<Rightarrow> string option) \<Rightarrow> planned_entry \<Rightarrow> ManagedFieldsEntry" where
  "encodeEntry number p =
     (case snd p of None \<Rightarrow> fst p | Some fs \<Rightarrow> (fst p)\<lparr>mf_FieldsV1 := Some (MarshalAnyMap number fs)\<rparr>)"

definition newOwnerEntry :: "string \<Rightarrow> ManagedFieldsEntry" where
  "newOwnerEntry apiVersion = \<lparr>mf_Manager = FieldOwner, mf_Operation = ManagedFieldsOperationApply,
     mf_APIVersion = apiVersion, mf_Subresource = [], mf_FieldsType = ''FieldsV1'', mf_FieldsV1 = Some ''{}''\<rparr>"

text \<open>The new list of entries, or \<open>None\<close> when nothing was reclaimed.\<close>

definition reclaimAuthoritativeFields ::
    "(string \<Rightarrow> string option) \<Rightarrow> string \<Rightarrow> string \<Rightarrow> bool \<Rightarrow> ManagedFieldsEntry list \<Rightarrow> error + ManagedFieldsEntry list option" where
  "reclaimAuthoritativeFields number name apiVersion isService entries =
     (case planReclaim number name apiVersion isService entries [] [] None of
        Inl e \<Rightarrow> Inl e
      | Inr (nxt, reclaimed, ownerIndex) \<Rightarrow>
          if reclaimed = [] then Inr None
          else (let nxt' = (case ownerIndex of None \<Rightarrow> nxt @ [(newOwnerEntry apiVersion, None)] | Some _ \<Rightarrow> nxt);
                    i = (case ownerIndex of None \<Rightarrow> length nxt | Some i \<Rightarrow> i)
                in case (case mf_FieldsV1 (fst (nxt' ! i)) of None \<Rightarrow> Some [] | Some raw \<Rightarrow> UnmarshalAnyMap number raw) of
                     None \<Rightarrow> Inl (Errorf (''decode managed fields of '' @ name @ '' by '' @ Quote FieldOwner))
                   | Some ownerFields \<Rightarrow>
                       Inr (Some (map (encodeEntry number)
                         (nxt'[i := (fst (nxt' ! i), Some (mergeFieldsV1 ownerFields reclaimed))])))))"

section \<open>Applying a managed object\<close>

text \<open>
  What \<open>applyManagedObject\<close> sees of an object: its live version (\<open>Get\<close>), the \<open>Update\<close> that stores the new
  managed fields, and the server-side apply. The latter two yield the object as stored, which the client
  decodes into the object it was given.
\<close>

record managed_object =
  mo_Name :: string
  mo_APIVersion :: string
  mo_IsService :: bool
  mo_Generation :: int
  mo_ResourceVersion :: string
  mo_ManagedFields :: "ManagedFieldsEntry list"

record apply_store =
  as_number :: "string \<Rightarrow> string option"
  as_get :: "managed_object api"
  as_update :: "ManagedFieldsEntry list \<Rightarrow> managed_object api"
  as_apply :: "managed_object api"

record applyResult =
  ar_Changed :: bool
  ar_Created :: bool

datatype apply_write = ReclaimFields "ManagedFieldsEntry list" | ServerSideApply

definition managedObjectChanged :: "managed_object \<Rightarrow> managed_object \<Rightarrow> bool" where
  "managedObjectChanged live applied =
     (if mo_Generation live > 0 \<and> mo_Generation applied > 0 then mo_Generation applied \<noteq> mo_Generation live
      else mo_ResourceVersion applied \<noteq> mo_ResourceVersion live)"

definition applyManagedObject :: "apply_store \<Rightarrow> apply_write list \<times> (error + applyResult)" where
  "applyManagedObject store =
     (case as_get store of
        Inl NotFound \<Rightarrow>
          (case as_apply store of
             Inl e \<Rightarrow> ([], Inl (APIError e))
           | Inr _ \<Rightarrow> ([ServerSideApply], Inr \<lparr>ar_Changed = True, ar_Created = True\<rparr>))
      | Inl e \<Rightarrow> ([], Inl (APIError e))
      | Inr live \<Rightarrow>
          (case reclaimAuthoritativeFields (as_number store) (mo_Name live) (mo_APIVersion live) (mo_IsService live) (mo_ManagedFields live) of
             Inl e \<Rightarrow> ([], Inl e)
           | Inr plan \<Rightarrow>
               (case (case plan of
                        None \<Rightarrow> Inr ([], live)
                      | Some es \<Rightarrow> (case as_update store es of Inl e \<Rightarrow> Inl e | Inr updated \<Rightarrow> Inr ([ReclaimFields es], updated))) of
                  Inl e \<Rightarrow> ([], Inl (APIError e))
                | Inr (ws, live') \<Rightarrow>
                    (case as_apply store of
                       Inl e \<Rightarrow> (ws, Inl (APIError e))
                     | Inr applied \<Rightarrow> (ws @ [ServerSideApply],
                         Inr \<lparr>ar_Changed = managedObjectChanged live' applied, ar_Created = False\<rparr>)))))"

text \<open>A store that accepts a first apply, for concrete runs; a successful apply ends with the server-side apply.\<close>

definition storedObject :: managed_object where
  "storedObject = \<lparr>mo_Name = [], mo_APIVersion = [], mo_IsService = False, mo_Generation = 1, mo_ResourceVersion = [], mo_ManagedFields = []\<rparr>"

definition acceptingStore :: apply_store where
  "acceptingStore = \<lparr>as_number = Some, as_get = Inl NotFound, as_update = (\<lambda>_. Inr storedObject), as_apply = Inr storedObject\<rparr>"

lemma applyManagedObject_Inr:
  "snd (applyManagedObject store) = Inr res \<Longrightarrow> \<exists>ws. fst (applyManagedObject store) = ws @ [ServerSideApply] \<and> ServerSideApply \<notin> set ws"
  by (auto simp: applyManagedObject_def split: sum.splits api_error.splits option.splits prod.splits)

section \<open>Claims as paths\<close>

text \<open>
  A \<open>FieldsV1\<close> document is a tree of objects; it claims the paths from its root. \<open>wfFields\<close> is that
  shape, with no key twice.
\<close>

fun wfTree :: "json \<Rightarrow> bool" where
  "wfTree (JObj ms) \<longleftrightarrow> distinct (map fst ms) \<and> list_all (\<lambda>(k, v). wfTree v) ms"
| "wfTree _ \<longleftrightarrow> False"

abbreviation "wfFields fs \<equiv> wfTree (JObj fs)"

fun paths :: "json \<Rightarrow> string list set" where
  "paths (JObj ms) = insert [] (\<Union>(k, v) \<in> set ms. (#) k ` paths v)"
| "paths _ = {[]}"

definition claims :: "fields \<Rightarrow> string list set" where
  "claims fs = (\<Union>(k, v) \<in> set fs. (#) k ` paths v)"

lemma paths_JObj: "paths (JObj ms) = insert [] (claims ms)"
  by (simp add: claims_def)

lemma claims_iff: "distinct (map fst fs) \<Longrightarrow> k # p \<in> claims fs \<longleftrightarrow> (\<exists>v. map_of fs k = Some v \<and> p \<in> paths v)"
  by (auto simp: claims_def)

lemma claims_ne: "[] \<notin> claims fs"
  by (auto simp: claims_def)

lemma claims_lookup: "map_of fs k = Some v \<Longrightarrow> (#) k ` paths v \<subseteq> claims fs"
  by (auto simp: claims_def dest: map_of_SomeD)

lemma wf_iff: "wfFields fs \<longleftrightarrow> distinct (map fst fs) \<and> (\<forall>k v. map_of fs k = Some v \<longrightarrow> wfTree v)"
  by (auto simp: list_all_iff map_of_eq_Some_iff)

lemma wfTree_obj: "wfTree v \<Longrightarrow> \<exists>ms. v = JObj ms"
  by (cases v) auto

lemma wf_update: "wfFields fs \<Longrightarrow> wfTree v \<Longrightarrow> wfFields (AList.update k v fs)"
  unfolding wf_iff by (auto simp: distinct_update update_conv')

lemma wf_delete: "wfFields fs \<Longrightarrow> wfFields (AList.delete k fs)"
  unfolding wf_iff by (auto simp: distinct_delete delete_conv' split: if_splits)

lemma claims_update:
  assumes "wfFields fs" "\<And>old. map_of fs k = Some old \<Longrightarrow> paths old \<subseteq> paths v"
  shows "claims (AList.update k v fs) = claims fs \<union> (#) k ` paths v"
proof (rule set_eqI)
  fix q
  have d: "distinct (map fst fs)" "distinct (map fst (AList.update k v fs))"
    using assms(1) by (auto simp: wf_iff distinct_update)
  show "q \<in> claims (AList.update k v fs) \<longleftrightarrow> q \<in> claims fs \<union> (#) k ` paths v"
    using assms(2) by (cases q) (auto simp: claims_ne claims_iff [OF d(1)] claims_iff [OF d(2)] update_conv')
qed

lemma claims_delete:
  assumes "wfFields fs"
  shows "claims (AList.delete k fs) = {q \<in> claims fs. hd q \<noteq> k}"
proof (rule set_eqI)
  fix q
  have d: "distinct (map fst fs)" "distinct (map fst (AList.delete k fs))"
    using assms by (auto simp: wf_iff distinct_delete)
  show "q \<in> claims (AList.delete k fs) \<longleftrightarrow> q \<in> {q \<in> claims fs. hd q \<noteq> k}"
    by (cases q) (auto simp: claims_ne claims_iff [OF d(1)] claims_iff [OF d(2)] delete_conv')
qed

text \<open>Merging adds claims and loses none.\<close>

lemma merge_claims:
  assumes "wfFields dst" "wfFields src"
  shows "wfFields (mergeFieldsV1 dst src) \<and> claims (mergeFieldsV1 dst src) = claims dst \<union> claims src"
  using assms
proof (induction dst src rule: mergeFieldsV1.induct)
  case (2 dst key new src)
  let ?v = "case new of
         JObj srcMap \<Rightarrow> (case asMap (map_of dst key) of
             Some dstMap \<Rightarrow> JObj (mergeFieldsV1 dstMap srcMap) | None \<Rightarrow> new)
       | _ \<Rightarrow> new"
  have "wfTree new" using "2.prems"(2) by simp
  then obtain srcMap where val: "new = JObj srcMap" "wfFields srcMap" using wfTree_obj [of new] by blast
  have v: "wfTree ?v \<and> paths ?v = paths new \<union> (case map_of dst key of None \<Rightarrow> {} | Some old \<Rightarrow> paths old)"
  proof (cases "map_of dst key")
    case None
    then show ?thesis using val by (simp add: asMap_def)
  next
    case (Some old)
    have "wfTree old" using "2.prems"(1) Some unfolding wf_iff by blast
    then obtain dstMap where old: "old = JObj dstMap" "wfFields dstMap" using wfTree_obj [of old] by blast
    have "wfFields (mergeFieldsV1 dstMap srcMap) \<and> claims (mergeFieldsV1 dstMap srcMap) = claims dstMap \<union> claims srcMap"
      using "2.IH"(1) [OF val(1) _ old(2) val(2)] Some old(1) by (simp add: asMap_def)
    then show ?thesis using Some old val by (auto simp: asMap_def paths_JObj simp del: paths.simps)
  qed
  have "(#) key ` paths ?v = (#) key ` paths new \<union> (case map_of dst key of None \<Rightarrow> {} | Some old \<Rightarrow> (#) key ` paths old)"
    using v by (auto split: option.splits)
  then have "claims dst \<union> (#) key ` paths ?v = claims dst \<union> (#) key ` paths new"
    using claims_lookup [of dst key] by (auto split: option.splits)
  moreover have "claims (AList.update key ?v dst) = claims dst \<union> (#) key ` paths ?v"
    using "2.prems"(1) v by (intro claims_update) (auto split: option.splits)
  moreover have "wfFields src" "claims ((key, new) # src) = (#) key ` paths new \<union> claims src"
    using "2.prems"(2) by (auto simp: claims_def)
  ultimately show ?case
    using "2.IH"(2) [OF wf_update [OF "2.prems"(1) conjunct1 [OF v]]] by (simp add: Un_assoc)
qed (simp add: claims_def)

section \<open>What reclaiming moves\<close>

abbreviation "authoritative q \<equiv> hd q \<in> set reclaimedObjectSections"

lemma reclaimSection_claims:
  assumes "reclaimSection False section (fs, reclaimed, moved) = (fs', reclaimed', moved')" "wfFields fs" "wfFields reclaimed"
  shows "wfFields fs' \<and> wfFields reclaimed' \<and> claims fs' = {q \<in> claims fs. hd q \<noteq> section} \<and>
    claims reclaimed' = claims reclaimed \<union> {q \<in> claims fs. hd q = section} \<and>
    (\<not> moved' \<longrightarrow> fs' = fs \<and> reclaimed' = reclaimed \<and> \<not> moved)"
proof (cases "map_of fs section")
  case None
  have "hd q \<noteq> section" if "q \<in> claims fs" for q
    using that None by (auto simp: claims_def dest: weak_map_of_SomeI)
  then show ?thesis using assms None by (auto simp: reclaimSection_def asMap_def)
next
  case (Some v)
  have "wfTree v" using assms(2) Some unfolding wf_iff by blast
  then obtain claim where v: "v = JObj claim" using wfTree_obj by blast
  have sec: "claims [(section, v)] = {q \<in> claims fs. hd q = section}"
  proof (rule set_eqI)
    fix q
    have d: "distinct (map fst fs)" using assms(2) by simp
    show "q \<in> claims [(section, v)] \<longleftrightarrow> q \<in> {q \<in> claims fs. hd q = section}"
      by (cases q) (auto simp: claims_ne claims_iff [OF d] claims_iff [of "[(section, v)]"] Some)
  qed
  have "wfFields [(section, v)]" using \<open>wfTree v\<close> by simp
  then show ?thesis
    using assms Some v merge_claims [OF assms(3), of "[(section, v)]"] wf_delete [OF assms(2), of "section"]
      claims_delete [OF assms(2), of "section"] sec
    by (auto simp: reclaimSection_def asMap_def)
qed

lemma reclaim_fold_claims:
  assumes "fold (reclaimSection False) sections (fs, reclaimed, moved) = (fs', reclaimed', moved')" "wfFields fs" "wfFields reclaimed"
  shows "wfFields reclaimed' \<and> claims fs' = {q \<in> claims fs. hd q \<notin> set sections} \<and>
    claims reclaimed' = claims reclaimed \<union> {q \<in> claims fs. hd q \<in> set sections} \<and>
    (\<not> moved' \<longrightarrow> fs' = fs \<and> reclaimed' = reclaimed \<and> \<not> moved)"
  using assms
proof (induction sections arbitrary: fs reclaimed moved)
  case (Cons s ss)
  obtain fs1 r1 m1 where 1: "reclaimSection False s (fs, reclaimed, moved) = (fs1, r1, m1)"
    using prod_cases3 by blast
  note st = reclaimSection_claims [OF 1 Cons.prems(2,3)]
  have "fold (reclaimSection False) ss (fs1, r1, m1) = (fs', reclaimed', moved')" using Cons.prems(1) 1 by simp
  from Cons.IH [OF this] st show ?case by auto
qed auto

definition entryClaims :: "(string \<Rightarrow> string option) \<Rightarrow> ManagedFieldsEntry \<Rightarrow> string list set" where
  "entryClaims number e =
     (case mf_FieldsV1 e of None \<Rightarrow> {} | Some raw \<Rightarrow> claims (deref [] (UnmarshalAnyMap number raw)))"

definition plannedClaims :: "(string \<Rightarrow> string option) \<Rightarrow> planned_entry \<Rightarrow> string list set" where
  "plannedClaims number p = (case snd p of None \<Rightarrow> entryClaims number (fst p) | Some fs \<Rightarrow> claims fs)"

definition treeEntry :: "(string \<Rightarrow> string option) \<Rightarrow> ManagedFieldsEntry \<Rightarrow> bool" where
  "treeEntry number e = (case mf_FieldsV1 e of None \<Rightarrow> True
     | Some raw \<Rightarrow> (case UnmarshalAnyMap number raw of None \<Rightarrow> True | Some fs \<Rightarrow> wfFields fs))"

lemma foreign_entry:
  assumes "isForeignEntry v e" "treeEntry number e" "UnmarshalAnyMap number (deref [] (mf_FieldsV1 e)) = Some fs"
  shows "wfFields fs" "entryClaims number e = claims fs"
  using assms by (auto simp: isForeignEntry_def treeEntry_def entryClaims_def)

lemma planReclaim_claims:
  assumes "planReclaim number name v False es nxt reclaimed oi = Inr (nxt', reclaimed', oi')" "wfFields reclaimed"
    and "\<forall>e \<in> set es. treeEntry number e"
  shows "\<exists>new. nxt' = nxt @ new \<and> wfFields reclaimed' \<and>
    claims reclaimed' = claims reclaimed \<union> {q. \<exists>e \<in> set es. isForeignEntry v e \<and> q \<in> entryClaims number e \<and> authoritative q} \<and>
    (\<forall>p \<in> set new. isForeignEntry v (fst p) \<longrightarrow> (\<forall>q \<in> plannedClaims number p. \<not> authoritative q)) \<and>
    (\<Union>p \<in> set new. plannedClaims number p) =
      {q. \<exists>e \<in> set es. q \<in> entryClaims number e \<and> \<not> (isForeignEntry v e \<and> authoritative q)}"
  using assms
proof (induction es arbitrary: nxt reclaimed oi)
  case Nil
  then show ?case by auto
next
  case (Cons e es)
  show ?case
  proof (cases "isForeignEntry v e")
    case False
    then obtain oi1 where "planReclaim number name v False es (nxt @ [(e, None)]) reclaimed oi1 = Inr (nxt', reclaimed', oi')"
      using Cons.prems(1) by (auto split: if_split_asm)
    from Cons.IH [OF this Cons.prems(2)] Cons.prems(3) obtain new where IH: "nxt' = (nxt @ [(e, None)]) @ new" "wfFields reclaimed'"
      "claims reclaimed' = claims reclaimed \<union> {q. \<exists>e \<in> set es. isForeignEntry v e \<and> q \<in> entryClaims number e \<and> authoritative q}"
      "\<forall>p \<in> set new. isForeignEntry v (fst p) \<longrightarrow> (\<forall>q \<in> plannedClaims number p. \<not> authoritative q)"
      "(\<Union>p \<in> set new. plannedClaims number p) =
        {q. \<exists>e \<in> set es. q \<in> entryClaims number e \<and> \<not> (isForeignEntry v e \<and> authoritative q)}"
      by auto
    have "plannedClaims number (e, None) = entryClaims number e" by (simp add: plannedClaims_def)
    then show ?thesis using IH False by (intro exI [of _ "(e, None) # new"]) auto
  next
    case True
    then have "\<not> isOwnerEntry e" by (simp add: isForeignEntry_def)
    with True Cons.prems(1) obtain fs fs' r moved where fs: "UnmarshalAnyMap number (deref [] (mf_FieldsV1 e)) = Some fs"
      and sec: "reclaimSections False fs reclaimed = (fs', r, moved)"
      and rest: "planReclaim number name v False es
        (if \<not> moved then nxt @ [(e, None)] else if fs' \<noteq> [] then nxt @ [(e, Some fs')] else nxt) r oi = Inr (nxt', reclaimed', oi')"
      by (auto split: option.split_asm prod.split_asm)
    have "treeEntry number e" using Cons.prems(3) by simp
    note e = foreign_entry [OF True this fs]
    note c = reclaim_fold_claims [OF sec [unfolded reclaimSections_def] e(1) Cons.prems(2)]
    define this' where "this' = (if \<not> moved then [(e, None)] else if fs' \<noteq> [] then [(e, Some fs')] else [])"
    have rest': "planReclaim number name v False es (nxt @ this') r oi = Inr (nxt', reclaimed', oi')"
      using rest by (auto simp: this'_def)
    have "(\<Union>p \<in> set this'. plannedClaims number p) = claims fs'"
      using c e(2) by (cases moved; cases "fs' = []") (simp_all add: this'_def plannedClaims_def claims_def)
    moreover have "claims fs' = {q \<in> entryClaims number e. \<not> authoritative q}" using c e(2) by simp
    ultimately have kept: "(\<Union>p \<in> set this'. plannedClaims number p) = {q \<in> entryClaims number e. \<not> authoritative q}"
      by simp
    then have "\<forall>p \<in> set this'. \<forall>q \<in> plannedClaims number p. \<not> authoritative q" by blast
    note kept = kept this
    from Cons.IH [OF rest'] c Cons.prems(3) obtain new where IH: "nxt' = (nxt @ this') @ new" "wfFields reclaimed'"
      "claims reclaimed' = claims r \<union> {q. \<exists>e \<in> set es. isForeignEntry v e \<and> q \<in> entryClaims number e \<and> authoritative q}"
      "\<forall>p \<in> set new. isForeignEntry v (fst p) \<longrightarrow> (\<forall>q \<in> plannedClaims number p. \<not> authoritative q)"
      "(\<Union>p \<in> set new. plannedClaims number p) =
        {q. \<exists>e \<in> set es. q \<in> entryClaims number e \<and> \<not> (isForeignEntry v e \<and> authoritative q)}"
      by auto
    then show ?thesis using kept c e(2) True by (intro exI [of _ "this' @ new"]) auto
  qed
qed

section \<open>Properties\<close>


definition kubectlEntry :: ManagedFieldsEntry where
  "kubectlEntry = \<lparr>mf_Manager = ''kubectl'', mf_Operation = ''Update'', mf_APIVersion = ''v1'', mf_Subresource = [],
     mf_FieldsType = ''FieldsV1'',
     mf_FieldsV1 = Some (MarshalAnyMap (\<lambda>_. None)
       [(''f:data'', JObj [(''f:extra'', JObj [])]), (''f:metadata'', JObj [(''f:labels'', JObj [])])])\<rparr>"


end
