(* ===== verification/Kube_Act.thy ===== *)
theory Kube_Act
  imports Kube
begin

text \<open>
  The shape of a reconcile: API calls in sequence, each of which may end it with an error. An action
  yields the writes that the API server accepted, in order, and then an error or a value.
\<close>

type_synonym ('w, 'a) act = "'w list \<times> (error + 'a)"

definition yield :: "'a \<Rightarrow> ('w, 'a) act" where
  "yield x = ([], Inr x)"

definition raise :: "error \<Rightarrow> ('w, 'a) act" where
  "raise e = ([], Inl e)"

definition andThen :: "('w, 'a) act \<Rightarrow> ('a \<Rightarrow> ('w, 'b) act) \<Rightarrow> ('w, 'b) act" where
  "andThen m f = (case snd m of Inl e \<Rightarrow> (fst m, Inl e) | Inr x \<Rightarrow> (fst m @ fst (f x), snd (f x)))"

text \<open>A read; a read whose \<open>NotFound\<close> is a value; a write; a delete that ignores \<open>NotFound\<close>.\<close>

definition readAct :: "'a api \<Rightarrow> ('w, 'a) act" where
  "readAct r = (case r of Inl e \<Rightarrow> raise (APIError e) | Inr x \<Rightarrow> yield x)"

definition readOptional :: "'a api \<Rightarrow> ('w, 'a option) act" where
  "readOptional r = (case r of Inl e \<Rightarrow> (if e = NotFound then yield None else raise (APIError e)) | Inr x \<Rightarrow> yield (Some x))"

definition liftErr :: "error + 'a \<Rightarrow> ('w, 'a) act" where
  "liftErr r = (case r of Inl e \<Rightarrow> raise e | Inr x \<Rightarrow> yield x)"

definition issue :: "'w \<Rightarrow> 'a api \<Rightarrow> ('w, 'a) act" where
  "issue w r = (case r of Inl e \<Rightarrow> raise (APIError e) | Inr x \<Rightarrow> ([w], Inr x))"

definition issueDelete :: "'w \<Rightarrow> unit api \<Rightarrow> ('w, unit) act" where
  "issueDelete w r =
     (case r of Inl e \<Rightarrow> (if e = NotFound then yield () else raise (APIError e)) | Inr _ \<Rightarrow> ([w], Inr ()))"

definition mapWrites :: "('v \<Rightarrow> 'w) \<Rightarrow> ('v, 'a) act \<Rightarrow> ('w, 'a) act" where
  "mapWrites g m = (map g (fst m), snd m)"

text \<open>A loop over a list that stops at the first error.\<close>

fun forEach :: "('x \<Rightarrow> ('w, unit) act) \<Rightarrow> 'x list \<Rightarrow> ('w, unit) act" where
  "forEach f [] = yield ()"
| "forEach f (x # xs) = andThen (f x) (\<lambda>_. forEach f xs)"

lemma act_simps [simp]:
  "fst (yield x) = []" "snd (yield x) = Inr x" "fst (raise e) = []" "snd (raise e) = Inl e"
  by (simp_all add: yield_def raise_def)

lemma andThen_yield [simp]: "andThen (yield x) f = f x"
  by (simp add: andThen_def)

lemma andThen_raise [simp]: "andThen (raise e) f = raise e"
  by (simp add: andThen_def raise_def)

lemma andThen_write:
  "w \<in> set (fst (andThen m f)) \<longleftrightarrow> w \<in> set (fst m) \<or> (\<exists>x. snd m = Inr x \<and> w \<in> set (fst (f x)))"
  by (auto simp: andThen_def split: sum.split)

lemma andThen_Inr: "snd (andThen m f) = Inr y \<longleftrightarrow> (\<exists>x. snd m = Inr x \<and> snd (f x) = Inr y)"
  by (auto simp: andThen_def split: sum.split)

lemma read_simps [simp]:
  "fst (readAct r) = []" "snd (readAct r) = Inr x \<longleftrightarrow> r = Inr x"
  "fst (readOptional r) = []" "snd (readOptional r) = Inr (Some x) \<longleftrightarrow> r = Inr x"
  "snd (readOptional r) = Inr None \<longleftrightarrow> r = Inl NotFound"
  "fst (liftErr s) = []" "snd (liftErr s) = Inr x \<longleftrightarrow> s = Inr x"
  by (auto simp: readAct_def readOptional_def liftErr_def split: sum.split)

lemma read_optional_Inr: "snd (readOptional r) = Inr z \<longleftrightarrow> (case z of None \<Rightarrow> r = Inl NotFound | Some x \<Rightarrow> r = Inr x)"
  by (cases z) simp_all

lemma andThen_readOptional:
  "snd (andThen (readOptional r) f) = Inr y \<longleftrightarrow>
   r = Inl NotFound \<and> snd (f None) = Inr y \<or> (\<exists>x. r = Inr x \<and> snd (f (Some x)) = Inr y)"
  by (auto simp: andThen_def readOptional_def yield_def raise_def split: sum.splits)

lemma issue_simps [simp]:
  "w' \<in> set (fst (issue w r)) \<longleftrightarrow> w' = w \<and> (\<exists>x. r = Inr x)" "snd (issue w r) = Inr x \<longleftrightarrow> r = Inr x"
  "w' \<in> set (fst (issueDelete w d)) \<longleftrightarrow> w' = w \<and> d = Inr ()" "snd (issueDelete w d) = Inr u \<longleftrightarrow> d = Inr () \<or> d = Inl NotFound"
  by (auto simp: issue_def issueDelete_def split: sum.split)

lemma mapWrites_simps [simp]: "fst (mapWrites g m) = map g (fst m)" "snd (mapWrites g m) = snd m"
  by (simp_all add: mapWrites_def)

lemma forEach_write: "w \<in> set (fst (forEach f xs)) \<Longrightarrow> \<exists>x \<in> set xs. w \<in> set (fst (f x))"
  by (induction xs) (auto simp: andThen_write)

section \<open>What an action writes\<close>

text \<open>
  \<open>emits P m\<close>: every write of \<open>m\<close> satisfies \<open>P\<close>. The rules follow the structure of the action, and the
  rule for sequencing hands on what the first action returned.
\<close>

definition emits :: "('w \<Rightarrow> bool) \<Rightarrow> ('w, 'a) act \<Rightarrow> bool" where
  "emits P m \<longleftrightarrow> (\<forall>w \<in> set (fst m). P w)"

named_theorems emits_rules

lemma emits_andThen [emits_rules]:
  "emits P m \<Longrightarrow> (\<And>x. snd m = Inr x \<Longrightarrow> emits P (f x)) \<Longrightarrow> emits P (andThen m f)"
  by (auto simp: emits_def andThen_write)

lemma emits_silent [emits_rules]:
  "emits P (yield x)" "emits P (raise e)" "emits P (readAct r)" "emits P (readOptional r)" "emits P (liftErr s)"
  by (simp_all add: emits_def)

lemma emits_issue [emits_rules]: "(\<And>x. r = Inr x \<Longrightarrow> P w) \<Longrightarrow> emits P (issue w r)"
  by (auto simp: emits_def)

lemma emits_issueDelete [emits_rules]: "(d = Inr () \<Longrightarrow> P w) \<Longrightarrow> emits P (issueDelete w d)"
  by (auto simp: emits_def)

lemma emits_mapWrites [emits_rules]: "(\<And>v. v \<in> set (fst m) \<Longrightarrow> P (g v)) \<Longrightarrow> emits P (mapWrites g m)"
  by (auto simp: emits_def)

lemma emits_forEach [emits_rules]: "(\<And>x. x \<in> set xs \<Longrightarrow> emits P (f x)) \<Longrightarrow> emits P (forEach f xs)"
  by (auto simp: emits_def dest: forEach_write)

lemma emits_if [emits_rules]: "(b \<Longrightarrow> emits P m) \<Longrightarrow> (\<not> b \<Longrightarrow> emits P n) \<Longrightarrow> emits P (if b then m else n)"
  by simp

lemma emitsD: "emits P m \<Longrightarrow> w \<in> set (fst m) \<Longrightarrow> P w"
  by (simp add: emits_def)

lemma emits_mono: "emits P m \<Longrightarrow> (\<And>w. P w \<Longrightarrow> Q w) \<Longrightarrow> emits Q m"
  by (auto simp: emits_def)

end
