(* ===== verification/Flow_Profile.thy ===== *)
theory Flow_Profile
  imports Managed_Apply Kube_Act Ingest_Run
begin

text \<open>
  The FlowProfile controller (\<open>flowprofile_controller.go\<close>), with the database trust settings of
  \<open>workload_renderer/database_tls.go\<close> that its Jobs use. \<open>flow_env\<close> is what one reconcile sees of the
  outside; \<open>flowReconcile\<close> is \<open>Reconcile\<close>.
\<close>

section \<open>Resolving a profile\<close>

record resolvedFlowProfile =
  rfp_Spec :: FlowProfileSpec
  rfp_Document :: string
  rfp_Hash :: string
  rfp_Format :: string
  rfp_Codec :: string

abbreviation "fp_Name p \<equiv> om_Name (fp_Meta p)"
abbreviation "fp_Namespace p \<equiv> om_Namespace (fp_Meta p)"

definition tagErrorMessage :: "tag_error \<Rightarrow> string" where
  "tagErrorMessage e =
     (case e of
        TagInvalidJSON key \<Rightarrow> ''tag '' @ Quote key @ '' contains invalid JSON''
      | TagNotStrings key \<Rightarrow> ''tag '' @ Quote key @ '' must contain only strings''
      | TagNotStringOrArray key \<Rightarrow> ''tag '' @ Quote key @ '' must be a string or an array of strings'')"

definition supportedFlowProfileFormat :: "string \<Rightarrow> bool" where
  "supportedFlowProfileFormat v \<longleftrightarrow>
     v \<in> {''urn:x-nmos:format:video'', ''urn:x-nmos:format:audio'', ''urn:x-tam:format:image'', ''urn:x-nmos:format:data''}"

text \<open>The codec of the metadata; on the left the error.\<close>

definition metadataCodec :: "fields \<Rightarrow> string + string" where
  "metadataCodec metadata =
     (case map_of metadata ''codec'' of
        None \<Rightarrow> Inr []
      | Some (JStr codec) \<Rightarrow> Inr codec
      | Some _ \<Rightarrow> Inl ''spec.flowMetadata.codec must be a string'')"

text \<open>The tags after \<open>json.Marshal\<close> and \<open>json.Unmarshal\<close>.\<close>

definition documentTags :: "(string \<Rightarrow> string option) \<Rightarrow> (string \<times> string) list \<Rightarrow> string + fields" where
  "documentTags number tags =
     (case marshalTags tags of
        None \<Rightarrow> Inl ''encode tags''
      | Some encoded \<Rightarrow>
          (case UnmarshalAnyMap number (marshalObject encoded) of None \<Rightarrow> Inl ''decode tags'' | Some ts \<Rightarrow> Inr ts))"

definition profileDocument :: "FlowProfileSpec \<Rightarrow> fields \<Rightarrow> fields \<Rightarrow> fields" where
  "profileDocument spec metadata tags =
     [(''id'', JStr (fps_ID spec)), (''flow_metadata'', JObj metadata)] @
     (if fps_Label spec \<noteq> [] then [(''label'', JStr (fps_Label spec))] else []) @
     (if fps_Description spec \<noteq> [] then [(''description'', JStr (fps_Description spec))] else []) @
     (if fps_Tags spec \<noteq> [] then [(''tags'', JObj tags)] else [])"

definition resolveFlowProfile :: "(string \<Rightarrow> string option) \<Rightarrow> FlowProfile \<Rightarrow> string + resolvedFlowProfile" where
  "resolveFlowProfile number profile =
     (let spec = flowProfileApplyDefaults (fp_Spec profile) (fp_Namespace profile) (fp_Name profile)
      in if TrimSpace (fps_TamossRef spec) = [] then Inl ''spec.tamossRef.name is required''
         else case ValidateTAMSTags (fps_Tags spec) of
             Inl e \<Rightarrow> Inl (''spec.tags is invalid: '' @ tagErrorMessage e)
           | Inr _ \<Rightarrow>
             (case (if fps_FlowMetadata spec = [] then None else UnmarshalAnyMap number (fps_FlowMetadata spec)) of
                None \<Rightarrow> Inl ''spec.flowMetadata must be a JSON object''
              | Some metadata \<Rightarrow>
                (case asString (map_of metadata ''format'') of
                   None \<Rightarrow> Inl ''spec.flowMetadata.format is not a supported TAMS Profile format''
                 | Some format \<Rightarrow>
                   if \<not> supportedFlowProfileFormat format
                   then Inl ''spec.flowMetadata.format is not a supported TAMS Profile format''
                   else (case metadataCodec metadata of
                       Inl e \<Rightarrow> Inl e
                     | Inr codec \<Rightarrow>
                       (case (if fps_Tags spec \<noteq> [] then documentTags number (fps_Tags spec) else Inr []) of
                          Inl e \<Rightarrow> Inl e
                        | Inr tags \<Rightarrow>
                            (let document = MarshalAnyMap number (profileDocument spec metadata tags)
                             in Inr \<lparr>rfp_Spec = spec, rfp_Document = document,
                                     rfp_Hash = EncodeToString (Sum256 document), rfp_Format = format, rfp_Codec = codec\<rparr>))))))"

section \<open>Jobs\<close>

definition flowProfileLabels :: "FlowProfile \<Rightarrow> string \<rightharpoonup> string" where
  "flowProfileLabels profile =
     [''app.kubernetes.io/name'' \<mapsto> ''tamoss'', ''app.kubernetes.io/instance'' \<mapsto> fps_TamossRef (fp_Spec profile),
      ''app.kubernetes.io/component'' \<mapsto> ''flow-profile'', ''app.kubernetes.io/managed-by'' \<mapsto> ''tamoss-operator'',
      ''tamoss.livewyer.io/flow-profile'' \<mapsto> fp_Name profile]"

definition flowProfileResourceName :: "FlowProfile \<Rightarrow> string \<Rightarrow> string" where
  "flowProfileResourceName profile suff =
     (let base = fp_Name profile @ ''-'' @ suff
      in if length base \<le> 63 then base
         else take 54 (TrimRight (fp_Name profile) ''-'') @ ''-'' @ EncodeToString (take 4 (Sum256 base)))"

definition resolvedImageRef :: "ImageSpec \<Rightarrow> string \<Rightarrow> string" where
  "resolvedImageRef img fallbackRepository =
     (let repository = orElse (is_Repository img) fallbackRepository; tag = orElse (is_Tag img) ''dev''
      in if HasPrefix tag ''@'' then repository @ tag else repository @ '':'' @ tag)"

definition schemaMigrationRuntimeImage :: "Tamoss \<Rightarrow> string" where
  "schemaMigrationRuntimeImage tamoss = resolvedImageRef (api_Image (ts_API (tm_Spec tamoss))) ''livewyer/tamoss-api''"

definition plainEnv :: "string \<Rightarrow> string \<Rightarrow> EnvVar" where
  "plainEnv n v = \<lparr>ev_Name = n, ev_Value = v, ev_SecretKeyRef = None\<rparr>"

definition secretEnv :: "string \<Rightarrow> string \<Rightarrow> string \<Rightarrow> EnvVar" where
  "secretEnv n secret key = \<lparr>ev_Name = n, ev_Value = [],
     ev_SecretKeyRef = Some \<lparr>sks_Name = secret, sks_Key = key, sks_Optional = None\<rparr>\<rparr>"

definition flowProfileDatabaseEnv :: "Tamoss \<Rightarrow> EnvVar list" where
  "flowProfileDatabaseEnv tamoss =
     (let db = DBConnection tamoss; auth = dbx_Auth db
      in [plainEnv ''POSTGRES_HOST'' (dbx_Host db), plainEnv ''POSTGRES_PORT'' (dbx_Port db),
          plainEnv ''POSTGRES_DB'' (dbx_Database db),
          secretEnv ''POSTGRES_USER'' (sref_ExistingSecret auth) (skey_Username (sref_SecretKeys auth)),
          secretEnv ''POSTGRES_PASSWORD'' (sref_ExistingSecret auth) (skey_Password (sref_SecretKeys auth))])"

definition flowProfileJobInputHash :: "Tamoss \<Rightarrow> resolvedFlowProfile \<Rightarrow> string \<Rightarrow> string list \<Rightarrow> string" where
  "flowProfileJobInputHash tamoss resolved action args =
     (let db = DBConnection tamoss; auth = dbx_Auth db;
          vals = [action, rfp_Hash resolved, schemaMigrationRuntimeImage tamoss, dbx_Host db, dbx_Port db, dbx_Database db,
            sref_ExistingSecret auth, skey_Username (sref_SecretKeys auth), skey_Password (sref_SecretKeys auth)] @ args @
            (case dbx_TLSConfigMap db of None \<Rightarrow> [] | Some (name, key) \<Rightarrow> [''verify-full'', name, key])
      in EncodeToString (Sum256 (Join [CHR 0x00] vals)))"

text \<open>\<open>WithDatabaseTLS\<close>.\<close>

definition withTLSContainer :: "Container \<Rightarrow> Container" where
  "withTLSContainer c = c\<lparr>
     ctr_Env := filter (\<lambda>e. ev_Name e \<noteq> ''PGSSLMODE'' \<and> ev_Name e \<noteq> ''PGSSLROOTCERT'') (ctr_Env c) @
       [plainEnv ''PGSSLMODE'' ''verify-full'', plainEnv ''PGSSLROOTCERT'' ''/etc/tamoss/database-ca/ca.pem''],
     ctr_VolumeMounts := ctr_VolumeMounts c @
       [\<lparr>vm_Name = ''tamoss-database-ca'', vm_MountPath = ''/etc/tamoss/database-ca'', vm_ReadOnly = True\<rparr>]\<rparr>"

definition WithDatabaseTLS :: "PodTemplateSpec \<Rightarrow> Tamoss \<Rightarrow> PodTemplateSpec" where
  "WithDatabaseTLS pod tamoss =
     (case dbx_TLSConfigMap (DBConnection tamoss) of
        None \<Rightarrow> pod
      | Some (name, key) \<Rightarrow>
          pod\<lparr>pt_Volumes := pt_Volumes pod @
                [\<lparr>vol_Name = ''tamoss-database-ca'', vol_Source = ConfigMapVolume name (Some 292) [(key, ''ca.pem'')]\<rparr>],
              pt_Containers := map withTLSContainer (pt_Containers pod)\<rparr>)"

definition flowProfileJob :: "FlowProfile \<Rightarrow> Tamoss \<Rightarrow> resolvedFlowProfile \<Rightarrow> string \<Rightarrow> string list \<Rightarrow> Job" where
  "flowProfileJob profile tamoss resolved action args =
     (let register = (action = ''register'');
          container = \<lparr>ctr_Name = ''flow-profile-'' @ action, ctr_Image = schemaMigrationRuntimeImage tamoss,
            ctr_ImagePullPolicy = ''IfNotPresent'', ctr_Command = [''uv''], ctr_Args = args,
            ctr_Env = flowProfileDatabaseEnv tamoss,
            ctr_Resources = \<lparr>rr_Requests = Map.empty, rr_Limits = Map.empty\<rparr>,
            ctr_SecurityContext = Some \<lparr>sc_RunAsNonRoot = None, sc_AllowPrivilegeEscalation = Some False,
              sc_ReadOnlyRootFilesystem = None, sc_Capabilities = Some \<lparr>cap_Add = [], cap_Drop = [''ALL'']\<rparr>\<rparr>,
            ctr_VolumeMounts = (if register then [\<lparr>vm_Name = ''profile'', vm_MountPath = ''/profile'', vm_ReadOnly = True\<rparr>] else [])\<rparr>;
          pod = \<lparr>pt_Labels = flowProfileLabels profile, pt_Annotations = Map.empty,
            pt_AutomountServiceAccountToken = Some False, pt_EnableServiceLinks = Some False, pt_RestartPolicy = ''Never'',
            pt_TerminationGracePeriodSeconds = None, pt_ImagePullSecrets = [],
            pt_SecurityContext = Some \<lparr>psc_RunAsNonRoot = Some True, psc_RunAsUser = None, psc_RunAsGroup = None,
              psc_SeccompProfile = Some ''RuntimeDefault''\<rparr>,
            pt_Containers = [container],
            pt_Volumes = (if register
              then [\<lparr>vol_Name = ''profile'', vol_Source = ConfigMapVolume (flowProfileResourceName profile ''document'') None []\<rparr>] else [])\<rparr>
      in \<lparr>job_Meta = emptyMeta\<lparr>om_Name := flowProfileResourceName profile action, om_Namespace := fp_Namespace profile,
            om_Labels := flowProfileLabels profile,
            om_Annotations := [''tamoss.livewyer.io/desired-hash'' \<mapsto> rfp_Hash resolved,
              ''tamoss.livewyer.io/job-hash'' \<mapsto> flowProfileJobInputHash tamoss resolved action args]\<rparr>,
          job_Spec = \<lparr>jsp_BackoffLimit = (if action = ''delete'' then 0 else 1), jsp_ActiveDeadlineSeconds = Some 300,
            jsp_TTLSecondsAfterFinished = None, jsp_Template = WithDatabaseTLS pod tamoss\<rparr>,
          job_Status = newJobStatus\<rparr>)"

definition flowProfileRegistrationJob :: "FlowProfile \<Rightarrow> Tamoss \<Rightarrow> resolvedFlowProfile \<Rightarrow> Job" where
  "flowProfileRegistrationJob profile tamoss resolved = flowProfileJob profile tamoss resolved ''register''
     [''run'', ''tamoss-profile'', ''ensure'', ''--file'', ''/profile/profile.json'', ''--created-by'',
      ''tamoss-operator:'' @ fp_Namespace profile @ ''/'' @ fp_Name profile]"

definition flowProfileDeletionJob :: "FlowProfile \<Rightarrow> Tamoss \<Rightarrow> resolvedFlowProfile \<Rightarrow> Job" where
  "flowProfileDeletionJob profile tamoss resolved = flowProfileJob profile tamoss resolved ''delete''
     [''run'', ''tamoss-profile'', ''delete-if-unused'', ''--id'', fps_ID (rfp_Spec resolved)]"

definition flowProfileJobDrifted :: "Job \<Rightarrow> Job \<Rightarrow> bool" where
  "flowProfileJobDrifted live desired \<longleftrightarrow>
     (let h = mapGet (om_Annotations (job_Meta live)) ''tamoss.livewyer.io/job-hash''
      in h = [] \<or> h \<noteq> mapGet (om_Annotations (job_Meta desired)) ''tamoss.livewyer.io/job-hash'')"

section \<open>The environment and the writes\<close>

datatype flow_write =
    UpdateProfile ObjectMeta
  | PatchProfileMeta ObjectMeta
  | PatchProfileStatus FlowProfileStatus
  | ApplyConfigMap ConfigMap apply_write
  | ApplyJob Job apply_write
  | DeleteJobNamed string
  | DeleteConfigMap string

record flow_env =
  fe_lib :: kube_lib
  fe_Releases :: Catalogue
  fe_InstanceDefaults :: "Installation option"
  fe_WatchNamespaces :: WatchNamespaceSet
  fe_number :: "string \<Rightarrow> string option"
  fe_getProfile :: "string \<Rightarrow> string \<Rightarrow> FlowProfile api"
  fe_getTamoss :: "string \<Rightarrow> string \<Rightarrow> Tamoss api"
  fe_getConfigMap :: "string \<Rightarrow> string \<Rightarrow> (string \<rightharpoonup> string) api"
  fe_getJob :: "string \<Rightarrow> string \<Rightarrow> Job api"
  fe_listProfiles :: "string \<Rightarrow> string \<Rightarrow> FlowProfile list api"
  fe_listPods :: "string \<Rightarrow> string \<times> string \<Rightarrow> Pod list api"
  fe_listJobs :: "string \<Rightarrow> string \<times> string \<Rightarrow> Job list api"
  fe_configMapStore :: "ConfigMap \<Rightarrow> apply_store"
  fe_jobStore :: "Job \<Rightarrow> apply_store"
  fe_updateMeta :: "ObjectMeta \<Rightarrow> unit api"
  fe_patchMeta :: "ObjectMeta \<Rightarrow> unit api"
  fe_patchStatus :: "FlowProfileStatus \<Rightarrow> unit api"
  fe_deleteJob :: "string \<Rightarrow> string \<Rightarrow> unit api"
  fe_deleteConfigMap :: "string \<Rightarrow> string \<Rightarrow> unit api"

type_synonym flow_act = "(flow_write, ctrl_Result) act"

abbreviation "flowProfileFinalizer \<equiv> ''flowprofile.tamoss.livewyer.io/finalizer''"

definition flowProfileRetryInterval :: Duration where
  "flowProfileRetryInterval = 30 * Second"

definition flowProfileInUseRetryInterval :: Duration where
  "flowProfileInUseRetryInterval = 5 * Minute"

definition applyJob :: "flow_env \<Rightarrow> Job \<Rightarrow> (flow_write, applyResult) act" where
  "applyJob env job = mapWrites (ApplyJob job) (applyManagedObject (fe_jobStore env job))"

definition applyConfigMap :: "flow_env \<Rightarrow> ConfigMap \<Rightarrow> (flow_write, applyResult) act" where
  "applyConfigMap env cm = mapWrites (ApplyConfigMap cm) (applyManagedObject (fe_configMapStore env cm))"

section \<open>Status\<close>

record flowProfileStatusInput =
  fsi_Phase :: FlowProfilePhase
  fsi_Ready :: bool
  fsi_Registered :: bool
  fsi_DeletionBlocked :: bool
  fsi_Reason :: string
  fsi_Message :: string
  fsi_ProfileID :: string
  fsi_TamossName :: string
  fsi_Format :: string
  fsi_Codec :: string
  fsi_RequeueAfter :: Duration

definition bareInput :: "FlowProfilePhase \<Rightarrow> string \<Rightarrow> string \<Rightarrow> Duration \<Rightarrow> flowProfileStatusInput" where
  "bareInput phase reason message requeue =
     \<lparr>fsi_Phase = phase, fsi_Ready = False, fsi_Registered = False, fsi_DeletionBlocked = False, fsi_Reason = reason,
      fsi_Message = message, fsi_ProfileID = [], fsi_TamossName = [], fsi_Format = [], fsi_Codec = [], fsi_RequeueAfter = requeue\<rparr>"

definition profileInput ::
    "FlowProfilePhase \<Rightarrow> string \<Rightarrow> string \<Rightarrow> Duration \<Rightarrow> resolvedFlowProfile \<Rightarrow> string \<Rightarrow> flowProfileStatusInput" where
  "profileInput phase reason message requeue resolved tamossName =
     (bareInput phase reason message requeue)\<lparr>fsi_ProfileID := fps_ID (rfp_Spec resolved), fsi_TamossName := tamossName,
       fsi_Format := rfp_Format resolved, fsi_Codec := rfp_Codec resolved\<rparr>"

definition flowProfileStatus :: "kube_lib \<Rightarrow> FlowProfile \<Rightarrow> flowProfileStatusInput \<Rightarrow> FlowProfileStatus" where
  "flowProfileStatus lib profile inp =
     (let g = om_Generation (fp_Meta profile);
          set = (\<lambda>t b cs. SetConditionBool lib cs g t b (fsi_Reason inp) (fsi_Message inp))
      in \<lparr>fpt_ObservedGeneration = g, fpt_Phase = fsi_Phase inp, fpt_ProfileID = fsi_ProfileID inp,
          fpt_Resolved = \<lparr>fpr_TamossName = fsi_TamossName inp, fpr_Format = fsi_Format inp, fpr_Codec = fsi_Codec inp\<rparr>,
          fpt_Conditions = set ''DeletionBlocked'' (fsi_DeletionBlocked inp) (set ''Registered'' (fsi_Registered inp)
            (set ''Ready'' (fsi_Ready inp) (fpt_Conditions (fp_Status profile))))\<rparr>)"

definition updateFlowProfileStatus :: "flow_env \<Rightarrow> FlowProfile \<Rightarrow> flowProfileStatusInput \<Rightarrow> flow_act" where
  "updateFlowProfileStatus env profile inp =
     (let st = flowProfileStatus (fe_lib env) profile inp
      in andThen (issue (PatchProfileStatus st) (fe_patchStatus env st)) (\<lambda>_. yield (requeueAfter (fsi_RequeueAfter inp))))"

definition progressFlowProfile :: "flow_env \<Rightarrow> FlowProfile \<Rightarrow> resolvedFlowProfile \<Rightarrow> string \<Rightarrow> string \<Rightarrow> string \<Rightarrow> flow_act" where
  "progressFlowProfile env profile resolved tamossName reason message =
     updateFlowProfileStatus env profile
       (profileInput FlowProfileProgressing reason message flowProfileRetryInterval resolved tamossName)"

definition readyFlowProfile :: "flow_env \<Rightarrow> FlowProfile \<Rightarrow> resolvedFlowProfile \<Rightarrow> string \<Rightarrow> flow_act" where
  "readyFlowProfile env profile resolved tamossName =
     updateFlowProfileStatus env profile
       ((profileInput FlowProfileReady ''FlowProfileReady'' ''TAMS Flow Profile is registered'' 0 resolved tamossName)
          \<lparr>fsi_Ready := True, fsi_Registered := True\<rparr>)"

section \<open>Reads\<close>

datatype tamoss_lookup = LookupError api_error | Unselectable SelectionError | Absent | Located Tamoss

definition flowProfileTamoss :: "flow_env \<Rightarrow> string \<Rightarrow> string \<Rightarrow> tamoss_lookup" where
  "flowProfileTamoss env namespace name =
     (case fe_getTamoss env namespace name of
        Inl e \<Rightarrow> if e = NotFound then Absent else LookupError e
      | Inr tamoss \<Rightarrow>
          (case resolveTamoss (fe_lib env) (fe_Releases env) (fe_InstanceDefaults env) tamoss of
             Inl err \<Rightarrow> Unselectable err | Inr resolved \<Rightarrow> Located resolved))"

definition schemaStateMatchesTarget :: "(string \<rightharpoonup> string) \<Rightarrow> Target \<Rightarrow> bool" where
  "schemaStateMatchesTarget state target \<longleftrightarrow> mapGet state ''appliedVersion'' = tgt_Version target"

definition flowProfileSchemaReady :: "flow_env \<Rightarrow> Tamoss \<Rightarrow> bool" where
  "flowProfileSchemaReady env tamoss =
     (AppliedTo (fe_InstanceDefaults env) tamoss \<and>
      (case fe_getConfigMap env (tm_Namespace tamoss) (ResourceName tamoss ''schema-state'') of
         Inl _ \<Rightarrow> False
       | Inr state \<Rightarrow>
           (case Select (fe_Releases env) (ts_Version (tm_Spec tamoss)) (tst_CurrentVersion (tm_Status tamoss))
                   (up_TargetVersion (tst_Upgrade (tm_Status tamoss))) of
              Inl _ \<Rightarrow> False
            | Inr release \<Rightarrow> schemaStateMatchesTarget state (rel_Schema release))))"

definition claimsProfileID :: "FlowProfile \<Rightarrow> string \<Rightarrow> FlowProfile \<Rightarrow> bool" where
  "claimsProfileID current profileID p \<longleftrightarrow>
     fps_ID (flowProfileApplyDefaults (fp_Spec p) (fp_Namespace p) (fp_Name p)) = profileID \<and>
     (timePtrIsZero (om_DeletionTimestamp (fp_Meta p)) \<or> fp_Name p = fp_Name current)"

definition candidateKey :: "FlowProfile \<Rightarrow> time \<times> string" where
  "candidateKey p = (om_CreationTimestamp (fp_Meta p), fp_Name p)"

definition flowProfileIDCandidates :: "flow_env \<Rightarrow> FlowProfile \<Rightarrow> FlowProfileSpec \<Rightarrow> (flow_write, FlowProfile list) act" where
  "flowProfileIDCandidates env current spec =
     andThen (readAct (fe_listProfiles env (fp_Namespace current) (fps_TamossRef spec))) (\<lambda>items.
     yield (sort_key candidateKey (filter (claimsProfileID current (fps_ID spec)) items)))"

definition flowProfileIDWinner :: "flow_env \<Rightarrow> FlowProfile \<Rightarrow> FlowProfileSpec \<Rightarrow> (flow_write, string) act" where
  "flowProfileIDWinner env current spec =
     andThen (flowProfileIDCandidates env current spec) (\<lambda>candidates.
     yield (case candidates of [] \<Rightarrow> fp_Name current | c # _ \<Rightarrow> fp_Name c))"

definition flowProfileRegistered :: "flow_env \<Rightarrow> FlowProfile \<Rightarrow> resolvedFlowProfile \<Rightarrow> (flow_write, bool) act" where
  "flowProfileRegistered env profile resolved =
     andThen (readOptional (fe_getConfigMap env (fp_Namespace profile) (flowProfileResourceName profile ''state''))) (\<lambda>state.
     yield (case state of
       None \<Rightarrow> False
     | Some d \<Rightarrow> mapGet d ''ready'' = ''true'' \<and> mapGet d ''profileID'' = fps_ID (rfp_Spec resolved) \<and>
         mapGet d ''desiredHash'' = rfp_Hash resolved))"

definition getFlowProfileJob :: "flow_env \<Rightarrow> Job \<Rightarrow> (flow_write, Job option) act" where
  "getFlowProfileJob env desired = readOptional (fe_getJob env (job_Namespace desired) (job_Name desired))"

definition firstExitCode :: "Job \<Rightarrow> Pod list \<Rightarrow> int option" where
  "firstExitCode job pods =
     (case [cst_ExitCode t. pod \<leftarrow> pods, podOwnedByJobUID pod (job_UID job), status \<leftarrow> pod_ContainerStatuses pod,
              t \<leftarrow> (case cs_Terminated status of None \<Rightarrow> [] | Some x \<Rightarrow> [x])] of
        [] \<Rightarrow> None | code # _ \<Rightarrow> Some code)"

definition flowProfileJobExitCode :: "flow_env \<Rightarrow> Job \<Rightarrow> (flow_write, int option) act" where
  "flowProfileJobExitCode env job =
     andThen (readAct (fe_listPods env (job_Namespace job) (''job-name'', job_Name job))) (\<lambda>pods.
     yield (firstExitCode job pods))"

section \<open>Registration\<close>

definition applyFlowProfileDocument :: "flow_env \<Rightarrow> FlowProfile \<Rightarrow> resolvedFlowProfile \<Rightarrow> (flow_write, unit) act" where
  "applyFlowProfileDocument env profile resolved =
     andThen (liftErr (SetControllerReference (fe_lib env) (fp_Meta profile)
       (emptyMeta\<lparr>om_Name := flowProfileResourceName profile ''document'', om_Namespace := fp_Namespace profile,
          om_Labels := flowProfileLabels profile\<rparr>))) (\<lambda>meta.
     andThen (applyConfigMap env \<lparr>cm_Meta = meta, cm_Data = [''profile.json'' \<mapsto> rfp_Document resolved]\<rparr>) (\<lambda>_. yield ()))"

definition applyFlowProfileState :: "flow_env \<Rightarrow> FlowProfile \<Rightarrow> resolvedFlowProfile \<Rightarrow> Job \<Rightarrow> (flow_write, unit) act" where
  "applyFlowProfileState env profile resolved job =
     andThen (liftErr (SetControllerReference (fe_lib env) (fp_Meta profile)
       (emptyMeta\<lparr>om_Name := flowProfileResourceName profile ''state'', om_Namespace := fp_Namespace profile,
          om_Labels := flowProfileLabels profile\<rparr>))) (\<lambda>meta.
     andThen (applyConfigMap env \<lparr>cm_Meta = meta,
       cm_Data = [''ready'' \<mapsto> ''true'', ''profileID'' \<mapsto> fps_ID (rfp_Spec resolved), ''desiredHash'' \<mapsto> rfp_Hash resolved,
         ''jobUID'' \<mapsto> job_UID job, ''observedGeneration'' \<mapsto> Itoa (om_Generation (fp_Meta profile))]\<rparr>) (\<lambda>_. yield ()))"

definition clearFlowProfileRegistrationState :: "flow_env \<Rightarrow> FlowProfile \<Rightarrow> (flow_write, unit) act" where
  "clearFlowProfileRegistrationState env profile =
     (let state = flowProfileResourceName profile ''state''; job = flowProfileResourceName profile ''register''
      in andThen (issueDelete (DeleteConfigMap state) (fe_deleteConfigMap env (fp_Namespace profile) state)) (\<lambda>_.
         issueDelete (DeleteJobNamed job) (fe_deleteJob env (fp_Namespace profile) job)))"

definition deleteJob :: "flow_env \<Rightarrow> Job \<Rightarrow> (flow_write, unit) act" where
  "deleteJob env job = issueDelete (DeleteJobNamed (job_Name job)) (fe_deleteJob env (job_Namespace job) (job_Name job))"

text \<open>A failed registration Job: a rejection is final, anything else is retried.\<close>

definition failedRegistration :: "flow_env \<Rightarrow> FlowProfile \<Rightarrow> resolvedFlowProfile \<Rightarrow> Tamoss \<Rightarrow> Job \<Rightarrow> flow_act" where
  "failedRegistration env profile resolved tamoss live =
     andThen (flowProfileJobExitCode env live) (\<lambda>exitCode.
       if exitCode = Some 2 \<or> exitCode = Some 3
       then updateFlowProfileStatus env profile (profileInput FlowProfileDegraded
         (if exitCode = Some 2 then ''InvalidProfile'' else ''ProfileConflict'')
         ''TAMS Flow Profile registration was rejected; inspect the owned Job logs'' 0 resolved (tm_Name tamoss))
       else andThen (deleteJob env live) (\<lambda>_.
         progressFlowProfile env profile resolved (tm_Name tamoss) ''RegistrationRetrying''
           ''TAMS Flow Profile registration failed and will be retried''))"

definition registerFlowProfile :: "flow_env \<Rightarrow> FlowProfile \<Rightarrow> resolvedFlowProfile \<Rightarrow> Tamoss \<Rightarrow> flow_act" where
  "registerFlowProfile env profile resolved tamoss =
     andThen (applyFlowProfileDocument env profile resolved) (\<lambda>_.
     (let desired = flowProfileRegistrationJob profile tamoss resolved
      in andThen (liftErr (SetControllerReference (fe_lib env) (fp_Meta profile) (job_Meta desired))) (\<lambda>meta.
         (let job = desired\<lparr>job_Meta := meta\<rparr>
          in andThen (getFlowProfileJob env job) (\<lambda>found.
             case found of
               None \<Rightarrow> andThen (applyJob env job) (\<lambda>_.
                 progressFlowProfile env profile resolved (tm_Name tamoss) ''RegistrationInProgress''
                   ''TAMS Flow Profile registration job was launched'')
             | Some live \<Rightarrow>
                 if flowProfileJobDrifted live job then
                   andThen (deleteJob env live) (\<lambda>_.
                     progressFlowProfile env profile resolved (tm_Name tamoss) ''RegistrationRuntimeChanged''
                       ''The registration runtime changed and the Job will be replaced'')
                 else if jobFailed live then failedRegistration env profile resolved tamoss live
                 else if \<not> jobSucceeded live then
                   progressFlowProfile env profile resolved (tm_Name tamoss) ''RegistrationInProgress''
                     ''TAMS Flow Profile registration job is running''
                 else andThen (applyFlowProfileState env profile resolved live) (\<lambda>_.
                   readyFlowProfile env profile resolved (tm_Name tamoss)))))))"

definition reconcileClaim :: "flow_env \<Rightarrow> FlowProfile \<Rightarrow> resolvedFlowProfile \<Rightarrow> Tamoss \<Rightarrow> flow_act" where
  "reconcileClaim env profile resolved tamoss =
     andThen (flowProfileIDWinner env profile (rfp_Spec resolved)) (\<lambda>winner.
       if winner \<noteq> fp_Name profile then
         andThen (clearFlowProfileRegistrationState env profile) (\<lambda>_.
           updateFlowProfileStatus env profile (profileInput FlowProfileDegraded ''DuplicateProfileID''
             (''FlowProfile '' @ winner @ '' owns this Profile UUID for the target Tamoss'') 0 resolved (tm_Name tamoss)))
       else
         andThen (flowProfileRegistered env profile resolved) (\<lambda>registered.
           if registered then readyFlowProfile env profile resolved (tm_Name tamoss)
           else registerFlowProfile env profile resolved tamoss))"

definition reconcileFlowProfile :: "flow_env \<Rightarrow> FlowProfile \<Rightarrow> flow_act" where
  "reconcileFlowProfile env profile =
     (case resolveFlowProfile (fe_number env) profile of
        Inl message \<Rightarrow> updateFlowProfileStatus env profile (bareInput FlowProfileDegraded ''InvalidProfile'' message 0)
      | Inr resolved \<Rightarrow>
          (case flowProfileTamoss env (fp_Namespace profile) (fps_TamossRef (rfp_Spec resolved)) of
             LookupError e \<Rightarrow> raise (APIError e)
           | Unselectable err \<Rightarrow> updateFlowProfileStatus env profile
               (bareInput FlowProfilePending (se_Reason err) (se_Message err) flowProfileRetryInterval)
           | Absent \<Rightarrow> updateFlowProfileStatus env profile (profileInput FlowProfilePending ''TamossNotFound''
               ''Referenced Tamoss was not found'' flowProfileRetryInterval resolved (fps_TamossRef (rfp_Spec resolved)))
           | Located tamoss \<Rightarrow>
               if \<not> flowProfileSchemaReady env tamoss \<or>
                  tst_ResolvedTAMSAPI (tm_Status tamoss) \<noteq>
                    tgt_TAMSAPI (rel_Schema (deref zeroRelease (fe_Releases env (ts_Version (tm_Spec tamoss)))))
               then updateFlowProfileStatus env profile (profileInput FlowProfilePending ''WaitingForSchema''
                 ''The target TAMS 8.2 schema is not ready'' flowProfileRetryInterval resolved (tm_Name tamoss))
               else reconcileClaim env profile resolved tamoss))"

section \<open>Deletion\<close>

definition deleteFlowProfileChildren :: "flow_env \<Rightarrow> FlowProfile \<Rightarrow> (flow_write, unit) act" where
  "deleteFlowProfileChildren env profile =
     andThen (forEach (\<lambda>suff. let n = flowProfileResourceName profile suff
         in issueDelete (DeleteConfigMap n) (fe_deleteConfigMap env (fp_Namespace profile) n)) [''document'', ''state'']) (\<lambda>_.
     andThen (readAct (fe_listJobs env (fp_Namespace profile) (''tamoss.livewyer.io/flow-profile'', fp_Name profile))) (\<lambda>jobs.
     forEach (deleteJob env) jobs))"

definition removeFlowProfileFinalizer :: "flow_env \<Rightarrow> FlowProfile \<Rightarrow> flow_act" where
  "removeFlowProfileFinalizer env profile =
     (let m = fst (RemoveFinalizer (fe_lib env) (fp_Meta profile) flowProfileFinalizer)
      in andThen (issue (PatchProfileMeta m) (fe_patchMeta env m)) (\<lambda>_. yield noRequeue))"

definition releaseFlowProfile :: "flow_env \<Rightarrow> FlowProfile \<Rightarrow> flow_act" where
  "releaseFlowProfile env profile =
     andThen (deleteFlowProfileChildren env profile) (\<lambda>_. removeFlowProfileFinalizer env profile)"

definition deletingInput ::
    "string \<Rightarrow> string \<Rightarrow> Duration \<Rightarrow> resolvedFlowProfile \<Rightarrow> string \<Rightarrow> bool \<Rightarrow> bool \<Rightarrow> flowProfileStatusInput" where
  "deletingInput reason message requeue resolved tamossName registered blocked =
     (profileInput FlowProfileDeleting reason message requeue resolved tamossName)
       \<lparr>fsi_Registered := registered, fsi_DeletionBlocked := blocked\<rparr>"

text \<open>The registered profile of a live instance is removed by a Job that refuses while Flows refer to it.\<close>

definition failedDeletion :: "flow_env \<Rightarrow> FlowProfile \<Rightarrow> resolvedFlowProfile \<Rightarrow> Tamoss \<Rightarrow> Job \<Rightarrow> flow_act" where
  "failedDeletion env profile resolved tamoss live =
     andThen (flowProfileJobExitCode env live) (\<lambda>exitCode.
       andThen (deleteJob env live) (\<lambda>_.
         if exitCode = Some 4
         then updateFlowProfileStatus env profile (deletingInput ''ProfileInUse''
           ''Profile deletion is blocked while Flows still reference it'' flowProfileInUseRetryInterval resolved (tm_Name tamoss) True True)
         else yield (requeueAfter flowProfileRetryInterval)))"

definition unregisterFlowProfile :: "flow_env \<Rightarrow> FlowProfile \<Rightarrow> resolvedFlowProfile \<Rightarrow> Tamoss \<Rightarrow> flow_act" where
  "unregisterFlowProfile env profile resolved tamoss =
     (if \<not> flowProfileSchemaReady env tamoss
      then updateFlowProfileStatus env profile (deletingInput ''WaitingForSchema''
        ''Profile deletion is waiting for the target schema before checking Flow references''
        flowProfileRetryInterval resolved (tm_Name tamoss) True True)
      else (let desired = flowProfileDeletionJob profile tamoss resolved
        in andThen (liftErr (SetControllerReference (fe_lib env) (fp_Meta profile) (job_Meta desired))) (\<lambda>meta.
           (let job = desired\<lparr>job_Meta := meta\<rparr>
            in andThen (getFlowProfileJob env job) (\<lambda>found.
               case found of
                 None \<Rightarrow> andThen (applyJob env job) (\<lambda>_.
                   updateFlowProfileStatus env profile (deletingInput ''DeletionInProgress''
                     ''TAMS Flow Profile deletion job was launched'' flowProfileRetryInterval resolved (tm_Name tamoss) True False))
               | Some live \<Rightarrow>
                   if flowProfileJobDrifted live job
                   then andThen (deleteJob env live) (\<lambda>_. yield (requeueAfter flowProfileRetryInterval))
                   else if jobFailed live then failedDeletion env profile resolved tamoss live
                   else if \<not> jobSucceeded live then yield (requeueAfter flowProfileRetryInterval)
                   else releaseFlowProfile env profile)))))"

text \<open>
  Whether the profile counts as registered in its instance: by the recorded state, or else by its
  registration Job; \<open>None\<close> while that Job is still running.
\<close>

definition registeredOrPending ::
    "flow_env \<Rightarrow> FlowProfile \<Rightarrow> resolvedFlowProfile \<Rightarrow> Tamoss \<Rightarrow> bool \<Rightarrow> (flow_write, bool option) act" where
  "registeredOrPending env profile resolved tamoss registered =
     (if registered then yield (Some True)
      else andThen (getFlowProfileJob env (flowProfileRegistrationJob profile tamoss resolved)) (\<lambda>found.
        yield (case found of
          None \<Rightarrow> Some False
        | Some registration \<Rightarrow>
            if \<not> IsControlledBy (fe_lib env) (job_Meta registration) (fp_Meta profile) then Some False
            else if \<not> jobSucceeded registration \<and> \<not> jobFailed registration then None
            else Some (jobSucceeded registration))))"

definition finaliseClaim :: "flow_env \<Rightarrow> FlowProfile \<Rightarrow> resolvedFlowProfile \<Rightarrow> flow_act" where
  "finaliseClaim env profile resolved =
     (case flowProfileTamoss env (fp_Namespace profile) (fps_TamossRef (rfp_Spec resolved)) of
        LookupError e \<Rightarrow> raise (APIError e)
      | Unselectable err \<Rightarrow> raise (Errorf (se_Message err))
      | Absent \<Rightarrow> andThen (flowProfileRegistered env profile resolved) (\<lambda>_. releaseFlowProfile env profile)
      | Located tamoss \<Rightarrow>
          andThen (flowProfileRegistered env profile resolved) (\<lambda>registered.
            if \<not> timePtrIsZero (om_DeletionTimestamp (tm_Meta tamoss)) then releaseFlowProfile env profile
            else andThen (registeredOrPending env profile resolved tamoss registered) (\<lambda>known.
              case known of
                None \<Rightarrow> yield (requeueAfter flowProfileRetryInterval)
              | Some True \<Rightarrow> unregisterFlowProfile env profile resolved tamoss
              | Some False \<Rightarrow> releaseFlowProfile env profile)))"

definition finaliseFlowProfile :: "flow_env \<Rightarrow> FlowProfile \<Rightarrow> flow_act" where
  "finaliseFlowProfile env profile =
     (if \<not> ContainsFinalizer (fe_lib env) (fp_Meta profile) flowProfileFinalizer then yield noRequeue
      else (case resolveFlowProfile (fe_number env) profile of
          Inl _ \<Rightarrow> removeFlowProfileFinalizer env profile
        | Inr resolved \<Rightarrow>
            andThen (flowProfileIDCandidates env profile (rfp_Spec resolved)) (\<lambda>claimants.
              case claimants of
                c # c' # _ \<Rightarrow>
                  if fp_Name c \<noteq> fp_Name profile then releaseFlowProfile env profile
                  else updateFlowProfileStatus env profile (deletingInput ''ProfileClaimedByFlowProfile''
                    (''Profile deletion is blocked while FlowProfile '' @ fp_Name c' @ '' also claims its UUID'')
                    flowProfileInUseRetryInterval resolved (fps_TamossRef (rfp_Spec resolved)) False True)
              | [c] \<Rightarrow> if fp_Name c \<noteq> fp_Name profile then releaseFlowProfile env profile else finaliseClaim env profile resolved
              | [] \<Rightarrow> finaliseClaim env profile resolved)))"

section \<open>Reconcile\<close>

definition flowReconcile :: "flow_env \<Rightarrow> string \<Rightarrow> string \<Rightarrow> flow_act" where
  "flowReconcile env namespace name =
     (case fe_getProfile env namespace name of
        Inl e \<Rightarrow> ([], ignoreNotFound e)
      | Inr profile \<Rightarrow>
          if \<not> Allows (fe_WatchNamespaces env) (fp_Namespace profile) then yield noRequeue
          else if \<not> timePtrIsZero (om_DeletionTimestamp (fp_Meta profile)) then finaliseFlowProfile env profile
          else (case AddFinalizer (fe_lib env) (fp_Meta profile) flowProfileFinalizer of
              (m, True) \<Rightarrow> andThen (issue (UpdateProfile m) (fe_updateMeta env m)) (\<lambda>_. yield noRequeue)
            | (m, False) \<Rightarrow> reconcileFlowProfile env profile))"

end
