(* ===== verification/Flow_Profile_Laws.thy ===== *)
theory Flow_Profile_Laws
  imports Flow_Profile Ingest_Run_Laws
begin

text \<open>
  What the FlowProfile controller guarantees: which profile owns a UUID, when a profile is reported as
  Ready, when its deletion Job runs, and when its finalizer is released.
\<close>

section \<open>Writes\<close>

text \<open>The kinds of writes that the properties speak about.\<close>

definition readyWrite :: "kube_lib \<Rightarrow> flow_write \<Rightarrow> bool" where
  "readyWrite lib w = (case w of PatchProfileStatus st \<Rightarrow> IsStatusConditionTrue lib (fpt_Conditions st) ''Ready'' | _ \<Rightarrow> False)"

definition launchWrite :: "flow_write \<Rightarrow> bool" where
  "launchWrite w = (case w of ApplyJob _ _ \<Rightarrow> True | _ \<Rightarrow> False)"

definition releaseWrite :: "flow_write \<Rightarrow> bool" where
  "releaseWrite w = (case w of PatchProfileMeta _ \<Rightarrow> True | _ \<Rightarrow> False)"

lemma write_kinds [simp]:
  "\<not> readyWrite lib (ApplyJob j a)" "\<not> readyWrite lib (ApplyConfigMap c a)" "\<not> readyWrite lib (DeleteJobNamed n)"
  "\<not> readyWrite lib (DeleteConfigMap n)" "\<not> readyWrite lib (UpdateProfile m)" "\<not> readyWrite lib (PatchProfileMeta m)"
  "\<not> launchWrite (ApplyConfigMap c a)" "\<not> launchWrite (DeleteJobNamed n)" "\<not> launchWrite (DeleteConfigMap n)"
  "\<not> launchWrite (UpdateProfile m)" "\<not> launchWrite (PatchProfileMeta m)" "\<not> launchWrite (PatchProfileStatus st)"
  "launchWrite (ApplyJob j a)" "releaseWrite (PatchProfileMeta m)"
  "\<not> releaseWrite (ApplyConfigMap c a)" "\<not> releaseWrite (DeleteJobNamed n)" "\<not> releaseWrite (DeleteConfigMap n)"
  "\<not> releaseWrite (UpdateProfile m)" "\<not> releaseWrite (ApplyJob j a)" "\<not> releaseWrite (PatchProfileStatus st)"
  by (simp_all add: readyWrite_def launchWrite_def releaseWrite_def)

lemma ready_status [simp]:
  "conditions_law lib \<Longrightarrow> readyWrite lib (PatchProfileStatus (flowProfileStatus lib p inp)) = fsi_Ready inp"
  by (simp add: flowProfileStatus_def Let_def readyWrite_def)

lemma inputs_not_ready [simp]:
  "\<not> fsi_Ready (bareInput ph r m q)" "\<not> fsi_Ready (profileInput ph r m q res t)" "\<not> fsi_Ready (deletingInput r m q res t reg b)"
  by (simp_all add: bareInput_def profileInput_def deletingInput_def)

text \<open>The parts of the controller as actions with known writes.\<close>

lemma emits_update [emits_rules]:
  "P (PatchProfileStatus (flowProfileStatus (fe_lib env) p inp)) \<Longrightarrow> emits P (updateFlowProfileStatus env p inp)"
  by (simp add: updateFlowProfileStatus_def Let_def emits_rules)

lemma emits_applyJob [emits_rules]: "(\<And>a. P (ApplyJob job a)) \<Longrightarrow> emits P (applyJob env job)"
  by (simp add: applyJob_def emits_mapWrites)

lemma emits_deleteJob [emits_rules]: "P (DeleteJobNamed (job_Name job)) \<Longrightarrow> emits P (deleteJob env job)"
  by (simp add: deleteJob_def emits_issueDelete)

lemma emits_document [emits_rules]:
  "(\<And>c a. P (ApplyConfigMap c a)) \<Longrightarrow> emits P (applyFlowProfileDocument env p res)"
  "(\<And>c a. P (ApplyConfigMap c a)) \<Longrightarrow> emits P (applyFlowProfileState env p res job)"
  by (auto simp: applyFlowProfileDocument_def applyFlowProfileState_def applyConfigMap_def intro!: emits_rules)

lemma emits_reads [emits_rules]:
  "emits P (flowProfileIDCandidates env p sp)" "emits P (flowProfileIDWinner env p sp)"
  "emits P (flowProfileRegistered env p res)" "emits P (getFlowProfileJob env job)"
  "emits P (flowProfileJobExitCode env job)" "emits P (registeredOrPending env p res tamoss b)"
  by (auto simp: flowProfileIDCandidates_def flowProfileIDWinner_def flowProfileRegistered_def getFlowProfileJob_def
      flowProfileJobExitCode_def registeredOrPending_def intro!: emits_rules)

lemma emits_clear [emits_rules]:
  "(\<And>n. P (DeleteConfigMap n)) \<Longrightarrow> (\<And>n. P (DeleteJobNamed n)) \<Longrightarrow> emits P (clearFlowProfileRegistrationState env p)"
  "(\<And>n. P (DeleteConfigMap n)) \<Longrightarrow> (\<And>n. P (DeleteJobNamed n)) \<Longrightarrow> emits P (deleteFlowProfileChildren env p)"
  by (auto simp: clearFlowProfileRegistrationState_def deleteFlowProfileChildren_def Let_def intro!: emits_rules)

lemma emits_release [emits_rules]:
  "(\<And>n. P (DeleteConfigMap n)) \<Longrightarrow> (\<And>n. P (DeleteJobNamed n)) \<Longrightarrow> (\<And>m. P (PatchProfileMeta m)) \<Longrightarrow>
   emits P (releaseFlowProfile env p)"
  "(\<And>m. P (PatchProfileMeta m)) \<Longrightarrow> emits P (removeFlowProfileFinalizer env p)"
  by (auto simp: releaseFlowProfile_def removeFlowProfileFinalizer_def Let_def intro!: emits_rules)

section \<open>Ready\<close>

text \<open>
  The registration Job of the profile as the API server holds it, created for exactly this document,
  image and database, and complete.
\<close>

definition jobDone :: "flow_env \<Rightarrow> Job \<Rightarrow> bool" where
  "jobDone env desired \<longleftrightarrow> (\<exists>live. fe_getJob env (job_Namespace desired) (job_Name desired) = Inr live \<and>
     \<not> flowProfileJobDrifted live desired \<and> jobSucceeded live \<and> \<not> jobFailed live)"

definition stateRecorded :: "flow_env \<Rightarrow> FlowProfile \<Rightarrow> resolvedFlowProfile \<Rightarrow> bool" where
  "stateRecorded env profile resolved \<longleftrightarrow>
     (\<exists>d. fe_getConfigMap env (fp_Namespace profile) (flowProfileResourceName profile ''state'') = Inr d \<and>
        mapGet d ''ready'' = ''true'' \<and> mapGet d ''profileID'' = fps_ID (rfp_Spec resolved) \<and>
        mapGet d ''desiredHash'' = rfp_Hash resolved)"

lemma registered_recorded:
  "snd (flowProfileRegistered env p res) = Inr b \<Longrightarrow> b = stateRecorded env p res"
  by (auto simp: flowProfileRegistered_def andThen_Inr read_optional_Inr stateRecorded_def
      split: option.splits)

lemma jobDoneI:
  assumes "controller_law (fe_lib env)" and "SetControllerReference (fe_lib env) owner (job_Meta desired) = Inr m"
    and "fe_getJob env (om_Namespace m) (om_Name m) = Inr live" and "\<not> flowProfileJobDrifted live (desired\<lparr>job_Meta := m\<rparr>)"
    and "jobSucceeded live" and "\<not> jobFailed live"
  shows "jobDone env desired"
  using assms by (auto simp: jobDone_def flowProfileJobDrifted_def controller_law_def)

lemma found_job: "snd (getFlowProfileJob env job) = Inr (Some live) \<longleftrightarrow> fe_getJob env (job_Namespace job) (job_Name job) = Inr live"
  by (simp add: getFlowProfileJob_def)

lemma register_ready:
  assumes "conditions_law (fe_lib env)" and "controller_law (fe_lib env)"
  shows "emits (\<lambda>w. readyWrite (fe_lib env) w \<longrightarrow> jobDone env (flowProfileRegistrationJob p tamoss res))
    (registerFlowProfile env p res tamoss)"
  unfolding registerFlowProfile_def Let_def
  by (auto simp: assms failedRegistration_def progressFlowProfile_def readyFlowProfile_def found_job
      split: option.split intro!: emits_rules) (rule jobDoneI [OF assms(2)]; assumption)

text \<open>\<open>precedes\<close>: the profile named \<open>n\<close> comes before every claimant of the UUID.\<close>

definition precedes :: "FlowProfile list \<Rightarrow> FlowProfile \<Rightarrow> string \<Rightarrow> string \<Rightarrow> bool" where
  "precedes items current i n \<longleftrightarrow> (\<forall>q \<in> set items. claimsProfileID current i q \<longrightarrow>
     (\<exists>h \<in> set items. claimsProfileID current i h \<and> fp_Name h = n \<and> candidateKey h \<le> candidateKey q))"

lemma sort_key_head: "sort_key f xs = h # t \<Longrightarrow> h \<in> set xs \<and> (\<forall>x \<in> set xs. f h \<le> f x)"
  by (metis list.set_intros(1) set_ConsD set_sort sorted_simps(2) sorted_sort_key list.simps(9) order_refl image_eqI list.set_map)

lemma candidates_Inr:
  "snd (flowProfileIDCandidates env p sp) = Inr cs \<longleftrightarrow>
   (\<exists>items. fe_listProfiles env (fp_Namespace p) (fps_TamossRef sp) = Inr items \<and>
      cs = sort_key candidateKey (filter (claimsProfileID p (fps_ID sp)) items))"
  by (auto simp: flowProfileIDCandidates_def andThen_Inr)

lemma winner_precedes:
  assumes "snd (flowProfileIDWinner env p sp) = Inr n"
  shows "\<exists>items. fe_listProfiles env (fp_Namespace p) (fps_TamossRef sp) = Inr items \<and> precedes items p (fps_ID sp) n"
proof -
  obtain items where items: "fe_listProfiles env (fp_Namespace p) (fps_TamossRef sp) = Inr items"
    and n: "n = (case sort_key candidateKey (filter (claimsProfileID p (fps_ID sp)) items) of [] \<Rightarrow> fp_Name p | c # _ \<Rightarrow> fp_Name c)"
    using assms by (auto simp: flowProfileIDWinner_def andThen_Inr candidates_Inr)
  show ?thesis
  proof (cases "sort_key candidateKey (filter (claimsProfileID p (fps_ID sp)) items)")
    case Nil
    then have "set (filter (claimsProfileID p (fps_ID sp)) items) = {}" by (metis set_sort set_empty)
    then show ?thesis using items by (auto simp: precedes_def)
  next
    case (Cons h t)
    then show ?thesis using items n sort_key_head [OF Cons] by (auto simp: precedes_def)
  qed
qed

text \<open>What a profile that is reported as Ready relies on.\<close>

definition readyJustified :: "flow_env \<Rightarrow> FlowProfile \<Rightarrow> bool" where
  "readyJustified env p \<longleftrightarrow> (\<exists>res tamoss items.
     resolveFlowProfile (fe_number env) p = Inr res \<and>
     flowProfileTamoss env (fp_Namespace p) (fps_TamossRef (rfp_Spec res)) = Located tamoss \<and>
     flowProfileSchemaReady env tamoss \<and>
     fe_listProfiles env (fp_Namespace p) (fps_TamossRef (rfp_Spec res)) = Inr items \<and>
     precedes items p (fps_ID (rfp_Spec res)) (fp_Name p) \<and>
     (stateRecorded env p res \<or> jobDone env (flowProfileRegistrationJob p tamoss res)))"

lemma claim_ready:
  assumes "conditions_law (fe_lib env)" and "controller_law (fe_lib env)"
  shows "emits (\<lambda>w. readyWrite (fe_lib env) w \<longrightarrow>
      (\<exists>items. fe_listProfiles env (fp_Namespace p) (fps_TamossRef (rfp_Spec res)) = Inr items \<and>
         precedes items p (fps_ID (rfp_Spec res)) (fp_Name p)) \<and>
      (stateRecorded env p res \<or> jobDone env (flowProfileRegistrationJob p tamoss res)))
    (reconcileClaim env p res tamoss)"
  unfolding reconcileClaim_def
  by (auto simp: assms readyFlowProfile_def intro!: emits_rules emits_mono [OF register_ready [OF assms]]
      dest!: winner_precedes registered_recorded)

lemma reconcile_ready:
  assumes "conditions_law (fe_lib env)" and "controller_law (fe_lib env)"
  shows "emits (\<lambda>w. readyWrite (fe_lib env) w \<longrightarrow> readyJustified env p) (reconcileFlowProfile env p)"
  unfolding reconcileFlowProfile_def readyJustified_def
  by (auto simp: assms split: sum.split tamoss_lookup.split intro!: emits_rules emits_mono [OF claim_ready [OF assms]])

section \<open>Deletion\<close>

text \<open>Whether the profile is known to the TAMS instance: recorded, or registered by its own finished Job.\<close>

definition knownRegistered :: "flow_env \<Rightarrow> FlowProfile \<Rightarrow> resolvedFlowProfile \<Rightarrow> Tamoss \<Rightarrow> bool" where
  "knownRegistered env p res tamoss \<longleftrightarrow> stateRecorded env p res \<or>
     (\<exists>job. fe_getJob env (fp_Namespace p) (flowProfileResourceName p ''register'') = Inr job \<and>
        IsControlledBy (fe_lib env) (job_Meta job) (fp_Meta p) \<and> jobSucceeded job)"

lemma registration_job_name [simp]:
  "job_Name (flowProfileRegistrationJob p tamoss res) = flowProfileResourceName p ''register''"
  "job_Namespace (flowProfileRegistrationJob p tamoss res) = fp_Namespace p"
  by (simp_all add: flowProfileRegistrationJob_def flowProfileJob_def Let_def)

lemma known_registered:
  "snd (registeredOrPending env p res tamoss (stateRecorded env p res)) = Inr (Some b) \<Longrightarrow> b = knownRegistered env p res tamoss"
  by (auto simp: registeredOrPending_def andThen_Inr getFlowProfileJob_def read_optional_Inr knownRegistered_def
      split: option.splits if_splits)

text \<open>No other profile claims the UUID.\<close>

definition soleClaimant :: "flow_env \<Rightarrow> FlowProfile \<Rightarrow> resolvedFlowProfile \<Rightarrow> bool" where
  "soleClaimant env p res \<longleftrightarrow>
     (\<exists>items. fe_listProfiles env (fp_Namespace p) (fps_TamossRef (rfp_Spec res)) = Inr items \<and>
        (\<forall>q \<in> set items. claimsProfileID p (fps_ID (rfp_Spec res)) q \<longrightarrow> fp_Name q = fp_Name p))"

definition otherFirst :: "flow_env \<Rightarrow> FlowProfile \<Rightarrow> resolvedFlowProfile \<Rightarrow> bool" where
  "otherFirst env p res \<longleftrightarrow>
     (\<exists>items n. fe_listProfiles env (fp_Namespace p) (fps_TamossRef (rfp_Spec res)) = Inr items \<and> n \<noteq> fp_Name p \<and>
        precedes items p (fps_ID (rfp_Spec res)) n)"

lemma unregister_writes:
  assumes "controller_law (fe_lib env)"
  shows "emits (\<lambda>w. (launchWrite w \<longrightarrow> flowProfileSchemaReady env tamoss \<and>
        (\<exists>job a. w = ApplyJob job a \<and> job_Spec job = job_Spec (flowProfileDeletionJob p tamoss res))) \<and>
      (releaseWrite w \<longrightarrow> jobDone env (flowProfileDeletionJob p tamoss res)))
    (unregisterFlowProfile env p res tamoss)"
  unfolding unregisterFlowProfile_def Let_def
  by (auto simp: failedDeletion_def found_job split: option.split intro!: emits_rules)
    (rule jobDoneI [OF assms(1)]; assumption)+

definition liveTamoss :: "flow_env \<Rightarrow> FlowProfile \<Rightarrow> resolvedFlowProfile \<Rightarrow> Tamoss \<Rightarrow> bool" where
  "liveTamoss env p res tamoss \<longleftrightarrow>
     flowProfileTamoss env (fp_Namespace p) (fps_TamossRef (rfp_Spec res)) = Located tamoss \<and>
     timePtrIsZero (om_DeletionTimestamp (tm_Meta tamoss))"

lemma claim_final:
  assumes "controller_law (fe_lib env)"
  shows "emits (\<lambda>w. (launchWrite w \<longrightarrow> (\<exists>tamoss job a. liveTamoss env p res tamoss \<and> knownRegistered env p res tamoss \<and>
        flowProfileSchemaReady env tamoss \<and> w = ApplyJob job a \<and> job_Spec job = job_Spec (flowProfileDeletionJob p tamoss res))) \<and>
      (releaseWrite w \<longrightarrow> (\<forall>tamoss. liveTamoss env p res tamoss \<longrightarrow> knownRegistered env p res tamoss \<longrightarrow>
        jobDone env (flowProfileDeletionJob p tamoss res))))
    (finaliseClaim env p res)"
  unfolding finaliseClaim_def
  by (auto simp: liveTamoss_def split: tamoss_lookup.split option.split bool.split
      intro!: emits_rules emits_mono [OF unregister_writes [OF assms]] dest!: registered_recorded known_registered)

lemma claimants_other:
  assumes "snd (flowProfileIDCandidates env p (rfp_Spec res)) = Inr (c # cs)" and "fp_Name c \<noteq> fp_Name p"
  shows "otherFirst env p res"
proof -
  have "snd (flowProfileIDWinner env p (rfp_Spec res)) = Inr (fp_Name c)"
    using assms(1) by (simp add: flowProfileIDWinner_def andThen_Inr)
  then show ?thesis using winner_precedes assms(2) unfolding otherFirst_def by blast
qed

lemma claimants_sole:
  assumes "snd (flowProfileIDCandidates env p (rfp_Spec res)) = Inr cs" and "\<forall>c \<in> set cs. fp_Name c = fp_Name p"
  shows "soleClaimant env p res"
  using assms by (auto simp: candidates_Inr soleClaimant_def)

definition deletionJustified :: "flow_env \<Rightarrow> FlowProfile \<Rightarrow> Job \<Rightarrow> bool" where
  "deletionJustified env p job \<longleftrightarrow> (\<exists>res tamoss.
     resolveFlowProfile (fe_number env) p = Inr res \<and> soleClaimant env p res \<and> liveTamoss env p res tamoss \<and>
     flowProfileSchemaReady env tamoss \<and> knownRegistered env p res tamoss \<and>
     job_Spec job = job_Spec (flowProfileDeletionJob p tamoss res))"

definition releaseJustified :: "flow_env \<Rightarrow> FlowProfile \<Rightarrow> bool" where
  "releaseJustified env p \<longleftrightarrow> (\<forall>res. resolveFlowProfile (fe_number env) p = Inr res \<longrightarrow>
     otherFirst env p res \<or>
     soleClaimant env p res \<and> (\<forall>tamoss. liveTamoss env p res tamoss \<longrightarrow> knownRegistered env p res tamoss \<longrightarrow>
       jobDone env (flowProfileDeletionJob p tamoss res)))"

definition finalWrite :: "flow_env \<Rightarrow> FlowProfile \<Rightarrow> flow_write \<Rightarrow> bool" where
  "finalWrite env p w =
     (case w of ApplyJob job _ \<Rightarrow> deletionJustified env p job | PatchProfileMeta _ \<Rightarrow> releaseJustified env p | _ \<Rightarrow> True)"

lemma finalWrite_simps [simp]:
  "finalWrite env p (ApplyJob job a) = deletionJustified env p job" "finalWrite env p (PatchProfileMeta m) = releaseJustified env p"
  "finalWrite env p (DeleteConfigMap n)" "finalWrite env p (DeleteJobNamed n)" "finalWrite env p (PatchProfileStatus st)"
  by (simp_all add: finalWrite_def)

lemma finalise_writes:
  assumes "controller_law (fe_lib env)"
  shows "emits (finalWrite env p) (finaliseFlowProfile env p)"
proof (cases "resolveFlowProfile (fe_number env) p")
  case (Inl e)
  then show ?thesis
    by (auto simp: finaliseFlowProfile_def releaseJustified_def intro!: emits_rules)
next
  case (Inr res)
  have claim: "emits (finalWrite env p) (finaliseClaim env p res)" if "soleClaimant env p res"
    by (rule emits_mono [OF claim_final [OF assms]])
      (use that Inr in \<open>auto simp: finalWrite_def deletionJustified_def releaseJustified_def split: flow_write.split\<close>)
  have other: "releaseJustified env p"
    if "snd (flowProfileIDCandidates env p (rfp_Spec res)) = Inr (c # cs)" "fp_Name c \<noteq> fp_Name p" for c cs
    using claimants_other [OF that] Inr by (auto simp: releaseJustified_def)
  show ?thesis
    unfolding finaliseFlowProfile_def Inr sum.case
  proof (intro emits_rules)
    fix claimants
    assume c: "snd (flowProfileIDCandidates env p (rfp_Spec res)) = Inr claimants"
    note claim [OF claimants_sole [OF c]] and other [of "hd claimants" "tl claimants"]
    then show "emits (finalWrite env p)
       (case claimants of
          [] \<Rightarrow> finaliseClaim env p res
        | [c] \<Rightarrow> if fp_Name c \<noteq> fp_Name p then releaseFlowProfile env p else finaliseClaim env p res
        | c # c' # _ \<Rightarrow> if fp_Name c \<noteq> fp_Name p then releaseFlowProfile env p
            else updateFlowProfileStatus env p (deletingInput ''ProfileClaimedByFlowProfile''
              (''Profile deletion is blocked while FlowProfile '' @ fp_Name c' @ '' also claims its UUID'')
              flowProfileInUseRetryInterval res (fps_TamossRef (rfp_Spec res)) False True))"
      using c by (auto split: list.split intro!: emits_rules)
  qed
qed

section \<open>One owner per UUID\<close>

definition liveClaimant :: "FlowProfile list \<Rightarrow> string \<Rightarrow> FlowProfile \<Rightarrow> bool" where
  "liveClaimant items i p \<longleftrightarrow> p \<in> set items \<and> timePtrIsZero (om_DeletionTimestamp (fp_Meta p)) \<and>
     fps_ID (flowProfileApplyDefaults (fp_Spec p) (fp_Namespace p) (fp_Name p)) = i"

lemma live_claims:
  assumes "distinct (map fp_Name items)" and "liveClaimant items i p" and "x \<in> set items"
  shows "claimsProfileID p i x \<longleftrightarrow> liveClaimant items i x"
proof -
  have "x = p" if "fp_Name x = fp_Name p"
    using assms that by (auto simp: liveClaimant_def distinct_map inj_on_def)
  then show ?thesis using assms by (auto simp: claimsProfileID_def liveClaimant_def)
qed

lemma live_winner:
  assumes "distinct (map fp_Name items)" and "liveClaimant items (fps_ID sp) p"
    and "fe_listProfiles env (fp_Namespace p) (fps_TamossRef sp) = Inr items"
  shows "\<exists>h. snd (flowProfileIDWinner env p sp) = Inr (fp_Name h) \<and> liveClaimant items (fps_ID sp) h \<and>
    (\<forall>q. liveClaimant items (fps_ID sp) q \<longrightarrow> candidateKey h \<le> candidateKey q)"
proof -
  let ?cs = "filter (claimsProfileID p (fps_ID sp)) items"
  have mem: "x \<in> set ?cs \<longleftrightarrow> liveClaimant items (fps_ID sp) x" for x
    using live_claims [OF assms(1,2)] by (auto simp: liveClaimant_def)
  then have "sort_key candidateKey ?cs \<noteq> []" using assms(2) by (metis set_sort empty_iff list.set(1))
  then obtain h t where "sort_key candidateKey ?cs = h # t" by (meson neq_Nil_conv)
  then show ?thesis
    using sort_key_head [of candidateKey ?cs h t] mem assms(3)
    by (auto simp: flowProfileIDWinner_def flowProfileIDCandidates_def andThen_Inr intro!: exI [of _ h])
qed

section \<open>Examples\<close>

definition demoProfile :: "string \<Rightarrow> time \<Rightarrow> time option \<Rightarrow> FlowProfile" where
  "demoProfile name created deleted =
     \<lparr>fp_Meta = emptyMeta\<lparr>om_Name := name, om_Namespace := ''media'', om_UID := ''u-'' @ name, om_CreationTimestamp := created,
        om_DeletionTimestamp := deleted, om_Finalizers := [flowProfileFinalizer]\<rparr>,
      fp_Spec = \<lparr>fps_TamossRef = ''demo'', fps_ID = ''id'', fps_Label = [], fps_Description = [], fps_Tags = [],
        fps_FlowMetadata = ''{\"format\":\"urn:x-nmos:format:video\"}''\<rparr>,
      fp_Status = \<lparr>fpt_ObservedGeneration = 0, fpt_Phase = FlowProfilePending, fpt_ProfileID = [],
        fpt_Resolved = \<lparr>fpr_TamossName = [], fpr_Format = [], fpr_Codec = []\<rparr>, fpt_Conditions = []\<rparr>\<rparr>"

definition demoResolved :: "FlowProfile \<Rightarrow> resolvedFlowProfile" where
  "demoResolved p = (case resolveFlowProfile Some p of Inr r \<Rightarrow> r)"

definition profiledTamoss :: Tamoss where
  "profiledTamoss = readyTamoss\<lparr>tm_Status := (tm_Status readyTamoss)\<lparr>tst_Resolved := zeroResolved\<lparr>rs_Versions := \<lparr>rvs_Schema = [], rvs_Tamoss = [], rvs_TAMSAPI = ''7''\<rparr>\<rparr>\<rparr>\<rparr>"

definition demoFlowEnv :: "FlowProfile \<Rightarrow> FlowProfile list \<Rightarrow> (string \<rightharpoonup> string) api \<Rightarrow> Job api \<Rightarrow> flow_env" where
  "demoFlowEnv p items state job =
     \<lparr>fe_lib = refLib, fe_Releases = exampleCatalogue, fe_InstanceDefaults = None, fe_WatchNamespaces = [], fe_number = Some,
      fe_getProfile = (\<lambda>ns n. Inr p), fe_getTamoss = (\<lambda>ns n. Inr profiledTamoss),
      fe_getConfigMap = (\<lambda>ns n. if n = ''a-state'' then state else Inr [''appliedVersion'' \<mapsto> ''1.1'']),
      fe_getJob = (\<lambda>ns n. job), fe_listProfiles = (\<lambda>ns t. Inr items), fe_listPods = (\<lambda>ns sel. Inr []), fe_listJobs = (\<lambda>ns sel. Inr []),
      fe_configMapStore = (\<lambda>_. acceptingStore), fe_jobStore = (\<lambda>_. acceptingStore),
      fe_updateMeta = (\<lambda>_. Inr ()), fe_patchMeta = (\<lambda>_. Inr ()), fe_patchStatus = (\<lambda>_. Inr ()),
      fe_deleteJob = (\<lambda>ns n. Inr ()), fe_deleteConfigMap = (\<lambda>ns n. Inr ())\<rparr>"

definition demoState :: "FlowProfile \<Rightarrow> string \<rightharpoonup> string" where
  "demoState p = [''ready'' \<mapsto> ''true'', ''profileID'' \<mapsto> ''id'', ''desiredHash'' \<mapsto> rfp_Hash (demoResolved p)]"

lemma demo_profile [simp]:
  "fp_Name (demoProfile n c d) = n" "fp_Namespace (demoProfile n c d) = ''media''"
  "om_DeletionTimestamp (fp_Meta (demoProfile n c d)) = d" "om_Finalizers (fp_Meta (demoProfile n c d)) = [flowProfileFinalizer]"
  "fps_TamossRef (fp_Spec (demoProfile n c d)) = ''demo''" "fps_ID (fp_Spec (demoProfile n c d)) = ''id''"
  by (simp_all add: demoProfile_def)

lemma demo_resolves:
  "resolveFlowProfile Some (demoProfile n c d) = Inr (demoResolved (demoProfile n c d)) \<and>
   rfp_Spec (demoResolved (demoProfile n c d)) = fp_Spec (demoProfile n c d)"
proof -
  have "UnmarshalAnyMap Some ''{\"format\":\"urn:x-nmos:format:video\"}'' = Some [(''format'', JStr ''urn:x-nmos:format:video'')]"
    and "TrimSpace ''demo'' \<noteq> []"
    by code_simp+
  then show ?thesis
    by (simp add: demoResolved_def resolveFlowProfile_def demoProfile_def flowProfileApplyDefaults_def orElse_def
        asString_def supportedFlowProfileFormat_def metadataCodec_def Let_def)
qed

lemma demo_tamoss:
  "flowProfileTamoss (demoFlowEnv p items state job) ns n = Located (Apply profiledTamoss exampleImages)"
  "flowProfileSchemaReady (demoFlowEnv p items state job) (Apply profiledTamoss exampleImages)"
  "tst_ResolvedTAMSAPI (tm_Status (Apply profiledTamoss exampleImages)) = ''7''"
  "om_DeletionTimestamp (tm_Meta (Apply profiledTamoss exampleImages)) = None"
  "ts_Version (tm_Spec (Apply profiledTamoss exampleImages)) = ''1.1''"
proof -
  have name: "ResourceName (Apply profiledTamoss exampleImages) ''schema-state'' = ''demo-schema-state''" by code_simp
  have status: "tst_CurrentVersion (tm_Status readyTamoss) = ''1.1''" "up_TargetVersion (tst_Upgrade (tm_Status readyTamoss)) = []"
    "tst_AppliedDefaultsRevision (tm_Status readyTamoss) = []" "ts_Version (tm_Spec readyTamoss) = ''1.1''"
    "om_DeletionTimestamp (tm_Meta readyTamoss) = None" "ts_Profile (tm_Spec readyTamoss) = ''edge''"
    by (simp_all add: readyTamoss_def upgrading_def zeroSpec_def zeroTamossStatus_def zeroTamoss_def emptyMeta_def)
  have sel: "Select exampleCatalogue ''1.1'' ''1.1'' [] = Inr (exampleRelease ''1.1'' [''1.0''])"
    by (simp add: Select_def exampleCatalogue_def exampleRelease_def)
  show "flowProfileTamoss (demoFlowEnv p items state job) ns n = Located (Apply profiledTamoss exampleImages)"
    by (simp add: flowProfileTamoss_def demoFlowEnv_def resolveTamoss_def profiledTamoss_def status sel installationApply_def
        exampleRelease_def)
  show "flowProfileSchemaReady (demoFlowEnv p items state job) (Apply profiledTamoss exampleImages)"
    by (simp add: flowProfileSchemaReady_def name [unfolded profiledTamoss_def] Apply_keeps profiledTamoss_def status sel demoFlowEnv_def AppliedTo_def Revision_def
        schemaStateMatchesTarget_def exampleRelease_def mapGet_def)
  show "tst_ResolvedTAMSAPI (tm_Status (Apply profiledTamoss exampleImages)) = ''7''"
    "om_DeletionTimestamp (tm_Meta (Apply profiledTamoss exampleImages)) = None"
    "ts_Version (tm_Spec (Apply profiledTamoss exampleImages)) = ''1.1''"
    by (simp_all add: Apply_def profiledTamoss_def status)
qed

abbreviation "demo d \<equiv> demoProfile ''a'' 5 d"
abbreviation "demoEnv d state job \<equiv> demoFlowEnv (demo d) [demo d] state job"

lemma andThen_returns: "andThen ([], Inr x) f = f x"
  by (simp add: andThen_def)

lemma demo_env [simp]:
  "fe_lib (demoFlowEnv p items state job) = refLib" "fe_number (demoFlowEnv p items state job) = Some"
  "fe_getProfile (demoFlowEnv p items state job) ns n = Inr p" "fe_Releases (demoFlowEnv p items state job) = exampleCatalogue"
  "fe_getJob (demoFlowEnv p items state job) ns n = job" "fe_patchStatus (demoFlowEnv p items state job) st = Inr ()"
  "fe_patchMeta (demoFlowEnv p items state job) m = Inr ()" "fe_jobStore (demoFlowEnv p items state job) j = acceptingStore"
  "fe_deleteConfigMap (demoFlowEnv p items state job) ns n = Inr ()" "fe_listJobs (demoFlowEnv p items state job) ns sel = Inr []"
  by (simp_all add: demoFlowEnv_def)

lemma demo_allows: "Allows (fe_WatchNamespaces (demoFlowEnv p items state job)) ns"
  by (simp add: demoFlowEnv_def Allows_def)

lemma demo_reads:
  "flowProfileIDCandidates (demoEnv d state job) (demo d) (fp_Spec (demo d)) = yield [demo d]"
  "flowProfileRegistered (demoEnv d (Inr (demoState (demo d))) job) (demo d) (demoResolved (demo d)) = yield True"
  "flowProfileRegistered (demoEnv d (Inl NotFound) job) (demo d) (demoResolved (demo d)) = yield False"
  "getFlowProfileJob (demoEnv d state (Inl NotFound)) j = yield None"
  using demo_resolves
  by (simp_all add: flowProfileIDCandidates_def flowProfileRegistered_def getFlowProfileJob_def demoFlowEnv_def demoProfile_def
      claimsProfileID_def flowProfileApplyDefaults_def orElse_def readAct_def readOptional_def andThen_returns yield_def
      flowProfileResourceName_def demoState_def mapGet_def)

lemma demo_final:
  "flowReconcile (demoEnv (Some t) state job) ns n = finaliseClaim (demoEnv (Some t) state job) (demo (Some t)) (demoResolved (demo (Some t)))"
  if "t \<noteq> 0"
  using that demo_resolves [of "''a''" 5 "Some t"]
  by (simp add: flowReconcile_def demo_allows timePtrIsZero_def timeIsZero_def finaliseFlowProfile_def demo_reads(1) [of "Some t"])
     (simp add: refLib_def)

lemma demo_owns: "\<exists>m. SetControllerReference refLib (fp_Meta p) (job_Meta (flowProfileDeletionJob q tamoss res)) = Inr m"
  by (simp add: refLib_def refSetController_def flowProfileDeletionJob_def flowProfileJob_def Let_def emptyMeta_def refControllerRef_def)

lemma demo_applies: "ApplyJob j ServerSideApply \<in> set (fst (applyJob (demoFlowEnv p items state job) j))"
  by (simp add: applyJob_def applyManagedObject_def acceptingStore_def)

lemma demo_live:
  "flowReconcile (demoEnv None (Inr (demoState (demo None))) job) ns n =
   readyFlowProfile (demoEnv None (Inr (demoState (demo None))) job) (demo None) (demoResolved (demo None))
     (tm_Name (Apply profiledTamoss exampleImages))"
proof -
  have "AddFinalizer refLib (fp_Meta (demo None)) flowProfileFinalizer = (fp_Meta (demo None), False)"
    using refLib_finalizer by (simp add: finalizer_law_def)
  moreover have "tgt_TAMSAPI (rel_Schema (deref zeroRelease (exampleCatalogue ''1.1''))) = ''7''"
    by (simp add: exampleCatalogue_def exampleRelease_def)
  ultimately show ?thesis
    using demo_resolves [of "''a''" 5 None]
    by (simp add: flowReconcile_def demo_allows timePtrIsZero_def reconcileFlowProfile_def reconcileClaim_def demo_tamoss
        flowProfileIDWinner_def demo_reads(1) [of None] demo_reads(2))
qed

section \<open>Properties\<close>

text \<open>
  C16: a profile is reported as Ready only when its instance is selected and resolved, the installed schema
  matches the release, no other profile has an older claim to the UUID, and either the recorded state names
  this very document and UUID or the registration Job for exactly this document, image and database is
  complete and has not failed.
\<close>

theorem profile_ready_justified:
  assumes "conditions_law (fe_lib env)" and "controller_law (fe_lib env)"
    and "w \<in> set (fst (flowReconcile env namespace name))" and "readyWrite (fe_lib env) w"
  shows "\<exists>p. fe_getProfile env namespace name = Inr p \<and> timePtrIsZero (om_DeletionTimestamp (fp_Meta p)) \<and> readyJustified env p"
proof -
  have final: "emits (\<lambda>w. readyWrite (fe_lib env) w \<longrightarrow> False) (finaliseFlowProfile env p)" for p
    by (auto simp: finaliseFlowProfile_def finaliseClaim_def unregisterFlowProfile_def failedDeletion_def Let_def assms
        split: sum.split list.split tamoss_lookup.split option.split bool.split intro!: emits_rules)
  show ?thesis
    using assms(3,4) emitsD [OF reconcile_ready [OF assms(1,2)]] emitsD [OF final]
    by (fastforce simp: flowReconcile_def andThen_write split: sum.splits if_splits prod.splits bool.splits)
qed

theorem profile_ready_justified_witness:
  "readyJustified (demoEnv None (Inr (demoState (demo None))) (Inl NotFound)) (demo None)"
proof -
  let ?env = "demoEnv None (Inr (demoState (demo None))) (Inl NotFound)"
  let ?w = "PatchProfileStatus (flowProfileStatus refLib (demo None) ((profileInput FlowProfileReady ''FlowProfileReady''
    ''TAMS Flow Profile is registered'' 0 (demoResolved (demo None)) (tm_Name (Apply profiledTamoss exampleImages)))
      \<lparr>fsi_Ready := True, fsi_Registered := True\<rparr>))"
  have "?w \<in> set (fst (flowReconcile ?env ''media'' ''a''))"
    by (simp add: demo_live readyFlowProfile_def updateFlowProfileStatus_def Let_def andThen_write)
  then show ?thesis using profile_ready_justified [of ?env ?w "''media''" "''a''"] by simp
qed

text \<open>
  C18: while a profile is being deleted, the only Job the controller launches is the one that removes the profile
  from the database unless it is in use, and it is launched only when no other profile claims the UUID,
  the instance exists and is not being deleted, its schema is installed, and the profile is registered there.
\<close>

theorem profile_deletion_job_guarded:
  assumes "controller_law (fe_lib env)" and "fe_getProfile env namespace name = Inr p"
    and "\<not> timePtrIsZero (om_DeletionTimestamp (fp_Meta p))"
    and "ApplyJob job a \<in> set (fst (flowReconcile env namespace name))"
  shows "deletionJustified env p job"
  using assms(2-4) emitsD [OF finalise_writes [OF assms(1)], of "ApplyJob job a" p]
  by (auto simp: flowReconcile_def split: if_splits)

theorem profile_deletion_job_guarded_witness:
  "\<exists>job. deletionJustified (demoEnv (Some 9) (Inr (demoState (demo (Some 9)))) (Inl NotFound)) (demo (Some 9)) job"
proof -
  let ?env = "demoEnv (Some 9) (Inr (demoState (demo (Some 9)))) (Inl NotFound)"
  have "\<exists>job. ApplyJob job ServerSideApply \<in> set (fst (flowReconcile ?env ''media'' ''a''))"
  proof -
    obtain m where "SetControllerReference refLib (fp_Meta (demo (Some 9)))
        (job_Meta (flowProfileDeletionJob (demo (Some 9)) (Apply profiledTamoss exampleImages) (demoResolved (demo (Some 9))))) = Inr m"
      using demo_owns by blast
    then show ?thesis
      by (auto simp: demo_final demo_tamoss finaliseClaim_def demo_reads(2) timePtrIsZero_def registeredOrPending_def
          unregisterFlowProfile_def Let_def andThen_write demo_reads(4) intro: demo_applies)
  qed
  then show ?thesis using profile_deletion_job_guarded [of ?env "''media''" "''a''" "demo (Some 9)"] by (auto simp: timePtrIsZero_def timeIsZero_def)
qed

text \<open>
  C17: the finalizer of a profile is released only when it is being deleted and is invalid, or another profile has
  the older claim to its UUID, or it is the only claimant and, should its instance still exist and know the
  profile, the deletion Job for exactly this profile, image and database is complete and has not failed.
\<close>

theorem profile_release_justified:
  assumes "controller_law (fe_lib env)" and "PatchProfileMeta m \<in> set (fst (flowReconcile env namespace name))"
  shows "\<exists>p. fe_getProfile env namespace name = Inr p \<and> \<not> timePtrIsZero (om_DeletionTimestamp (fp_Meta p)) \<and>
    releaseJustified env p"
proof -
  have live: "emits (\<lambda>w. \<not> releaseWrite w) (reconcileFlowProfile env p)" for p
    by (auto simp: reconcileFlowProfile_def reconcileClaim_def registerFlowProfile_def failedRegistration_def
        progressFlowProfile_def readyFlowProfile_def Let_def
        split: sum.split tamoss_lookup.split option.split intro!: emits_rules)
  show ?thesis
    using assms(2) emitsD [OF finalise_writes [OF assms(1)], of "PatchProfileMeta m"] emitsD [OF live]
    by (fastforce simp: flowReconcile_def andThen_write split: sum.splits if_splits prod.splits bool.splits)
qed

theorem profile_release_justified_witness:
  "releaseJustified (demoEnv (Some 9) (Inl NotFound) (Inl NotFound)) (demo (Some 9))"
proof -
  let ?env = "demoEnv (Some 9) (Inl NotFound) (Inl NotFound)"
  have "\<exists>m. PatchProfileMeta m \<in> set (fst (flowReconcile ?env ''media'' ''a''))"
    by (auto simp: demo_final demo_tamoss finaliseClaim_def demo_reads(3,4) timePtrIsZero_def registeredOrPending_def
        releaseFlowProfile_def deleteFlowProfileChildren_def removeFlowProfileFinalizer_def Let_def andThen_write andThen_Inr)
  then show ?thesis using profile_release_justified [of ?env _ "''media''" "''a''"] by auto
qed

text \<open>
  C19: among the live profiles of one instance that claim a UUID, the controller recognises exactly one owner, whoever is
  being reconciled: all of them compute the same winner, it is one of them, and no other was created earlier.
\<close>

theorem one_owner_per_uuid:
  assumes "distinct (map fp_Name items)" and "liveClaimant items (fps_ID sp) p" and "liveClaimant items (fps_ID sq) q"
    and "fps_ID sp = fps_ID sq" and "fps_TamossRef sp = fps_TamossRef sq" and "fp_Namespace p = fp_Namespace q"
    and "fe_listProfiles env (fp_Namespace p) (fps_TamossRef sp) = Inr items"
  shows "\<exists>h. snd (flowProfileIDWinner env p sp) = Inr (fp_Name h) \<and> snd (flowProfileIDWinner env q sq) = Inr (fp_Name h) \<and>
    liveClaimant items (fps_ID sp) h \<and>
    (\<forall>x. liveClaimant items (fps_ID sp) x \<longrightarrow> om_CreationTimestamp (fp_Meta h) \<le> om_CreationTimestamp (fp_Meta x))"
proof -
  obtain h where h: "snd (flowProfileIDWinner env p sp) = Inr (fp_Name h)" "liveClaimant items (fps_ID sp) h"
      "\<forall>x. liveClaimant items (fps_ID sp) x \<longrightarrow> candidateKey h \<le> candidateKey x"
    using live_winner [OF assms(1,2,7)] by blast
  obtain k where k: "snd (flowProfileIDWinner env q sq) = Inr (fp_Name k)" "liveClaimant items (fps_ID sq) k"
      "\<forall>x. liveClaimant items (fps_ID sq) x \<longrightarrow> candidateKey k \<le> candidateKey x"
    using live_winner [OF assms(1,3)] assms(4-7) by (metis (no_types))
  have "candidateKey h = candidateKey k" using h k assms(4) by (simp add: order_antisym)
  then have "fp_Name h = fp_Name k" by (simp add: candidateKey_def)
  moreover have "\<forall>x. liveClaimant items (fps_ID sp) x \<longrightarrow> om_CreationTimestamp (fp_Meta h) \<le> om_CreationTimestamp (fp_Meta x)"
    using h(3) by (auto simp: candidateKey_def)
  ultimately show ?thesis using h k by (intro exI [of _ h]) auto
qed

theorem one_owner_per_uuid_witness:
  "let older = demoProfile ''b'' 5 None; newer = demoProfile ''a'' 9 None; env = demoFlowEnv newer [newer, older] (Inl NotFound) (Inl NotFound)
   in \<exists>h. snd (flowProfileIDWinner env older (fp_Spec older)) = Inr (fp_Name h) \<and>
      snd (flowProfileIDWinner env newer (fp_Spec newer)) = Inr (fp_Name h) \<and> liveClaimant [newer, older] ''id'' h"
proof -
  let ?older = "demoProfile ''b'' 5 None" and ?newer = "demoProfile ''a'' 9 None"
  have "liveClaimant [?newer, ?older] ''id'' ?older" "liveClaimant [?newer, ?older] ''id'' ?newer"
    by (simp_all add: liveClaimant_def demoProfile_def flowProfileApplyDefaults_def orElse_def timePtrIsZero_def)
  then show ?thesis
    using one_owner_per_uuid [of "[?newer, ?older]" "fp_Spec ?older" ?older "fp_Spec ?newer" ?newer
        "demoFlowEnv ?newer [?newer, ?older] (Inl NotFound) (Inl NotFound)"]
    by (auto simp: Let_def demoProfile_def demoFlowEnv_def)
qed

end
