(* ===== verification/Go_Struct.thy ===== *)
theory Go_Struct
  imports Go_Json
begin

text \<open>
  Package \<open>encoding/json\<close> on structs: \<open>MarshalIndent\<close> with an empty prefix and two blanks, decoding an object
  into the fields of a struct, and that decoding an encoded document yields the document.
\<close>

section \<open>Encoding with indentation\<close>

definition newline :: "nat \<Rightarrow> string" where
  "newline depth = CHR 0x0A # replicate (2 * depth) (CHR '' '')"

fun indentValue :: "nat \<Rightarrow> json \<Rightarrow> string" where
  "indentValue depth JNull = ''null''"
| "indentValue depth (JBool b) = (if b then ''true'' else ''false'')"
| "indentValue depth (JNum n) = n"
| "indentValue depth (JStr s) = marshalString s"
| "indentValue depth (JArr vs) =
     (if vs = [] then ''[]''
      else ''['' @ Join '','' (map (\<lambda>v. newline (depth + 1) @ indentValue (depth + 1) v) vs) @ newline depth @ '']'')"
| "indentValue depth (JObj ms) =
     (if ms = [] then ''{}''
      else ''{'' @ Join '','' (map (\<lambda>(k, v). newline (depth + 1) @ marshalString k @ '': '' @ indentValue (depth + 1) v) ms) @
        newline depth @ ''}'')"

definition MarshalIndent :: "json \<Rightarrow> string" where
  "MarshalIndent v = indentValue 0 v"

text \<open>A member of a struct; with \<open>omitempty\<close> an empty string is left out.\<close>

definition member :: "string \<Rightarrow> string \<Rightarrow> (string \<times> json) list" where
  "member k s = [(k, JStr s)]"

definition omitempty :: "string \<Rightarrow> string \<Rightarrow> (string \<times> json) list" where
  "omitempty k s = (if s = [] then [] else [(k, JStr s)])"

section \<open>Decoding into a struct\<close>

text \<open>
  A field of a struct: its name and how a value changes the struct; \<open>None\<close> is a value of another type. A key
  names the field with that very name, or else one that is equal up to the case of its ASCII letters.
\<close>

type_synonym 'a field = "string \<times> (json \<Rightarrow> 'a \<Rightarrow> 'a option)"

definition lookupField :: "'a field list \<Rightarrow> string \<Rightarrow> (json \<Rightarrow> 'a \<Rightarrow> 'a option) option" where
  "lookupField fs k =
     (case map_of fs k of Some d \<Rightarrow> Some d | None \<Rightarrow> map_option snd (find (\<lambda>f. EqualFold (fst f) k) fs))"

fun decodeMembers :: "'a field list \<Rightarrow> (string \<times> json) list \<Rightarrow> 'a \<Rightarrow> 'a option" where
  "decodeMembers fs [] r = Some r"
| "decodeMembers fs ((k, v) # ms) r =
     (case (case lookupField fs k of None \<Rightarrow> Some r | Some d \<Rightarrow> d v r) of
        None \<Rightarrow> None | Some r' \<Rightarrow> decodeMembers fs ms r')"

definition decodeStruct :: "'a field list \<Rightarrow> json \<Rightarrow> 'a \<Rightarrow> 'a option" where
  "decodeStruct fs v r = (case v of JObj ms \<Rightarrow> decodeMembers fs ms r | JNull \<Rightarrow> Some r | _ \<Rightarrow> None)"

definition stringField :: "string \<Rightarrow> (string \<Rightarrow> 'a \<Rightarrow> 'a) \<Rightarrow> 'a field" where
  "stringField name put = (name, \<lambda>v r. case v of JStr s \<Rightarrow> Some (put s r) | JNull \<Rightarrow> Some r | _ \<Rightarrow> None)"

definition structField :: "string \<Rightarrow> 'b field list \<Rightarrow> ('a \<Rightarrow> 'b) \<Rightarrow> ('b \<Rightarrow> 'a \<Rightarrow> 'a) \<Rightarrow> 'a field" where
  "structField name fs get put = (name, \<lambda>v r. map_option (\<lambda>x. put x r) (decodeStruct fs v (get r)))"

section \<open>Decoding what was encoded\<close>

lemma jsonHex_digit: "n < 16 \<Longrightarrow> jsonHex (digit n) = Some n"
proof -
  have "\<forall>n \<in> {..<16}. jsonHex (digit n) = Some n" by code_simp
  then show "n < 16 \<Longrightarrow> jsonHex (digit n) = Some n" by simp
qed

lemma scan_hexEscape:
  assumes "n < 128"
  shows "foldl scanStep (Scan (InStr acc) e st JNull) (hexEscape n) = Scan (InStr (char_of n # acc)) e st JNull"
proof -
  have "jsonHex (CHR ''0'') = Some 0" by (simp add: jsonHex_def jsonDigit_def)
  moreover have "jsonHex (digit (n div 16)) = Some (n div 16)" "jsonHex (digit (n mod 16)) = Some (n mod 16)"
    using assms by (simp_all add: jsonHex_digit)
  ultimately show ?thesis
    using assms
    by (simp add: hexEscape_def stringStep_def escStep_def endHex_def isHighSurrogate_def isLowSurrogate_def utf8rev_def)
qed

definition shortEscape :: "char \<Rightarrow> bool" where
  "shortEscape c \<longleftrightarrow> c \<in> {CHR 0x22, CHR 0x5C, CHR 0x08, CHR 0x0C, CHR 0x0A, CHR 0x0D, CHR 0x09}"

definition longEscape :: "char \<Rightarrow> bool" where
  "longEscape c \<longleftrightarrow> \<not> shortEscape c \<and> (c < CHR '' '' \<or> c = CHR ''<'' \<or> c = CHR ''>'' \<or> c = CHR ''&'')"

lemma marshalByte_long: "longEscape c \<Longrightarrow> marshalByte c = hexEscape (of_char c) \<and> (of_char c :: nat) < 128"
proof (intro conjI)
  assume long: "longEscape c"
  then show "marshalByte c = hexEscape (of_char c)"
    unfolding longEscape_def shortEscape_def marshalByte_def insert_iff empty_iff de_Morgan_disj
    by (elim conjE) (simp only: if_True if_False simp_thms)
  have "c < CHR '' '' \<or> c = CHR ''<'' \<or> c = CHR ''>'' \<or> c = CHR ''&''" using long by (simp only: longEscape_def)
  then show "(of_char c :: nat) < 128"
    by (elim disjE) (simp_all add: less_char_def)
qed

lemma marshalByte_plain:
  assumes "\<not> longEscape c" and "\<not> shortEscape c"
  shows "marshalByte c = [c]" "c \<noteq> CHR 0x22" "c \<noteq> CHR 0x5C" "\<not> c < CHR '' ''"
  using assms unfolding longEscape_def shortEscape_def marshalByte_def insert_iff empty_iff de_Morgan_disj de_Morgan_conj not_not
  by (simp_all only: if_True if_False simp_thms)

lemma scan_short: "shortEscape c \<Longrightarrow>
    foldl scanStep (Scan (InStr acc) e st JNull) (marshalByte c) = Scan (InStr (c # acc)) e st JNull"
  unfolding shortEscape_def insert_iff empty_iff
  by (elim disjE) (simp_all add: marshalByte_def stringStep_def escStep_def escapeChar_def)

lemma scan_marshalByte:
  "foldl scanStep (Scan (InStr acc) e st JNull) (marshalByte c) = Scan (InStr (c # acc)) e st JNull"
proof (cases "longEscape c")
  case True
  then show ?thesis using marshalByte_long scan_hexEscape by fastforce
next
  case False
  show ?thesis
  proof (cases "shortEscape c")
    case True
    then show ?thesis by (rule scan_short)
  next
    case short: False
    show ?thesis by (simp add: stringStep_def marshalByte_plain [OF False short])
  qed
qed

lemma scan_separator:
  assumes "c = CHR 0xA8 \<or> c = CHR 0xA9"
  shows "foldl scanStep (Scan (InStr acc) e st JNull) (CHR 0x5C # ''u202'' @ [digit (of_char c mod 16)]) =
    Scan (InStr (c # CHR 0x80 # CHR 0xE2 # acc)) e st JNull"
proof -
  have hex: "jsonHex (CHR ''2'') = Some 2" "jsonHex (CHR ''0'') = Some 0" "jsonHex (CHR ''8'') = Some 8" "jsonHex (CHR ''9'') = Some 9"
    by (simp_all add: jsonHex_def jsonDigit_def)
  have utf8: "utf8rev 8232 = [CHR 0xA8, CHR 0x80, CHR 0xE2]" "utf8rev 8233 = [CHR 0xA9, CHR 0x80, CHR 0xE2]"
    by (simp_all add: utf8rev_def char_of_def bit_0)
  have dig: "digit (of_char CHR 0xA8 mod 16) = CHR ''8''" "digit (of_char CHR 0xA9 mod 16) = CHR ''9''"
    by (simp_all add: digit_def)
  show ?thesis
    using assms
    by (elim disjE) (simp_all only: dig, simp_all add: stringStep_def escStep_def endHex_def isHighSurrogate_def isLowSurrogate_def hex utf8)
qed

lemma scan_marshalBytes:
  "foldl scanStep (Scan (InStr acc) e st JNull) (marshalBytes s) = Scan (InStr (rev s @ acc)) e st JNull"
proof (induction s arbitrary: acc rule: marshalBytes.induct)
  case (1 a b c s)
  show ?case
  proof (cases "a = CHR 0xE2 \<and> b = CHR 0x80 \<and> (c = CHR 0xA8 \<or> c = CHR 0xA9)")
    case True
    then have "marshalBytes (a # b # c # s) = (CHR 0x5C # ''u202'' @ [digit (of_char c mod 16)]) @ marshalBytes s" by simp
    then show ?thesis using True 1(1) scan_separator [of c acc e st] by (simp only: foldl_append) simp
  next
    case False
    then have "marshalBytes (a # b # c # s) = marshalByte a @ marshalBytes (b # c # s)"
      by (simp only: marshalBytes.simps if_False)
    then show ?thesis using 1(2) [OF False, of "a # acc"] by (simp add: scan_marshalByte del: marshalBytes.simps)
  qed
qed (simp_all add: scan_marshalByte)

definition valueExpected :: "expect \<Rightarrow> bool" where
  "valueExpected e \<longleftrightarrow> e = ValueNext \<or> e = ValueOrEnd"

definition keyExpected :: "expect \<Rightarrow> bool" where
  "keyExpected e \<longleftrightarrow> e = KeyOrEnd \<or> e = KeyNext"

lemma scan_string:
  assumes "valueExpected e"
  shows "foldl scanStep (Scan Idle e st v) (marshalString s) = emitValue (JStr s) st"
proof -
  have "idleStep (CHR 0x22) e st v = Scan (InStr []) e st JNull"
    using assms by (auto simp: valueExpected_def idleStep_def beginValue_def jsonSpace_def)
  then show ?thesis
    using assms by (auto simp: valueExpected_def marshalString_def scan_marshalBytes stringStep_def endString_def)
qed

lemma scan_key:
  assumes "keyExpected e"
  shows "foldl scanStep (Scan Idle e (FObj ms k # st) v) (marshalString s) = Scan Idle ColonNext (FObj ms s # st) JNull"
proof -
  have "idleStep (CHR 0x22) e (FObj ms k # st) v = Scan (InStr []) e (FObj ms k # st) JNull"
    using assms by (auto simp: keyExpected_def idleStep_def jsonSpace_def)
  then show ?thesis
    using assms by (auto simp: keyExpected_def marshalString_def scan_marshalBytes stringStep_def endString_def)
qed

lemma scan_blanks: "\<forall>c \<in> set s. jsonSpace c \<Longrightarrow> foldl scanStep (Scan Idle e st v) s = Scan Idle e st v"
  by (induction s) (auto simp: idleStep_def)

lemma scan_newline [simp]: "foldl scanStep (Scan Idle e st v) (newline d) = Scan Idle e st v"
  by (rule scan_blanks) (auto simp: newline_def jsonSpace_def)

text \<open>Documents without numbers, and how deep they nest.\<close>

fun numberFree :: "json \<Rightarrow> bool" where
  "numberFree (JNum n) = False"
| "numberFree (JArr vs) = list_all numberFree vs"
| "numberFree (JObj ms) = list_all (\<lambda>(k, v). numberFree v) ms"
| "numberFree v = True"

fun nesting :: "json \<Rightarrow> nat" where
  "nesting (JArr vs) = Suc (Max (insert 0 (set (map nesting vs))))"
| "nesting (JObj ms) = Suc (Max (insert 0 (set (map (\<lambda>(k, v). nesting v) ms))))"
| "nesting v = 0"

lemma nesting_member: "(k, v) \<in> set ms \<Longrightarrow> nesting v < nesting (JObj ms)"
  by (auto simp: less_Suc_eq_le intro!: Max_ge)

lemma nesting_element: "v \<in> set vs \<Longrightarrow> nesting v < nesting (JArr vs)"
  by (auto simp: less_Suc_eq_le intro!: Max_ge)

text \<open>\<open>scans st t j\<close>: the text \<open>t\<close> is read as the value \<open>j\<close>.\<close>

definition scans :: "frame list \<Rightarrow> string \<Rightarrow> json \<Rightarrow> bool" where
  "scans st t j \<longleftrightarrow> (\<forall>e v. valueExpected e \<longrightarrow> foldl scanStep (Scan Idle e st v) t = emitValue j st)"

lemma scan_member:
  assumes "keyExpected e" and "scans (FObj acc k # st) t j"
  shows "foldl scanStep (Scan Idle e (FObj acc k0 # st) v) (newline d @ marshalString k @ '': '' @ t) =
    Scan Idle CommaOrEnd (FObj ((k, j) # acc) [] # st) JNull"
proof -
  have "idleStep (CHR '':'') ColonNext (FObj acc k # st) JNull = Scan Idle ValueNext (FObj acc k # st) JNull"
    "idleStep (CHR '' '') ValueNext (FObj acc k # st) JNull = Scan Idle ValueNext (FObj acc k # st) JNull"
    by (simp_all add: idleStep_def jsonSpace_def)
  then show ?thesis
    using assms(2) by (simp add: scan_key [OF assms(1)] scans_def valueExpected_def emitValue_def)
qed

lemma comma_step:
  "idleStep (CHR '','') CommaOrEnd (FObj acc k # st) v = Scan Idle KeyNext (FObj acc k # st) JNull"
  "idleStep (CHR '','') CommaOrEnd (FArr vs # st) v = Scan Idle ValueNext (FArr vs # st) JNull"
  by (simp_all add: idleStep_def jsonSpace_def)

lemma scan_members:
  assumes "ms \<noteq> []" and "keyExpected e" and "\<forall>(k, j) \<in> set ms. \<forall>acc k0. scans (FObj acc k0 # st) (text j) j"
  shows "foldl scanStep (Scan Idle e (FObj acc k0 # st) v)
      (Join '','' (map (\<lambda>(k, j). newline d @ marshalString k @ '': '' @ text j) ms)) =
    Scan Idle CommaOrEnd (FObj (rev ms @ acc) [] # st) JNull"
  using assms
proof (induction ms arbitrary: acc k0 e v)
  case (Cons m ms)
  obtain k j where m: "m = (k, j)" by force
  have first: "foldl scanStep (Scan Idle e (FObj acc k0 # st) v) (newline d @ marshalString k @ '': '' @ text j) =
      Scan Idle CommaOrEnd (FObj ((k, j) # acc) [] # st) JNull"
    using Cons.prems m by (intro scan_member) auto
  show ?case
  proof (cases "ms = []")
    case True
    then show ?thesis using first m by simp
  next
    case False
    have "foldl scanStep (Scan Idle KeyNext (FObj ((k, j) # acc) [] # st) JNull)
        (Join '','' (map (\<lambda>(k, j). newline d @ marshalString k @ '': '' @ text j) ms)) =
      Scan Idle CommaOrEnd (FObj (rev ms @ (k, j) # acc) [] # st) JNull"
      using Cons.prems False by (intro Cons.IH) (auto simp: keyExpected_def)
    then show ?thesis using first m False by (simp add: Join_Cons comma_step del: append_assoc flip: append_assoc)
  qed
qed simp

lemma scan_elements:
  assumes "vs \<noteq> []" and "valueExpected e" and "\<forall>j \<in> set vs. \<forall>acc. scans (FArr acc # st) (text j) j"
  shows "foldl scanStep (Scan Idle e (FArr acc # st) v) (Join '','' (map (\<lambda>j. newline d @ text j) vs)) =
    Scan Idle CommaOrEnd (FArr (rev vs @ acc) # st) JNull"
  using assms
proof (induction vs arbitrary: acc e v)
  case (Cons j vs)
  have first: "foldl scanStep (Scan Idle e (FArr acc # st) v) (newline d @ text j) = Scan Idle CommaOrEnd (FArr (j # acc) # st) JNull"
    using Cons.prems by (simp add: scans_def emitValue_def)
  show ?case
  proof (cases "vs = []")
    case True
    then show ?thesis using first by simp
  next
    case False
    have "foldl scanStep (Scan Idle ValueNext (FArr (j # acc) # st) JNull) (Join '','' (map (\<lambda>j. newline d @ text j) vs)) =
      Scan Idle CommaOrEnd (FArr (rev vs @ j # acc) # st) JNull"
      using Cons.prems False by (intro Cons.IH) (auto simp: valueExpected_def)
    then show ?thesis using first False by (simp add: Join_Cons comma_step del: append_assoc flip: append_assoc)
  qed
qed simp

lemma scan_literal:
  assumes "valueExpected e"
  shows "foldl scanStep (Scan Idle e st v) ''null'' = emitValue JNull st"
    and "foldl scanStep (Scan Idle e st v) ''true'' = emitValue (JBool True) st"
    and "foldl scanStep (Scan Idle e st v) ''false'' = emitValue (JBool False) st"
  using assms by (auto simp: valueExpected_def idleStep_def beginValue_def jsonSpace_def jsonDigit_def)

lemma open_step:
  assumes "valueExpected e" and "length st < 10000"
  shows "idleStep (CHR ''{'') e st v = Scan Idle KeyOrEnd (FObj [] [] # st) JNull"
    and "idleStep (CHR ''['') e st v = Scan Idle ValueOrEnd (FArr [] # st) JNull"
  using assms by (auto simp: valueExpected_def idleStep_def beginValue_def jsonSpace_def pushFrame_def maxNestingDepth_def)

lemma close_step:
  "idleStep (CHR ''}'') KeyOrEnd (FObj ms k # st) v = emitValue (JObj (rev ms)) st"
  "idleStep (CHR ''}'') CommaOrEnd (FObj ms k # st) v = emitValue (JObj (rev ms)) st"
  "idleStep (CHR '']'') ValueOrEnd (FArr vs # st) v = emitValue (JArr (rev vs)) st"
  "idleStep (CHR '']'') CommaOrEnd (FArr vs # st) v = emitValue (JArr (rev vs)) st"
  by (simp_all add: idleStep_def endFrame_def jsonSpace_def)

lemma scan_indent:
  "numberFree j \<Longrightarrow> length st + nesting j \<le> 10000 \<Longrightarrow> scans st (indentValue d j) j"
proof (induction d j arbitrary: st rule: indentValue.induct)
  case (5 d vs)
  have IH: "\<forall>j \<in> set vs. \<forall>acc. scans (FArr acc # st) (indentValue (d + 1) j) j"
  proof (intro ballI allI)
    fix j acc assume j: "j \<in> set vs"
    have "nesting j < nesting (JArr vs)" using j by (rule nesting_element)
    then show "scans (FArr acc # st) (indentValue (d + 1) j) j"
      using 5 j by (cases "vs = []") (auto simp: list_all_iff)
  qed
  show ?case
    using 5(3) scan_elements [OF _ _ IH] open_step(2) [of _ st]
    by (auto simp: scans_def close_step valueExpected_def)
next
  case (6 d ms)
  have IH: "\<forall>(k, j) \<in> set ms. \<forall>acc k0. scans (FObj acc k0 # st) (indentValue (d + 1) j) j"
  proof (clarify)
    fix k j acc k0 assume j: "(k, j) \<in> set ms"
    have "nesting j < nesting (JObj ms)" using j by (rule nesting_member)
    then show "scans (FObj acc k0 # st) (indentValue (d + 1) j) j"
      using 6 j by (cases "ms = []") (auto simp: list_all_iff)
  qed
  show ?case
    using 6(3) scan_members [OF _ _ IH] open_step(1) [of _ st]
    by (auto simp: scans_def close_step keyExpected_def)
qed (auto simp: scans_def scan_literal scan_string simp del: foldl_Cons)

text \<open>Decoding an encoded document yields the document.\<close>

theorem Unmarshal_MarshalIndent:
  "numberFree j \<Longrightarrow> nesting j \<le> 10000 \<Longrightarrow> Unmarshal (MarshalIndent j) = Some j"
  using scan_indent [of j "[]" 0]
  by (simp add: scans_def Unmarshal_def MarshalIndent_def valueExpected_def emitValue_def idleStep_def jsonSpace_def)

end
