(* ===== verification/Go_Time.thy ===== *)
theory Go_Time
  imports Go_Base
begin

text \<open>
  Package \<open>time\<close>: \<open>Format(time.RFC3339)\<close> of a UTC time, \<open>time.Parse(time.RFC3339, s)\<close>, and the wrap-around of
  \<open>time.Duration\<close>, an \<open>int64\<close>; \<open>strconv.Atoi\<close>. The zero time is 0001-01-01T00:00:00Z.
\<close>

definition wrap64 :: "int \<Rightarrow> int" where
  "wrap64 x = (x + 2 ^ 63) mod 2 ^ 64 - 2 ^ 63"

lemma wrap64_id: "- (2 ^ 63) \<le> x \<Longrightarrow> x < 2 ^ 63 \<Longrightarrow> wrap64 x = x"
  by (simp add: wrap64_def)

definition padded :: "nat \<Rightarrow> int \<Rightarrow> string" where
  "padded width n = (let s = Itoa n in replicate (width - length s) (CHR ''0'') @ s)"

text \<open>Year, month and day of a day counted from 0001-01-01, in the proleptic Gregorian calendar.\<close>

definition civilDate :: "int \<Rightarrow> int \<times> int \<times> int" where
  "civilDate days =
     (let z = days + 306; era = z div 146097; doe = z mod 146097;
          yoe = (doe - doe div 1460 + doe div 36524 - doe div 146096) div 365;
          doy = doe - (365 * yoe + yoe div 4 - yoe div 100);
          mp = (5 * doy + 2) div 153;
          d = doy - (153 * mp + 2) div 5 + 1;
          m = (if mp < 10 then mp + 3 else mp - 9)
      in (yoe + era * 400 + (if m \<le> 2 then 1 else 0), m, d))"

definition formatRFC3339 :: "time \<Rightarrow> string" where
  "formatRFC3339 t =
     (let secs = t div Second; days = secs div 86400; sod = secs mod 86400
      in case civilDate days of (y, m, d) \<Rightarrow>
           padded 4 y @ ''-'' @ padded 2 m @ ''-'' @ padded 2 d @ ''T'' @
           padded 2 (sod div 3600) @ '':'' @ padded 2 (sod div 60 mod 60) @ '':'' @ padded 2 (sod mod 60) @ ''Z'')"

lemma formatRFC3339_example: "formatRFC3339 (63844806896 * Second) = ''2024-02-29T12:34:56Z''"
  by code_simp

section \<open>Numbers\<close>

definition isDigit :: "char \<Rightarrow> bool" where
  "isDigit c \<longleftrightarrow> CHR ''0'' \<le> c \<and> c \<le> CHR ''9''"

definition digitVal :: "char \<Rightarrow> int" where
  "digitVal c = of_char c - 48"

definition digitsVal :: "string \<Rightarrow> int" where
  "digitsVal s = foldl (\<lambda>n c. 10 * n + digitVal c) 0 s"

text \<open>\<open>strconv.Atoi\<close>: an optional sign, at least one digit, and a value in the range of \<open>int\<close>.\<close>

definition Atoi :: "string \<Rightarrow> int option" where
  "Atoi s =
     (let negative = HasPrefix s ''-'';
          ds = (if negative \<or> HasPrefix s ''+'' then tl s else s);
          v = (if negative then - digitsVal ds else digitsVal ds)
      in if ds = [] \<or> \<not> list_all isDigit ds \<or> v < - (2 ^ 63) \<or> 2 ^ 63 \<le> v then None else Some v)"

section \<open>Parsing a time\<close>

text \<open>\<open>getnum\<close> of package \<open>time\<close>: one or two digits, exactly two if \<open>fixed\<close>.\<close>

fun getnum :: "bool \<Rightarrow> string \<Rightarrow> (int \<times> string) option" where
  "getnum fixed [] = None"
| "getnum fixed [a] = (if isDigit a \<and> \<not> fixed then Some (digitVal a, []) else None)"
| "getnum fixed (a # b # s) =
     (if \<not> isDigit a then None
      else if isDigit b then Some (10 * digitVal a + digitVal b, s)
      else if fixed then None else Some (digitVal a, b # s))"

definition skipByte :: "char \<Rightarrow> string \<Rightarrow> string option" where
  "skipByte c s = (case s of [] \<Rightarrow> None | x # r \<Rightarrow> if x = c then Some r else None)"

definition daysFromCivil :: "int \<Rightarrow> int \<Rightarrow> int \<Rightarrow> int" where
  "daysFromCivil y m d =
     (let y' = (if m \<le> 2 then y - 1 else y); yoe = y' mod 400;
          doy = (153 * (if m > 2 then m - 3 else m + 9) + 2) div 5 + d - 1
      in y' div 400 * 146097 + yoe * 365 + yoe div 4 - yoe div 100 + doy - 306)"

definition daysIn :: "int \<Rightarrow> int \<Rightarrow> int" where
  "daysIn m y =
     (if m = 2 then (if y mod 4 = 0 \<and> (y mod 100 \<noteq> 0 \<or> y mod 400 = 0) then 29 else 28)
      else if m \<in> {4, 6, 9, 11} then 30 else 31)"

text \<open>The fraction of a second, which the layout does not name: its first nine digits count.\<close>

definition parseFraction :: "string \<Rightarrow> int \<times> string" where
  "parseFraction s =
     (case s of
        p # c # r \<Rightarrow>
          if p \<in> {CHR ''.'', CHR '',''} \<and> isDigit c
          then let ds = takeWhile isDigit (c # r); used = take 9 ds
               in (digitsVal used * 10 ^ (9 - length used), dropWhile isDigit (c # r))
          else (0, s)
      | _ \<Rightarrow> (0, s))"

text \<open>The zone at the end of the layout, \<open>Z07:00\<close>: its offset in seconds; nothing may follow it.\<close>

definition parseZone :: "string \<Rightarrow> int option" where
  "parseZone s =
     (if s = ''Z'' then Some 0
      else case s of
          [sign, h1, h2, colon, m1, m2] \<Rightarrow>
            (case (getnum True [h1, h2], getnum True [m1, m2]) of
               (Some (hr, _), Some (mm, _)) \<Rightarrow>
                 if colon \<noteq> CHR '':'' \<or> hr > 24 \<or> mm > 60 then None
                 else if sign = CHR ''+'' then Some ((hr * 60 + mm) * 60)
                 else if sign = CHR ''-'' then Some (- ((hr * 60 + mm) * 60)) else None
             | _ \<Rightarrow> None)
        | _ \<Rightarrow> None)"

definition parseRFC3339 :: "string \<Rightarrow> time option" where
  "parseRFC3339 s =
     (if length s < 4 \<or> \<not> list_all isDigit (take 4 s) then None
      else let year = digitsVal (take 4 s)
       in Option.bind (skipByte (CHR ''-'') (drop 4 s)) (\<lambda>s.
          Option.bind (getnum True s) (\<lambda>(month, s).
          Option.bind (skipByte (CHR ''-'') s) (\<lambda>s.
          Option.bind (getnum True s) (\<lambda>(day, s).
          Option.bind (skipByte (CHR ''T'') s) (\<lambda>s.
          Option.bind (getnum False s) (\<lambda>(hour, s).
          Option.bind (skipByte (CHR '':'') s) (\<lambda>s.
          Option.bind (getnum True s) (\<lambda>(minute, s).
          Option.bind (skipByte (CHR '':'') s) (\<lambda>s.
          Option.bind (getnum True s) (\<lambda>(sec, s).
          (case parseFraction s of (nsec, s) \<Rightarrow>
          Option.bind (parseZone s) (\<lambda>zone.
            if month \<le> 0 \<or> 12 < month \<or> day < 1 \<or> daysIn month year < day \<or> 24 \<le> hour \<or> 60 \<le> minute \<or> 60 \<le> sec
            then None
            else Some ((((daysFromCivil year month day * 24 + hour) * 60 + minute) * 60 + sec - zone) * Second + nsec))))))))))))))"

lemma parseRFC3339_examples:
  "parseRFC3339 ''2024-02-29T12:34:56Z'' = Some (63844806896 * Second)"
  "parseRFC3339 ''2024-02-29T14:04:56.25+01:30'' = Some (63844806896 * Second + 250000000)"
  "parseRFC3339 ''2023-02-29T12:34:56Z'' = None" "parseRFC3339 ''0001-01-01T00:00:00Z'' = Some 0"
  by code_simp+

section \<open>Printing and reading numbers\<close>

lemma digit_decimal: "n < 10 \<Longrightarrow> isDigit (digit n) \<and> digitVal (digit n) = int n"
proof -
  assume "n < 10"
  moreover have "\<forall>k \<in> set [0..<10]. isDigit (digit k) \<and> digitVal (digit k) = int k" by code_simp
  ultimately show ?thesis by simp
qed

lemma natDigits_decimal: "list_all isDigit (natDigits n) \<and> digitsVal (natDigits n) = int n"
proof (induction n rule: natDigits.induct)
  case (1 n)
  show ?case
  proof (cases "n < 10")
    case True
    then show ?thesis using digit_decimal [of n] by (subst (1 2) natDigits.simps) (simp add: digitsVal_def)
  next
    case False
    have "n = 10 * (n div 10) + n mod 10" by simp
    then have "int n = 10 * int (n div 10) + int (n mod 10)" by (metis of_nat_add of_nat_mult of_nat_numeral)
    with False 1 digit_decimal [of "n mod 10"] show ?thesis
      by (subst (1 2) natDigits.simps) (simp add: digitsVal_def)
  qed
qed

lemma natDigits_unsigned: "\<not> HasPrefix (natDigits n) ''-''" "\<not> HasPrefix (natDigits n) ''+''"
proof -
  obtain c s where "natDigits n = c # s" by (metis natDigits_ne neq_Nil_conv)
  with natDigits_decimal [of n] have "natDigits n = c # s" "isDigit c" by auto
  then show "\<not> HasPrefix (natDigits n) ''-''" "\<not> HasPrefix (natDigits n) ''+''"
    by (auto simp: HasPrefix_def isDigit_def less_eq_char_def)
qed

text \<open>\<open>Atoi\<close> reads back what \<open>Itoa\<close> prints.\<close>

lemma Atoi_Itoa: "- (2 ^ 63) \<le> n \<Longrightarrow> n < 2 ^ 63 \<Longrightarrow> Atoi (Itoa n) = Some n"
proof (cases "n < 0")
  case True
  assume "- (2 ^ 63) \<le> n" "n < 2 ^ 63"
  with True natDigits_decimal [of "nat (- n)"] show ?thesis
    by (simp add: Atoi_def Itoa_def HasPrefix_def Let_def)
next
  case False
  assume "- (2 ^ 63) \<le> n" "n < 2 ^ 63"
  with False natDigits_decimal [of "nat n"] natDigits_unsigned [of "nat n"] show ?thesis
    by (simp add: Atoi_def Itoa_def Let_def)
qed

end
