(* ===== verification/Op_Events.thy ===== *)
theory Op_Events
  imports Kube
begin

text \<open>
  Event emission (\<open>internal/status/events.go\<close>): the deduper that rate-limits warning events, and the two
  emitters. The mutex makes each call atomic, so the calls of all goroutines form one sequence.
\<close>

record WarningEventKey =
  wek_Namespace :: string
  wek_Name :: string
  wek_Reason :: string
  wek_Message :: string

text \<open>The map \<open>last\<close>; a missing key reads as the zero time.\<close>

type_synonym WarningEventDeduper = "WarningEventKey \<rightharpoonup> time"

definition ShouldRecord :: "WarningEventDeduper \<Rightarrow> WarningEventKey \<Rightarrow> time \<Rightarrow> Duration \<Rightarrow> bool \<times> WarningEventDeduper" where
  "ShouldRecord d key now window =
     (if window \<le> 0 then (True, d)
      else (let last = deref 0 (d key)
            in if \<not> timeIsZero last \<and> timeSub now last < window then (False, d) else (True, d(key \<mapsto> now))))"

datatype event = NormalEvent string string | WarningEvent string string

text \<open>\<open>recorder\<close> tells whether an event recorder is configured.\<close>

definition EmitNormalEvent :: "bool \<Rightarrow> string \<Rightarrow> string \<Rightarrow> event list" where
  "EmitNormalEvent recorder reason message = (if recorder then [NormalEvent reason message] else [])"

definition EmitWarningEvent ::
    "bool \<Rightarrow> WarningEventDeduper option \<Rightarrow> ObjectMeta \<Rightarrow> time \<Rightarrow> string \<Rightarrow> string \<Rightarrow> event list \<times> WarningEventDeduper option" where
  "EmitWarningEvent recorder deduper obj now reason message =
     (if \<not> recorder then ([], deduper)
      else case deduper of
          None \<Rightarrow> ([WarningEvent reason message], None)
        | Some d \<Rightarrow>
            (case ShouldRecord d \<lparr>wek_Namespace = om_Namespace obj, wek_Name = om_Name obj, wek_Reason = reason, wek_Message = message\<rparr>
                    now Minute of
               (True, d') \<Rightarrow> ([WarningEvent reason message], Some d')
             | (False, d') \<Rightarrow> ([], Some d')))"

section \<open>Sequences of calls\<close>

text \<open>The times at which a sequence of calls, each with its key and its time, recorded an event for \<open>key\<close>.\<close>

fun recordedAt :: "WarningEventDeduper \<Rightarrow> Duration \<Rightarrow> WarningEventKey \<Rightarrow> (WarningEventKey \<times> time) list \<Rightarrow> time list" where
  "recordedAt d window key [] = []"
| "recordedAt d window key ((k, now) # calls) =
     (case ShouldRecord d k now window of
        (ok, d') \<Rightarrow> (if ok \<and> k = key then [now] else []) @ recordedAt d' window key calls)"

fun spaced :: "Duration \<Rightarrow> time list \<Rightarrow> bool" where
  "spaced w [] = True"
| "spaced w [t] = True"
| "spaced w (t # u # ts) = (w \<le> u - t \<and> spaced w (u # ts))"

lemma spaced_Cons: "spaced w (t # ts) \<longleftrightarrow> (ts \<noteq> [] \<longrightarrow> w \<le> hd ts - t) \<and> spaced w ts"
  by (cases ts) auto

lemma recorded_spaced:
  assumes "0 < window" and "window < 2 ^ 63 - 1" and "\<forall>c \<in> set calls. 0 < snd c"
  shows "spaced window (recordedAt d window key calls) \<and>
    (\<forall>last. d key = Some last \<longrightarrow> last \<noteq> 0 \<longrightarrow> recordedAt d window key calls \<noteq> [] \<longrightarrow>
       window \<le> hd (recordedAt d window key calls) - last)"
  using assms(3)
proof (induction calls arbitrary: d)
  case (Cons c calls)
  obtain k now where c: "c = (k, now)" by force
  obtain ok d' where s: "ShouldRecord d k now window = (ok, d')" by force
  have IH: "spaced window (recordedAt d' window key calls)"
    "\<And>last. d' key = Some last \<Longrightarrow> last \<noteq> 0 \<Longrightarrow> recordedAt d' window key calls \<noteq> [] \<Longrightarrow>
       window \<le> hd (recordedAt d' window key calls) - last"
    using Cons by auto
  have now: "now \<noteq> 0" using Cons.prems c by auto
  show ?case
  proof (cases "ok \<and> k = key")
    case True
    then have "d' key = Some now" "deref 0 (d key) = 0 \<or> \<not> timeSub now (deref 0 (d key)) < window"
      using s assms(1) by (auto simp: ShouldRecord_def Let_def timeIsZero_def split: if_splits)
    then show ?thesis
      using True IH now assms(1,2) c s by (auto simp: spaced_Cons timeSub_def)
  next
    case False
    then have "d' key = d key" using s by (auto simp: ShouldRecord_def Let_def split: if_splits)
    then show ?thesis using False IH c s by auto
  qed
qed simp

lemma first_recorded:
  assumes "(key, t) \<in> set calls" and "d key = None"
  shows "recordedAt d window key calls \<noteq> []"
  using assms
proof (induction calls arbitrary: d)
  case (Cons c calls)
  obtain k now where c: "c = (k, now)" by force
  show ?case
  proof (cases "k = key")
    case True
    then show ?thesis using Cons.prems(2) c by (simp add: ShouldRecord_def Let_def timeIsZero_def)
  next
    case False
    obtain ok d' where s: "ShouldRecord d k now window = (ok, d')" by force
    then have "d' key = None" using False Cons.prems(2) by (auto simp: ShouldRecord_def Let_def split: if_splits)
    then have "recordedAt d' window key calls \<noteq> []" using Cons.IH Cons.prems(1) False c by auto
    then show ?thesis using c s by simp
  qed
qed simp



end
