(* ===== verification/Lifecycle.thy ===== *)
theory Lifecycle
  imports Kube_Act Release_Control Op_Status Op_Events
begin

text \<open>
  Lifecycle bookkeeping shared by hibernation and resume: references to operations, the retried patch of the
  lifecycle status (\<open>tamoss_lifecycle_operations.go\<close>), and the status of an operation
  (\<open>tamoss_operation_status.go\<close>, \<open>status_patch.go\<close>).
\<close>

section \<open>References to operations\<close>

definition operationObjectReference :: "ObjectMeta \<Rightarrow> string \<Rightarrow> ObjectReference" where
  "operationObjectReference obj kind =
     \<lparr>oref_APIVersion = ''tamoss.livewyer.io/v1alpha1'', oref_Kind = kind, oref_Namespace = om_Namespace obj,
      oref_Name = om_Name obj, oref_UID = om_UID obj\<rparr>"

definition operationRefMatches :: "ObjectReference option \<Rightarrow> ObjectMeta \<Rightarrow> string \<Rightarrow> bool" where
  "operationRefMatches ref obj kind =
     (case ref of
        None \<Rightarrow> False
      | Some r \<Rightarrow>
          oref_Kind r = kind \<and> oref_Namespace r = om_Namespace obj \<and> oref_Name r = om_Name obj \<and>
          (oref_UID r = [] \<or> om_UID obj = [] \<or> oref_UID r = om_UID obj))"

lemma own_reference_matches [simp]: "operationRefMatches (Some (operationObjectReference obj kind)) obj kind"
  by (simp add: operationRefMatches_def operationObjectReference_def)

section \<open>Patching the lifecycle status\<close>

type_synonym lifecycle_change = "TamossLifecycleStatus \<Rightarrow> TamossLifecycleStatus"

definition setLifecycleOperationState ::
    "TamossLifecyclePhase \<Rightarrow> string \<Rightarrow> string \<Rightarrow> ObjectReference option \<Rightarrow> lifecycle_change" where
  "setLifecycleOperationState phase reason message activeRef lifecycle =
     lifecycle\<lparr>tls_Phase := phase, tls_Reason := reason, tls_Message := message, tls_ActiveOperationRef := activeRef\<rparr>"

text \<open>
  \<open>retry.RetryOnConflict\<close> of client-go calls its function a number of times. It is a parameter: for the
  outcomes of the attempts, the index of the last one made. By its documentation a further attempt is made
  only after a conflict, and the outcome is that of the last attempt.
\<close>

type_synonym retry = "(nat \<Rightarrow> api_error option) \<Rightarrow> nat"

definition retry_law :: "retry \<Rightarrow> bool" where
  "retry_law retry \<longleftrightarrow> (\<forall>outcome. \<forall>k < retry outcome. outcome k = Some Conflict)"

definition refRetry :: retry where
  "refRetry outcome = (case find (\<lambda>k. outcome k \<noteq> Some Conflict) [0..<5] of None \<Rightarrow> 4 | Some k \<Rightarrow> k)"

text \<open>
  The API calls of the attempts: reading the object anew before attempt \<open>k > 0\<close>, the status patch, which
  yields the stored object, and the clock.
\<close>

record lifecycle_store =
  ls_retry :: retry
  ls_get :: "nat \<Rightarrow> Tamoss api"
  ls_patch :: "nat \<Rightarrow> Tamoss \<Rightarrow> Tamoss api"
  ls_now :: "nat \<Rightarrow> time"

definition changedLifecycle :: "time \<Rightarrow> lifecycle_change \<Rightarrow> Tamoss \<Rightarrow> Tamoss" where
  "changedLifecycle now mutate tamoss =
     (let old = tst_Lifecycle (tm_Status tamoss); lifecycle = mutate old;
          lifecycle = (if tls_Phase lifecycle \<noteq> tls_Phase old then lifecycle\<lparr>tls_LastTransitionTime := Some now\<rparr> else lifecycle)
      in tamoss\<lparr>tm_Status := (tm_Status tamoss)\<lparr>tst_Lifecycle := lifecycle\<rparr>\<rparr>)"

text \<open>One attempt: the object it leaves in memory, and what it stored, if it had to.\<close>

definition lifecycleAttempt :: "lifecycle_store \<Rightarrow> Tamoss \<Rightarrow> lifecycle_change \<Rightarrow> nat \<Rightarrow> (Tamoss \<times> Tamoss option) api" where
  "lifecycleAttempt store tamoss mutate k =
     (case (if k = 0 then Inr tamoss else ls_get store k) of
        Inl e \<Rightarrow> Inl e
      | Inr original \<Rightarrow>
          (let changed = changedLifecycle (ls_now store k) mutate original
           in if tamossStatusSemanticEqual (tm_Status original) (tm_Status changed) then Inr (changed, None)
              else case ls_patch store k changed of Inl e \<Rightarrow> Inl e | Inr stored \<Rightarrow> Inr (stored, Some changed)))"

definition attemptError :: "'a api \<Rightarrow> api_error option" where
  "attemptError r = (case r of Inl e \<Rightarrow> Some e | Inr _ \<Rightarrow> None)"

definition patchTamossLifecycleStatus :: "lifecycle_store \<Rightarrow> Tamoss \<Rightarrow> lifecycle_change \<Rightarrow> (Tamoss, Tamoss) act" where
  "patchTamossLifecycleStatus store tamoss mutate =
     (let attempt = lifecycleAttempt store tamoss mutate; k = ls_retry store (\<lambda>k. attemptError (attempt k))
      in case attempt k of
           Inl e \<Rightarrow> ([], Inl (APIError e))
         | Inr (t, None) \<Rightarrow> ([], Inr t)
         | Inr (t, Some patched) \<Rightarrow> ([patched], Inr t))"

section \<open>Operation status\<close>

definition operationStatusSemanticEqual :: "TamossOperationStatus \<Rightarrow> TamossOperationStatus \<Rightarrow> bool" where
  "operationStatusSemanticEqual a b \<longleftrightarrow>
     a\<lparr>tos_Conditions := normalizeConditionTimes (tos_Conditions a)\<rparr> =
     b\<lparr>tos_Conditions := normalizeConditionTimes (tos_Conditions b)\<rparr>"

definition operationTerminal :: "TamossOperationPhase \<Rightarrow> bool" where
  "operationTerminal phase \<longleftrightarrow> phase = OperationCompleted \<or> phase = OperationFailed"

definition operationWaitResult :: "TamossOperationPhase \<Rightarrow> Duration \<Rightarrow> ctrl_Result" where
  "operationWaitResult phase poll = (if operationTerminal phase then noRequeue else requeueAfter poll)"

definition zeroArtifact :: HibernationArtifactStatus where
  "zeroArtifact = \<lparr>hst_Driver = [], hst_ManifestURI = [], hst_ManifestKey = [], hst_Checksum = [],
     hst_CNPGBackup = \<lparr>hcb_Name = [], hcb_Namespace = [], hcb_Phase = [], hcb_DestinationPath = [], hcb_BackupID = [], hcb_Error = []\<rparr>,
     hst_Cleanup = \<lparr>hac_Phase = CleanupUnset, hac_Reason = [], hac_Message = [], hac_ObjectsDeleted = 0, hac_CompletedAt = None\<rparr>\<rparr>"

definition artifactKnown :: "HibernationArtifactStatus \<Rightarrow> bool" where
  "artifactKnown a \<longleftrightarrow> hst_Driver a \<noteq> [] \<or> hst_ManifestURI a \<noteq> [] \<or> hst_ManifestKey a \<noteq> [] \<or>
     hcb_Name (hst_CNPGBackup a) \<noteq> [] \<or> hac_Phase (hst_Cleanup a) \<noteq> CleanupUnset"

definition setOperationStatus ::
    "kube_lib \<Rightarrow> time \<Rightarrow> TamossOperationStatus \<Rightarrow> int \<Rightarrow> TamossOperationPhase \<Rightarrow> string \<Rightarrow> string \<Rightarrow> HibernationArtifactStatus \<Rightarrow> TamossOperationStatus" where
  "setOperationStatus lib now st generation phase reason message artifact =
     (let set = (\<lambda>t ok cs. SetConditionBool lib cs generation t ok reason message)
      in st\<lparr>tos_ObservedGeneration := generation, tos_Phase := phase, tos_Reason := reason, tos_Message := message,
           tos_StartedAt := (if tos_StartedAt st = None \<and> phase \<noteq> OperationPending then Some now else tos_StartedAt st),
           tos_CompletedAt := (if tos_CompletedAt st = None \<and> operationTerminal phase then Some now else tos_CompletedAt st),
           tos_Artifact := (if artifactKnown artifact then artifact else tos_Artifact st),
           tos_Conditions := set ''Degraded'' (phase = OperationFailed)
             (set ''Progressing'' (\<not> operationTerminal phase)
               (set ''Ready'' (phase = OperationCompleted) (tos_Conditions st)))\<rparr>)"

definition recordOperationEvents :: "bool \<Rightarrow> ObjectMeta \<Rightarrow> TamossOperationStatus \<Rightarrow> TamossOperationStatus \<Rightarrow> event list" where
  "recordOperationEvents recorder obj original updated =
     (if tos_Phase original = tos_Phase updated \<and> tos_Reason original = tos_Reason updated \<and> tos_Message original = tos_Message updated
      then []
      else case tos_Phase updated of
          OperationCompleted \<Rightarrow> EmitNormalEvent recorder (tos_Reason updated) (tos_Message updated)
        | OperationFailed \<Rightarrow> fst (EmitWarningEvent recorder None obj 0 (tos_Reason updated) (tos_Message updated))
        | _ \<Rightarrow> if tos_Phase original \<noteq> tos_Phase updated
              then EmitNormalEvent recorder (tos_Reason updated) (tos_Message updated) else [])"

section \<open>What a lifecycle patch stores\<close>

text \<open>The object an attempt works on: the caller's, or after a conflict the one read anew.\<close>

definition attemptBase :: "lifecycle_store \<Rightarrow> Tamoss \<Rightarrow> nat \<Rightarrow> Tamoss \<Rightarrow> bool" where
  "attemptBase store tamoss k t \<longleftrightarrow> (if k = 0 then t = tamoss else ls_get store k = Inr t)"

lemma attempt_stored:
  "lifecycleAttempt store tamoss mutate k = Inr (t, Some w) \<Longrightarrow>
   \<exists>base. attemptBase store tamoss k base \<and> w = changedLifecycle (ls_now store k) mutate base \<and> ls_patch store k w = Inr t"
  by (auto simp: lifecycleAttempt_def attemptBase_def Let_def split: sum.splits if_splits)

lemma lifecycle_patch_writes:
  assumes "w \<in> set (fst (patchTamossLifecycleStatus store tamoss mutate))"
  shows "\<exists>k base. attemptBase store tamoss k base \<and> w = changedLifecycle (ls_now store k) mutate base"
  using assms attempt_stored
  by (fastforce simp: patchTamossLifecycleStatus_def Let_def split: sum.splits option.splits prod.splits)

lemma refRetry_law [simp]: "retry_law refRetry"
  unfolding retry_law_def refRetry_def
proof (intro allI impI)
  fix outcome :: "nat \<Rightarrow> api_error option" and k
  assume k: "k < (case find (\<lambda>k. outcome k \<noteq> Some Conflict) [0..<5] of None \<Rightarrow> 4 | Some k \<Rightarrow> k)"
  show "outcome k = Some Conflict"
  proof (cases "find (\<lambda>k. outcome k \<noteq> Some Conflict) [0..<5]")
    case None
    then have "\<forall>x < 5. outcome x = Some Conflict" by (auto simp: find_None_iff)
    then show ?thesis using k None by simp
  next
    case (Some j)
    then obtain i where "i < 5" "j = i" "\<forall>l < i. outcome l = Some Conflict"
      by (auto simp: find_Some_iff)
    then show ?thesis using k Some by auto
  qed
qed

end
