(* ===== verification/Hibernate_Manifest.thy ===== *)
theory Hibernate_Manifest
  imports Go_Struct Go_Time Go_Url Go_Hash Lifecycle
begin

text \<open>
  The hibernation manifest (\<open>tamoss_hibernation_manifest.go\<close>): what it records, how it is written to and read
  from the object store, and which failures of a read are permanent. The S3 client is a parameter.
\<close>

section \<open>The manifest\<close>

record hibernationManifestTamoss =
  hmt_Name :: string
  hmt_Namespace :: string
  hmt_UID :: string

record hibernationManifestSchema =
  hms_Version :: string
  hms_TAMSAPI :: string
  hms_Operator :: string
  hms_ManifestKind :: string

record hibernationManifestDatabase =
  hmd_Provider :: string
  hmd_Cluster :: string

record hibernationManifestArtifact =
  hma_ManifestKey :: string
  hma_ManifestURI :: string

record hibernationManifestCNPG =
  hmc_BackupName :: string
  hmc_BackupID :: string
  hmc_DestinationPath :: string
  hmc_ServerName :: string
  hmc_Phase :: string

record hibernationManifestStorageBackend =
  hmb_Name :: string
  hmb_Bucket :: string
  hmb_EndpointURL :: string
  hmb_Region :: string

record hibernationManifest =
  hm_ManifestVersion :: string
  hm_CreatedAt :: string
  hm_Driver :: string
  hm_SourceTamoss :: hibernationManifestTamoss
  hm_Schema :: hibernationManifestSchema
  hm_Database :: hibernationManifestDatabase
  hm_Artifact :: hibernationManifestArtifact
  hm_CNPG :: hibernationManifestCNPG
  hm_StorageBackend :: hibernationManifestStorageBackend

abbreviation "hibernationManifestVersion \<equiv> ''v1''"
abbreviation "hibernationManifestChecksumMetadata \<equiv> ''tamoss-checksum''"

definition hibernationManifestMaximumBytes :: nat where
  "hibernationManifestMaximumBytes = 1048576"

text \<open>\<open>schemabundle.SchemaVersion\<close>, which the build may set, is the argument \<open>operator\<close>.\<close>

definition buildHibernationManifest ::
    "string \<Rightarrow> time \<Rightarrow> Tamoss \<Rightarrow> StorageBackend \<Rightarrow> StorageBackendSpec \<Rightarrow> HibernationArtifactStatus \<Rightarrow> string \<Rightarrow> hibernationManifest" where
  "buildHibernationManifest operator now tamoss storageBackend spec artifact serverName =
     \<lparr>hm_ManifestVersion = hibernationManifestVersion, hm_CreatedAt = formatRFC3339 now, hm_Driver = hst_Driver artifact,
      hm_SourceTamoss = \<lparr>hmt_Name = tm_Name tamoss, hmt_Namespace = tm_Namespace tamoss, hmt_UID = om_UID (tm_Meta tamoss)\<rparr>,
      hm_Schema = \<lparr>hms_Version = tst_SchemaVersion (tm_Status tamoss), hms_TAMSAPI = tst_ResolvedTAMSAPI (tm_Status tamoss),
        hms_Operator = operator, hms_ManifestKind = ''TamossHibernate''\<rparr>,
      hm_Database = \<lparr>hmd_Provider = dbProvider (be_DB (ts_Backends (tm_Spec tamoss))), hmd_Cluster = serverName\<rparr>,
      hm_Artifact = \<lparr>hma_ManifestKey = hst_ManifestKey artifact, hma_ManifestURI = hst_ManifestURI artifact\<rparr>,
      hm_CNPG = \<lparr>hmc_BackupName = hcb_Name (hst_CNPGBackup artifact), hmc_BackupID = hcb_BackupID (hst_CNPGBackup artifact),
        hmc_DestinationPath = hcb_DestinationPath (hst_CNPGBackup artifact), hmc_ServerName = serverName,
        hmc_Phase = hcb_Phase (hst_CNPGBackup artifact)\<rparr>,
      hm_StorageBackend = \<lparr>hmb_Name = om_Name (sbk_Meta storageBackend), hmb_Bucket = sb_BucketName spec,
        hmb_EndpointURL = eurl_URL (s3e_Default (sb_Endpoint spec)), hmb_Region = sb_Region spec\<rparr>\<rparr>"

section \<open>Its document\<close>

definition tamossDocument :: "hibernationManifestTamoss \<Rightarrow> json" where
  "tamossDocument t = JObj (member ''name'' (hmt_Name t) @ member ''namespace'' (hmt_Namespace t) @ omitempty ''uid'' (hmt_UID t))"

definition schemaDocument :: "hibernationManifestSchema \<Rightarrow> json" where
  "schemaDocument s = JObj (omitempty ''version'' (hms_Version s) @ omitempty ''tamsAPI'' (hms_TAMSAPI s) @
     omitempty ''operator'' (hms_Operator s) @ member ''manifestKind'' (hms_ManifestKind s))"

definition databaseDocument :: "hibernationManifestDatabase \<Rightarrow> json" where
  "databaseDocument d = JObj (member ''provider'' (hmd_Provider d) @ omitempty ''cluster'' (hmd_Cluster d))"

definition artifactDocument :: "hibernationManifestArtifact \<Rightarrow> json" where
  "artifactDocument a = JObj (member ''manifestKey'' (hma_ManifestKey a) @ omitempty ''manifestURI'' (hma_ManifestURI a))"

definition cnpgDocument :: "hibernationManifestCNPG \<Rightarrow> json" where
  "cnpgDocument c = JObj (member ''backupName'' (hmc_BackupName c) @ omitempty ''backupID'' (hmc_BackupID c) @
     omitempty ''destinationPath'' (hmc_DestinationPath c) @ omitempty ''serverName'' (hmc_ServerName c) @ omitempty ''phase'' (hmc_Phase c))"

definition storageBackendDocument :: "hibernationManifestStorageBackend \<Rightarrow> json" where
  "storageBackendDocument b = JObj (member ''name'' (hmb_Name b) @ member ''bucket'' (hmb_Bucket b) @
     member ''endpointURL'' (hmb_EndpointURL b) @ omitempty ''region'' (hmb_Region b))"

definition manifestDocument :: "hibernationManifest \<Rightarrow> json" where
  "manifestDocument m = JObj (
     member ''manifestVersion'' (hm_ManifestVersion m) @ member ''createdAt'' (hm_CreatedAt m) @ member ''driver'' (hm_Driver m) @
     [(''sourceTamoss'', tamossDocument (hm_SourceTamoss m)), (''schema'', schemaDocument (hm_Schema m)),
      (''database'', databaseDocument (hm_Database m)), (''artifact'', artifactDocument (hm_Artifact m)),
      (''cnpg'', cnpgDocument (hm_CNPG m)), (''storageBackend'', storageBackendDocument (hm_StorageBackend m))])"

definition zeroManifest :: hibernationManifest where
  "zeroManifest = \<lparr>hm_ManifestVersion = [], hm_CreatedAt = [], hm_Driver = [],
     hm_SourceTamoss = \<lparr>hmt_Name = [], hmt_Namespace = [], hmt_UID = []\<rparr>,
     hm_Schema = \<lparr>hms_Version = [], hms_TAMSAPI = [], hms_Operator = [], hms_ManifestKind = []\<rparr>,
     hm_Database = \<lparr>hmd_Provider = [], hmd_Cluster = []\<rparr>,
     hm_Artifact = \<lparr>hma_ManifestKey = [], hma_ManifestURI = []\<rparr>,
     hm_CNPG = \<lparr>hmc_BackupName = [], hmc_BackupID = [], hmc_DestinationPath = [], hmc_ServerName = [], hmc_Phase = []\<rparr>,
     hm_StorageBackend = \<lparr>hmb_Name = [], hmb_Bucket = [], hmb_EndpointURL = [], hmb_Region = []\<rparr>\<rparr>"

definition tamossFields :: "hibernationManifestTamoss field list" where
  "tamossFields = [stringField ''name'' (\<lambda>s. hmt_Name_update (\<lambda>_. s)), stringField ''namespace'' (\<lambda>s. hmt_Namespace_update (\<lambda>_. s)),
     stringField ''uid'' (\<lambda>s. hmt_UID_update (\<lambda>_. s))]"

definition schemaFields :: "hibernationManifestSchema field list" where
  "schemaFields = [stringField ''version'' (\<lambda>s. hms_Version_update (\<lambda>_. s)), stringField ''tamsAPI'' (\<lambda>s. hms_TAMSAPI_update (\<lambda>_. s)),
     stringField ''operator'' (\<lambda>s. hms_Operator_update (\<lambda>_. s)), stringField ''manifestKind'' (\<lambda>s. hms_ManifestKind_update (\<lambda>_. s))]"

definition databaseFields :: "hibernationManifestDatabase field list" where
  "databaseFields = [stringField ''provider'' (\<lambda>s. hmd_Provider_update (\<lambda>_. s)), stringField ''cluster'' (\<lambda>s. hmd_Cluster_update (\<lambda>_. s))]"

definition artifactFields :: "hibernationManifestArtifact field list" where
  "artifactFields = [stringField ''manifestKey'' (\<lambda>s. hma_ManifestKey_update (\<lambda>_. s)), stringField ''manifestURI'' (\<lambda>s. hma_ManifestURI_update (\<lambda>_. s))]"

definition cnpgFields :: "hibernationManifestCNPG field list" where
  "cnpgFields = [stringField ''backupName'' (\<lambda>s. hmc_BackupName_update (\<lambda>_. s)), stringField ''backupID'' (\<lambda>s. hmc_BackupID_update (\<lambda>_. s)),
     stringField ''destinationPath'' (\<lambda>s. hmc_DestinationPath_update (\<lambda>_. s)), stringField ''serverName'' (\<lambda>s. hmc_ServerName_update (\<lambda>_. s)),
     stringField ''phase'' (\<lambda>s. hmc_Phase_update (\<lambda>_. s))]"

definition storageBackendFields :: "hibernationManifestStorageBackend field list" where
  "storageBackendFields = [stringField ''name'' (\<lambda>s. hmb_Name_update (\<lambda>_. s)), stringField ''bucket'' (\<lambda>s. hmb_Bucket_update (\<lambda>_. s)),
     stringField ''endpointURL'' (\<lambda>s. hmb_EndpointURL_update (\<lambda>_. s)), stringField ''region'' (\<lambda>s. hmb_Region_update (\<lambda>_. s))]"

definition manifestFields :: "hibernationManifest field list" where
  "manifestFields =
     [stringField ''manifestVersion'' (\<lambda>s. hm_ManifestVersion_update (\<lambda>_. s)), stringField ''createdAt'' (\<lambda>s. hm_CreatedAt_update (\<lambda>_. s)),
      stringField ''driver'' (\<lambda>s. hm_Driver_update (\<lambda>_. s)),
      structField ''sourceTamoss'' tamossFields hm_SourceTamoss (\<lambda>x. hm_SourceTamoss_update (\<lambda>_. x)),
      structField ''schema'' schemaFields hm_Schema (\<lambda>x. hm_Schema_update (\<lambda>_. x)),
      structField ''database'' databaseFields hm_Database (\<lambda>x. hm_Database_update (\<lambda>_. x)),
      structField ''artifact'' artifactFields hm_Artifact (\<lambda>x. hm_Artifact_update (\<lambda>_. x)),
      structField ''cnpg'' cnpgFields hm_CNPG (\<lambda>x. hm_CNPG_update (\<lambda>_. x)),
      structField ''storageBackend'' storageBackendFields hm_StorageBackend (\<lambda>x. hm_StorageBackend_update (\<lambda>_. x))]"

definition parseManifest :: "string \<Rightarrow> hibernationManifest option" where
  "parseManifest text = (case Unmarshal text of None \<Rightarrow> None | Some v \<Rightarrow> decodeStruct manifestFields v zeroManifest)"

section \<open>The object store\<close>

record storageBackendS3Credentials =
  sbc_AccessKey :: string
  sbc_SecretKey :: string

record s3_target =
  s3t_Endpoint :: string
  s3t_Secure :: bool
  s3t_Region :: string
  s3t_Credentials :: storageBackendS3Credentials
  s3t_Bucket :: string

text \<open>An error of the S3 client: the code of the response, if it is one, and the text.\<close>

record s3_error =
  s3e_Code :: string
  s3e_Text :: string

text \<open>An opened object: its size and metadata (in the order of the map iteration), and what reading it gives.\<close>

record s3_object =
  s3o_Stat :: "s3_error + int \<times> (string \<times> string) list"
  s3o_Read :: "s3_error + string"

record s3_api =
  s3_New :: "s3_target \<Rightarrow> s3_error option"
  s3_PutObject :: "s3_target \<Rightarrow> string \<Rightarrow> string \<Rightarrow> (string \<times> string) list \<Rightarrow> s3_error option"
  s3_GetObject :: "s3_target \<Rightarrow> string \<Rightarrow> s3_error + s3_object"
  s3_getSecret :: "string \<Rightarrow> string \<Rightarrow> (string \<rightharpoonup> string) api"
  s3_apiErrorText :: "api_error \<Rightarrow> string"

datatype manifest_error =
    ManifestChecksumMismatch string
  | ManifestInvalid string
  | ManifestS3 s3_error
  | ManifestOther string

definition storageBackendAccessKey :: "StorageBackendSpec \<Rightarrow> string" where
  "storageBackendAccessKey spec = orElse (skey_AccessKey (sref_SecretKeys (sb_Credentials spec))) ''RUSTFS_ACCESS_KEY''"

definition storageBackendSecretKey :: "StorageBackendSpec \<Rightarrow> string" where
  "storageBackendSecretKey spec = orElse (skey_SecretKey (sref_SecretKeys (sb_Credentials spec))) ''RUSTFS_SECRET_KEY''"

definition storageBackendCredentials ::
    "(string \<Rightarrow> string \<Rightarrow> (string \<rightharpoonup> string) api) \<Rightarrow> string \<Rightarrow> StorageBackendSpec \<Rightarrow> storageBackendS3Credentials api" where
  "storageBackendCredentials getSecret namespace spec =
     (case getSecret namespace (sref_ExistingSecret (sb_Credentials spec)) of
        Inl e \<Rightarrow> Inl e
      | Inr d \<Rightarrow> Inr \<lparr>sbc_AccessKey = mapGet d (storageBackendAccessKey spec), sbc_SecretKey = mapGet d (storageBackendSecretKey spec)\<rparr>)"

definition hibernationS3Endpoint :: "string \<Rightarrow> string + string \<times> bool" where
  "hibernationS3Endpoint raw =
     (case Parse (TrimSpace raw) of
        None \<Rightarrow> Inl ''parse hibernation S3 endpoint''
      | Some u \<Rightarrow>
          if Scheme u \<noteq> ''http'' \<and> Scheme u \<noteq> ''https'' then Inl ''hibernation S3 endpoint must use http or https''
          else if Host u = [] then Inl ''hibernation S3 endpoint host is required''
          else Inr (Host u, Scheme u = ''https''))"

text \<open>Credentials, endpoint and client, with which \<open>Write\<close> and \<open>Read\<close> begin.\<close>

definition openTarget :: "s3_api \<Rightarrow> string \<Rightarrow> StorageBackendSpec \<Rightarrow> manifest_error + s3_target" where
  "openTarget s3 namespace spec =
     (case storageBackendCredentials (s3_getSecret s3) namespace spec of
        Inl e \<Rightarrow> Inl (ManifestOther (s3_apiErrorText s3 e))
      | Inr creds \<Rightarrow>
          (case hibernationS3Endpoint (eurl_URL (s3e_Default (sb_Endpoint spec))) of
             Inl e \<Rightarrow> Inl (ManifestOther e)
           | Inr (endpoint, secure) \<Rightarrow>
               (let target = \<lparr>s3t_Endpoint = endpoint, s3t_Secure = secure, s3t_Region = sb_Region spec,
                      s3t_Credentials = creds, s3t_Bucket = sb_BucketName spec\<rparr>
                in case s3_New s3 target of
                     Some e \<Rightarrow> Inl (ManifestOther (''create S3 client for hibernation manifest: '' @ s3e_Text e))
                   | None \<Rightarrow> Inr target)))"

definition hibernationManifestChecksum :: "string \<Rightarrow> string" where
  "hibernationManifestChecksum bytes = ''sha256:'' @ EncodeToString (Sum256 bytes)"

fun hibernationManifestMetadataChecksum :: "(string \<times> string) list \<Rightarrow> string" where
  "hibernationManifestMetadataChecksum [] = []"
| "hibernationManifestMetadataChecksum ((key, val) # metadata) =
     (if ToLower (TrimPrefix (ToLower key) ''x-amz-meta-'') = hibernationManifestChecksumMetadata then TrimSpace val
      else hibernationManifestMetadataChecksum metadata)"

definition objectName :: "StorageBackendSpec \<Rightarrow> string \<Rightarrow> string" where
  "objectName spec key = sb_BucketName spec @ ''/'' @ key"

definition wrapS3 :: "string \<Rightarrow> s3_error \<Rightarrow> manifest_error" where
  "wrapS3 context e = ManifestS3 (e\<lparr>s3e_Text := context @ '': '' @ s3e_Text e\<rparr>)"

definition S3Write :: "s3_api \<Rightarrow> string \<Rightarrow> StorageBackendSpec \<Rightarrow> string \<Rightarrow> hibernationManifest \<Rightarrow> manifest_error + string" where
  "S3Write s3 namespace spec key manifest =
     (let bytes = MarshalIndent (manifestDocument manifest); checksum = hibernationManifestChecksum bytes
      in case openTarget s3 namespace spec of
           Inl e \<Rightarrow> Inl e
         | Inr target \<Rightarrow>
             (case s3_PutObject s3 target key bytes [(hibernationManifestChecksumMetadata, checksum)] of
                Some e \<Rightarrow> Inl (wrapS3 (''upload hibernation manifest '' @ objectName spec key) e)
              | None \<Rightarrow> Inr checksum))"

text \<open>The checks of \<open>Read\<close> on the bytes of an object of the given metadata.\<close>

definition checkManifest :: "string \<Rightarrow> (string \<times> string) list \<Rightarrow> string \<Rightarrow> manifest_error + hibernationManifest \<times> string" where
  "checkManifest name metadata bytes =
     (let checksum = hibernationManifestChecksum bytes; metadataChecksum = hibernationManifestMetadataChecksum metadata
      in if length bytes > hibernationManifestMaximumBytes
         then Inl (ManifestInvalid (''hibernation manifest invalid: hibernation manifest '' @ name @ '' exceeds '' @
           Itoa (int hibernationManifestMaximumBytes) @ '' bytes''))
         else if metadataChecksum \<noteq> [] \<and> metadataChecksum \<noteq> checksum
         then Inl (ManifestChecksumMismatch (''hibernation manifest checksum mismatch: metadata '' @ metadataChecksum @ '', computed '' @ checksum))
         else case parseManifest bytes of
             None \<Rightarrow> Inl (ManifestInvalid (''hibernation manifest invalid: parse hibernation manifest '' @ name))
           | Some manifest \<Rightarrow>
               if hm_ManifestVersion manifest \<noteq> hibernationManifestVersion
               then Inl (ManifestInvalid (''hibernation manifest invalid: unsupported hibernation manifest version '' @ Quote (hm_ManifestVersion manifest)))
               else Inr (manifest, checksum))"

definition S3Read :: "s3_api \<Rightarrow> string \<Rightarrow> StorageBackendSpec \<Rightarrow> string \<Rightarrow> manifest_error + hibernationManifest \<times> string" where
  "S3Read s3 namespace spec key =
     (case openTarget s3 namespace spec of
        Inl e \<Rightarrow> Inl e
      | Inr target \<Rightarrow>
          (case s3_GetObject s3 target key of
             Inl e \<Rightarrow> Inl (wrapS3 (''open hibernation manifest '' @ objectName spec key) e)
           | Inr object \<Rightarrow>
               (case s3o_Stat object of
                  Inl e \<Rightarrow> Inl (wrapS3 (''stat hibernation manifest '' @ objectName spec key) e)
                | Inr (sz, metadata) \<Rightarrow>
                    if sz > int hibernationManifestMaximumBytes
                    then Inl (ManifestInvalid (''hibernation manifest invalid: hibernation manifest '' @ objectName spec key @ '' is '' @
                      Itoa sz @ '' bytes; maximum is '' @ Itoa (int hibernationManifestMaximumBytes)))
                    else (case s3o_Read object of
                        Inl e \<Rightarrow> Inl (wrapS3 (''read hibernation manifest '' @ objectName spec key) e)
                      | Inr body \<Rightarrow> checkManifest (objectName spec key) metadata (take (hibernationManifestMaximumBytes + 1) body)))))"

definition isPermanentHibernationManifestReadError :: "manifest_error \<Rightarrow> bool" where
  "isPermanentHibernationManifestReadError err =
     (case err of
        ManifestChecksumMismatch _ \<Rightarrow> True
      | ManifestInvalid _ \<Rightarrow> True
      | ManifestS3 e \<Rightarrow> s3e_Code e = ''NoSuchKey'' \<or> s3e_Code e = ''NoSuchBucket''
      | ManifestOther _ \<Rightarrow> False)"

definition manifestErrorText :: "manifest_error \<Rightarrow> string" where
  "manifestErrorText err =
     (case err of ManifestChecksumMismatch m \<Rightarrow> m | ManifestInvalid m \<Rightarrow> m | ManifestS3 e \<Rightarrow> s3e_Text e | ManifestOther m \<Rightarrow> m)"

section \<open>Decoding the document\<close>

lemmas decode_defs = stringField_def structField_def decodeStruct_def lookupField_def member_def omitempty_def

lemma decode_tamoss: "decodeStruct tamossFields (tamossDocument x) \<lparr>hmt_Name = [], hmt_Namespace = [], hmt_UID = []\<rparr> = Some x"
  by (cases x) (simp add: decode_defs tamossFields_def tamossDocument_def)

lemma decode_schema:
  "decodeStruct schemaFields (schemaDocument x) \<lparr>hms_Version = [], hms_TAMSAPI = [], hms_Operator = [], hms_ManifestKind = []\<rparr> = Some x"
  by (cases x) (simp add: decode_defs schemaFields_def schemaDocument_def)

lemma decode_database: "decodeStruct databaseFields (databaseDocument x) \<lparr>hmd_Provider = [], hmd_Cluster = []\<rparr> = Some x"
  by (cases x) (simp add: decode_defs databaseFields_def databaseDocument_def)

lemma decode_artifact: "decodeStruct artifactFields (artifactDocument x) \<lparr>hma_ManifestKey = [], hma_ManifestURI = []\<rparr> = Some x"
  by (cases x) (simp add: decode_defs artifactFields_def artifactDocument_def)

lemma decode_cnpg:
  "decodeStruct cnpgFields (cnpgDocument x)
     \<lparr>hmc_BackupName = [], hmc_BackupID = [], hmc_DestinationPath = [], hmc_ServerName = [], hmc_Phase = []\<rparr> = Some x"
  by (cases x) (simp add: decode_defs cnpgFields_def cnpgDocument_def)

lemma decode_storageBackend:
  "decodeStruct storageBackendFields (storageBackendDocument x) \<lparr>hmb_Name = [], hmb_Bucket = [], hmb_EndpointURL = [], hmb_Region = []\<rparr> = Some x"
  by (cases x) (simp add: decode_defs storageBackendFields_def storageBackendDocument_def)

lemma decode_document: "decodeStruct manifestFields (manifestDocument m) zeroManifest = Some m"
proof -
  have "decodeStruct manifestFields (manifestDocument m) zeroManifest =
      decodeMembers manifestFields (case manifestDocument m of JObj ms \<Rightarrow> ms) zeroManifest"
    by (simp add: decodeStruct_def manifestDocument_def)
  then show ?thesis
    by (cases m) (simp add: manifestDocument_def manifestFields_def zeroManifest_def stringField_def structField_def lookupField_def
        member_def decode_tamoss decode_schema decode_database decode_artifact decode_cnpg decode_storageBackend)
qed

lemma document_shape: "numberFree (manifestDocument m)" "nesting (manifestDocument m) \<le> 10000"
  by (simp_all add: manifestDocument_def tamossDocument_def schemaDocument_def databaseDocument_def artifactDocument_def
      cnpgDocument_def storageBackendDocument_def member_def omitempty_def)

lemma parse_marshalled: "parseManifest (MarshalIndent (manifestDocument m)) = Some m"
  by (simp add: parseManifest_def Unmarshal_MarshalIndent document_shape decode_document)

section \<open>Reading what was written\<close>

lemma checksum_trimmed [simp]: "TrimSpace (hibernationManifestChecksum bytes) = hibernationManifestChecksum bytes"
proof -
  have "EncodeToString (Sum256 bytes) \<noteq> []" using length_EncodeToString [of "Sum256 bytes"] by fastforce
  then have "isHexLower (last (hibernationManifestChecksum bytes))"
    using EncodeToString_hex [of "Sum256 bytes"] by (simp add: hibernationManifestChecksum_def list_all_iff)
  then have "\<not> isSpace (last (hibernationManifestChecksum bytes))"
    by (auto simp: isSpace_def isHexLower_def less_eq_char_def)
  then show ?thesis
    by (simp add: TrimSpace_def TrimLeftFunc_id TrimRightFunc_id hibernationManifestChecksum_def isSpace_def)
qed

text \<open>What a successful read guarantees about the stored object.\<close>

lemma read_verified:
  assumes "S3Read s3 namespace spec key = Inr (m, checksum)"
  obtains target object sz metadata body where "openTarget s3 namespace spec = Inr target" "s3_GetObject s3 target key = Inr object"
    "s3o_Stat object = Inr (sz, metadata)" "s3o_Read object = Inr body" "length body \<le> hibernationManifestMaximumBytes"
    "checksum = hibernationManifestChecksum body" "parseManifest body = Some m" "hm_ManifestVersion m = hibernationManifestVersion"
    "hibernationManifestMetadataChecksum metadata = [] \<or> hibernationManifestMetadataChecksum metadata = checksum"
  using assms
  by (auto simp: S3Read_def checkManifest_def Let_def split: sum.splits option.splits if_splits prod.splits)

text \<open>
  A manifest of the current version that was written to the object store is read back as it was, with the checksum that
  the write returned, from any object that holds the written bytes and their checksum as user metadata under
  any spelling of the metadata key.
\<close>

lemma read_after_write:
  assumes "S3Write s3 namespace spec key m = Inr checksum" and "hm_ManifestVersion m = hibernationManifestVersion"
    and "length (MarshalIndent (manifestDocument m)) \<le> hibernationManifestMaximumBytes"
    and "openTarget s3' namespace spec = Inr target"
    and "s3_GetObject s3' target key = Inr \<lparr>s3o_Stat = Inr (int (length (MarshalIndent (manifestDocument m))), [(header, checksum)]),
      s3o_Read = Inr (MarshalIndent (manifestDocument m))\<rparr>"
    and "ToLower (TrimPrefix (ToLower header) ''x-amz-meta-'') = hibernationManifestChecksumMetadata"
  shows "S3Read s3' namespace spec key = Inr (m, checksum)"
proof -
  have "checksum = hibernationManifestChecksum (MarshalIndent (manifestDocument m))"
    using assms(1) by (auto simp: S3Write_def Let_def split: sum.splits option.splits)
  then show ?thesis
    using assms(2-6) by (simp add: S3Read_def checkManifest_def Let_def parse_marshalled)
qed

definition exampleS3 :: "s3_object \<Rightarrow> s3_api" where
  "exampleS3 object = \<lparr>s3_New = (\<lambda>_. None), s3_PutObject = (\<lambda>t k b m. None), s3_GetObject = (\<lambda>t k. Inr object),
     s3_getSecret = (\<lambda>ns n. Inr Map.empty), s3_apiErrorText = (\<lambda>_. [])\<rparr>"

definition exampleDestination :: StorageBackendSpec where
  "exampleDestination = \<lparr>sb_ID = [], sb_TamossRef = [], sb_Provider = ''external-s3'', sb_Usage = ''hibernate'', sb_DefaultStorage = False,
     sb_Label = [], sb_Region = ''eu-west-2'', sb_StoreProduct = [], sb_StoreType = [], sb_BucketName = ''cold'',
     sb_Endpoint = \<lparr>s3e_Default = \<lparr>eurl_URL = ''https://s3.example''\<rparr>, s3e_Public = \<lparr>eurl_URL = []\<rparr>\<rparr>,
     sb_Credentials = \<lparr>sref_ExistingSecret = ''s3'', sref_SecretKeys = zeroSecretKeys\<rparr>, sb_CredentialSource = [],
     sb_Retention = \<lparr>hrs_Mode = ''Retain'', hrs_TTLSecondsAfterResume = 0\<rparr>\<rparr>"

lemma read_after_write_example:
  "let m = zeroManifest\<lparr>hm_ManifestVersion := hibernationManifestVersion\<rparr>; bytes = MarshalIndent (manifestDocument m);
       stored = \<lparr>s3o_Stat = Inr (int (length bytes), [(''X-Amz-Meta-Tamoss-Checksum'', hibernationManifestChecksum bytes)]), s3o_Read = Inr bytes\<rparr>
   in S3Read (exampleS3 stored) ''media'' exampleDestination ''a/manifest.json'' = Inr (m, hibernationManifestChecksum bytes)"
proof -
  let ?m = "zeroManifest\<lparr>hm_ManifestVersion := hibernationManifestVersion\<rparr>"
  let ?bytes = "MarshalIndent (manifestDocument ?m)"
  let ?stored = "\<lparr>s3o_Stat = Inr (int (length ?bytes), [(''X-Amz-Meta-Tamoss-Checksum'', hibernationManifestChecksum ?bytes)]), s3o_Read = Inr ?bytes\<rparr>"
  have endpoint: "hibernationS3Endpoint ''https://s3.example'' = Inr (''s3.example'', True)" by code_simp
  then obtain target where target: "openTarget (exampleS3 object) ''media'' exampleDestination = Inr target" for object
    by (simp add: openTarget_def exampleS3_def exampleDestination_def storageBackendCredentials_def)
  have written: "S3Write (exampleS3 ?stored) ''media'' exampleDestination ''a/manifest.json'' ?m = Inr (hibernationManifestChecksum ?bytes)"
    using target by (simp add: S3Write_def Let_def exampleS3_def)
  have "length ?bytes \<le> 1000" by code_simp
  then have small: "length ?bytes \<le> hibernationManifestMaximumBytes" by (simp add: hibernationManifestMaximumBytes_def)
  have header: "ToLower (TrimPrefix (ToLower ''X-Amz-Meta-Tamoss-Checksum'') ''x-amz-meta-'') = hibernationManifestChecksumMetadata"
    by code_simp
  show ?thesis
    unfolding Let_def
    by (rule read_after_write [OF written _ small target _ header]) (simp_all add: exampleS3_def)
qed

end
