(* ===== verification/Hibernate.thy ===== *)
theory Hibernate
  imports Hibernate_Manifest Go_Path
begin

text \<open>
  The TamossHibernate controller (\<open>tamosshibernate_controller.go\<close>): it captures the database of an instance as
  a backup and a manifest in an object store, and then removes the database. \<open>hib_env\<close> is what one reconcile
  sees of the outside; \<open>hibernateReconcile\<close> is \<open>Reconcile\<close>.
\<close>

section \<open>Objects\<close>

text \<open>The resources of CloudNativePG, apps and autoscaling, as far as the controller reads or sets them.\<close>

record BarmanObjectStore =
  bos_EndpointURL :: string
  bos_DestinationPath :: string
  bos_ServerName :: string
  bos_AccessKeyID :: "string \<times> string"
  bos_SecretAccessKey :: "string \<times> string"

record CNPGCluster =
  cl_Meta :: ObjectMeta
  cl_BarmanObjectStore :: "BarmanObjectStore option"
  cl_Conditions :: "Condition list"

record CNPGBackup =
  bk_Meta :: ObjectMeta
  bk_Cluster :: string
  bk_Method :: string
  bk_Phase :: string
  bk_DestinationPath :: string
  bk_BackupID :: string
  bk_Error :: string
  bk_CommandError :: string

record CNPGScheduledBackup =
  sch_Meta :: ObjectMeta
  sch_Suspend :: "bool option"

record Deployment =
  dep_Meta :: ObjectMeta
  dep_Replicas :: "int option"
  dep_Selector :: string
  dep_StatusReplicas :: int
  dep_ReadyReplicas :: int
  dep_AvailableReplicas :: int
  dep_UpdatedReplicas :: int
  dep_TerminatingReplicas :: "int option"

abbreviation "BackupPhaseCompleted \<equiv> ''completed''"
abbreviation "BackupPhaseFailed \<equiv> ''failed''"
abbreviation "BackupPhasePending \<equiv> ''pending''"
abbreviation "tamossHibernateFinalizer \<equiv> ''tamosshibernate.tamoss.livewyer.io/finalizer''"
abbreviation "AnnotationOperationRetry \<equiv> ''tamoss.livewyer.io/operation-retry''"
abbreviation "HibernationDriverCNPGPhysical \<equiv> ''cnpgPhysical''"

abbreviation "th_Name h \<equiv> om_Name (th_Meta h)"
abbreviation "th_Namespace h \<equiv> om_Namespace (th_Meta h)"
abbreviation "hibernatePhase h \<equiv> tos_Phase (th_Status h)"

datatype hib_write =
    PatchHibernateMeta ObjectMeta
  | PatchHibernateStatus TamossOperationStatus
  | PatchLifecycle Tamoss
  | HibernateEvent event
  | DeleteBackup string
  | PatchClusterBackup CNPGCluster
  | SuspendScheduledBackup string
  | DeleteAutoscaler string
  | ScaleToZero string
  | CreateBackup CNPGBackup
  | UploadManifest string hibernationManifest string
  | DeleteCluster string

record hib_env =
  he_lib :: kube_lib
  he_Releases :: Catalogue
  he_InstanceDefaults :: "Installation option"
  he_WatchNamespaces :: WatchNamespaceSet
  he_PollInterval :: Duration
  he_recorder :: bool
  he_now :: time
  he_operatorSchema :: string
  he_lifecycle :: lifecycle_store
  he_getHibernate :: "string \<Rightarrow> string \<Rightarrow> TamossHibernate api"
  he_getTamoss :: "string \<Rightarrow> string \<Rightarrow> Tamoss api"
  he_getStorageBackend :: "string \<Rightarrow> string \<Rightarrow> StorageBackend api"
  he_getBackup :: "string \<Rightarrow> string \<Rightarrow> CNPGBackup api"
  he_getCluster :: "string \<Rightarrow> string \<Rightarrow> CNPGCluster api"
  he_getScheduledBackup :: "string \<Rightarrow> string \<Rightarrow> CNPGScheduledBackup api"
  he_getAutoscaler :: "string \<Rightarrow> string \<Rightarrow> ObjectMeta api"
  he_getDeployment :: "string \<Rightarrow> string \<Rightarrow> Deployment api"
  he_podSelector :: "string \<Rightarrow> string + string"
  he_listPodPhases :: "string \<Rightarrow> string \<Rightarrow> string list api"
  he_patchMeta :: "ObjectMeta \<Rightarrow> unit api"
  he_patchStatus :: "TamossHibernate \<Rightarrow> unit api"
  he_deleteBackup :: "CNPGBackup \<Rightarrow> unit api"
  he_patchCluster :: "CNPGCluster \<Rightarrow> CNPGCluster api"
  he_patchScheduledBackup :: "CNPGScheduledBackup \<Rightarrow> unit api"
  he_deleteAutoscaler :: "ObjectMeta \<Rightarrow> unit api"
  he_scaleDeployment :: "Deployment \<Rightarrow> Deployment api"
  he_createBackup :: "CNPGBackup \<Rightarrow> CNPGBackup api"
  he_writeManifest :: "string \<Rightarrow> StorageBackendSpec \<Rightarrow> string \<Rightarrow> hibernationManifest \<Rightarrow> manifest_error + string"
  he_deleteCluster :: "CNPGCluster \<Rightarrow> unit api"

type_synonym 'a hib_act = "(hib_write, 'a) act"

text \<open>A stage that either goes on or has recorded why the operation has to wait or has failed.\<close>

datatype 'a stage = Proceed 'a | Settled TamossHibernate

section \<open>Status and lifecycle\<close>

definition pollInterval :: "hib_env \<Rightarrow> Duration" where
  "pollInterval env = (if he_PollInterval env > 0 then he_PollInterval env else 10 * Second)"

definition emitEvents :: "event list \<Rightarrow> unit hib_act" where
  "emitEvents es = (map HibernateEvent es, Inr ())"

definition updateHibernateStatus ::
    "hib_env \<Rightarrow> TamossHibernate \<Rightarrow> TamossOperationPhase \<Rightarrow> string \<Rightarrow> string \<Rightarrow> HibernationArtifactStatus \<Rightarrow> TamossHibernate hib_act" where
  "updateHibernateStatus env h phase reason message artifact =
     (let st = setOperationStatus (he_lib env) (he_now env) (th_Status h) (om_Generation (th_Meta h)) phase reason message artifact;
          h' = h\<lparr>th_Status := st\<rparr>
      in if operationStatusSemanticEqual (th_Status h) st then yield h'
         else andThen (issue (PatchHibernateStatus st) (he_patchStatus env h')) (\<lambda>_.
              andThen (emitEvents (recordOperationEvents (he_recorder env) (th_Meta h) (th_Status h) st)) (\<lambda>_. yield h')))"

definition patchLifecycle :: "hib_env \<Rightarrow> Tamoss \<Rightarrow> lifecycle_change \<Rightarrow> Tamoss hib_act" where
  "patchLifecycle env tamoss mutate = mapWrites PatchLifecycle (patchTamossLifecycleStatus (he_lifecycle env) tamoss mutate)"

abbreviation "hibernateRef h \<equiv> operationObjectReference (th_Meta h) ''TamossHibernate''"
abbreviation "refersTo ref h \<equiv> operationRefMatches ref (th_Meta h) ''TamossHibernate''"

definition completedLifecycle :: "TamossHibernate \<Rightarrow> lifecycle_change" where
  "completedLifecycle h lifecycle =
     (setLifecycleOperationState LifecycleHibernated ''TamossHibernated''
        (''TamossHibernate '' @ th_Name h @ '' completed and TAMOSS is hibernated'') None lifecycle)
       \<lparr>tls_LastHibernateRef := Some (hibernateRef h)\<rparr>"

definition completeHibernateLifecycle :: "hib_env \<Rightarrow> Tamoss \<Rightarrow> TamossHibernate \<Rightarrow> Tamoss hib_act" where
  "completeHibernateLifecycle env tamoss h = patchLifecycle env tamoss (completedLifecycle h)"

definition failedLifecycle :: "TamossHibernate \<Rightarrow> string \<Rightarrow> string \<Rightarrow> lifecycle_change" where
  "failedLifecycle h reason message lifecycle =
     (setLifecycleOperationState LifecycleFailed reason message None lifecycle)\<lparr>tls_LastHibernateRef := Some (hibernateRef h)\<rparr>"

definition setHibernateLifecycleFailed :: "hib_env \<Rightarrow> Tamoss \<Rightarrow> TamossHibernate \<Rightarrow> string \<Rightarrow> string \<Rightarrow> Tamoss hib_act" where
  "setHibernateLifecycleFailed env tamoss h reason message = patchLifecycle env tamoss (failedLifecycle h reason message)"

definition hibernateLifecycleOwnedBy :: "Tamoss \<Rightarrow> TamossHibernate \<Rightarrow> bool" where
  "hibernateLifecycleOwnedBy tamoss h \<longleftrightarrow>
     (let lc = tst_Lifecycle (tm_Status tamoss)
      in refersTo (tls_ActiveOperationRef lc) h \<or> tls_Phase lc = LifecycleHibernated \<and> refersTo (tls_LastHibernateRef lc) h)"

definition failActiveHibernateLifecycle :: "hib_env \<Rightarrow> TamossHibernate \<Rightarrow> string \<Rightarrow> string \<Rightarrow> unit hib_act" where
  "failActiveHibernateLifecycle env h reason message =
     (if ths_TamossRef (th_Spec h) = [] then yield ()
      else andThen (readOptional (he_getTamoss env (th_Namespace h) (ths_TamossRef (th_Spec h)))) (\<lambda>found.
        case found of
          None \<Rightarrow> yield ()
        | Some tamoss \<Rightarrow>
            if \<not> refersTo (tls_ActiveOperationRef (tst_Lifecycle (tm_Status tamoss))) h then yield ()
            else andThen (patchLifecycle env tamoss (failedLifecycle h reason message)) (\<lambda>_. yield ())))"

section \<open>Source and destination\<close>

definition settle ::
    "hib_env \<Rightarrow> TamossHibernate \<Rightarrow> TamossOperationPhase \<Rightarrow> string \<Rightarrow> string \<Rightarrow> HibernationArtifactStatus \<Rightarrow> 'a stage hib_act" where
  "settle env h phase reason message artifact =
     andThen (updateHibernateStatus env h phase reason message artifact) (\<lambda>h'. yield (Settled h'))"

definition resolveHibernateTamoss :: "hib_env \<Rightarrow> TamossHibernate \<Rightarrow> Tamoss stage hib_act" where
  "resolveHibernateTamoss env h =
     (let name = ths_TamossRef (th_Spec h)
      in if name = [] then settle env h OperationFailed ''TamossNotFound'' ''spec.tamossRef.name is required'' zeroArtifact
         else andThen (readOptional (he_getTamoss env (th_Namespace h) name)) (\<lambda>found.
           case found of
             None \<Rightarrow> settle env h OperationResolvingSource ''TamossNotFound''
               (''Referenced Tamoss '' @ name @ '' was not found'') zeroArtifact
           | Some tamoss \<Rightarrow>
               (case resolveTamoss (he_lib env) (he_Releases env) (he_InstanceDefaults env) tamoss of
                  Inl err \<Rightarrow> settle env h OperationResolvingSource (releaseErrorReason (Selection err)) (se_Message err) zeroArtifact
                | Inr resolved \<Rightarrow> yield (Proceed resolved))))"

definition storageBackendFromDestination :: "StorageBackend \<Rightarrow> StorageBackendSpec" where
  "storageBackendFromDestination b = storageBackendApplyDefaults (sbk_Spec b) (om_Namespace (sbk_Meta b)) (om_Name (sbk_Meta b))"

definition resolveHibernateDestination :: "hib_env \<Rightarrow> TamossHibernate \<Rightarrow> StorageBackend stage hib_act" where
  "resolveHibernateDestination env h =
     (let name = lref_Name (hd_StorageBackendRef (ths_Destination (th_Spec h)))
      in if name = [] then settle env h OperationFailed ''HibernateDestinationInvalid''
             ''spec.destination.storageBackendRef.name is required'' zeroArtifact
         else andThen (readOptional (he_getStorageBackend env (th_Namespace h) name)) (\<lambda>found.
           case found of
             None \<Rightarrow> settle env h OperationPreparingTarget ''StorageBackendNotReady''
               (''Hibernate destination StorageBackend '' @ name @ '' was not found'') zeroArtifact
           | Some b \<Rightarrow>
               (let spec = storageBackendFromDestination b; own = om_Name (sbk_Meta b)
                in if \<not> IsHibernateDestination spec then settle env h OperationFailed ''HibernateDestinationInvalid''
                       (''StorageBackend '' @ own @ '' must set spec.usage=hibernate'') zeroArtifact
                   else if \<not> IsExternalObjectStore spec then settle env h OperationFailed ''HibernateDestinationInvalid''
                       (''StorageBackend '' @ own @ '' must use provider external-s3'') zeroArtifact
                   else if sbs_Phase (sbk_Status b) \<noteq> ''Ready'' then settle env h OperationPreparingTarget ''StorageBackendNotReady''
                       (''Hibernate destination StorageBackend '' @ own @ '' is not ready'') zeroArtifact
                   else yield (Proceed b))))"

definition hibernateDriver :: "TamossHibernate \<Rightarrow> string" where
  "hibernateDriver h = orElse (ths_Driver (th_Spec h)) HibernationDriverCNPGPhysical"

definition hibernateDestinationPrefix :: "TamossHibernate \<Rightarrow> string" where
  "hibernateDestinationPrefix h = orElse (hd_Prefix (ths_Destination (th_Spec h))) (''hibernations/'' @ ths_TamossRef (th_Spec h))"

definition hibernateManifestKey :: "TamossHibernate \<Rightarrow> string" where
  "hibernateManifestKey h = pathJoin [hibernateDestinationPrefix h, th_Name h, ''manifest.json'']"

definition unsafeSegment :: "string \<Rightarrow> bool" where
  "unsafeSegment segment \<longleftrightarrow> segment = [] \<or> segment = ''.'' \<or> segment = ''..''"

definition validateHibernationDestinationPrefix :: "string \<Rightarrow> string option" where
  "validateHibernationDestinationPrefix pre =
     (if TrimSpace pre \<noteq> pre then Some ''spec.destination.prefix must not have leading or trailing whitespace''
      else if pre = [] then None
      else if HasPrefix pre ''/'' \<or> HasSuffix pre ''/'' \<or> Clean pre \<noteq> pre
      then Some (''spec.destination.prefix '' @ Quote pre @ '' must be a normalized relative object-key prefix'')
      else if list_ex unsafeSegment (Split (CHR ''/'') pre)
      then Some (''spec.destination.prefix '' @ Quote pre @ '' contains an unsafe path segment'')
      else None)"

definition buildHibernateArtifact :: "TamossHibernate \<Rightarrow> StorageBackend \<Rightarrow> HibernationArtifactStatus \<times> string option" where
  "buildHibernateArtifact h destination =
     (let artifact = zeroArtifact\<lparr>hst_Driver := hibernateDriver h, hst_ManifestKey := hibernateManifestKey h\<rparr>;
          bucket = sb_BucketName (storageBackendFromDestination destination)
      in case validateHibernationDestinationPrefix (hd_Prefix (ths_Destination (th_Spec h))) of
           Some e \<Rightarrow> (artifact, Some e)
         | None \<Rightarrow> (if bucket \<noteq> [] then artifact\<lparr>hst_ManifestURI := ''s3://'' @ bucket @ ''/'' @ hst_ManifestKey artifact\<rparr> else artifact, None))"

definition hibernateCompatibilityError :: "Tamoss \<Rightarrow> TamossHibernate \<Rightarrow> string option" where
  "hibernateCompatibilityError tamoss h =
     (if hibernateDriver h \<noteq> HibernationDriverCNPGPhysical
      then Some (''hibernate driver '' @ Quote (hibernateDriver h) @ '' is not supported yet'')
      else if dbProvider (be_DB (ts_Backends (tm_Spec tamoss))) \<noteq> ''cnpg''
      then Some ''cnpgPhysical hibernate requires a managed CNPG database backend''
      else if s3Provider (be_S3 (ts_Backends (tm_Spec tamoss))) \<noteq> ''external''
      then Some ''portable hibernation requires an external S3 media backend; managed RustFS media is not included in the database artifact''
      else None)"

definition validateHibernateSourceSchema ::
    "hib_env \<Rightarrow> Tamoss \<Rightarrow> TamossHibernate \<Rightarrow> HibernationArtifactStatus \<Rightarrow> unit stage hib_act" where
  "validateHibernateSourceSchema env tamoss h artifact =
     (if hibernateLifecycleOwnedBy tamoss h then yield (Proceed ())
      else if \<not> IsStatusConditionTrue (he_lib env) (tst_Conditions (tm_Status tamoss)) ''SchemaMigrated'' \<or>
        \<not> AppliedTo (he_InstanceDefaults env) tamoss
      then settle env h OperationResolvingSource ''SchemaNotReady''
        (''Tamoss '' @ tm_Name tamoss @ '' is waiting for schema migration before hibernation'') artifact
      else (let version = TrimSpace (tst_SchemaVersion (tm_Status tamoss))
        in if version = [] \<or>
              \<not> Supports (rel_Schema (deref zeroRelease (he_Releases env (ts_Version (tm_Spec tamoss))))) version
           then settle env h OperationFailed ''UnsupportedSchemaVersion''
             (''Tamoss '' @ tm_Name tamoss @ '' schema version '' @ Quote version @ '' is not supported for hibernation'') artifact
           else yield (Proceed ())))"

section \<open>Taking the instance down\<close>

text \<open>\<open>None\<close>: the operation may not go on.\<close>

definition acquireHibernateLifecycle :: "hib_env \<Rightarrow> Tamoss \<Rightarrow> TamossHibernate \<Rightarrow> Tamoss option hib_act" where
  "acquireHibernateLifecycle env tamoss h =
     (let lc = tst_Lifecycle (tm_Status tamoss); active = tls_ActiveOperationRef lc;
          conflict = (\<lambda>message. andThen (updateHibernateStatus env h OperationFailed ''LifecycleOperationConflict'' message zeroArtifact)
            (\<lambda>_. yield None))
      in if active \<noteq> None \<and> \<not> refersTo active h
         then conflict (''Tamoss '' @ tm_Name tamoss @ '' already has active lifecycle operation '' @
                oref_Kind (the active) @ ''/'' @ oref_Name (the active))
         else if tls_Phase lc = LifecycleHibernated
         then if refersTo (tls_LastHibernateRef lc) h then yield (Some tamoss)
              else conflict (''Tamoss '' @ tm_Name tamoss @ '' is already hibernated'')
         else andThen (patchLifecycle env tamoss (setLifecycleOperationState LifecycleHibernating ''TamossHibernating''
                (''TamossHibernate '' @ th_Name h @ '' is creating a hibernation artifact'') (Some (hibernateRef h)))) (\<lambda>t.
              yield (Some t)))"

definition loadHibernateCNPGCluster ::
    "hib_env \<Rightarrow> Tamoss \<Rightarrow> TamossHibernate \<Rightarrow> HibernationArtifactStatus \<Rightarrow> CNPGCluster stage hib_act" where
  "loadHibernateCNPGCluster env tamoss h artifact =
     andThen (readOptional (he_getCluster env (tm_Namespace tamoss) (ResourceName tamoss ''db''))) (\<lambda>found.
       case found of
         None \<Rightarrow> settle env h OperationPreparingTarget ''ClusterNotReady''
           (''CNPG Cluster '' @ ResourceName tamoss ''db'' @ '' was not found'') artifact
       | Some cluster \<Rightarrow> yield (Proceed cluster))"

definition suspendHibernateScheduledBackup :: "hib_env \<Rightarrow> Tamoss \<Rightarrow> unit hib_act" where
  "suspendHibernateScheduledBackup env tamoss =
     andThen (readOptional (he_getScheduledBackup env (tm_Namespace tamoss) (ResourceName tamoss ''db-backup''))) (\<lambda>found.
       case found of
         None \<Rightarrow> yield ()
       | Some scheduled \<Rightarrow>
           (let name = om_Name (sch_Meta scheduled)
            in if \<not> IsControlledBy (he_lib env) (sch_Meta scheduled) (tm_Meta tamoss)
               then raise (Errorf (''CNPG ScheduledBackup '' @ name @ '' is not owned by Tamoss '' @ tm_Name tamoss))
               else if sch_Suspend scheduled = Some True then yield ()
               else issue (SuspendScheduledBackup name) (he_patchScheduledBackup env (scheduled\<lparr>sch_Suspend := Some True\<rparr>))))"

definition hibernateBarmanObjectStore :: "string \<Rightarrow> TamossHibernate \<Rightarrow> StorageBackendSpec \<Rightarrow> BarmanObjectStore" where
  "hibernateBarmanObjectStore serverName h spec =
     \<lparr>bos_EndpointURL = eurl_URL (s3e_Default (sb_Endpoint spec)),
      bos_DestinationPath = ''s3://'' @ sb_BucketName spec @ ''/'' @ pathJoin [hibernateDestinationPrefix h, th_Name h, ''cnpg''],
      bos_ServerName = serverName,
      bos_AccessKeyID = (sref_ExistingSecret (sb_Credentials spec), storageBackendAccessKey spec),
      bos_SecretAccessKey = (sref_ExistingSecret (sb_Credentials spec), storageBackendSecretKey spec)\<rparr>"

definition ensureHibernateCNPGBackupConfiguration ::
    "hib_env \<Rightarrow> CNPGCluster \<Rightarrow> TamossHibernate \<Rightarrow> StorageBackend \<Rightarrow> CNPGCluster hib_act" where
  "ensureHibernateCNPGBackupConfiguration env cluster h destination =
     (let store = hibernateBarmanObjectStore (om_Name (cl_Meta cluster)) h (storageBackendFromDestination destination);
          cluster = cluster\<lparr>cl_BarmanObjectStore := Some store\<rparr>
      in issue (PatchClusterBackup cluster) (he_patchCluster env cluster))"

definition quiesceAutoscaler :: "hib_env \<Rightarrow> Tamoss \<Rightarrow> string \<Rightarrow> bool hib_act" where
  "quiesceAutoscaler env tamoss name =
     andThen (readOptional (he_getAutoscaler env (tm_Namespace tamoss) name)) (\<lambda>found.
       case found of
         None \<Rightarrow> yield True
       | Some autoscaler \<Rightarrow>
           if \<not> IsControlledBy (he_lib env) autoscaler (tm_Meta tamoss)
           then raise (Errorf (''HorizontalPodAutoscaler '' @ om_Name autoscaler @ '' is not owned by Tamoss '' @ tm_Name tamoss))
           else andThen (issueDelete (DeleteAutoscaler (om_Name autoscaler)) (he_deleteAutoscaler env autoscaler)) (\<lambda>_. yield False))"

definition replicasGone :: "Deployment \<Rightarrow> bool" where
  "replicasGone d \<longleftrightarrow> dep_StatusReplicas d = 0 \<and> dep_ReadyReplicas d = 0 \<and> dep_AvailableReplicas d = 0 \<and>
     dep_UpdatedReplicas d = 0 \<and> deref 0 (dep_TerminatingReplicas d) = 0"

definition podFinished :: "string \<Rightarrow> bool" where
  "podFinished phase \<longleftrightarrow> phase = ''Succeeded'' \<or> phase = ''Failed''"

definition quiesceDeployment :: "hib_env \<Rightarrow> Tamoss \<Rightarrow> string \<Rightarrow> bool hib_act" where
  "quiesceDeployment env tamoss name =
     andThen (readOptional (he_getDeployment env (tm_Namespace tamoss) name)) (\<lambda>found.
       case found of
         None \<Rightarrow> yield True
       | Some d \<Rightarrow>
           if \<not> IsControlledBy (he_lib env) (dep_Meta d) (tm_Meta tamoss)
           then raise (Errorf (''deployment '' @ om_Name (dep_Meta d) @ '' is not owned by Tamoss '' @ tm_Name tamoss))
           else
             (let idle = deref 1 (dep_Replicas d) = 0
              in andThen (if idle then yield d
                          else issue (ScaleToZero (om_Name (dep_Meta d))) (he_scaleDeployment env (d\<lparr>dep_Replicas := Some 0\<rparr>))) (\<lambda>d.
                 case he_podSelector env (dep_Selector d) of
                   Inl e \<Rightarrow> raise (Errorf (''resolve Deployment '' @ om_Name (dep_Meta d) @ '' pod selector: '' @ e))
                 | Inr selector \<Rightarrow>
                     andThen (readAct (he_listPodPhases env (tm_Namespace tamoss) selector)) (\<lambda>phases.
                     yield (idle \<and> replicasGone d \<and> list_all podFinished phases)))))"

fun quiesceComponents :: "hib_env \<Rightarrow> Tamoss \<Rightarrow> string list \<Rightarrow> bool hib_act" where
  "quiesceComponents env tamoss [] = yield True"
| "quiesceComponents env tamoss (c # cs) =
     andThen (quiesceAutoscaler env tamoss (ResourceName tamoss c)) (\<lambda>a.
     andThen (quiesceDeployment env tamoss (ResourceName tamoss c)) (\<lambda>d.
     andThen (quiesceComponents env tamoss cs) (\<lambda>rest. yield (a \<and> d \<and> rest))))"

definition quiescedComponents :: "string list" where
  "quiescedComponents = [''worker'', ''api'', ''ui'', ''console'']"

definition quiesceTamossWorkloads :: "hib_env \<Rightarrow> Tamoss \<Rightarrow> bool hib_act" where
  "quiesceTamossWorkloads env tamoss = quiesceComponents env tamoss quiescedComponents"

definition deprovisionHibernateSource :: "hib_env \<Rightarrow> Tamoss \<Rightarrow> bool hib_act" where
  "deprovisionHibernateSource env tamoss =
     andThen (readOptional (he_getCluster env (tm_Namespace tamoss) (ResourceName tamoss ''db''))) (\<lambda>found.
       case found of
         None \<Rightarrow> yield True
       | Some cluster \<Rightarrow>
           (let name = om_Name (cl_Meta cluster)
            in if \<not> IsControlledBy (he_lib env) (cl_Meta cluster) (tm_Meta tamoss)
               then raise (Errorf (''CNPG Cluster '' @ name @ '' is not owned by Tamoss '' @ tm_Name tamoss))
               else if timePtrIsZero (om_DeletionTimestamp (cl_Meta cluster))
               then andThen (issueDelete (DeleteCluster name) (he_deleteCluster env cluster)) (\<lambda>_. yield False)
               else yield False))"

section \<open>Capture\<close>

definition backupLabels :: "TamossHibernate \<Rightarrow> Tamoss \<Rightarrow> string \<rightharpoonup> string" where
  "backupLabels h tamoss = map_of
     [(''app.kubernetes.io/name'', ''tamoss''), (''app.kubernetes.io/instance'', tm_Name tamoss),
      (''app.kubernetes.io/component'', ''hibernate''), (''app.kubernetes.io/managed-by'', ''tamoss-operator''),
      (''tamoss.livewyer.io/tamosshibernate'', th_Name h), (''tamoss.livewyer.io/tamosshibernate-driver'', hibernateDriver h)]"

definition desiredBackup :: "TamossHibernate \<Rightarrow> Tamoss \<Rightarrow> CNPGBackup" where
  "desiredBackup h tamoss =
     \<lparr>bk_Meta = emptyMeta\<lparr>om_Name := th_Name h, om_Namespace := th_Namespace h, om_Labels := backupLabels h tamoss\<rparr>,
      bk_Cluster = ResourceName tamoss ''db'', bk_Method = ''barmanObjectStore'', bk_Phase = [], bk_DestinationPath = [],
      bk_BackupID = [], bk_Error = [], bk_CommandError = []\<rparr>"

definition ensureHibernateCNPGBackup :: "hib_env \<Rightarrow> TamossHibernate \<Rightarrow> Tamoss \<Rightarrow> (CNPGBackup \<times> bool) hib_act" where
  "ensureHibernateCNPGBackup env h tamoss =
     andThen (readOptional (he_getBackup env (th_Namespace h) (th_Name h))) (\<lambda>found.
       case found of
         Some backup \<Rightarrow> yield (backup, False)
       | None \<Rightarrow>
           (let backup = desiredBackup h tamoss
            in andThen (liftErr (SetControllerReference (he_lib env) (th_Meta h) (bk_Meta backup))) (\<lambda>meta.
               andThen (issue (CreateBackup (backup\<lparr>bk_Meta := meta\<rparr>)) (he_createBackup env (backup\<lparr>bk_Meta := meta\<rparr>))) (\<lambda>created.
               yield (created, True)))))"

definition hibernateCNPGBackupStatus :: "CNPGBackup \<Rightarrow> HibernationCNPGBackupStatus" where
  "hibernateCNPGBackupStatus b = \<lparr>hcb_Name = om_Name (bk_Meta b), hcb_Namespace = om_Namespace (bk_Meta b), hcb_Phase = bk_Phase b,
     hcb_DestinationPath = bk_DestinationPath b, hcb_BackupID = bk_BackupID b, hcb_Error = bk_Error b\<rparr>"

definition backupPhaseOrPending :: "CNPGBackup \<Rightarrow> string" where
  "backupPhaseOrPending b = orElse (bk_Phase b) BackupPhasePending"

definition hibernateCNPGBackupFailureMessage :: "CNPGBackup \<Rightarrow> string" where
  "hibernateCNPGBackupFailureMessage b =
     (let failed = ''CNPG Backup '' @ om_Name (bk_Meta b) @ '' failed''
      in if bk_Error b \<noteq> [] then failed @ '': '' @ bk_Error b
         else if bk_CommandError b \<noteq> [] then failed @ '': '' @ bk_CommandError b
         else failed)"

definition writeHibernateManifest ::
    "hib_env \<Rightarrow> Tamoss \<Rightarrow> StorageBackend \<Rightarrow> HibernationArtifactStatus \<Rightarrow> (manifest_error + HibernationArtifactStatus) hib_act" where
  "writeHibernateManifest env tamoss destination artifact =
     (let spec = storageBackendFromDestination destination;
          manifest = buildHibernationManifest (he_operatorSchema env) (he_now env) tamoss destination spec artifact (ResourceName tamoss ''db'')
      in case he_writeManifest env (om_Namespace (sbk_Meta destination)) spec (hst_ManifestKey artifact) manifest of
           Inl e \<Rightarrow> yield (Inl e)
         | Inr checksum \<Rightarrow> ([UploadManifest (hst_ManifestKey artifact) manifest checksum], Inr (Inr (artifact\<lparr>hst_Checksum := checksum\<rparr>))))"

section \<open>The reconcile\<close>

text \<open>A retry is accepted once per value of the annotation; a failed Backup of the operation is removed first.\<close>

definition retriedStatus :: "string \<Rightarrow> TamossOperationStatus \<Rightarrow> TamossOperationStatus" where
  "retriedStatus v st =
     st\<lparr>tos_Phase := OperationUnset, tos_Reason := ''Reconciling'',
        tos_Message := ''Retry '' @ Quote v @ '' accepted; the operation will run again'',
        tos_CompletedAt := None, tos_StartedAt := None, tos_AcceptedRetry := v\<rparr>"

definition acceptRetry :: "hib_env \<Rightarrow> TamossHibernate \<Rightarrow> string \<Rightarrow> bool hib_act" where
  "acceptRetry env h v =
     (let st = retriedStatus v (th_Status h)
      in andThen (issue (PatchHibernateStatus st) (he_patchStatus env (h\<lparr>th_Status := st\<rparr>))) (\<lambda>_.
         andThen (emitEvents (EmitNormalEvent (he_recorder env) (tos_Reason st) (tos_Message st))) (\<lambda>_. yield True)))"

definition acceptOperationRetry :: "hib_env \<Rightarrow> TamossHibernate \<Rightarrow> bool hib_act" where
  "acceptOperationRetry env h =
     (let v = TrimSpace (mapGet (om_Annotations (th_Meta h)) AnnotationOperationRetry)
      in if v = [] \<or> hibernatePhase h \<noteq> OperationFailed then yield False
         else if tos_AcceptedRetry (th_Status h) = v then yield False
         else andThen (readOptional (he_getBackup env (th_Namespace h) (th_Name h))) (\<lambda>found.
           case found of
             None \<Rightarrow> acceptRetry env h v
           | Some backup \<Rightarrow>
               if IsControlledBy (he_lib env) (bk_Meta backup) (th_Meta h) \<and> bk_Phase backup = BackupPhaseFailed
               then andThen (if timePtrIsZero (om_DeletionTimestamp (bk_Meta backup))
                             then issueDelete (DeleteBackup (om_Name (bk_Meta backup))) (he_deleteBackup env backup) else yield ())
                      (\<lambda>_. yield True)
               else acceptRetry env h v))"

text \<open>A status update in a return statement.\<close>

definition finishWith ::
    "ctrl_Result \<Rightarrow> hib_env \<Rightarrow> TamossHibernate \<Rightarrow> TamossOperationPhase \<Rightarrow> string \<Rightarrow> string \<Rightarrow> HibernationArtifactStatus \<Rightarrow> ctrl_Result hib_act" where
  "finishWith result env h phase reason message artifact =
     andThen (updateHibernateStatus env h phase reason message artifact) (\<lambda>_. yield result)"

definition captureArtifact :: "CNPGCluster \<Rightarrow> CNPGBackup \<Rightarrow> HibernationArtifactStatus \<Rightarrow> HibernationArtifactStatus" where
  "captureArtifact cluster backup artifact =
     (let st = hibernateCNPGBackupStatus backup
      in artifact\<lparr>hst_CNPGBackup :=
           (case cl_BarmanObjectStore cluster of
              Some store \<Rightarrow> if hcb_DestinationPath st = [] then st\<lparr>hcb_DestinationPath := bos_DestinationPath store\<rparr> else st
            | None \<Rightarrow> st)\<rparr>)"

definition captureOutcome ::
    "hib_env \<Rightarrow> Tamoss \<Rightarrow> TamossHibernate \<Rightarrow> StorageBackend \<Rightarrow> CNPGBackup \<Rightarrow> HibernationArtifactStatus \<Rightarrow> ctrl_Result hib_act" where
  "captureOutcome env tamoss h destination backup artifact =
     (let later = requeueAfter (pollInterval env)
      in if bk_Phase backup = BackupPhaseCompleted
         then andThen (writeHibernateManifest env tamoss destination artifact) (\<lambda>written.
           case written of
             Inl e \<Rightarrow> finishWith later env h OperationWritingManifest ''HibernateManifestUploadFailed''
               (''Hibernation manifest upload failed, retrying: '' @ manifestErrorText e) artifact
           | Inr artifact \<Rightarrow> finishWith later env h OperationDeprovisioningSource ''SourceDeprovisioning''
               ''Hibernation artifact is committed; source database compute will be removed'' artifact)
         else if bk_Phase backup = BackupPhaseFailed
         then (let message = hibernateCNPGBackupFailureMessage backup
               in andThen (setHibernateLifecycleFailed env tamoss h ''BackupPolicyFailed'' message) (\<lambda>_.
                  finishWith noRequeue env h OperationFailed ''BackupPolicyFailed'' message artifact))
         else finishWith later env h OperationCapturingDatabase ''TamossHibernating''
           (''CNPG Backup '' @ om_Name (bk_Meta backup) @ '' is '' @ backupPhaseOrPending backup) artifact)"

definition reconcileHibernateCapture ::
    "hib_env \<Rightarrow> Tamoss \<Rightarrow> TamossHibernate \<Rightarrow> CNPGCluster \<Rightarrow> StorageBackend \<Rightarrow> HibernationArtifactStatus \<Rightarrow> ctrl_Result hib_act" where
  "reconcileHibernateCapture env tamoss h cluster destination artifact =
     andThen (ensureHibernateCNPGBackup env h tamoss) (\<lambda>(backup, created).
       let name = om_Name (bk_Meta backup)
       in if \<not> created \<and> \<not> IsControlledBy (he_lib env) (bk_Meta backup) (th_Meta h)
          then (let message = ''CNPG Backup '' @ name @ '' already exists and is not owned by TamossHibernate '' @ th_Name h
                in andThen (setHibernateLifecycleFailed env tamoss h ''LifecycleOperationConflict'' message) (\<lambda>_.
                   finishWith noRequeue env h OperationFailed ''LifecycleOperationConflict'' message artifact))
          else (let artifact = captureArtifact cluster backup artifact
                in if created
                   then finishWith (requeueAfter (pollInterval env)) env h OperationCapturingDatabase ''TamossHibernating''
                     (''CNPG Backup '' @ name @ '' was launched'') artifact
                   else captureOutcome env tamoss h destination backup artifact))"

definition reconcileHibernateSourceDeprovisioning :: "hib_env \<Rightarrow> Tamoss \<Rightarrow> TamossHibernate \<Rightarrow> ctrl_Result hib_act" where
  "reconcileHibernateSourceDeprovisioning env tamoss h =
     (let artifact = tos_Artifact (th_Status h)
      in andThen (deprovisionHibernateSource env tamoss) (\<lambda>gone.
         if \<not> gone
         then finishWith (requeueAfter (pollInterval env)) env h OperationDeprovisioningSource ''SourceDeprovisioning''
           ''Waiting for the source CNPG cluster to be removed'' artifact
         else andThen (completeHibernateLifecycle env tamoss h) (\<lambda>_.
           finishWith noRequeue env h OperationCompleted ''TamossHibernated''
             ''TAMOSS hibernation artifact is committed and source database compute is removed'' artifact)))"

text \<open>The rest of \<open>Reconcile\<close> once source, destination and schema are known: load, acquire, quiesce, capture.\<close>

definition captureHibernate ::
    "hib_env \<Rightarrow> Tamoss \<Rightarrow> TamossHibernate \<Rightarrow> StorageBackend \<Rightarrow> HibernationArtifactStatus \<Rightarrow> ctrl_Result hib_act" where
  "captureHibernate env tamoss h destination artifact =
     andThen (loadHibernateCNPGCluster env tamoss h artifact) (\<lambda>loaded.
       case loaded of
         Settled h' \<Rightarrow> yield (operationWaitResult (hibernatePhase h') (pollInterval env))
       | Proceed cluster \<Rightarrow>
           andThen (acquireHibernateLifecycle env tamoss h) (\<lambda>acquired.
             case acquired of
               None \<Rightarrow> yield noRequeue
             | Some tamoss \<Rightarrow>
                 andThen (suspendHibernateScheduledBackup env tamoss) (\<lambda>_.
                 andThen (ensureHibernateCNPGBackupConfiguration env cluster h destination) (\<lambda>cluster.
                 andThen (quiesceTamossWorkloads env tamoss) (\<lambda>quiesced.
                   if \<not> quiesced
                   then finishWith (requeueAfter (pollInterval env)) env h OperationQuiescing ''TamossHibernating''
                     ''Waiting for TAMOSS workloads to terminate before database capture'' artifact
                   else reconcileHibernateCapture env tamoss h cluster destination artifact)))))"

definition reconcileHibernateOperation :: "hib_env \<Rightarrow> TamossHibernate \<Rightarrow> Tamoss \<Rightarrow> StorageBackend \<Rightarrow> ctrl_Result hib_act" where
  "reconcileHibernateOperation env h tamoss destination =
     (case buildHibernateArtifact h destination of
        (artifact, Some e) \<Rightarrow> finishWith noRequeue env h OperationFailed ''HibernateDestinationInvalid'' e artifact
      | (artifact, None) \<Rightarrow>
          (case hibernateCompatibilityError tamoss h of
             Some e \<Rightarrow> finishWith noRequeue env h OperationFailed ''UnsupportedProvider'' e artifact
           | None \<Rightarrow>
               andThen (validateHibernateSourceSchema env tamoss h artifact) (\<lambda>ready.
                 case ready of
                   Settled h' \<Rightarrow> yield (operationWaitResult (hibernatePhase h') (pollInterval env))
                 | Proceed _ \<Rightarrow>
                     if hibernatePhase h = OperationDeprovisioningSource
                     then reconcileHibernateSourceDeprovisioning env tamoss h
                     else captureHibernate env tamoss h destination artifact)))"

definition reconcileHibernate :: "hib_env \<Rightarrow> TamossHibernate \<Rightarrow> ctrl_Result hib_act" where
  "reconcileHibernate env h =
     andThen (acceptOperationRetry env h) (\<lambda>accepted.
       if accepted then yield (requeueAfter (pollInterval env))
       else if operationTerminal (hibernatePhase h) then yield noRequeue
       else andThen (resolveHibernateTamoss env h) (\<lambda>source.
         case source of
           Settled h' \<Rightarrow> yield (operationWaitResult (hibernatePhase h') (pollInterval env))
         | Proceed tamoss \<Rightarrow>
             andThen (resolveHibernateDestination env h) (\<lambda>target.
               case target of
                 Settled h' \<Rightarrow> yield (operationWaitResult (hibernatePhase h') (pollInterval env))
               | Proceed destination \<Rightarrow> reconcileHibernateOperation env h tamoss destination)))"

text \<open>Deletion of a hibernation: a committed one is carried through, another one is failed.\<close>

definition finalizeCommitted :: "hib_env \<Rightarrow> TamossHibernate \<Rightarrow> bool option hib_act" where
  "finalizeCommitted env h =
     (if hibernatePhase h = OperationDeprovisioningSource \<and> hst_Checksum (tos_Artifact (th_Status h)) \<noteq> []
      then andThen (readOptional (he_getTamoss env (th_Namespace h) (ths_TamossRef (th_Spec h)))) (\<lambda>found.
        case found of
          None \<Rightarrow> yield (Some True)
        | Some tamoss \<Rightarrow>
            if \<not> hibernateLifecycleOwnedBy tamoss h
            then raise (Errorf (''tamoss '' @ tm_Name tamoss @ '' no longer holds committed hibernation '' @ th_Name h))
            else andThen (deprovisionHibernateSource env tamoss) (\<lambda>gone.
              if \<not> gone then yield None
              else andThen (completeHibernateLifecycle env tamoss h) (\<lambda>_. yield (Some True))))
      else yield (Some (hibernatePhase h = OperationCompleted)))"

definition failDeleted :: "hib_env \<Rightarrow> TamossHibernate \<Rightarrow> unit hib_act" where
  "failDeleted env h =
     (let message = ''TamossHibernate '' @ th_Name h @ '' was deleted before completion''
      in andThen (failActiveHibernateLifecycle env h ''LifecycleOperationDeleted'' message) (\<lambda>_.
         if hibernatePhase h = OperationFailed then yield ()
         else andThen (updateHibernateStatus env h OperationFailed ''LifecycleOperationDeleted'' message (tos_Artifact (th_Status h)))
                (\<lambda>_. yield ())))"

definition finalizeHibernate :: "hib_env \<Rightarrow> TamossHibernate \<Rightarrow> ctrl_Result hib_act" where
  "finalizeHibernate env h =
     (if \<not> ContainsFinalizer (he_lib env) (th_Meta h) tamossHibernateFinalizer then yield noRequeue
      else andThen (finalizeCommitted env h) (\<lambda>committed.
        case committed of
          None \<Rightarrow> yield (requeueAfter (pollInterval env))
        | Some c \<Rightarrow>
            andThen (if c then yield () else failDeleted env h) (\<lambda>_.
            let m = fst (RemoveFinalizer (he_lib env) (th_Meta h) tamossHibernateFinalizer)
            in andThen (issue (PatchHibernateMeta m) (he_patchMeta env m)) (\<lambda>_. yield noRequeue))))"

definition hibernateReconcile :: "hib_env \<Rightarrow> string \<Rightarrow> string \<Rightarrow> ctrl_Result hib_act" where
  "hibernateReconcile env namespace name =
     (case he_getHibernate env namespace name of
        Inl e \<Rightarrow> ([], ignoreNotFound e)
      | Inr h \<Rightarrow>
          if \<not> Allows (he_WatchNamespaces env) (th_Namespace h) then yield noRequeue
          else if \<not> timePtrIsZero (om_DeletionTimestamp (th_Meta h)) then finalizeHibernate env h
          else if \<not> ContainsFinalizer (he_lib env) (th_Meta h) tamossHibernateFinalizer
          then (let m = fst (AddFinalizer (he_lib env) (th_Meta h) tamossHibernateFinalizer)
                in andThen (issue (PatchHibernateMeta m) (he_patchMeta env m)) (\<lambda>_. yield noRequeue))
          else reconcileHibernate env h)"

end
