(* ===== verification/Resume.thy ===== *)
theory Resume
  imports Hibernate
begin

text \<open>
  The Tamoss controller's side of hibernation: starting and aborting a hibernation from the spec
  (\<open>tamoss_hibernation_driver.go\<close>), restoring from an artifact (\<open>tamoss_resume_bootstrap.go\<close>), and the retention
  of consumed artifacts (\<open>tamoss_hibernation_cleanup.go\<close>). The \<open>k\<close>th lifecycle patch of a pass goes through the
  store \<open>re_lifecycle k\<close>; the operations return the Tamoss as the pass then holds it in memory.
\<close>

datatype resume_write =
    ResumeLifecycle Tamoss
  | ResumeEvent event
  | ResumeWarning string string
  | CreateHibernate TamossHibernate
  | DeleteHibernate string
  | DeleteArtifact string StorageBackendSpec string

record resume_env =
  re_lib :: kube_lib
  re_Releases :: Catalogue
  re_recorder :: bool
  re_now :: time
  re_errorText :: "api_error \<Rightarrow> string"
  re_lifecycle :: "nat \<Rightarrow> lifecycle_store"
  re_getHibernate :: "string \<Rightarrow> string \<Rightarrow> TamossHibernate api"
  re_getCluster :: "string \<Rightarrow> string \<Rightarrow> CNPGCluster api"
  re_getStorageBackend :: "string \<Rightarrow> string \<Rightarrow> StorageBackend api"
  re_createHibernate :: "TamossHibernate \<Rightarrow> unit api"
  re_deleteHibernate :: "TamossHibernate \<Rightarrow> unit api"
  re_readManifest :: "string \<Rightarrow> StorageBackendSpec \<Rightarrow> string \<Rightarrow> manifest_error + hibernationManifest \<times> string"
  re_deletePrefix :: "string \<Rightarrow> StorageBackendSpec \<Rightarrow> string \<Rightarrow> string + int"

type_synonym 'a resume_act = "(resume_write, 'a) act"

definition resumeLifecycle :: "resume_env \<Rightarrow> nat \<Rightarrow> Tamoss \<Rightarrow> lifecycle_change \<Rightarrow> Tamoss resume_act" where
  "resumeLifecycle env k tamoss mutate = mapWrites ResumeLifecycle (patchTamossLifecycleStatus (re_lifecycle env k) tamoss mutate)"

definition resumeEvent :: "resume_env \<Rightarrow> string \<Rightarrow> string \<Rightarrow> unit resume_act" where
  "resumeEvent env reason message = (map ResumeEvent (EmitNormalEvent (re_recorder env) reason message), Inr ())"

text \<open>\<open>recordWarning\<close>: the warning goes to the deduplicating recorder.\<close>

definition resumeWarning :: "string \<Rightarrow> string \<Rightarrow> unit resume_act" where
  "resumeWarning reason message = ([ResumeWarning reason message], Inr ())"

abbreviation "lifecycleOf tamoss \<equiv> tst_Lifecycle (tm_Status tamoss)"

section \<open>Starting and aborting a hibernation\<close>

definition hibernationCycleOperationName :: "Tamoss \<Rightarrow> int \<Rightarrow> string" where
  "hibernationCycleOperationName tamoss cycle = tm_Name tamoss @ ''-hibernation-'' @ Itoa cycle"

definition recordHibernationCycle :: "resume_env \<Rightarrow> Tamoss \<Rightarrow> int \<Rightarrow> Tamoss resume_act" where
  "recordHibernationCycle env tamoss cycle =
     (if tls_HibernationCycle (lifecycleOf tamoss) \<ge> cycle then yield tamoss
      else resumeLifecycle env 0 tamoss (\<lambda>lc. lc\<lparr>tls_HibernationCycle := cycle\<rparr>))"

definition zeroOperationStatus :: TamossOperationStatus where
  "zeroOperationStatus = \<lparr>tos_ObservedGeneration = 0, tos_Conditions = [], tos_Phase = OperationUnset, tos_Reason = [], tos_Message = [],
     tos_StartedAt = None, tos_CompletedAt = None, tos_AcceptedRetry = [], tos_Artifact = zeroArtifact\<rparr>"

definition hibernationOperation :: "Tamoss \<Rightarrow> HibernationDestinationSpec \<Rightarrow> int \<Rightarrow> TamossHibernate" where
  "hibernationOperation tamoss destination cycle =
     \<lparr>th_Meta = emptyMeta\<lparr>om_Name := hibernationCycleOperationName tamoss cycle, om_Namespace := tm_Namespace tamoss,
        om_Labels := map_of [(''app.kubernetes.io/name'', ''tamoss''), (''app.kubernetes.io/instance'', tm_Name tamoss),
          (''app.kubernetes.io/managed-by'', ''tamoss-operator''), (''tamoss.livewyer.io/hibernation-cycle'', Itoa cycle)],
        om_Annotations := [''confirmation.tamoss.livewyer.io/deletion'' \<mapsto> ''true'']\<rparr>,
      th_Spec = \<lparr>ths_TamossRef = tm_Name tamoss, ths_Destination = destination, ths_Driver = []\<rparr>, th_Status = zeroOperationStatus\<rparr>"

definition startHibernationCycle :: "resume_env \<Rightarrow> Tamoss \<Rightarrow> HibernationDestinationSpec \<Rightarrow> int \<Rightarrow> Tamoss resume_act" where
  "startHibernationCycle env tamoss destination cycle =
     (let name = hibernationCycleOperationName tamoss cycle; operation = hibernationOperation tamoss destination cycle
      in andThen (readOptional (re_getHibernate env (tm_Namespace tamoss) name)) (\<lambda>existing.
         if existing \<noteq> None then recordHibernationCycle env tamoss cycle
         else andThen (liftErr (SetControllerReference (re_lib env) (tm_Meta tamoss) (th_Meta operation))) (\<lambda>meta.
           let operation = operation\<lparr>th_Meta := meta\<rparr>
           in andThen (case re_createHibernate env operation of
                  Inr _ \<Rightarrow> ([CreateHibernate operation], Inr ())
                | Inl e \<Rightarrow> if e = AlreadyExists then yield () else raise (APIError e)) (\<lambda>_.
              andThen (resumeEvent env ''TamossHibernating'' (''Hibernation requested by spec; created TamossHibernate '' @ name)) (\<lambda>_.
              recordHibernationCycle env tamoss cycle)))))"

definition hibernationOperationTerminal :: "TamossHibernate \<Rightarrow> bool" where
  "hibernationOperationTerminal operation \<longleftrightarrow> operationTerminal (hibernatePhase operation)"

definition ensureHibernationCycleOperation :: "resume_env \<Rightarrow> Tamoss \<Rightarrow> Tamoss resume_act" where
  "ensureHibernationCycleOperation env tamoss =
     (let current = tls_HibernationCycle (lifecycleOf tamoss); next = wrap32 (current + 1)
      in case hib_Destination (ts_Hibernation (tm_Spec tamoss)) of
           None \<Rightarrow> yield tamoss
         | Some destination \<Rightarrow>
             andThen (if current > 0
                 then readOptional (re_getHibernate env (tm_Namespace tamoss) (hibernationCycleOperationName tamoss current))
                 else yield None) (\<lambda>inFlight.
               if inFlight \<noteq> None \<and> \<not> hibernationOperationTerminal (the inFlight) then yield tamoss
               else startHibernationCycle env tamoss destination next))"

definition abortSpecHibernation :: "resume_env \<Rightarrow> Tamoss \<Rightarrow> unit resume_act" where
  "abortSpecHibernation env tamoss =
     (case tls_ActiveOperationRef (lifecycleOf tamoss) of
        None \<Rightarrow> yield ()
      | Some ref \<Rightarrow>
          if oref_Kind ref \<noteq> ''TamossHibernate'' then yield ()
          else andThen (readOptional (re_getHibernate env (tm_Namespace tamoss) (oref_Name ref))) (\<lambda>found.
            case found of
              None \<Rightarrow> yield ()
            | Some operation \<Rightarrow>
                if \<not> IsControlledBy (re_lib env) (th_Meta operation) (tm_Meta tamoss) then yield ()
                else if \<not> timePtrIsZero (om_DeletionTimestamp (th_Meta operation)) then yield ()
                else andThen (resumeEvent env ''LifecycleOperationDeleted''
                       (''Hibernation disabled by spec; aborting TamossHibernate '' @ th_Name operation)) (\<lambda>_.
                     issueDelete (DeleteHibernate (th_Name operation)) (re_deleteHibernate env operation))))"

definition reconcileHibernationSpec :: "resume_env \<Rightarrow> Tamoss \<Rightarrow> Tamoss resume_act" where
  "reconcileHibernationSpec env tamoss =
     (let phase = tls_Phase (lifecycleOf tamoss)
      in if hib_Enabled (ts_Hibernation (tm_Spec tamoss))
         then if phase = LifecycleUnset \<or> phase = LifecycleRunning then ensureHibernationCycleOperation env tamoss else yield tamoss
         else if phase = LifecycleHibernating then andThen (abortSpecHibernation env tamoss) (\<lambda>_. yield tamoss)
         else yield tamoss)"

section \<open>Restoring from an artifact\<close>

datatype resumeBootstrapOutcome =
    BootstrapResolved TamossResolvedRestore
  | BootstrapWaiting string string
  | BootstrapFailure string string

datatype reconcile_control = ContinueWith Tamoss | StopWith ctrl_Result

definition resumeBootstrapSource :: "Tamoss \<Rightarrow> TamossResumeSource option \<times> bool" where
  "resumeBootstrapSource tamoss =
     (let lc = lifecycleOf tamoss
      in if hib_Enabled (ts_Hibernation (tm_Spec tamoss)) then (None, False)
         else case tls_LastHibernateRef lc of
             Some ref \<Rightarrow>
               if tls_Phase lc = LifecycleHibernated \<or> tls_Phase lc = LifecycleFailed
               then (Some \<lparr>trs_HibernationRef = Some \<lparr>lref_Name = oref_Name ref\<rparr>, trs_Artifact = None\<rparr>, True)
               else (hib_ResumeFrom (ts_Hibernation (tm_Spec tamoss)), False)
           | None \<Rightarrow> (hib_ResumeFrom (ts_Hibernation (tm_Spec tamoss)), False))"

definition resumeCNPGServerName :: "hibernationManifest \<Rightarrow> string" where
  "resumeCNPGServerName manifest = orElse (hmc_ServerName (hm_CNPG manifest)) (hmd_Cluster (hm_Database manifest))"

text \<open>\<open>Inl (unsupported, message)\<close>; the flag is \<open>errors.Is(err, errHibernationManifestSchemaUnsupported)\<close>.\<close>

definition validateResumeManifest :: "hibernationManifest \<Rightarrow> string \<Rightarrow> Target \<Rightarrow> (bool \<times> string) option" where
  "validateResumeManifest manifest manifestKey target =
     (let schema = hm_Schema manifest; schemaVersion = TrimSpace (hms_Version schema); tamsAPI = TrimSpace (hms_TAMSAPI schema);
          own = hma_ManifestKey (hm_Artifact manifest); cnpg = hm_CNPG manifest;
          unsupported = (\<lambda>m. Some (True, ''hibernation manifest schema is unsupported: '' @ m))
      in if hms_ManifestKind schema \<noteq> ''TamossHibernate''
         then Some (False, ''hibernation manifest schema kind '' @ Quote (hms_ManifestKind schema) @ '' is not supported'')
         else if schemaVersion = [] then unsupported ''schema.version is required''
         else if \<not> Supports target schemaVersion
         then unsupported (''schema version '' @ Quote schemaVersion @ '' is not supported by this operator'')
         else if tamsAPI \<noteq> tgt_TAMSAPI target
         then unsupported (''TAMS API version '' @ Quote tamsAPI @ '' is not supported; expected '' @ Quote (tgt_TAMSAPI target))
         else if hm_Driver manifest \<noteq> HibernationDriverCNPGPhysical
         then Some (False, ''hibernation manifest driver '' @ Quote (hm_Driver manifest) @ '' is not supported for resume'')
         else if own \<noteq> [] \<and> own \<noteq> manifestKey
         then Some (False, ''hibernation manifest key '' @ Quote own @ '' does not match requested key '' @ Quote manifestKey)
         else if hmc_DestinationPath cnpg = [] then Some (False, ''hibernation manifest is missing cnpg.destinationPath'')
         else if hmc_BackupID cnpg = [] then Some (False, ''hibernation manifest is missing cnpg.backupID'')
         else if hmc_Phase cnpg \<noteq> BackupPhaseCompleted
         then Some (False, ''hibernation manifest CNPG backup phase '' @ Quote (hmc_Phase cnpg) @ '' is not completed'')
         else if resumeCNPGServerName manifest = [] then Some (False, ''hibernation manifest is missing CNPG source server name'')
         else None)"

definition operationPhaseName :: "TamossOperationPhase \<Rightarrow> string" where
  "operationPhaseName phase =
     (case phase of OperationUnset \<Rightarrow> [] | OperationPending \<Rightarrow> ''Pending'' | OperationResolvingSource \<Rightarrow> ''ResolvingSource''
      | OperationPreparingTarget \<Rightarrow> ''PreparingTarget'' | OperationQuiescing \<Rightarrow> ''Quiescing''
      | OperationCapturingDatabase \<Rightarrow> ''CapturingDatabase'' | OperationWritingManifest \<Rightarrow> ''WritingManifest''
      | OperationDeprovisioningSource \<Rightarrow> ''DeprovisioningSource'' | OperationCompleted \<Rightarrow> ''Completed'' | OperationFailed \<Rightarrow> ''Failed'')"

text \<open>The store, manifest key and trusted checksum that a source names; \<open>Inl\<close> is an outcome that settles it.\<close>

definition hibernationSource :: "resume_env \<Rightarrow> Tamoss \<Rightarrow> string \<Rightarrow> resumeBootstrapOutcome + string \<times> string \<times> string" where
  "hibernationSource env tamoss name =
     (case re_getHibernate env (tm_Namespace tamoss) name of
        Inl e \<Rightarrow>
          Inl (BootstrapWaiting ''HibernateSourceInvalid''
            (''TamossHibernate '' @ name @ (if e = NotFound then '' was not found'' else '' could not be read: '' @ re_errorText env e)))
      | Inr h \<Rightarrow>
          (let checksum = hst_Checksum (tos_Artifact (th_Status h))
           in if hibernatePhase h = OperationFailed
              then Inl (BootstrapFailure ''HibernateSourceInvalid''
                (''TamossHibernate '' @ th_Name h @ '' has failed and cannot be resumed; create a new hibernation''))
              else if hibernatePhase h \<noteq> OperationCompleted
              then Inl (BootstrapWaiting ''HibernateSourceInvalid''
                (''TamossHibernate '' @ th_Name h @ '' is '' @ Quote (operationPhaseName (hibernatePhase h)) @ '', not Completed''))
              else if checksum = []
              then Inl (BootstrapFailure ''HibernateSourceInvalid'' (''TamossHibernate '' @ th_Name h @ '' has no trusted manifest checksum''))
              else Inr (lref_Name (hd_StorageBackendRef (ths_Destination (th_Spec h))),
                orElse (hst_ManifestKey (tos_Artifact (th_Status h))) (hibernateManifestKey h), checksum)))"

definition resumeSource :: "resume_env \<Rightarrow> Tamoss \<Rightarrow> TamossResumeSource \<Rightarrow> resumeBootstrapOutcome + string \<times> string \<times> string" where
  "resumeSource env tamoss source =
     (let ref = (case trs_HibernationRef source of None \<Rightarrow> [] | Some r \<Rightarrow> lref_Name r)
      in if ref \<noteq> [] then hibernationSource env tamoss ref
         else case trs_Artifact source of
             Some a \<Rightarrow>
               if lref_Name (ras_StorageBackendRef a) = [] \<or> ras_ManifestKey a = [] \<or> ras_Checksum a = []
               then Inl (BootstrapFailure ''HibernateSourceInvalid'' ''resumeFrom.artifact requires storageBackendRef.name, manifestKey, and checksum'')
               else Inr (lref_Name (ras_StorageBackendRef a), ras_ManifestKey a, ras_Checksum a)
           | None \<Rightarrow> Inl (BootstrapFailure ''HibernateSourceInvalid'' ''spec.hibernation.resumeFrom must set hibernationRef or artifact''))"

definition resumeManifestReadFailureReason :: "manifest_error \<Rightarrow> string" where
  "resumeManifestReadFailureReason err =
     (case err of ManifestChecksumMismatch _ \<Rightarrow> ''HibernateManifestChecksumMismatch'' | _ \<Rightarrow> ''HibernateSourceInvalid'')"

definition resolvedRestore :: "StorageBackend \<Rightarrow> StorageBackendSpec \<Rightarrow> string \<Rightarrow> hibernationManifest \<Rightarrow> string \<Rightarrow> TamossResolvedRestore" where
  "resolvedRestore backend spec manifestKey manifest checksum =
     \<lparr>trr_Restore = zeroRestore\<lparr>crs_Enabled := True, crs_Source := resumeCNPGServerName manifest,
        crs_ObjectStore := \<lparr>cos_EndpointURL = eurl_URL (s3e_Default (sb_Endpoint spec)), cos_Bucket = sb_BucketName spec,
          cos_DestinationPath = hmc_DestinationPath (hm_CNPG manifest), cos_ServerName = resumeCNPGServerName manifest,
          cos_ExistingSecret = sref_ExistingSecret (sb_Credentials spec), cos_SecretKeys = sref_SecretKeys (sb_Credentials spec)\<rparr>\<rparr>,
      trr_Checksum = checksum,
      trr_Retention = \<lparr>har_StorageBackendName = om_Name (sbk_Meta backend), har_ManifestKey = manifestKey, har_ResumedAt = None,
        har_Cleanup = hst_Cleanup zeroArtifact\<rparr>\<rparr>"

text \<open>From the store on: read the manifest and check it against the trusted checksum and the release.\<close>

definition restoreFromStore ::
    "resume_env \<Rightarrow> Target \<Rightarrow> StorageBackend \<Rightarrow> string \<Rightarrow> string \<Rightarrow> resumeBootstrapOutcome" where
  "restoreFromStore env target backend manifestKey trusted =
     (let spec = storageBackendFromDestination backend; own = om_Name (sbk_Meta backend)
      in if \<not> IsHibernateDestination spec \<or> \<not> IsExternalObjectStore spec
         then BootstrapFailure ''HibernateSourceInvalid'' (''Artifact StorageBackend '' @ own @ '' must be an external-s3 hibernate destination'')
         else if sbs_Phase (sbk_Status backend) \<noteq> ''Ready''
         then BootstrapWaiting ''StorageBackendNotReady'' (''Artifact StorageBackend '' @ own @ '' is not ready'')
         else case re_readManifest env (om_Namespace (sbk_Meta backend)) spec manifestKey of
             Inl err \<Rightarrow>
               if isPermanentHibernationManifestReadError err
               then BootstrapFailure (resumeManifestReadFailureReason err) (manifestErrorText err)
               else BootstrapWaiting ''HibernateManifestUnavailable'' (''Hibernation manifest read failed, retrying: '' @ manifestErrorText err)
           | Inr (manifest, checksum) \<Rightarrow>
               if checksum = []
               then BootstrapFailure ''HibernateManifestChecksumMismatch'' ''hibernation manifest reader did not return a SHA-256 checksum''
               else if trusted \<noteq> checksum
               then BootstrapFailure ''HibernateManifestChecksumMismatch''
                 (''hibernation manifest checksum mismatch: source '' @ trusted @ '', computed '' @ checksum)
               else (case validateResumeManifest manifest manifestKey target of
                   Some (unsupported, m) \<Rightarrow>
                     BootstrapFailure (if unsupported then ''UnsupportedSchemaVersion'' else ''HibernateSourceInvalid'') m
                 | None \<Rightarrow> BootstrapResolved (resolvedRestore backend spec manifestKey manifest checksum)))"

definition resolveResumeBootstrapSource :: "resume_env \<Rightarrow> Tamoss \<Rightarrow> TamossResumeSource \<Rightarrow> resumeBootstrapOutcome" where
  "resolveResumeBootstrapSource env tamoss source =
     (case resumeSource env tamoss source of
        Inl settled \<Rightarrow> settled
      | Inr (storageBackendName, manifestKey, trusted) \<Rightarrow>
          (case re_getStorageBackend env (tm_Namespace tamoss) storageBackendName of
             Inl e \<Rightarrow>
               BootstrapWaiting ''StorageBackendNotReady'' (''Artifact StorageBackend '' @ storageBackendName @
                 (if e = NotFound then '' was not found'' else '' could not be read: '' @ re_errorText env e))
           | Inr backend \<Rightarrow>
               restoreFromStore env (rel_Schema (deref zeroRelease (re_Releases env (ts_Version (tm_Spec tamoss))))) backend manifestKey trusted))"

section \<open>Retention of consumed artifacts\<close>

definition hibernationArtifactCleanupTerminal :: "HibernationArtifactCleanupPhase \<Rightarrow> bool" where
  "hibernationArtifactCleanupTerminal phase \<longleftrightarrow> phase = CleanupRetained \<or> phase = CleanupCompleted \<or> phase = CleanupBlocked"

definition hibernationArtifactCleanupFinished :: "HibernationArtifactCleanupPhase \<Rightarrow> bool" where
  "hibernationArtifactCleanupFinished phase \<longleftrightarrow> phase = CleanupRetained \<or> phase = CleanupCompleted"

definition sameArtifact :: "HibernationArtifactRetention \<Rightarrow> HibernationArtifactRetention \<Rightarrow> bool" where
  "sameArtifact a b \<longleftrightarrow> har_ManifestKey a = har_ManifestKey b \<and> har_StorageBackendName a = har_StorageBackendName b"

text \<open>The lifecycle once a restore is resolved: the artifact in use is no longer pending, the one it replaces may be.\<close>

definition resolvedLifecycle :: "TamossResolvedRestore \<Rightarrow> lifecycle_change" where
  "resolvedLifecycle resolved lifecycle =
     (let pending = filter (\<lambda>p. \<not> sameArtifact p (trr_Retention resolved)) (tls_PendingArtifactCleanups lifecycle);
          replaced = (case tls_ResolvedRestore lifecycle of
              None \<Rightarrow> []
            | Some previous \<Rightarrow>
                if har_ResumedAt (trr_Retention previous) \<noteq> None \<and>
                   \<not> hibernationArtifactCleanupFinished (hac_Phase (har_Cleanup (trr_Retention previous))) \<and>
                   \<not> sameArtifact (trr_Retention previous) (trr_Retention resolved)
                then [trr_Retention previous] else [])
      in setLifecycleOperationState LifecycleResuming ''TamossResuming''
           (''Restoring the managed database from hibernation artifact '' @ har_ManifestKey (trr_Retention resolved)) None
           (lifecycle\<lparr>tls_PendingArtifactCleanups := pending @ replaced, tls_ResolvedRestore := Some resolved\<rparr>))"

definition withResolvedRestore :: "Tamoss \<Rightarrow> TamossResolvedRestore \<Rightarrow> Tamoss" where
  "withResolvedRestore tamoss resolved = tamoss\<lparr>tm_Status := (tm_Status tamoss)\<lparr>tst_Lifecycle :=
     (lifecycleOf tamoss)\<lparr>tls_ResolvedRestore := Some resolved\<rparr>\<rparr>\<rparr>"

definition recordBootstrap :: "resume_env \<Rightarrow> Tamoss \<Rightarrow> resumeBootstrapOutcome \<Rightarrow> reconcile_control resume_act" where
  "recordBootstrap env tamoss outcome =
     (case outcome of
        BootstrapFailure reason failure \<Rightarrow>
          andThen (resumeLifecycle env 0 tamoss (setLifecycleOperationState LifecycleFailed reason failure None)) (\<lambda>_.
          andThen (resumeWarning reason failure) (\<lambda>_. yield (StopWith noRequeue)))
      | BootstrapWaiting reason waiting \<Rightarrow>
          andThen (resumeLifecycle env 0 tamoss (\<lambda>lc. lc\<lparr>tls_Reason := reason, tls_Message := waiting\<rparr>)) (\<lambda>_.
          yield (StopWith (requeueAfter (10 * Second))))
      | BootstrapResolved resolved \<Rightarrow>
          andThen (resumeEvent env ''TamossResuming''
            (''Bootstrapping the managed database from hibernation artifact '' @ har_ManifestKey (trr_Retention resolved))) (\<lambda>_.
          andThen (resumeLifecycle env 0 tamoss (resolvedLifecycle resolved)) (\<lambda>t.
          yield (ContinueWith (withResolvedRestore t resolved)))))"

definition reconcileResumeBootstrap :: "resume_env \<Rightarrow> Tamoss \<Rightarrow> reconcile_control resume_act" where
  "reconcileResumeBootstrap env tamoss =
     (case resumeBootstrapSource tamoss of
        (None, waking) \<Rightarrow> yield (ContinueWith tamoss)
      | (Some source, waking) \<Rightarrow>
          if tls_ResolvedRestore (lifecycleOf tamoss) \<noteq> None \<and> \<not> waking then yield (ContinueWith tamoss)
          else if dbProvider (be_DB (ts_Backends (tm_Spec tamoss))) \<noteq> ''cnpg''
          then andThen (resumeWarning ''UnsupportedProvider'' ''spec.hibernation.resumeFrom requires a managed CNPG database backend'')
                 (\<lambda>_. yield (ContinueWith tamoss))
          else andThen (readOptional (re_getCluster env (tm_Namespace tamoss) (ResourceName tamoss ''db''))) (\<lambda>found.
            case found of
              Some cluster \<Rightarrow>
                andThen (resumeWarning ''ResumeSourceIgnored''
                  (''spec.hibernation.resumeFrom is ignored because CNPG Cluster '' @ om_Name (cl_Meta cluster) @ '' already exists''))
                  (\<lambda>_. yield (ContinueWith tamoss))
            | None \<Rightarrow> recordBootstrap env tamoss (resolveResumeBootstrapSource env tamoss source)))"

definition restoredDatabaseReady :: "resume_env \<Rightarrow> Tamoss \<Rightarrow> bool resume_act" where
  "restoredDatabaseReady env tamoss =
     andThen (readOptional (re_getCluster env (tm_Namespace tamoss) (ResourceName tamoss ''db''))) (\<lambda>found.
       yield (case found of
           None \<Rightarrow> False
         | Some cluster \<Rightarrow> IsStatusConditionTrue (re_lib env) (cl_Conditions cluster) ''Ready''))"

fun recordPending :: "HibernationArtifactRetention \<Rightarrow> HibernationArtifactCleanupStatus \<Rightarrow>
    HibernationArtifactRetention list \<Rightarrow> HibernationArtifactRetention list" where
  "recordPending restore cleanup [] = []"
| "recordPending restore cleanup (p # ps) =
     (if \<not> sameArtifact p restore then p # recordPending restore cleanup ps
      else if hibernationArtifactCleanupFinished (hac_Phase cleanup) then ps
      else p\<lparr>har_Cleanup := cleanup\<rparr> # ps)"

definition cleanedLifecycle :: "HibernationArtifactRetention \<Rightarrow> HibernationArtifactCleanupStatus \<Rightarrow> lifecycle_change" where
  "cleanedLifecycle restore cleanup lifecycle =
     (case tls_ResolvedRestore lifecycle of
        Some current \<Rightarrow>
          if sameArtifact (trr_Retention current) restore
          then lifecycle\<lparr>tls_ResolvedRestore := Some (current\<lparr>trr_Retention := (trr_Retention current)\<lparr>har_Cleanup := cleanup\<rparr>\<rparr>)\<rparr>
          else lifecycle\<lparr>tls_PendingArtifactCleanups := recordPending restore cleanup (tls_PendingArtifactCleanups lifecycle)\<rparr>
      | None \<Rightarrow> lifecycle\<lparr>tls_PendingArtifactCleanups := recordPending restore cleanup (tls_PendingArtifactCleanups lifecycle)\<rparr>)"

definition recordArtifactCleanup ::
    "resume_env \<Rightarrow> nat \<Rightarrow> Tamoss \<Rightarrow> HibernationArtifactRetention \<Rightarrow> HibernationArtifactCleanupStatus \<Rightarrow> Tamoss resume_act" where
  "recordArtifactCleanup env k tamoss restore cleanup =
     (let previous = har_Cleanup restore
      in andThen (resumeLifecycle env k tamoss (cleanedLifecycle restore cleanup)) (\<lambda>t.
         if (hac_Reason cleanup = ''ArtifactCleanupBlocked'' \<or> hac_Reason cleanup = ''ArtifactCleanupRetrying'') \<and>
            (hac_Reason previous \<noteq> hac_Reason cleanup \<or> hac_Message previous \<noteq> hac_Message cleanup)
         then andThen (resumeWarning (hac_Reason cleanup) (hac_Message cleanup)) (\<lambda>_. yield t)
         else yield t))"

definition artifactCleanup :: "HibernationArtifactCleanupPhase \<Rightarrow> string \<Rightarrow> string \<Rightarrow> HibernationArtifactCleanupStatus" where
  "artifactCleanup phase reason message =
     \<lparr>hac_Phase = phase, hac_Reason = reason, hac_Message = message, hac_ObjectsDeleted = 0, hac_CompletedAt = None\<rparr>"

definition blockedArtifactCleanup :: "string \<Rightarrow> HibernationArtifactCleanupStatus" where
  "blockedArtifactCleanup message = artifactCleanup CleanupBlocked ''ArtifactCleanupBlocked'' message"

definition hibernationArtifactRootPrefix :: "string \<Rightarrow> string + string" where
  "hibernationArtifactRootPrefix manifestKey =
     (let key = TrimSpace manifestKey; named = ''resume artifact manifest key '' @ Quote manifestKey; root = TrimSuffix key ''/manifest.json''
      in if key = [] then Inl ''resume artifact cleanup requires a manifest key''
         else if HasPrefix key ''/'' then Inl (named @ '' must be relative'')
         else if Clean key \<noteq> key then Inl (named @ '' must be normalized'')
         else if \<not> HasSuffix key ''/manifest.json'' then Inl (named @ '' must end with /manifest.json'')
         else if root = [] \<or> root = ''.'' \<or> root = ''/'' then Inl (named @ '' does not identify an artifact prefix'')
         else if list_ex unsafeSegment (Split (CHR ''/'') root) then Inl (named @ '' contains an unsafe path segment'')
         else Inr (root @ ''/''))"

text \<open>A cleanup recorded in a return statement.\<close>

definition recordAndReturn ::
    "ctrl_Result \<Rightarrow> resume_env \<Rightarrow> nat \<Rightarrow> Tamoss \<Rightarrow> HibernationArtifactRetention \<Rightarrow> HibernationArtifactCleanupStatus \<Rightarrow> (ctrl_Result \<times> Tamoss) resume_act" where
  "recordAndReturn result env k tamoss restore cleanup =
     andThen (recordArtifactCleanup env k tamoss restore cleanup) (\<lambda>t. yield (result, t))"

text \<open>The write \<open>DeleteArtifact\<close> is the request to the store, which may carry out only a part of it.\<close>

definition deleteResumeArtifact ::
    "resume_env \<Rightarrow> nat \<Rightarrow> Tamoss \<Rightarrow> string \<Rightarrow> StorageBackendSpec \<Rightarrow> HibernationArtifactRetention \<Rightarrow> (ctrl_Result \<times> Tamoss) resume_act" where
  "deleteResumeArtifact env k tamoss namespace spec restore =
     (case hibernationArtifactRootPrefix (har_ManifestKey restore) of
        Inl e \<Rightarrow> recordAndReturn noRequeue env k tamoss restore (blockedArtifactCleanup e)
      | Inr pre \<Rightarrow>
          andThen ([DeleteArtifact namespace spec pre], Inr ()) (\<lambda>_.
            case re_deletePrefix env namespace spec pre of
              Inl e \<Rightarrow> recordAndReturn (requeueAfter Minute) env k tamoss restore
                (artifactCleanup CleanupPending ''ArtifactCleanupRetrying''
                  (''Hibernation artifact cleanup for prefix '' @ pre @ '' failed, retrying: '' @ e))
            | Inr n \<Rightarrow>
                andThen (recordArtifactCleanup env k tamoss restore
                    ((artifactCleanup CleanupCompleted ''ArtifactCleanupComplete'' (''Deleted hibernation artifact prefix '' @ pre))
                      \<lparr>hac_ObjectsDeleted := n, hac_CompletedAt := Some (re_now env)\<rparr>)) (\<lambda>t.
                andThen (resumeEvent env ''ArtifactCleanupComplete'' (''Deleted hibernation artifact prefix '' @ pre)) (\<lambda>_.
                yield (noRequeue, t)))))"

definition resumedLifecycle :: "time \<Rightarrow> lifecycle_change" where
  "resumedLifecycle now lifecycle =
     (case tls_ResolvedRestore lifecycle of
        None \<Rightarrow> lifecycle
      | Some restore \<Rightarrow>
          (let lifecycle' = lifecycle\<lparr>tls_ResolvedRestore := Some (restore\<lparr>trr_Retention := (trr_Retention restore)\<lparr>har_ResumedAt := Some now\<rparr>\<rparr>)\<rparr>
           in if tls_Phase lifecycle = LifecycleResuming
              then setLifecycleOperationState LifecycleRunning ''TamossReady''
                (''Restore from hibernation artifact '' @ har_ManifestKey (trr_Retention restore) @ '' completed'') None lifecycle'
              else lifecycle'))"

text \<open>When the artifact of a TTL policy is due: seconds become a \<open>time.Duration\<close>, a 64-bit count of nanoseconds.\<close>

definition artifactDueAt :: "time \<Rightarrow> int \<Rightarrow> time" where
  "artifactDueAt resumedAt ttl = resumedAt + wrap64 (ttl * Second)"

definition applyRetention ::
    "resume_env \<Rightarrow> nat \<Rightarrow> Tamoss \<Rightarrow> StorageBackend \<Rightarrow> HibernationArtifactRetention \<Rightarrow> time \<Rightarrow> (ctrl_Result \<times> Tamoss) resume_act" where
  "applyRetention env k tamoss backend restore resumedAt =
     (let spec = storageBackendFromDestination backend; namespace = om_Namespace (sbk_Meta backend);
          mode = hrs_Mode (sb_Retention spec); ttl = hrs_TTLSecondsAfterResume (sb_Retention spec);
          block = (\<lambda>m. recordAndReturn noRequeue env k tamoss restore (blockedArtifactCleanup m))
      in if \<not> IsHibernateDestination spec \<or> \<not> IsExternalObjectStore spec
         then block (''Artifact StorageBackend '' @ om_Name (sbk_Meta backend) @ '' must be an external-s3 hibernate destination for cleanup'')
         else if mode = [] \<or> mode = ''Retain''
         then recordAndReturn noRequeue env k tamoss restore
           (artifactCleanup CleanupRetained ''ArtifactCleanupRetained'' ''Hibernation artifact retained by StorageBackend policy'')
         else if mode = ''DeleteAfterResume'' then deleteResumeArtifact env k tamoss namespace spec restore
         else if mode = ''TTL''
         then if ttl \<le> 0 then block ''hibernate.retention.ttlSecondsAfterResume must be greater than zero when retention mode is TTL''
              else (let dueAt = artifactDueAt resumedAt ttl; wait = timeSub dueAt (re_now env)
                in if wait > 0
                   then recordAndReturn (requeueAfter wait) env k tamoss restore
                     (artifactCleanup CleanupPending ''ArtifactCleanupPending''
                       (''Hibernation artifact cleanup is scheduled for '' @ formatRFC3339 dueAt))
                   else deleteResumeArtifact env k tamoss namespace spec restore)
         else block (''unsupported hibernation retention mode '' @ Quote mode))"

definition reconcileArtifactRetention ::
    "resume_env \<Rightarrow> nat \<Rightarrow> Tamoss \<Rightarrow> HibernationArtifactRetention \<Rightarrow> (ctrl_Result \<times> Tamoss) resume_act" where
  "reconcileArtifactRetention env k tamoss restore =
     (if hibernationArtifactCleanupTerminal (hac_Phase (har_Cleanup restore)) then yield (noRequeue, tamoss)
      else case har_ResumedAt restore of
          None \<Rightarrow>
            andThen (restoredDatabaseReady env tamoss) (\<lambda>ready.
              if \<not> ready then yield (noRequeue, tamoss)
              else andThen (resumeLifecycle env k tamoss (resumedLifecycle (re_now env))) (\<lambda>t.
                andThen (resumeEvent env ''TamossReady'' (''Restore from hibernation artifact '' @ har_ManifestKey restore @ '' completed'')) (\<lambda>_.
                yield (requeueAfter (10 * Second), t))))
        | Some resumedAt \<Rightarrow>
            andThen (readOptional (re_getStorageBackend env (tm_Namespace tamoss) (har_StorageBackendName restore))) (\<lambda>found.
              case found of
                None \<Rightarrow> recordAndReturn noRequeue env k tamoss restore
                  (blockedArtifactCleanup (''Artifact StorageBackend '' @ har_StorageBackendName restore @ '' was not found for cleanup''))
              | Some backend \<Rightarrow> applyRetention env k tamoss backend restore resumedAt))"

fun retainPending :: "resume_env \<Rightarrow> nat \<Rightarrow> ctrl_Result \<Rightarrow> Tamoss \<Rightarrow> HibernationArtifactRetention list \<Rightarrow> (ctrl_Result \<times> Tamoss) resume_act" where
  "retainPending env k result tamoss [] = yield (result, tamoss)"
| "retainPending env k result tamoss (p # ps) =
     andThen (reconcileArtifactRetention env k tamoss p) (\<lambda>(pending, t).
       let result = (if RequeueAfter pending > 0 \<and> (RequeueAfter result = 0 \<or> RequeueAfter pending < RequeueAfter result)
                     then result\<lparr>RequeueAfter := RequeueAfter pending\<rparr> else result)
       in retainPending env (Suc k) result t ps)"

definition reconcileResumeArtifactRetention :: "resume_env \<Rightarrow> Tamoss \<Rightarrow> (ctrl_Result \<times> Tamoss) resume_act" where
  "reconcileResumeArtifactRetention env tamoss =
     andThen (case tls_ResolvedRestore (lifecycleOf tamoss) of
         None \<Rightarrow> yield (noRequeue, tamoss)
       | Some restore \<Rightarrow> reconcileArtifactRetention env 0 tamoss (trr_Retention restore)) (\<lambda>(result, t).
       retainPending env 1 result t (tls_PendingArtifactCleanups (lifecycleOf t)))"

text \<open>\<open>S3HibernationArtifactCleaner\<close>: the credentials of the store, then its bucket client, a parameter.\<close>

definition S3DeletePrefix ::
    "(string \<Rightarrow> string \<Rightarrow> (string \<rightharpoonup> string) api) \<Rightarrow> (api_error \<Rightarrow> string) \<Rightarrow>
     (string \<Rightarrow> string \<Rightarrow> string \<Rightarrow> storageBackendS3Credentials \<Rightarrow> string \<Rightarrow> string + int) \<Rightarrow>
     string \<Rightarrow> StorageBackendSpec \<Rightarrow> string \<Rightarrow> string + int" where
  "S3DeletePrefix getSecret errorText bucketDelete namespace spec pre =
     (case storageBackendCredentials getSecret namespace spec of
        Inl e \<Rightarrow> Inl (errorText e)
      | Inr creds \<Rightarrow> bucketDelete (eurl_URL (s3e_Default (sb_Endpoint spec))) (sb_BucketName spec) (sb_Region spec) creds pre)"

end
