(* ===== verification/Hibernate_Laws.thy ===== *)
theory Hibernate_Laws
  imports Hibernate Reachability
begin

text \<open>
  What hibernation guarantees: the database is deleted only after an artifact was committed, and it is
  captured only once the workloads have stopped.
\<close>

section \<open>Which writes a pass makes\<close>

definition deletesCluster :: "hib_write \<Rightarrow> bool" where
  "deletesCluster w = (case w of DeleteCluster _ \<Rightarrow> True | _ \<Rightarrow> False)"

definition committedPhase :: "TamossOperationPhase \<Rightarrow> bool" where
  "committedPhase p \<longleftrightarrow> p = OperationDeprovisioningSource \<or> p = OperationCompleted"

definition committedStatus :: "TamossOperationStatus \<Rightarrow> bool" where
  "committedStatus st \<longleftrightarrow> committedPhase (tos_Phase st)"

definition checksumOf :: "TamossOperationStatus \<Rightarrow> string" where
  "checksumOf st = hst_Checksum (tos_Artifact st)"

text \<open>A committed status is recorded only of a hibernation that was committed, with the checksum it had.\<close>

definition commitsNothing :: "TamossHibernate \<Rightarrow> hib_write \<Rightarrow> bool" where
  "commitsNothing h w = (case w of
     PatchHibernateStatus st \<Rightarrow> committedStatus st \<longrightarrow> committedStatus (th_Status h) \<and> checksumOf st = checksumOf (th_Status h)
   | _ \<Rightarrow> True)"

definition uploadedComplete :: "hib_write list \<Rightarrow> string \<Rightarrow> bool" where
  "uploadedComplete ws digest \<longleftrightarrow> (\<exists>key m. UploadManifest key m digest \<in> set ws \<and> hmc_Phase (hm_CNPG m) = BackupPhaseCompleted)"

lemma write_classes [simp]:
  "\<not> deletesCluster (PatchHibernateStatus st)" "\<not> deletesCluster (PatchHibernateMeta m)" "\<not> deletesCluster (PatchLifecycle t)"
  "\<not> deletesCluster (HibernateEvent e)" "\<not> deletesCluster (DeleteBackup n)" "\<not> deletesCluster (PatchClusterBackup c)"
  "\<not> deletesCluster (SuspendScheduledBackup n)" "\<not> deletesCluster (DeleteAutoscaler n)" "\<not> deletesCluster (ScaleToZero n)"
  "\<not> deletesCluster (CreateBackup b)" "\<not> deletesCluster (UploadManifest k mf s)" "deletesCluster (DeleteCluster n)"
  by (simp_all add: deletesCluster_def)

lemma commitsNothing_simps [simp]:
  "commitsNothing h (PatchHibernateMeta m)" "commitsNothing h (PatchLifecycle t)"
  "commitsNothing h (HibernateEvent e)" "commitsNothing h (DeleteBackup n)" "commitsNothing h (PatchClusterBackup c)"
  "commitsNothing h (SuspendScheduledBackup n)" "commitsNothing h (DeleteAutoscaler n)" "commitsNothing h (ScaleToZero n)"
  "commitsNothing h (CreateBackup b)" "commitsNothing h (UploadManifest k mf s)" "commitsNothing h (DeleteCluster n)"
  "commitsNothing h (PatchHibernateStatus st) \<longleftrightarrow>
     (committedStatus st \<longrightarrow> committedStatus (th_Status h) \<and> checksumOf st = checksumOf (th_Status h))"
  by (simp_all add: commitsNothing_def)

lemma operation_status_phase [simp]: "tos_Phase (setOperationStatus lib now st g phase r m a) = phase"
  by (simp add: setOperationStatus_def Let_def)

lemma operation_status_artifact:
  "tos_Artifact (setOperationStatus lib now st g phase r m a) = (if artifactKnown a then a else tos_Artifact st)"
  by (simp add: setOperationStatus_def Let_def)

section \<open>The leaves\<close>

text \<open>\<open>P\<close> holds of the writes that every stage may make: events, lifecycle patches and updates to uncommitted phases.\<close>

definition toleratesUpdates :: "(hib_write \<Rightarrow> bool) \<Rightarrow> bool" where
  "toleratesUpdates P \<longleftrightarrow> (\<forall>e. P (HibernateEvent e)) \<and> (\<forall>t. P (PatchLifecycle t)) \<and>
     (\<forall>st. \<not> committedStatus st \<longrightarrow> P (PatchHibernateStatus st))"

lemma tolerates_simps [simp]: "toleratesUpdates (commitsNothing h)" "toleratesUpdates (\<lambda>w. \<not> deletesCluster w)"
  by (auto simp: toleratesUpdates_def)

lemma emits_events [emits_rules]: "toleratesUpdates P \<Longrightarrow> emits P (emitEvents es)"
  by (auto simp: emits_def emitEvents_def toleratesUpdates_def)

lemma emits_update_any:
  assumes "toleratesUpdates P"
    and "P (PatchHibernateStatus (setOperationStatus (he_lib env) (he_now env) (th_Status h) (om_Generation (th_Meta h)) phase r m a))"
  shows "emits P (updateHibernateStatus env h phase r m a)"
  using assms by (auto simp: updateHibernateStatus_def Let_def intro!: emits_rules)

lemma emits_hib_update [emits_rules]:
  assumes "toleratesUpdates P" and "\<not> committedPhase phase"
  shows "emits P (updateHibernateStatus env h phase r m a)"
  using assms by (intro emits_update_any) (auto simp: toleratesUpdates_def committedStatus_def)

lemma emits_lifecycle [emits_rules]: "toleratesUpdates P \<Longrightarrow> emits P (patchLifecycle env t f)"
  by (auto simp: patchLifecycle_def toleratesUpdates_def intro!: emits_rules)

lemma uncommitted [simp]:
  "\<not> committedPhase OperationFailed" "\<not> committedPhase OperationResolvingSource" "\<not> committedPhase OperationPreparingTarget"
  "\<not> committedPhase OperationQuiescing" "\<not> committedPhase OperationCapturingDatabase" "\<not> committedPhase OperationWritingManifest"
  "\<not> committedPhase OperationUnset" "committedPhase OperationDeprovisioningSource" "committedPhase OperationCompleted"
  by (simp_all add: committedPhase_def)

lemma emits_settle [emits_rules]:
  "toleratesUpdates P \<Longrightarrow> \<not> committedPhase phase \<Longrightarrow> emits P (settle env h phase r m a)"
  "toleratesUpdates P \<Longrightarrow> \<not> committedPhase phase \<Longrightarrow> emits P (finishWith res env h phase r m a)"
  by (auto simp: settle_def finishWith_def intro!: emits_rules)

lemma emits_stages [emits_rules]:
  assumes "toleratesUpdates P"
  shows "emits P (resolveHibernateTamoss env h)" "emits P (resolveHibernateDestination env h)"
    "emits P (validateHibernateSourceSchema env tamoss h a)" "emits P (loadHibernateCNPGCluster env tamoss h a)"
    "emits P (acquireHibernateLifecycle env tamoss h)" "emits P (failActiveHibernateLifecycle env h r m)"
    "emits P (setHibernateLifecycleFailed env tamoss h r m)" "emits P (completeHibernateLifecycle env tamoss h)"
    "emits P (failDeleted env h)"
  using assms
  by (auto simp: resolveHibernateTamoss_def resolveHibernateDestination_def validateHibernateSourceSchema_def
      loadHibernateCNPGCluster_def acquireHibernateLifecycle_def failActiveHibernateLifecycle_def failDeleted_def
      setHibernateLifecycleFailed_def completeHibernateLifecycle_def Let_def
      split: option.splits sum.splits intro!: emits_rules)

text \<open>The steps that take the instance down write nothing about the operation itself.\<close>

definition toleratesTeardown :: "(hib_write \<Rightarrow> bool) \<Rightarrow> bool" where
  "toleratesTeardown P \<longleftrightarrow> toleratesUpdates P \<and> (\<forall>n. P (SuspendScheduledBackup n) \<and> P (DeleteAutoscaler n) \<and> P (ScaleToZero n) \<and> P (DeleteBackup n)) \<and>
     (\<forall>c. P (PatchClusterBackup c)) \<and> (\<forall>m. P (PatchHibernateMeta m))"

lemma teardown_simps [simp]: "toleratesTeardown (commitsNothing h)" "toleratesTeardown (\<lambda>w. \<not> deletesCluster w)"
  by (auto simp: toleratesTeardown_def)

lemma teardown_updates: "toleratesTeardown P \<Longrightarrow> toleratesUpdates P"
  by (simp add: toleratesTeardown_def)

lemma emits_quiesce: "toleratesTeardown P \<Longrightarrow> emits P (quiesceComponents env tamoss cs)"
  by (induction cs)
    (auto simp: quiesceAutoscaler_def quiesceDeployment_def toleratesTeardown_def Let_def
      split: option.splits sum.splits intro!: emits_rules)

lemma emits_teardown [emits_rules]:
  assumes "toleratesTeardown P"
  shows "emits P (suspendHibernateScheduledBackup env tamoss)" "emits P (ensureHibernateCNPGBackupConfiguration env c h d)"
    "emits P (quiesceTamossWorkloads env tamoss)" "emits P (acceptOperationRetry env h)"
  using assms emits_quiesce [OF assms] teardown_updates [OF assms]
  by (auto simp: suspendHibernateScheduledBackup_def ensureHibernateCNPGBackupConfiguration_def quiesceTamossWorkloads_def
      acceptOperationRetry_def acceptRetry_def toleratesTeardown_def Let_def toleratesUpdates_def retriedStatus_def committedStatus_def
      split: option.splits sum.splits intro!: emits_rules)

section \<open>The database is deleted only of a committed hibernation\<close>

lemma emits_capture:
  "emits (\<lambda>w. \<not> deletesCluster w) (captureHibernate env tamoss h d a)"
  by (auto simp: captureHibernate_def reconcileHibernateCapture_def captureOutcome_def ensureHibernateCNPGBackup_def
      writeHibernateManifest_def finishWith_def emits_def [of _ "([UploadManifest k m s], r)" for k m s r] Let_def
      split: stage.splits option.splits sum.splits intro!: emits_rules emits_update_any)

lemma deletes_only_committed:
  assumes "DeleteCluster n \<in> set (fst (hibernateReconcile env namespace name))"
  obtains h where "he_getHibernate env namespace name = Inr h" "hibernatePhase h = OperationDeprovisioningSource"
proof -
  have "emits (\<lambda>w. deletesCluster w \<longrightarrow> (\<exists>h. he_getHibernate env namespace name = Inr h \<and> hibernatePhase h = OperationDeprovisioningSource))
          (hibernateReconcile env namespace name)"
  proof (cases "he_getHibernate env namespace name")
    case (Inr h)
    show ?thesis
    proof (cases "hibernatePhase h = OperationDeprovisioningSource")
      case False
      have "emits (\<lambda>w. \<not> deletesCluster w) (hibernateReconcile env namespace name)"
        using Inr False
        by (auto simp: hibernateReconcile_def reconcileHibernate_def reconcileHibernateOperation_def finalizeHibernate_def
            finalizeCommitted_def Let_def split: stage.splits option.splits sum.splits prod.splits intro!: emits_rules emits_capture)
      then show ?thesis by (rule emits_mono) simp
    qed (simp add: Inr emits_def)
  qed (simp add: hibernateReconcile_def emits_def)
  from emitsD [OF this assms] show ?thesis using that by auto
qed

section \<open>A hibernation is committed only by an upload\<close>

definition commitsBy :: "TamossHibernate \<Rightarrow> 'a hib_act \<Rightarrow> bool" where
  "commitsBy h m \<longleftrightarrow> (\<forall>st. PatchHibernateStatus st \<in> set (fst m) \<longrightarrow> committedStatus st \<longrightarrow>
     committedStatus (th_Status h) \<and> checksumOf st = checksumOf (th_Status h) \<or> uploadedComplete (fst m) (checksumOf st))"

named_theorems commits_rules

lemma commits_emits: "emits (commitsNothing h) m \<Longrightarrow> commitsBy h m"
  by (fastforce simp: commitsBy_def emits_def)

lemma uploaded_append [simp]: "uploadedComplete (ws @ ws') d \<longleftrightarrow> uploadedComplete ws d \<or> uploadedComplete ws' d"
  by (auto simp: uploadedComplete_def)

lemma commits_andThen [commits_rules]:
  assumes "emits (commitsNothing h) m" and "\<And>x. snd m = Inr x \<Longrightarrow> commitsBy h (f x)"
  shows "commitsBy h (andThen m f)"
  using assms by (fastforce simp: commitsBy_def andThen_def emits_def split: sum.splits)

lemma finish_statuses:
  "PatchHibernateStatus st \<in> set (fst (finishWith res env h phase r m a)) \<Longrightarrow>
   tos_Phase st = phase \<and> (artifactKnown a \<longrightarrow> tos_Artifact st = a) \<and> (a = tos_Artifact (th_Status h) \<longrightarrow> tos_Artifact st = a)"
  by (auto simp: finishWith_def updateHibernateStatus_def Let_def andThen_write emitEvents_def operation_status_artifact
      split: if_splits)

lemma commits_finish [commits_rules]: "\<not> committedPhase phase \<Longrightarrow> commitsBy h (finishWith res env h' phase r m a)"
  by (auto simp: commitsBy_def committedStatus_def dest!: finish_statuses)

lemma commits_outcome [commits_rules]:
  assumes "hst_ManifestKey a \<noteq> []" and "hcb_Phase (hst_CNPGBackup a) = bk_Phase backup"
  shows "commitsBy h (captureOutcome env tamoss h d backup a)"
proof (cases "bk_Phase backup = BackupPhaseCompleted")
  case True
  then show ?thesis
    using assms
    by (fastforce simp: captureOutcome_def writeHibernateManifest_def commitsBy_def Let_def andThen_write uploadedComplete_def
        andThen_def buildHibernationManifest_def checksumOf_def artifactKnown_def committedStatus_def
        dest!: finish_statuses split: sum.splits)
next
  case False
  then show ?thesis
    by (auto simp: captureOutcome_def Let_def intro!: commits_rules emits_rules)
qed

lemma capture_artifact [simp]:
  "hst_ManifestKey (captureArtifact c b a) = hst_ManifestKey a" "hcb_Phase (hst_CNPGBackup (captureArtifact c b a)) = bk_Phase b"
  by (simp_all add: captureArtifact_def hibernateCNPGBackupStatus_def Let_def split: option.splits)

lemma commits_deprovision [commits_rules]:
  assumes "hibernatePhase h = OperationDeprovisioningSource"
  shows "commitsBy h (reconcileHibernateSourceDeprovisioning env tamoss h)"
proof -
  have "emits (commitsNothing h) (finishWith res env h phase r m (tos_Artifact (th_Status h)))" for res phase r m
    using assms by (auto simp: emits_def finishWith_def updateHibernateStatus_def Let_def andThen_write emitEvents_def
        committedStatus_def checksumOf_def operation_status_artifact split: if_splits)
  note finishes = this
  have "emits (commitsNothing h) (deprovisionHibernateSource env tamoss)"
    by (auto simp: deprovisionHibernateSource_def Let_def split: option.splits intro!: emits_rules)
  then show ?thesis
    unfolding reconcileHibernateSourceDeprovisioning_def Let_def
    by (intro commits_emits emits_andThen emits_if finishes emits_stages) simp_all
qed

lemma hibernateManifestKey_nonempty [simp]: "hibernateManifestKey h \<noteq> []"
  by (simp add: hibernateManifestKey_def pathJoin_def Let_def Clean_def)

lemma built_artifact: "buildHibernateArtifact h d = (a, e) \<Longrightarrow> hst_ManifestKey a \<noteq> []"
  by (auto simp: buildHibernateArtifact_def Let_def hibernateManifestKey_nonempty split: option.splits if_splits)

lemma commits_capture [commits_rules]:
  "hst_ManifestKey a \<noteq> [] \<Longrightarrow> commitsBy h (captureHibernate env tamoss h d a)"
  by (auto simp: captureHibernate_def reconcileHibernateCapture_def ensureHibernateCNPGBackup_def Let_def
      split: stage.splits option.splits intro!: commits_rules emits_rules commits_emits [OF emits_silent(1)])

lemma reconcile_commits:
  assumes "he_getHibernate env namespace name = Inr h"
  shows "commitsBy h (hibernateReconcile env namespace name)"
  using assms
  by (auto simp: hibernateReconcile_def reconcileHibernate_def reconcileHibernateOperation_def finalizeHibernate_def
      finalizeCommitted_def deprovisionHibernateSource_def Let_def dest!: built_artifact
      split: stage.splits option.splits sum.splits prod.splits intro!: commits_rules emits_rules commits_emits [OF emits_silent(1)]
      commits_emits [OF emits_issue])

section \<open>Over all passes\<close>

text \<open>
  The versions that the API server has held of one TamossHibernate, and all writes that were accepted.
  A pass may read any version, since the cache it reads from may lag; its patches make new versions.
  Others may edit metadata and spec of a version, but not its status.
\<close>

record hib_world =
  hw_versions :: "TamossHibernate list"
  hw_writes :: "hib_write list"

fun versionsAfter :: "TamossHibernate \<Rightarrow> hib_write list \<Rightarrow> TamossHibernate list" where
  "versionsAfter h [] = []"
| "versionsAfter h (w # ws) =
     (let h' = (case w of PatchHibernateStatus st \<Rightarrow> h\<lparr>th_Status := st\<rparr> | PatchHibernateMeta m \<Rightarrow> h\<lparr>th_Meta := m\<rparr> | _ \<Rightarrow> h)
      in h' # versionsAfter h' ws)"

definition freshHibernation :: "hib_world \<Rightarrow> bool" where
  "freshHibernation w \<longleftrightarrow> hw_writes w = [] \<and> (\<forall>h \<in> set (hw_versions w). hibernatePhase h = OperationUnset)"

inductive hibernateStep :: "hib_world \<Rightarrow> hib_world \<Rightarrow> bool" where
  pass: "h \<in> set (hw_versions w) \<Longrightarrow> he_getHibernate env namespace name = Inr h \<Longrightarrow>
    ws = fst (hibernateReconcile env namespace name) \<Longrightarrow>
    hibernateStep w \<lparr>hw_versions = hw_versions w @ versionsAfter h ws, hw_writes = hw_writes w @ ws\<rparr>"
| edit: "h \<in> set (hw_versions w) \<Longrightarrow> th_Status h' = th_Status h \<Longrightarrow>
    hibernateStep w (w\<lparr>hw_versions := hw_versions w @ [h']\<rparr>)"

definition commitKnown :: "hib_world \<Rightarrow> bool" where
  "commitKnown w \<longleftrightarrow>
     (\<forall>h \<in> set (hw_versions w). committedStatus (th_Status h) \<longrightarrow> uploadedComplete (hw_writes w) (checksumOf (th_Status h))) \<and>
     (\<forall>before n after. hw_writes w = before @ DeleteCluster n # after \<longrightarrow> (\<exists>digest. uploadedComplete before digest))"

lemma versions_after_status:
  "h' \<in> set (versionsAfter h ws) \<Longrightarrow> th_Status h' = th_Status h \<or> PatchHibernateStatus (th_Status h') \<in> set ws"
proof (induction ws arbitrary: h)
  case (Cons w ws)
  show ?case
    using Cons.prems by (cases w) (auto simp: Let_def dest!: Cons.IH)
qed simp

lemma split_in_append:
  assumes "xs @ ys = before @ x # after"
  obtains (left) rest where "xs = before @ x # rest" | (right) mid where "before = xs @ mid" "x \<in> set ys"
  using assms by (fastforce simp: append_eq_append_conv2 Cons_eq_append_conv append_eq_Cons_conv)

lemma pass_keeps_commit:
  assumes "commitKnown w" and h: "h \<in> set (hw_versions w)" and get: "he_getHibernate env namespace name = Inr h"
    and ws: "ws = fst (hibernateReconcile env namespace name)"
  shows "commitKnown \<lparr>hw_versions = hw_versions w @ versionsAfter h ws, hw_writes = hw_writes w @ ws\<rparr>"
proof -
  have upl: "committedStatus (th_Status v) \<Longrightarrow> uploadedComplete (hw_writes w) (checksumOf (th_Status v))"
    if "v \<in> set (hw_versions w)" for v
    using assms(1) that by (simp add: commitKnown_def)
  have versions: "uploadedComplete (hw_writes w @ ws) (checksumOf (th_Status v))"
    if "v \<in> set (versionsAfter h ws)" "committedStatus (th_Status v)" for v
    using versions_after_status [OF that(1)] that(2) reconcile_commits [OF get] upl [OF h] ws
    by (auto simp: commitsBy_def)
  have "\<exists>digest. uploadedComplete before digest" if "hw_writes w @ ws = before @ DeleteCluster n # after" for before n after
    using that
  proof (cases rule: split_in_append)
    case (left rest)
    then show ?thesis using assms(1) by (auto simp: commitKnown_def)
  next
    case (right mid)
    then obtain h' where "he_getHibernate env namespace name = Inr h'" "hibernatePhase h' = OperationDeprovisioningSource"
      using ws by (auto elim: deletes_only_committed)
    then show ?thesis using get upl [OF h] right(1) by (auto simp: committedStatus_def)
  qed
  then show ?thesis using upl versions unfolding commitKnown_def by auto blast
qed

interpretation hibernation: state_machine freshHibernation hibernateStep commitKnown
proof unfold_locales
  show "commitKnown w" if "freshHibernation w" for w
    using that by (auto simp: freshHibernation_def commitKnown_def committedStatus_def)
  show "commitKnown w'" if "hibernateStep w w'" "commitKnown w" for w w'
    using that by (cases rule: hibernateStep.cases) (auto simp: pass_keeps_commit, auto simp: commitKnown_def)
qed

text \<open>
  C7: In every run of the hibernation controller that starts with a new TamossHibernate, whatever the API
  server and the object store answer and however stale the reads are, the source database cluster is
  deleted only after a manifest for a completed backup was uploaded.
\<close>

theorem database_deleted_after_commit:
  assumes "freshHibernation w" and "hibernateStep\<^sup>*\<^sup>* w w'" and "hw_writes w' = before @ DeleteCluster n # after"
  shows "\<exists>key m digest. UploadManifest key m digest \<in> set before \<and> hmc_Phase (hm_CNPG m) = BackupPhaseCompleted"
  using hibernation.reachable_inv [OF assms(1,2)] assms(3) unfolding commitKnown_def uploadedComplete_def by blast

section \<open>The database is captured at rest\<close>

definition componentStopped :: "hib_env \<Rightarrow> string \<Rightarrow> string \<Rightarrow> bool" where
  "componentStopped env namespace name \<longleftrightarrow>
     he_getAutoscaler env namespace name = Inl NotFound \<and>
     (he_getDeployment env namespace name = Inl NotFound \<or>
      (\<exists>d selector phases. he_getDeployment env namespace name = Inr d \<and> deref 1 (dep_Replicas d) = 0 \<and> replicasGone d \<and>
         he_podSelector env (dep_Selector d) = Inr selector \<and> he_listPodPhases env namespace selector = Inr phases \<and>
         list_all podFinished phases))"

definition lifecycleFree :: "TamossHibernate \<Rightarrow> Tamoss \<Rightarrow> bool" where
  "lifecycleFree h tamoss \<longleftrightarrow>
     (let lc = tst_Lifecycle (tm_Status tamoss)
      in (tls_ActiveOperationRef lc \<noteq> None \<longrightarrow> refersTo (tls_ActiveOperationRef lc) h) \<and>
         (tls_Phase lc = LifecycleHibernated \<longrightarrow> refersTo (tls_LastHibernateRef lc) h))"

text \<open>The instance that the hibernation names, as the controller resolved it and then left it in memory.\<close>

definition heldSource :: "hib_env \<Rightarrow> TamossHibernate \<Rightarrow> Tamoss \<Rightarrow> Tamoss \<Rightarrow> bool" where
  "heldSource env h resolved tamoss \<longleftrightarrow>
     (\<exists>stored. he_getTamoss env (th_Namespace h) (ths_TamossRef (th_Spec h)) = Inr stored \<and>
        resolveTamoss (he_lib env) (he_Releases env) (he_InstanceDefaults env) stored = Inr resolved) \<and>
     lifecycleFree h resolved \<and> snd (acquireHibernateLifecycle env resolved h) = Inr (Some tamoss)"

definition capturesDatabase :: "hib_write \<Rightarrow> bool" where
  "capturesDatabase w = (case w of CreateBackup _ \<Rightarrow> True | UploadManifest _ _ _ \<Rightarrow> True | _ \<Rightarrow> False)"

definition atRest :: "hib_env \<Rightarrow> TamossHibernate \<Rightarrow> bool" where
  "atRest env h \<longleftrightarrow> (\<exists>resolved tamoss. heldSource env h resolved tamoss \<and>
     (\<forall>c \<in> set quiescedComponents. componentStopped env (tm_Namespace tamoss) (ResourceName tamoss c)))"

lemma captures_simps [simp]:
  "\<not> capturesDatabase (PatchHibernateMeta m)" "\<not> capturesDatabase (PatchLifecycle t)" "\<not> capturesDatabase (PatchHibernateStatus st)"
  "\<not> capturesDatabase (HibernateEvent e)" "\<not> capturesDatabase (DeleteBackup n)" "\<not> capturesDatabase (PatchClusterBackup c)"
  "\<not> capturesDatabase (SuspendScheduledBackup n)" "\<not> capturesDatabase (DeleteAutoscaler n)" "\<not> capturesDatabase (ScaleToZero n)"
  "capturesDatabase (CreateBackup b)" "capturesDatabase (UploadManifest k mf s)" "\<not> capturesDatabase (DeleteCluster n)"
  by (simp_all add: capturesDatabase_def)

lemma captures_tolerated [simp]: "toleratesTeardown (\<lambda>w. capturesDatabase w \<longrightarrow> b)" "toleratesUpdates (\<lambda>w. capturesDatabase w \<longrightarrow> b)"
  by (auto simp: toleratesTeardown_def toleratesUpdates_def)

lemma quiesced_component:
  assumes "snd (quiesceAutoscaler env tamoss name) = Inr True" and "snd (quiesceDeployment env tamoss name) = Inr True"
  shows "componentStopped env (tm_Namespace tamoss) name"
  using assms
  unfolding quiesceAutoscaler_def quiesceDeployment_def andThen_readOptional
  by (auto simp: componentStopped_def andThen_Inr Let_def split: if_splits sum.splits) (metis sumE)

lemma quiesced_components:
  "snd (quiesceComponents env tamoss cs) = Inr True \<Longrightarrow>
   \<forall>c \<in> set cs. componentStopped env (tm_Namespace tamoss) (ResourceName tamoss c)"
  by (induction cs) (auto simp: andThen_Inr intro: quiesced_component)

lemma acquired_free: "snd (acquireHibernateLifecycle env tamoss h) = Inr (Some t) \<Longrightarrow> lifecycleFree h tamoss"
  by (auto simp: acquireHibernateLifecycle_def lifecycleFree_def Let_def andThen_Inr split: if_splits)

lemma settle_settles [simp]: "snd (settle env h phase r m a) \<noteq> Inr (Proceed x)"
  by (simp add: settle_def andThen_Inr)

lemma resolved_source:
  "snd (resolveHibernateTamoss env h) = Inr (Proceed resolved) \<Longrightarrow>
   \<exists>stored. he_getTamoss env (th_Namespace h) (ths_TamossRef (th_Spec h)) = Inr stored \<and>
     resolveTamoss (he_lib env) (he_Releases env) (he_InstanceDefaults env) stored = Inr resolved"
  unfolding resolveHibernateTamoss_def Let_def andThen_readOptional
  by (auto simp: andThen_readOptional split: if_splits sum.splits) (metis sumE)

lemma captures_finish [emits_rules]: "emits (\<lambda>w. capturesDatabase w \<longrightarrow> b) (finishWith res env h phase r m a)"
  unfolding finishWith_def by (intro emits_andThen emits_update_any) (auto intro!: emits_rules)

lemma captures_deprovision:
  "emits (\<lambda>w. capturesDatabase w \<longrightarrow> b) (deprovisionHibernateSource env tamoss)"
  by (auto simp: deprovisionHibernateSource_def Let_def split: option.splits intro!: emits_rules)

lemma capture_at_rest:
  assumes "snd (resolveHibernateTamoss env h) = Inr (Proceed resolved)"
  shows "emits (\<lambda>w. capturesDatabase w \<longrightarrow> atRest env h) (captureHibernate env resolved h d a)"
proof -
  have rest: "atRest env h"
    if "snd (acquireHibernateLifecycle env resolved h) = Inr (Some t)" "snd (quiesceTamossWorkloads env t) = Inr True" for t
    using that assms acquired_free [OF that(1)] quiesced_components resolved_source
    unfolding atRest_def heldSource_def quiesceTamossWorkloads_def by blast
  then have "emits (\<lambda>w. capturesDatabase w \<longrightarrow> atRest env h) (reconcileHibernateCapture env t h c d a)"
    if "snd (acquireHibernateLifecycle env resolved h) = Inr (Some t)" "snd (quiesceTamossWorkloads env t) = Inr True" for t c
    using that by (auto simp: emits_def)
  then show ?thesis
    by (auto simp: captureHibernate_def split: stage.splits option.splits intro!: emits_rules)
qed


section \<open>An example\<close>

definition coldHibernate :: TamossHibernate where
  "coldHibernate =
     \<lparr>th_Meta = emptyMeta\<lparr>om_Name := ''cold-1'', om_Namespace := ''media'', om_UID := ''u-hib'', om_Finalizers := [tamossHibernateFinalizer]\<rparr>,
      th_Spec = \<lparr>ths_TamossRef = ''demo'', ths_Destination = \<lparr>hd_StorageBackendRef = \<lparr>lref_Name = ''cold''\<rparr>, hd_Prefix = []\<rparr>, ths_Driver = []\<rparr>,
      th_Status = \<lparr>tos_ObservedGeneration = 0, tos_Conditions = [], tos_Phase = OperationUnset, tos_Reason = [], tos_Message = [],
        tos_StartedAt = None, tos_CompletedAt = None, tos_AcceptedRetry = [], tos_Artifact = zeroArtifact\<rparr>\<rparr>"

definition coldTamoss :: Tamoss where
  "coldTamoss = upgrading\<lparr>
     tm_Spec := (tm_Spec upgrading)\<lparr>ts_Backends := \<lparr>be_DB = zeroDBBackend\<lparr>db_ProvidedBy := ''cnpg''\<rparr>,
       be_S3 = \<lparr>s3_ProvidedBy = ''external'', s3_External = None, s3_RustFSOperator = None\<rparr>\<rparr>\<rparr>,
     tm_Status := (tm_Status upgrading)\<lparr>tst_CurrentVersion := ''1.1'', tst_SchemaVersion := ''1.1'',
       tst_Conditions := SetConditionBool refLib [] 0 ''SchemaMigrated'' True ''Migrated'' []\<rparr>\<rparr>"

definition ownedMeta :: "string \<Rightarrow> string \<Rightarrow> ObjectMeta" where
  "ownedMeta name owner = emptyMeta\<lparr>om_Name := name, om_Namespace := ''media'',
     om_OwnerReferences := [refControllerRef (emptyMeta\<lparr>om_UID := owner\<rparr>)]\<rparr>"

definition coldEnv :: "TamossHibernate \<Rightarrow> hib_env" where
  "coldEnv h =
     \<lparr>he_lib = refLib, he_Releases = exampleCatalogue, he_InstanceDefaults = None, he_WatchNamespaces = [], he_PollInterval = 0,
      he_recorder = False, he_now = 1, he_operatorSchema = ''1.1'',
      he_lifecycle = \<lparr>ls_retry = (\<lambda>_. 0), ls_get = (\<lambda>_. Inl NotFound), ls_patch = (\<lambda>_ t. Inr t), ls_now = (\<lambda>_. 1)\<rparr>,
      he_getHibernate = (\<lambda>ns n. Inr h), he_getTamoss = (\<lambda>ns n. Inr coldTamoss),
      he_getStorageBackend = (\<lambda>ns n. Inr \<lparr>sbk_Meta = emptyMeta\<lparr>om_Name := ''cold'', om_Namespace := ''media''\<rparr>, sbk_Spec = exampleDestination\<lparr>sb_ID := ''id''\<rparr>,
        sbk_Status = \<lparr>sbs_ObservedGeneration = 0, sbs_Conditions = [], sbs_BackendID = [], sbs_BucketName = [], sbs_ResolvedBackendID = [], sbs_Phase = ''Ready''\<rparr>\<rparr>),
      he_getBackup = (\<lambda>ns n. Inr ((desiredBackup h coldTamoss)\<lparr>bk_Meta := ownedMeta ''cold-1'' ''u-hib'', bk_Phase := BackupPhaseCompleted\<rparr>)),
      he_getCluster = (\<lambda>ns n. Inr \<lparr>cl_Meta = ownedMeta ''demo-db'' [], cl_BarmanObjectStore = None, cl_Conditions = []\<rparr>),
      he_getScheduledBackup = (\<lambda>ns n. Inl NotFound), he_getAutoscaler = (\<lambda>ns n. Inl NotFound), he_getDeployment = (\<lambda>ns n. Inl NotFound),
      he_podSelector = Inr, he_listPodPhases = (\<lambda>ns s. Inr []), he_patchMeta = (\<lambda>_. Inr ()), he_patchStatus = (\<lambda>_. Inr ()),
      he_deleteBackup = (\<lambda>_. Inr ()), he_patchCluster = Inr, he_patchScheduledBackup = (\<lambda>_. Inr ()), he_deleteAutoscaler = (\<lambda>_. Inr ()),
      he_scaleDeployment = Inr, he_createBackup = Inr, he_writeManifest = (\<lambda>ns spec k m. Inr ''sha256:1''), he_deleteCluster = (\<lambda>_. Inr ())\<rparr>"

definition coldBackend :: StorageBackend where
  "coldBackend = \<lparr>sbk_Meta = emptyMeta\<lparr>om_Name := ''cold'', om_Namespace := ''media''\<rparr>, sbk_Spec = exampleDestination\<lparr>sb_ID := ''id''\<rparr>,
     sbk_Status = \<lparr>sbs_ObservedGeneration = 0, sbs_Conditions = [], sbs_BackendID = [], sbs_BucketName = [], sbs_ResolvedBackendID = [], sbs_Phase = ''Ready''\<rparr>\<rparr>"

text \<open>Two passes: the first uploads the manifest of the completed backup, the second deletes the cluster.\<close>

definition coldOperation :: "TamossHibernate \<Rightarrow> hib_write list" where
  "coldOperation h = fst (reconcileHibernateOperation (coldEnv h) h (Apply coldTamoss exampleImages) coldBackend)"

lemma cold_resolves: "resolveTamoss refLib exampleCatalogue None coldTamoss = Inr (Apply coldTamoss exampleImages)"
  by (simp add: resolveTamoss_def coldTamoss_def upgrading_def zeroSpec_def zeroTamossStatus_def zeroTamoss_def
      Select_def exampleCatalogue_def exampleRelease_def installationApply_def)

lemma defaulted_fields:
  "sb_Usage (storageBackendApplyDefaults spec ns n) = orElse (sb_Usage spec) ''media''"
  "sb_Provider (storageBackendApplyDefaults spec ns n) = orElse (sb_Provider spec) ''rustfs''"
  "sb_BucketName (storageBackendApplyDefaults spec ns n) = sb_BucketName spec"
  by (simp_all add: storageBackendApplyDefaults_def Let_def)

lemma cold_spec [simp]:
  "sb_Usage (storageBackendFromDestination coldBackend) = ''hibernate''" "sb_Provider (storageBackendFromDestination coldBackend) = ''external-s3''"
  "sb_BucketName (storageBackendFromDestination coldBackend) = ''cold''"
  by (simp_all add: storageBackendFromDestination_def defaulted_fields) (simp_all add: coldBackend_def exampleDestination_def orElse_def)

lemma cold_destination:
  "IsHibernateDestination (storageBackendFromDestination coldBackend)" "IsExternalObjectStore (storageBackendFromDestination coldBackend)"
  by (simp_all add: IsHibernateDestination_def IsExternalObjectStore_def)

lemma cold_env [simp]:
  "he_getHibernate (coldEnv h) ns n = Inr h" "he_lib (coldEnv h) = refLib"
  "he_getTamoss (coldEnv h) ns n = Inr coldTamoss" "he_getStorageBackend (coldEnv h) ns n = Inr coldBackend"
  "he_getScheduledBackup (coldEnv h) ns n = Inl NotFound" "he_getAutoscaler (coldEnv h) ns n = Inl NotFound"
  "he_getDeployment (coldEnv h) ns n = Inl NotFound" "he_patchStatus (coldEnv h) h' = Inr ()" "he_patchCluster (coldEnv h) c = Inr c"
  "he_writeManifest (coldEnv h) ns spec k m = Inr ''sha256:1''" "he_deleteCluster (coldEnv h) c = Inr ()"
  "he_getCluster (coldEnv h) ns n = Inr \<lparr>cl_Meta = ownedMeta ''demo-db'' [], cl_BarmanObjectStore = None, cl_Conditions = []\<rparr>"
  "he_getBackup (coldEnv h) ns n =
     Inr ((desiredBackup h coldTamoss)\<lparr>bk_Meta := ownedMeta ''cold-1'' ''u-hib'', bk_Phase := BackupPhaseCompleted\<rparr>)"
  by (simp_all add: coldEnv_def coldBackend_def)

lemma cold_pass:
  assumes "th_Meta h = th_Meta coldHibernate" "th_Spec h = th_Spec coldHibernate" "\<not> operationTerminal (hibernatePhase h)"
  shows "fst (hibernateReconcile (coldEnv h) ''media'' ''cold-1'') = coldOperation h"
proof -
  have annotation: "TrimSpace (mapGet (om_Annotations (th_Meta h)) AnnotationOperationRetry) = []"
    by (simp add: assms(1) coldHibernate_def emptyMeta_def mapGet_def)
  have source: "resolveHibernateTamoss (coldEnv h) h = yield (Proceed (Apply coldTamoss exampleImages))"
    by (simp add: resolveHibernateTamoss_def assms coldHibernate_def coldEnv_def readOptional_def cold_resolves)
  have target: "resolveHibernateDestination (coldEnv h) h = yield (Proceed coldBackend)"
    using cold_destination
    by (simp add: resolveHibernateDestination_def assms coldHibernate_def readOptional_def Let_def) (simp add: coldBackend_def)
  show ?thesis
    using assms(3)
    by (simp add: hibernateReconcile_def reconcileHibernate_def acceptOperationRetry_def annotation source target coldOperation_def)
      (simp add: coldEnv_def assms(1) coldHibernate_def emptyMeta_def Allows_def timePtrIsZero_def refLib_def)
qed

lemma cold_stages:
  assumes "th_Meta h = th_Meta coldHibernate" "th_Spec h = th_Spec coldHibernate"
  shows "\<exists>a. buildHibernateArtifact h coldBackend = (a, None) \<and> hst_ManifestKey a \<noteq> []"
    "hibernateCompatibilityError (Apply coldTamoss exampleImages) h = None"
    "validateHibernateSourceSchema (coldEnv h) (Apply coldTamoss exampleImages) h a = yield (Proceed ())"
proof -
  show "\<exists>a. buildHibernateArtifact h coldBackend = (a, None) \<and> hst_ManifestKey a \<noteq> []"
    by (simp add: buildHibernateArtifact_def Let_def assms coldHibernate_def validateHibernationDestinationPrefix_def)
  have "dbProvider (be_DB (ts_Backends (tm_Spec (Apply coldTamoss exampleImages)))) = ''cnpg''"
    "s3Provider (be_S3 (ts_Backends (tm_Spec (Apply coldTamoss exampleImages)))) = ''external''"
    by code_simp+
  then show "hibernateCompatibilityError (Apply coldTamoss exampleImages) h = None"
    by (simp add: hibernateCompatibilityError_def hibernateDriver_def assms coldHibernate_def orElse_def)
  show "validateHibernateSourceSchema (coldEnv h) (Apply coldTamoss exampleImages) h a = yield (Proceed ())"
  proof -
    have "IsStatusConditionTrue refLib (tst_Conditions (tm_Status coldTamoss)) ''SchemaMigrated''"
      "tst_AppliedDefaultsRevision (tm_Status coldTamoss) = Revision None" "TrimSpace (tst_SchemaVersion (tm_Status coldTamoss)) = ''1.1''"
      "ts_Version (tm_Spec (Apply coldTamoss exampleImages)) = ''1.1''"
      by code_simp+
    moreover have "Supports (rel_Schema (deref zeroRelease (exampleCatalogue ''1.1''))) ''1.1''"
      by (simp add: exampleCatalogue_def exampleRelease_def) code_simp
    moreover have "he_Releases (coldEnv h) = exampleCatalogue" "he_InstanceDefaults (coldEnv h) = None"
      by (simp_all add: coldEnv_def)
    ultimately show ?thesis
      by (simp add: validateHibernateSourceSchema_def Apply_keeps AppliedTo_def)
  qed
qed

lemma cold_acquires: "\<exists>t. snd (acquireHibernateLifecycle (coldEnv h) (Apply coldTamoss exampleImages) h) = Inr (Some t)"
proof -
  have "tst_Lifecycle (tm_Status coldTamoss) = zeroLifecycle"
    by (simp add: coldTamoss_def upgrading_def zeroTamossStatus_def)
  then have "tls_ActiveOperationRef (tst_Lifecycle (tm_Status (Apply coldTamoss exampleImages))) = None"
    "tls_Phase (tst_Lifecycle (tm_Status (Apply coldTamoss exampleImages))) = LifecycleUnset"
    by (simp_all add: Apply_keeps zeroLifecycle_def)
  moreover have "he_lifecycle (coldEnv h) = \<lparr>ls_retry = (\<lambda>_. 0), ls_get = (\<lambda>_. Inl NotFound), ls_patch = (\<lambda>_ t. Inr t), ls_now = (\<lambda>_. 1)\<rparr>"
    by (simp add: coldEnv_def)
  ultimately show ?thesis
    by (simp add: acquireHibernateLifecycle_def andThen_Inr patchLifecycle_def patchTamossLifecycleStatus_def lifecycleAttempt_def Let_def)
qed

lemma cold_quiet [simp]: "quiesceTamossWorkloads (coldEnv h) t = yield True" "suspendHibernateScheduledBackup (coldEnv h) t = yield ()"
  by (simp_all add: quiesceTamossWorkloads_def quiescedComponents_def quiesceAutoscaler_def quiesceDeployment_def
      suspendHibernateScheduledBackup_def readOptional_def)

lemma cold_owned [simp]:
  "IsControlledBy refLib (ownedMeta n (om_UID owner)) owner"
  by (simp add: ownedMeta_def refLib_def refControlledBy_def refControllerRef_def)


lemma semantic_phase: "operationStatusSemanticEqual a b \<Longrightarrow> tos_Phase a = tos_Phase b"
  unfolding operationStatusSemanticEqual_def by (drule arg_cong [of _ _ tos_Phase]) simp

lemma cold_updates:
  "\<exists>st. PatchHibernateStatus st \<in> set (fst (finishWith res (coldEnv coldHibernate) coldHibernate OperationDeprovisioningSource r m a)) \<and>
     tos_Phase st = OperationDeprovisioningSource"
proof -
  let ?st = "setOperationStatus refLib (he_now (coldEnv coldHibernate)) (th_Status coldHibernate) (om_Generation (th_Meta coldHibernate))
    OperationDeprovisioningSource r m a"
  have "tos_Phase (th_Status coldHibernate) \<noteq> tos_Phase ?st" by (simp add: coldHibernate_def)
  then have "\<not> operationStatusSemanticEqual (th_Status coldHibernate) ?st"
    using semantic_phase by blast
  then have "PatchHibernateStatus ?st \<in> set (fst (finishWith res (coldEnv coldHibernate) coldHibernate OperationDeprovisioningSource r m a))"
    by (simp add: finishWith_def updateHibernateStatus_def Let_def andThen_write)
  then show ?thesis by (intro exI [of _ ?st]) simp
qed

lemma cold_first_pass:
  "\<exists>key m st. UploadManifest key m ''sha256:1'' \<in> set (coldOperation coldHibernate) \<and> hmc_BackupID (hm_CNPG m) = [] \<and>
     PatchHibernateStatus st \<in> set (coldOperation coldHibernate) \<and> tos_Phase st = OperationDeprovisioningSource"
proof -
  let ?h = coldHibernate
  obtain a where a: "buildHibernateArtifact ?h coldBackend = (a, None)" "hst_ManifestKey a \<noteq> []"
    using cold_stages(1) by blast
  obtain t where t: "snd (acquireHibernateLifecycle (coldEnv ?h) (Apply coldTamoss exampleImages) ?h) = Inr (Some t)"
    using cold_acquires by blast
  let ?c = "\<lparr>cl_Meta = ownedMeta ''demo-db'' [], cl_BarmanObjectStore = Some (hibernateBarmanObjectStore ''demo-db'' ?h (storageBackendFromDestination coldBackend)), cl_Conditions = []\<rparr>"
  have phase: "hibernatePhase ?h = OperationUnset" by (simp add: coldHibernate_def)
  have config: "snd (ensureHibernateCNPGBackupConfiguration (coldEnv ?h) \<lparr>cl_Meta = ownedMeta ''demo-db'' [], cl_BarmanObjectStore = None, cl_Conditions = []\<rparr> ?h coldBackend) = Inr ?c"
    by (simp add: ensureHibernateCNPGBackupConfiguration_def Let_def ownedMeta_def)
  have op: "w \<in> set (coldOperation ?h)" if "w \<in> set (fst (reconcileHibernateCapture (coldEnv ?h) t ?h ?c coldBackend a))" for w
    using that a t cold_stages(2,3) [of ?h]
    by (simp add: coldOperation_def reconcileHibernateOperation_def captureHibernate_def phase loadHibernateCNPGCluster_def
        readOptional_def andThen_write config)
  have owned: "IsControlledBy refLib (ownedMeta ''cold-1'' ''u-hib'') (th_Meta ?h)"
    using cold_owned [of "''cold-1''" "th_Meta ?h"] by (simp add: coldHibernate_def)
  let ?a = "(captureArtifact ?c ((desiredBackup ?h coldTamoss)\<lparr>bk_Meta := ownedMeta ''cold-1'' ''u-hib'', bk_Phase := BackupPhaseCompleted\<rparr>) a)"
  let ?upload = "UploadManifest (hst_ManifestKey a) (buildHibernationManifest (he_operatorSchema (coldEnv ?h)) (he_now (coldEnv ?h)) t coldBackend
        (storageBackendFromDestination coldBackend) ?a (ResourceName t ''db'')) ''sha256:1''"
  let ?finish = "finishWith (requeueAfter (pollInterval (coldEnv ?h))) (coldEnv ?h) ?h OperationDeprovisioningSource ''SourceDeprovisioning''
      ''Hibernation artifact is committed; source database compute will be removed'' (?a\<lparr>hst_Checksum := ''sha256:1''\<rparr>)"
  have "fst (reconcileHibernateCapture (coldEnv ?h) t ?h ?c coldBackend a) = ?upload # fst ?finish"
    by (simp add: reconcileHibernateCapture_def ensureHibernateCNPGBackup_def readOptional_def owned captureOutcome_def
        writeHibernateManifest_def andThen_def Let_def)
  then have writes: "w \<in> set (coldOperation ?h)" if "w = ?upload \<or> w \<in> set (fst ?finish)" for w
    using op that by (metis list.set_intros)
  obtain st where "PatchHibernateStatus st \<in> set (fst ?finish)" "tos_Phase st = OperationDeprovisioningSource"
    using cold_updates by blast
  moreover have "hmc_BackupID (hm_CNPG (buildHibernationManifest o' n' t coldBackend spec ?a server)) = []" for o' n' spec server
    by (simp add: buildHibernationManifest_def captureArtifact_def hibernateCNPGBackupStatus_def desiredBackup_def Let_def)
  ultimately show ?thesis using writes by blast
qed

lemma versions_of_status:
  "PatchHibernateStatus st \<in> set ws \<Longrightarrow> \<exists>v \<in> set (versionsAfter h ws). th_Status v = st"
  by (induction ws arbitrary: h) (auto simp: Let_def)

lemma cold_second_pass:
  assumes "tos_Phase st = OperationDeprovisioningSource"
  shows "DeleteCluster ''demo-db'' \<in> set (coldOperation (coldHibernate\<lparr>th_Status := st\<rparr>))"
proof -
  let ?h = "coldHibernate\<lparr>th_Status := st\<rparr>"
  obtain a where a: "buildHibernateArtifact ?h coldBackend = (a, None)"
    using cold_stages(1) [of ?h] by auto
  have "om_UID (tm_Meta (Apply coldTamoss exampleImages)) = []" by code_simp
  then have "IsControlledBy refLib (ownedMeta ''demo-db'' []) (tm_Meta (Apply coldTamoss exampleImages))"
    using cold_owned [of "''demo-db''" "tm_Meta (Apply coldTamoss exampleImages)"] by simp
  then show ?thesis
    using a cold_stages(2,3) [of ?h] assms
    by (simp add: coldOperation_def reconcileHibernateOperation_def reconcileHibernateSourceDeprovisioning_def
        deprovisionHibernateSource_def readOptional_def andThen_write Let_def timePtrIsZero_def ownedMeta_def emptyMeta_def)
qed

text \<open>
  Unlike the finalizer, a live hibernation in its last phase does not check that the instance is still held by
  it: here the lifecycle of the instance names no operation at all, and the cluster is deleted.
\<close>

lemma deprovision_without_ownership:
  assumes "tos_Phase st = OperationDeprovisioningSource"
  shows "\<not> hibernateLifecycleOwnedBy (Apply coldTamoss exampleImages) h"
    "DeleteCluster ''demo-db'' \<in> set (fst (hibernateReconcile (coldEnv (coldHibernate\<lparr>th_Status := st\<rparr>)) ''media'' ''cold-1''))"
proof -
  show "\<not> hibernateLifecycleOwnedBy (Apply coldTamoss exampleImages) h"
    by (simp add: hibernateLifecycleOwnedBy_def Apply_keeps coldTamoss_def upgrading_def zeroTamossStatus_def zeroLifecycle_def
        operationRefMatches_def Let_def)
  show "DeleteCluster ''demo-db'' \<in> set (fst (hibernateReconcile (coldEnv (coldHibernate\<lparr>th_Status := st\<rparr>)) ''media'' ''cold-1''))"
    using cold_second_pass [OF assms] cold_pass [of "coldHibernate\<lparr>th_Status := st\<rparr>"] assms by (simp add: operationTerminal_def)
qed

theorem database_deleted_after_commit_witness:
  "\<exists>w before after. hibernateStep\<^sup>*\<^sup>* \<lparr>hw_versions = [coldHibernate], hw_writes = []\<rparr> w \<and>
     hw_writes w = before @ DeleteCluster ''demo-db'' # after \<and>
     (\<exists>key m digest. UploadManifest key m digest \<in> set before \<and> hmc_Phase (hm_CNPG m) = BackupPhaseCompleted)"
proof -
  let ?w0 = "\<lparr>hw_versions = [coldHibernate], hw_writes = []\<rparr>"
  have fresh: "freshHibernation ?w0" by (simp add: freshHibernation_def coldHibernate_def)
  obtain st where st: "PatchHibernateStatus st \<in> set (coldOperation coldHibernate)" "tos_Phase st = OperationDeprovisioningSource"
    using cold_first_pass by blast
  let ?ws = "coldOperation coldHibernate" and ?h = "coldHibernate\<lparr>th_Status := st\<rparr>"
  let ?w1 = "\<lparr>hw_versions = [coldHibernate] @ versionsAfter coldHibernate ?ws, hw_writes = ?ws\<rparr>"
  have "\<not> operationTerminal (hibernatePhase coldHibernate)" by (simp add: operationTerminal_def coldHibernate_def)
  then have "hibernateStep ?w0 ?w1"
    using hibernateStep.pass [of coldHibernate ?w0 "coldEnv coldHibernate" "''media''" "''cold-1''" ?ws] cold_pass [of coldHibernate] by simp
  moreover obtain v where "v \<in> set (versionsAfter coldHibernate ?ws)" "th_Status v = st" using versions_of_status [OF st(1)] by blast
  then have "hibernateStep ?w1 (?w1\<lparr>hw_versions := hw_versions ?w1 @ [?h]\<rparr>)"
    by (intro hibernateStep.edit [of v]) simp_all
  moreover have "\<not> operationTerminal (hibernatePhase ?h)" using st(2) by (simp add: operationTerminal_def)
  then have "hibernateStep (?w1\<lparr>hw_versions := hw_versions ?w1 @ [?h]\<rparr>)
      \<lparr>hw_versions = (hw_versions ?w1 @ [?h]) @ versionsAfter ?h (coldOperation ?h), hw_writes = ?ws @ coldOperation ?h\<rparr>"
    (is "hibernateStep _ ?w3")
    using hibernateStep.pass [of ?h "?w1\<lparr>hw_versions := hw_versions ?w1 @ [?h]\<rparr>" "coldEnv ?h" "''media''" "''cold-1''" "coldOperation ?h"]
      cold_pass [of ?h] by simp
  ultimately have run: "hibernateStep\<^sup>*\<^sup>* ?w0 ?w3" by (meson converse_rtranclp_into_rtranclp r_into_rtranclp)
  have "DeleteCluster ''demo-db'' \<in> set (hw_writes ?w3)" using cold_second_pass [OF st(2)] by simp
  then obtain before after where deleted: "hw_writes ?w3 = before @ DeleteCluster ''demo-db'' # after" by (blast dest: split_list)
  with run database_deleted_after_commit [OF fresh run deleted] show ?thesis by blast
qed


end
