(* ===== verification/Resume_Laws.thy ===== *)
theory Resume_Laws
  imports Resume Hibernate_Laws
begin

text \<open>
  What resuming guarantees: a database is restored only from the manifest whose checksum was trusted, what
  hibernation committed can be restored if the artifact has what the resume check asks for, and an artifact is deleted only after it was consumed and as its
  store's policy says.
\<close>

section \<open>Restoring\<close>

definition trustedRestore :: "resume_env \<Rightarrow> Tamoss \<Rightarrow> TamossResolvedRestore \<Rightarrow> bool" where
  "trustedRestore env tamoss r \<longleftrightarrow>
     (\<exists>source waking name key backend manifest.
        resumeBootstrapSource tamoss = (Some source, waking) \<and>
        resumeSource env tamoss source = Inr (name, key, trr_Checksum r) \<and>
        re_getStorageBackend env (tm_Namespace tamoss) name = Inr backend \<and>
        re_readManifest env (om_Namespace (sbk_Meta backend)) (storageBackendFromDestination backend) key = Inr (manifest, trr_Checksum r) \<and>
        trr_Checksum r \<noteq> [] \<and>
        validateResumeManifest manifest key (rel_Schema (deref zeroRelease (re_Releases env (ts_Version (tm_Spec tamoss))))) = None \<and>
        r = resolvedRestore backend (storageBackendFromDestination backend) key manifest (trr_Checksum r))"

lemma restore_store_resolved:
  assumes "restoreFromStore env target backend key trusted = BootstrapResolved r"
  obtains manifest where
    "re_readManifest env (om_Namespace (sbk_Meta backend)) (storageBackendFromDestination backend) key = Inr (manifest, trusted)"
    "trusted \<noteq> []" "validateResumeManifest manifest key target = None"
    "r = resolvedRestore backend (storageBackendFromDestination backend) key manifest trusted"
  using assms by (auto simp: restoreFromStore_def Let_def split: if_splits sum.splits option.splits prod.splits)

lemma resolved_checksum [simp]: "trr_Checksum (resolvedRestore b s k m c) = c"
  by (simp add: resolvedRestore_def)

lemma bootstrap_resolved:
  assumes "resolveResumeBootstrapSource env tamoss source = BootstrapResolved r" and "resumeBootstrapSource tamoss = (Some source, waking)"
  shows "trustedRestore env tamoss r"
proof -
  have settled: "resumeSource env tamoss source \<noteq> Inl (BootstrapResolved r)"
    by (auto simp: resumeSource_def hibernationSource_def Let_def split: option.splits sum.splits)
  obtain name key trusted where src: "resumeSource env tamoss source = Inr (name, key, trusted)"
    using assms(1) settled by (cases "resumeSource env tamoss source") (auto simp: resolveResumeBootstrapSource_def)
  then obtain backend where backend: "re_getStorageBackend env (tm_Namespace tamoss) name = Inr backend"
    and "restoreFromStore env (rel_Schema (deref zeroRelease (re_Releases env (ts_Version (tm_Spec tamoss))))) backend key trusted = BootstrapResolved r"
    using assms(1) by (auto simp: resolveResumeBootstrapSource_def split: sum.splits)
  then show ?thesis
    using src assms(2) unfolding trustedRestore_def
    by (elim restore_store_resolved) (intro exI [of _ source] exI [of _ waking] exI [of _ name] exI [of _ key] exI [of _ backend] exI, auto)
qed

lemma warned: "snd (andThen (resumeWarning reason m) (\<lambda>_. yield (ContinueWith t))) = Inr (ContinueWith t') \<Longrightarrow> t' = t"
  by (simp add: andThen_Inr)

lemma recorded_resolved:
  "snd (recordBootstrap env tamoss outcome) = Inr (ContinueWith t) \<Longrightarrow>
   \<exists>r. outcome = BootstrapResolved r \<and> tls_ResolvedRestore (lifecycleOf t) = Some r"
  by (auto simp: recordBootstrap_def andThen_Inr withResolvedRestore_def split: resumeBootstrapOutcome.splits)

text \<open>
  C9: The Tamoss controller goes on with a new restore source only when hibernation is off, the instance has a
  managed CNPG database whose cluster does not exist, and the restore was made from a manifest that the store
  returned with exactly the checksum that the completed hibernation, or the spec, trusts, and that is valid for
  the wanted release; the restore then names that manifest's backup path and server.
\<close>

theorem resume_restores_trusted_artifact:
  assumes "snd (reconcileResumeBootstrap env tamoss) = Inr (ContinueWith t)"
    and "tls_ResolvedRestore (lifecycleOf t) \<noteq> tls_ResolvedRestore (lifecycleOf tamoss)"
  shows "\<not> hib_Enabled (ts_Hibernation (tm_Spec tamoss)) \<and>
    dbProvider (be_DB (ts_Backends (tm_Spec tamoss))) = ''cnpg'' \<and>
    re_getCluster env (tm_Namespace tamoss) (ResourceName tamoss ''db'') = Inl NotFound \<and>
    (\<exists>r. tls_ResolvedRestore (lifecycleOf t) = Some r \<and> trustedRestore env tamoss r)"
proof -
  obtain source waking where source: "resumeBootstrapSource tamoss = (Some source, waking)"
    using assms by (cases "resumeBootstrapSource tamoss"; cases "fst (resumeBootstrapSource tamoss)")
      (auto simp: reconcileResumeBootstrap_def)
  then have enabled: "\<not> hib_Enabled (ts_Hibernation (tm_Spec tamoss))"
    by (auto simp: resumeBootstrapSource_def Let_def split: if_splits)
  have "dbProvider (be_DB (ts_Backends (tm_Spec tamoss))) = ''cnpg'' \<and>
    re_getCluster env (tm_Namespace tamoss) (ResourceName tamoss ''db'') = Inl NotFound \<and>
    (\<exists>r. resolveResumeBootstrapSource env tamoss source = BootstrapResolved r \<and> tls_ResolvedRestore (lifecycleOf t) = Some r)"
    using assms source unfolding reconcileResumeBootstrap_def andThen_readOptional
    by (auto simp: andThen_readOptional recorded_resolved dest!: warned split: if_splits)
  with enabled show ?thesis using bootstrap_resolved [OF _ source] by blast
qed

section \<open>Deleting artifacts\<close>

definition deletesArtifact :: "resume_write \<Rightarrow> bool" where
  "deletesArtifact w = (case w of DeleteArtifact _ _ _ \<Rightarrow> True | _ \<Rightarrow> False)"

definition safePrefix :: "string \<Rightarrow> string \<Rightarrow> bool" where
  "safePrefix key pre \<longleftrightarrow> (\<exists>root. pre = root @ ''/'' \<and> TrimSpace key = root @ ''/manifest.json'' \<and> hd root \<noteq> CHR ''/'' \<and>
     list_all (\<lambda>segment. segment \<noteq> [] \<and> segment \<noteq> ''.'' \<and> segment \<noteq> ''..'') (Split (CHR ''/'') root))"

text \<open>The artifact was consumed at the recorded time, and the policy of its store says to delete it now.\<close>

definition cleanupDue :: "resume_env \<Rightarrow> HibernationArtifactRetention \<Rightarrow> StorageBackendSpec \<Rightarrow> bool" where
  "cleanupDue env restore spec \<longleftrightarrow>
     IsHibernateDestination spec \<and> IsExternalObjectStore spec \<and>
     (\<exists>resumedAt. har_ResumedAt restore = Some resumedAt \<and>
        (hrs_Mode (sb_Retention spec) = ''DeleteAfterResume'' \<or>
         hrs_Mode (sb_Retention spec) = ''TTL'' \<and> hrs_TTLSecondsAfterResume (sb_Retention spec) > 0 \<and>
           artifactDueAt resumedAt (hrs_TTLSecondsAfterResume (sb_Retention spec)) \<le> re_now env))"

definition deletionDue :: "resume_env \<Rightarrow> Tamoss \<Rightarrow> HibernationArtifactRetention \<Rightarrow> resume_write \<Rightarrow> bool" where
  "deletionDue env tamoss restore w = (case w of
     DeleteArtifact namespace spec pre \<Rightarrow>
       safePrefix (har_ManifestKey restore) pre \<and> cleanupDue env restore spec \<and>
       \<not> hibernationArtifactCleanupTerminal (hac_Phase (har_Cleanup restore)) \<and>
       (\<exists>backend. re_getStorageBackend env (tm_Namespace tamoss) (har_StorageBackendName restore) = Inr backend \<and>
          spec = storageBackendFromDestination backend \<and> namespace = om_Namespace (sbk_Meta backend))
   | _ \<Rightarrow> True)"

lemma deletion_simps [simp]:
  "deletionDue env tamoss restore (ResumeLifecycle t)" "deletionDue env tamoss restore (ResumeEvent e)"
  "deletionDue env tamoss restore (ResumeWarning r m)" "deletionDue env tamoss restore (CreateHibernate h)"
  "deletionDue env tamoss restore (DeleteHibernate n)"
  by (simp_all add: deletionDue_def)

lemma root_prefix_safe:
  assumes "hibernationArtifactRootPrefix key = Inr pre"
  shows "safePrefix key pre"
proof -
  have "HasSuffix (TrimSpace key) ''/manifest.json''" and relative: "\<not> HasPrefix (TrimSpace key) ''/''"
    using assms by (auto simp: hibernationArtifactRootPrefix_def Let_def split: if_splits)
  then obtain root where root: "TrimSpace key = root @ ''/manifest.json''" by (auto simp: HasSuffix_iff)
  then have trim: "TrimSuffix (TrimSpace key) ''/manifest.json'' = root" by (simp only: TrimSuffix_append)
  have "root \<noteq> []" "pre = root @ ''/''" "\<not> list_ex unsafeSegment (Split (CHR ''/'') root)"
    using assms by (auto simp: hibernationArtifactRootPrefix_def Let_def trim split: if_splits)
  moreover from this(1) relative root have "hd root \<noteq> CHR ''/''" by (cases root) (auto simp: HasPrefix_iff)
  ultimately show ?thesis
    using root by (auto simp: safePrefix_def unsafeSegment_def list_ex_iff list_all_iff)
qed

lemma emits_resume [emits_rules]:
  "emits (deletionDue env tamoss restore) (resumeEvent env' r m)" "emits (deletionDue env tamoss restore) (resumeWarning r m)"
  "emits (deletionDue env tamoss restore) (resumeLifecycle env' k t f)"
  by (auto simp: resumeEvent_def resumeWarning_def emits_def resumeLifecycle_def)

lemma emits_record [emits_rules]:
  "emits (deletionDue env tamoss restore) (recordArtifactCleanup env' k t p c)"
  "emits (deletionDue env tamoss restore) (recordAndReturn res env' k t p c)"
  by (auto simp: recordAndReturn_def recordArtifactCleanup_def Let_def intro!: emits_rules)

lemma emits_delete:
  assumes "\<And>pre. safePrefix (har_ManifestKey restore) pre \<Longrightarrow> deletionDue env tamoss restore (DeleteArtifact namespace spec pre)"
  shows "emits (deletionDue env tamoss restore) (deleteResumeArtifact env k t namespace spec restore)"
proof -
  have "emits (deletionDue env tamoss restore) ([DeleteArtifact namespace spec pre], Inr ())"
    if "hibernationArtifactRootPrefix (har_ManifestKey restore) = Inr pre" for pre
    using assms root_prefix_safe [OF that] by (simp add: emits_def)
  then show ?thesis
    by (auto simp: deleteResumeArtifact_def split: sum.splits intro!: emits_rules)
qed

lemma emits_retention:
  assumes "\<not> hibernationArtifactCleanupTerminal (hac_Phase (har_Cleanup restore))" "har_ResumedAt restore = Some resumedAt"
    and "re_getStorageBackend env (tm_Namespace tamoss) (har_StorageBackendName restore) = Inr backend"
  shows "emits (deletionDue env tamoss restore) (applyRetention env k tamoss backend restore resumedAt)"
proof -
  have due: "artifactDueAt resumedAt ttl \<le> re_now env" if "\<not> timeSub (artifactDueAt resumedAt ttl) (re_now env) > 0" for ttl
    using that by (auto simp: timeSub_def max_def min_def split: if_splits)
  show ?thesis
    using assms due
    by (auto simp: applyRetention_def Let_def deletionDue_def cleanupDue_def intro!: emits_rules emits_delete)
qed


section \<open>From hibernation to resume\<close>

text \<open>What hibernation knows when it writes the manifest, and resume asks for.\<close>

definition resumableArtifact :: "Target \<Rightarrow> Tamoss \<Rightarrow> HibernationArtifactStatus \<Rightarrow> bool" where
  "resumableArtifact target tamoss a \<longleftrightarrow>
     hst_Driver a = HibernationDriverCNPGPhysical \<and> hcb_Phase (hst_CNPGBackup a) = BackupPhaseCompleted \<and>
     hcb_BackupID (hst_CNPGBackup a) \<noteq> [] \<and> hcb_DestinationPath (hst_CNPGBackup a) \<noteq> [] \<and>
     TrimSpace (tst_SchemaVersion (tm_Status tamoss)) \<noteq> [] \<and> Supports target (TrimSpace (tst_SchemaVersion (tm_Status tamoss))) \<and>
     TrimSpace (tst_ResolvedTAMSAPI (tm_Status tamoss)) = tgt_TAMSAPI target"

lemma ResourceName_db [simp]: "ResourceName t ''db'' \<noteq> []"
  by (simp add: ResourceName_def appendResourceSuffix_def)

lemma built_manifest_valid:
  assumes "resumableArtifact target tamoss a"
  shows "validateResumeManifest (buildHibernationManifest operator now tamoss d spec a (ResourceName tamoss ''db'')) (hst_ManifestKey a) target = None"
    "resumeCNPGServerName (buildHibernationManifest operator now tamoss d spec a (ResourceName tamoss ''db'')) = ResourceName tamoss ''db''"
  using assms by (simp_all add: resumableArtifact_def validateResumeManifest_def buildHibernationManifest_def Let_def
      resumeCNPGServerName_def orElse_def)

text \<open>The store still holds under the key of the artifact what was put there, with the checksum as its metadata.\<close>

definition storeKeeps :: "s3_api \<Rightarrow> StorageBackend \<Rightarrow> HibernationArtifactStatus \<Rightarrow> hibernationManifest \<Rightarrow> bool" where
  "storeKeeps s3 d a m \<longleftrightarrow>
     (\<exists>target header. openTarget s3 (om_Namespace (sbk_Meta d)) (storageBackendFromDestination d) = Inr target \<and>
        ToLower (TrimPrefix (ToLower header) ''x-amz-meta-'') = hibernationManifestChecksumMetadata \<and>
        s3_GetObject s3 target (hst_ManifestKey a) =
          Inr \<lparr>s3o_Stat = Inr (int (length (MarshalIndent (manifestDocument m))), [(header, hst_Checksum a)]),
             s3o_Read = Inr (MarshalIndent (manifestDocument m))\<rparr>)"

text \<open>
  C8: What a hibernation wrote can be resumed, provided that the artifact records what the resume check asks for
  (\<open>resumableArtifact\<close>). When its manifest, of at most the size that is read back, was written to an external object
  store that is a hibernation destination and is ready, and the store still holds it, then resuming with the manifest key and
  the checksum that the hibernation recorded resolves to a restore of exactly that backup path, from the
  server name of the hibernated cluster.
\<close>

theorem hibernation_resumes:
  assumes "snd (writeHibernateManifest henv tamoss d a) = Inr (Inr a')" and "he_writeManifest henv = S3Write s3"
    and "m = buildHibernationManifest (he_operatorSchema henv) (he_now henv) tamoss d (storageBackendFromDestination d) a (ResourceName tamoss ''db'')"
    and "length (MarshalIndent (manifestDocument m)) \<le> hibernationManifestMaximumBytes"
    and "resumableArtifact target tamoss a"
    and "re_readManifest renv = S3Read s3'" and "storeKeeps s3' d a' m"
    and "IsHibernateDestination (storageBackendFromDestination d)" and "IsExternalObjectStore (storageBackendFromDestination d)"
    and "sbs_Phase (sbk_Status d) = ''Ready''"
  shows "\<exists>r. restoreFromStore renv target d (hst_ManifestKey a') (hst_Checksum a') = BootstrapResolved r \<and>
    trr_Checksum r = hst_Checksum a' \<and> crs_Enabled (trr_Restore r) \<and> crs_Source (trr_Restore r) = ResourceName tamoss ''db'' \<and>
    cos_DestinationPath (crs_ObjectStore (trr_Restore r)) = hcb_DestinationPath (hst_CNPGBackup a)"
proof -
  let ?spec = "storageBackendFromDestination d" and ?ns = "om_Namespace (sbk_Meta d)"
  obtain checksum where written: "S3Write s3 ?ns ?spec (hst_ManifestKey a) m = Inr checksum" and a': "a' = a\<lparr>hst_Checksum := checksum\<rparr>"
    using assms(1-3) by (auto simp: writeHibernateManifest_def Let_def split: sum.splits)
  have "hm_ManifestVersion m = hibernationManifestVersion" by (simp add: assms(3) buildHibernationManifest_def)
  with assms(4,7) written have read: "S3Read s3' ?ns ?spec (hst_ManifestKey a) = Inr (m, checksum)"
    unfolding storeKeeps_def a' by (auto intro: read_after_write)
  moreover have "checksum \<noteq> []"
    using written by (auto simp: S3Write_def hibernationManifestChecksum_def Let_def split: sum.splits option.splits)
  ultimately have "restoreFromStore renv target d (hst_ManifestKey a') (hst_Checksum a') =
      BootstrapResolved (resolvedRestore d ?spec (hst_ManifestKey a) m checksum)"
    using assms(8-10) built_manifest_valid(1) [OF assms(5)] by (simp add: restoreFromStore_def a' assms(3,6) Let_def)
  then show ?thesis
    using built_manifest_valid(2) [OF assms(5)]
    by (simp add: resolvedRestore_def a' assms(3)) (simp add: buildHibernationManifest_def)
qed

text \<open>
  Hibernation itself does not ask for what resume asks for: the example run of \<open>Hibernate_Laws\<close> commits a backup
  without an identifier, whose manifest every release refuses.
\<close>

lemma committed_manifest_may_be_refused:
  "\<exists>key m digest st. UploadManifest key m digest \<in> set (coldOperation coldHibernate) \<and>
     PatchHibernateStatus st \<in> set (coldOperation coldHibernate) \<and> tos_Phase st = OperationDeprovisioningSource \<and>
     (\<forall>k target. validateResumeManifest m k target \<noteq> None)"
proof -
  obtain key m st where "UploadManifest key m ''sha256:1'' \<in> set (coldOperation coldHibernate)" "hmc_BackupID (hm_CNPG m) = []"
    "PatchHibernateStatus st \<in> set (coldOperation coldHibernate)" "tos_Phase st = OperationDeprovisioningSource"
    using cold_first_pass by blast
  moreover from this(2) have "validateResumeManifest m k target \<noteq> None" for k target
    by (auto simp: validateResumeManifest_def Let_def)
  ultimately show ?thesis by blast
qed

text \<open>
  The time to live is a number of seconds that the spec only requires to be positive, and its conversion to
  nanoseconds may wrap around: then the artifact is due long before it was consumed.
\<close>

lemma ttl_in_range: "0 < ttl \<Longrightarrow> ttl \<le> 9223372036 \<Longrightarrow> artifactDueAt resumedAt ttl = resumedAt + ttl * Second"
  by (simp add: artifactDueAt_def wrap64_id Second_def)

lemma ttl_wraps: "artifactDueAt resumedAt 9223372037 < resumedAt"
  by (simp add: artifactDueAt_def wrap64_def Second_def)

section \<open>Examples\<close>

definition warmTamoss :: Tamoss where
  "warmTamoss = coldTamoss\<lparr>tm_Status := (tm_Status coldTamoss)\<lparr>tst_Resolved := zeroResolved\<lparr>rs_Versions := \<lparr>rvs_Schema = [], rvs_Tamoss = [], rvs_TAMSAPI = ''7''\<rparr>\<rparr>\<rparr>\<rparr>"

definition warmArtifact :: HibernationArtifactStatus where
  "warmArtifact = zeroArtifact\<lparr>hst_Driver := HibernationDriverCNPGPhysical, hst_ManifestKey := ''hibernations/demo/cold-1/manifest.json'',
     hst_CNPGBackup := \<lparr>hcb_Name = ''cold-1'', hcb_Namespace = ''media'', hcb_Phase = BackupPhaseCompleted,
       hcb_DestinationPath = ''s3://cold/hibernations/demo/cold-1/cnpg'', hcb_BackupID = ''20240229'', hcb_Error = []\<rparr>\<rparr>"

definition warmManifest :: hibernationManifest where
  "warmManifest = \<lparr>hm_ManifestVersion = ''v1'', hm_CreatedAt = ''0001-01-01T00:00:00Z'', hm_Driver = HibernationDriverCNPGPhysical,
     hm_SourceTamoss = \<lparr>hmt_Name = ''demo'', hmt_Namespace = ''media'', hmt_UID = []\<rparr>,
     hm_Schema = \<lparr>hms_Version = ''1.1'', hms_TAMSAPI = ''7'', hms_Operator = ''1.1'', hms_ManifestKind = ''TamossHibernate''\<rparr>,
     hm_Database = \<lparr>hmd_Provider = ''cnpg'', hmd_Cluster = ''demo-db''\<rparr>,
     hm_Artifact = \<lparr>hma_ManifestKey = ''hibernations/demo/cold-1/manifest.json'', hma_ManifestURI = []\<rparr>,
     hm_CNPG = \<lparr>hmc_BackupName = ''cold-1'', hmc_BackupID = ''20240229'', hmc_DestinationPath = ''s3://cold/hibernations/demo/cold-1/cnpg'',
       hmc_ServerName = ''demo-db'', hmc_Phase = BackupPhaseCompleted\<rparr>,
     hm_StorageBackend = \<lparr>hmb_Name = ''cold'', hmb_Bucket = ''cold'', hmb_EndpointURL = ''https://s3.example'', hmb_Region = ''eu-west-2''\<rparr>\<rparr>"

definition warmS3 :: s3_api where
  "warmS3 = (let bytes = MarshalIndent (manifestDocument warmManifest)
     in exampleS3 \<lparr>s3o_Stat = Inr (int (length bytes), [(''X-Amz-Meta-Tamoss-Checksum'', hibernationManifestChecksum bytes)]), s3o_Read = Inr bytes\<rparr>)"

definition warmEnv :: "Tamoss \<Rightarrow> StorageBackend \<Rightarrow> resume_env" where
  "warmEnv stored backend =
     \<lparr>re_lib = refLib, re_Releases = exampleCatalogue, re_recorder = False, re_now = 10 * Second, re_errorText = (\<lambda>_. []),
      re_lifecycle = (\<lambda>_. \<lparr>ls_retry = (\<lambda>_. 0), ls_get = (\<lambda>_. Inl NotFound), ls_patch = (\<lambda>_ _. Inr stored), ls_now = (\<lambda>_. 1)\<rparr>),
      re_getHibernate = (\<lambda>ns n. Inr (coldHibernate\<lparr>th_Status := (th_Status coldHibernate)\<lparr>tos_Phase := OperationCompleted,
        tos_Artifact := warmArtifact\<lparr>hst_Checksum := hibernationManifestChecksum (MarshalIndent (manifestDocument warmManifest))\<rparr>\<rparr>\<rparr>)),
      re_getCluster = (\<lambda>ns n. Inl NotFound), re_getStorageBackend = (\<lambda>ns n. Inr backend),
      re_createHibernate = (\<lambda>_. Inr ()), re_deleteHibernate = (\<lambda>_. Inr ()), re_readManifest = S3Read warmS3,
      re_deletePrefix = (\<lambda>ns spec pre. Inr 3)\<rparr>"

lemma cold_store [simp]:
  "sb_Region (storageBackendFromDestination coldBackend) = ''eu-west-2''"
  "s3e_Default (sb_Endpoint (storageBackendFromDestination coldBackend)) = \<lparr>eurl_URL = ''https://s3.example''\<rparr>"
  "sb_Credentials (storageBackendFromDestination coldBackend) = sb_Credentials exampleDestination"
  "om_Namespace (sbk_Meta coldBackend) = ''media''" "om_Name (sbk_Meta coldBackend) = ''cold''" "sbs_Phase (sbk_Status coldBackend) = ''Ready''"
  by (simp_all add: storageBackendFromDestination_def storageBackendApplyDefaults_def Let_def) 
     (simp_all add: coldBackend_def exampleDestination_def orElse_def)

lemma warm_manifest:
  "buildHibernationManifest ''1.1'' 1 warmTamoss coldBackend (storageBackendFromDestination coldBackend) warmArtifact (ResourceName warmTamoss ''db'') =
   warmManifest"
proof -
  have "formatRFC3339 1 = ''0001-01-01T00:00:00Z''" by code_simp
  then show ?thesis
    by (simp add: buildHibernationManifest_def warmManifest_def warmTamoss_def warmArtifact_def coldTamoss_def upgrading_def zeroTamoss_def
        zeroTamossStatus_def zeroSpec_def zeroArtifact_def ResourceName_def appendResourceSuffix_def emptyMeta_def dbProvider_def)
qed

lemma warm_small: "length (MarshalIndent (manifestDocument warmManifest)) \<le> hibernationManifestMaximumBytes"
proof -
  have "length (MarshalIndent (manifestDocument warmManifest)) \<le> 1500" by code_simp
  then show ?thesis by (simp add: hibernationManifestMaximumBytes_def)
qed

lemma warm_target: "\<exists>target. openTarget warmS3 ''media'' (storageBackendFromDestination coldBackend) = Inr target"
proof -
  have "hibernationS3Endpoint ''https://s3.example'' = Inr (''s3.example'', True)" by code_simp
  then show ?thesis
    by (simp add: openTarget_def warmS3_def exampleS3_def storageBackendCredentials_def Let_def)
qed

lemma warm_written:
  "S3Write warmS3 ''media'' (storageBackendFromDestination coldBackend) key m = Inr (hibernationManifestChecksum (MarshalIndent (manifestDocument m)))"
  using warm_target by (auto simp: S3Write_def warmS3_def exampleS3_def Let_def)

lemma warm_kept: "storeKeeps warmS3 coldBackend
    (warmArtifact\<lparr>hst_Checksum := hibernationManifestChecksum (MarshalIndent (manifestDocument warmManifest))\<rparr>) warmManifest"
proof -
  have "ToLower (TrimPrefix (ToLower ''X-Amz-Meta-Tamoss-Checksum'') ''x-amz-meta-'') = hibernationManifestChecksumMetadata" by code_simp
  then show ?thesis
    using warm_target unfolding storeKeeps_def
    by (auto simp: warmS3_def exampleS3_def Let_def intro!: exI [of _ "''X-Amz-Meta-Tamoss-Checksum''"])
qed

lemma warm_resumable: "resumableArtifact (rel_Schema (deref zeroRelease (exampleCatalogue ''1.1''))) warmTamoss warmArtifact"
proof -
  have "TrimSpace ''1.1'' = ''1.1''" "TrimSpace ''7'' = ''7''" by code_simp+
  then show ?thesis
    by (simp add: resumableArtifact_def warmArtifact_def warmTamoss_def coldTamoss_def exampleCatalogue_def exampleRelease_def Supports_def Let_def)
qed

theorem hibernation_resumes_witness:
  "\<exists>r. restoreFromStore (warmEnv warmTamoss coldBackend) (rel_Schema (deref zeroRelease (exampleCatalogue ''1.1''))) coldBackend
      ''hibernations/demo/cold-1/manifest.json'' (hibernationManifestChecksum (MarshalIndent (manifestDocument warmManifest))) = BootstrapResolved r \<and>
    cos_DestinationPath (crs_ObjectStore (trr_Restore r)) = ''s3://cold/hibernations/demo/cold-1/cnpg''"
proof -
  let ?henv = "(coldEnv coldHibernate)\<lparr>he_writeManifest := S3Write warmS3\<rparr>"
  let ?a = "warmArtifact\<lparr>hst_Checksum := hibernationManifestChecksum (MarshalIndent (manifestDocument warmManifest))\<rparr>"
  have env: "he_operatorSchema ?henv = ''1.1''" "he_now ?henv = 1" by (simp_all add: coldEnv_def)
  have "snd (writeHibernateManifest ?henv warmTamoss coldBackend warmArtifact) = Inr (Inr ?a)"
    using warm_manifest env by (simp add: writeHibernateManifest_def warm_written Let_def)
  from hibernation_resumes [OF this _ _ warm_small warm_resumable _ warm_kept, of warmS3 "warmEnv warmTamoss coldBackend"]
  show ?thesis
    using warm_manifest env cold_destination by (auto simp: warmEnv_def warmArtifact_def)
qed

abbreviation "warmChecksum \<equiv> hibernationManifestChecksum (MarshalIndent (manifestDocument warmManifest))"
abbreviation "warmTarget \<equiv> rel_Schema (deref zeroRelease (exampleCatalogue ''1.1''))"

lemma warm_restores:
  "restoreFromStore (warmEnv stored coldBackend) warmTarget coldBackend ''hibernations/demo/cold-1/manifest.json'' warmChecksum =
   BootstrapResolved (resolvedRestore coldBackend (storageBackendFromDestination coldBackend) ''hibernations/demo/cold-1/manifest.json'' warmManifest warmChecksum)"
proof -
  have "S3Read warmS3 ''media'' (storageBackendFromDestination coldBackend) ''hibernations/demo/cold-1/manifest.json'' = Inr (warmManifest, warmChecksum)"
    using warm_kept by (auto simp: storeKeeps_def warmArtifact_def intro!: read_after_write [OF warm_written _ warm_small])
      (simp_all add: warmManifest_def)
  moreover have "validateResumeManifest warmManifest ''hibernations/demo/cold-1/manifest.json'' warmTarget = None"
    using built_manifest_valid(1) [OF warm_resumable, of "''1.1''" 1 coldBackend "storageBackendFromDestination coldBackend"]
    by (simp add: warm_manifest) (simp add: warmArtifact_def)
  moreover have "warmChecksum \<noteq> []" by (simp add: hibernationManifestChecksum_def)
  ultimately show ?thesis
    using cold_destination by (simp add: restoreFromStore_def warmEnv_def Let_def)
qed

definition wokenTamoss :: Tamoss where
  "wokenTamoss = warmTamoss\<lparr>tm_Status := (tm_Status warmTamoss)\<lparr>tst_Lifecycle := zeroLifecycle\<lparr>tls_Phase := LifecycleHibernated,
     tls_LastHibernateRef := Some (hibernateRef coldHibernate)\<rparr>\<rparr>\<rparr>"

theorem resume_restores_trusted_artifact_witness:
  "\<exists>r. trustedRestore (warmEnv wokenTamoss coldBackend) wokenTamoss r \<and> trr_Checksum r = warmChecksum"
proof -
  let ?env = "warmEnv wokenTamoss coldBackend"
  let ?source = "\<lparr>trs_HibernationRef = Some \<lparr>lref_Name = ''cold-1''\<rparr>, trs_Artifact = None\<rparr>"
  have tamoss: "lifecycleOf wokenTamoss = zeroLifecycle\<lparr>tls_Phase := LifecycleHibernated, tls_LastHibernateRef := Some (hibernateRef coldHibernate)\<rparr>"
    "\<not> hib_Enabled (ts_Hibernation (tm_Spec wokenTamoss))" "ts_Version (tm_Spec wokenTamoss) = ''1.1''"
    "dbProvider (be_DB (ts_Backends (tm_Spec wokenTamoss))) = ''cnpg''"
    by (simp_all add: wokenTamoss_def warmTamoss_def coldTamoss_def upgrading_def zeroSpec_def dbProvider_def)
  have source: "resumeBootstrapSource wokenTamoss = (Some ?source, True)"
    using tamoss by (simp add: resumeBootstrapSource_def operationObjectReference_def coldHibernate_def)
  have "warmChecksum \<noteq> []" by (simp add: hibernationManifestChecksum_def)
  then have "resolveResumeBootstrapSource ?env wokenTamoss ?source =
      restoreFromStore ?env warmTarget coldBackend ''hibernations/demo/cold-1/manifest.json'' warmChecksum"
    using tamoss by (simp add: resolveResumeBootstrapSource_def resumeSource_def hibernationSource_def warmEnv_def warmArtifact_def orElse_def Let_def)
  then have resolved: "resolveResumeBootstrapSource ?env wokenTamoss ?source = BootstrapResolved
      (resolvedRestore coldBackend (storageBackendFromDestination coldBackend) ''hibernations/demo/cold-1/manifest.json'' warmManifest warmChecksum)"
    (is "_ = BootstrapResolved ?r") by (simp add: warm_restores)
  have "\<exists>t. snd (resumeLifecycle ?env 0 wokenTamoss f) = Inr t" for f
    by (simp add: resumeLifecycle_def patchTamossLifecycleStatus_def lifecycleAttempt_def warmEnv_def Let_def)
  then obtain t where t: "snd (resumeLifecycle ?env 0 wokenTamoss (resolvedLifecycle ?r)) = Inr t" by blast
  have run: "snd (reconcileResumeBootstrap ?env wokenTamoss) = Inr (ContinueWith (withResolvedRestore t ?r))"
    using source tamoss t resolved
    by (simp add: reconcileResumeBootstrap_def recordBootstrap_def andThen_Inr resumeEvent_def)
      (simp add: warmEnv_def readOptional_def recordBootstrap_def andThen_Inr resumeEvent_def)
  have "tls_ResolvedRestore (lifecycleOf (withResolvedRestore t ?r)) = Some ?r" by (simp add: withResolvedRestore_def)
  with resume_restores_trusted_artifact [OF run] tamoss show ?thesis by (auto simp: zeroLifecycle_def)
qed

definition consumedArtifact :: HibernationArtifactRetention where
  "consumedArtifact = \<lparr>har_StorageBackendName = ''cold'', har_ManifestKey = ''hibernations/demo/cold-1/manifest.json'', har_ResumedAt = Some 1,
     har_Cleanup = hst_Cleanup zeroArtifact\<rparr>"

definition expiringBackend :: StorageBackend where
  "expiringBackend = coldBackend\<lparr>sbk_Spec := (sbk_Spec coldBackend)\<lparr>sb_Retention := \<lparr>hrs_Mode = ''TTL'', hrs_TTLSecondsAfterResume = 5\<rparr>\<rparr>\<rparr>"


end
