(* ===== verification/Schema.thy ===== *)
theory Schema
  imports Flow_Profile Go_Time
begin

text \<open>
  The schema controller (\<open>internal/controller/schema_controller.go\<close>): one pass of
  \<open>SchemaController.Reconcile\<close> over the ConfigMap that records the applied revision and the migration Job.
  The API calls are the fields of \<open>schema_env\<close>; a pass yields the writes the server accepted, and the
  counter increments of \<open>RecordSchemaMigration\<close>, in order. An apply decodes the stored object into
  the object given to it: \<open>se_storedState\<close> and \<open>se_storedJob\<close>. The clock is read once per pass.
\<close>

section \<open>Data\<close>

record recoveryActionEvent =
  rae_Type :: string
  rae_Reason :: string
  rae_Message :: string

text \<open>\<open>ManagedObjects\<close> is read for the identity of its objects only.\<close>

datatype managed_key = StateKey string string | JobKey string string

definition stateKey :: "ConfigMap \<Rightarrow> managed_key" where
  "stateKey cm = StateKey (om_Namespace (cm_Meta cm)) (om_Name (cm_Meta cm))"

definition jobKey :: "Job \<Rightarrow> managed_key" where
  "jobKey job = JobKey (job_Namespace job) (job_Name job)"

record SchemaResult =
  sr_Ready :: bool
  sr_Version :: string
  sr_ManagedObjects :: "managed_key list"
  sr_Degraded :: bool
  sr_Reason :: string
  sr_Message :: string
  sr_SchemaMigration :: SchemaMigrationStatus
  sr_RecoveryEvent :: "recoveryActionEvent option"
  sr_RequeueAfter :: Duration

datatype schema_write =
    ApplySchemaState ConfigMap apply_write
  | ApplySchemaJob Job apply_write
  | DeleteSchemaJob Job bool
  | RecordSchemaMigration string

text \<open>The flag of \<open>se_deleteJob\<close> asks for foreground propagation.\<close>

record schema_env =
  se_lib :: kube_lib
  se_Target :: Target
  se_now :: time
  se_getConfigMap :: "string \<Rightarrow> string \<Rightarrow> ConfigMap api"
  se_getJob :: "string \<Rightarrow> string \<Rightarrow> Job api"
  se_listJobs :: "string \<Rightarrow> (string \<rightharpoonup> string) \<Rightarrow> Job list api"
  se_listPods :: "string \<Rightarrow> (string \<rightharpoonup> string) \<Rightarrow> Pod list api"
  se_deleteJob :: "Job \<Rightarrow> bool \<Rightarrow> unit api"
  se_stateStore :: "ConfigMap \<Rightarrow> apply_store"
  se_jobStore :: "Job \<Rightarrow> apply_store"
  se_storedState :: "ConfigMap \<Rightarrow> ConfigMap"
  se_storedJob :: "Job \<Rightarrow> Job"

type_synonym schema_stage = "(schema_write, SchemaResult option) act"

text \<open>\<open>if result, done, err := stage; err != nil || done { return result, err }\<close>\<close>

definition orNext :: "('w, 'r option) act \<Rightarrow> ('w, 'r) act \<Rightarrow> ('w, 'r) act" where
  "orNext stage rest = andThen stage (\<lambda>r. case r of None \<Rightarrow> rest | Some result \<Rightarrow> yield result)"

definition recordMigration :: "string \<Rightarrow> (schema_write, unit) act" where
  "recordMigration result = ([RecordSchemaMigration result], Inr ())"

abbreviation "appliedVersionKey \<equiv> ''appliedVersion''"
abbreviation "lastAppliedAtKey \<equiv> ''lastAppliedAt''"
abbreviation "fixturesKey \<equiv> ''fixturesApplied''"
abbreviation "failureCountKey \<equiv> ''failureCount''"
abbreviation "failedGenerationKey \<equiv> ''failedGeneration''"
abbreviation "failedVersionKey \<equiv> ''failedVersion''"
abbreviation "failedJobUIDKey \<equiv> ''failedJobUID''"
abbreviation "failedAtKey \<equiv> ''failedAt''"
abbreviation "schemaRetryAnnotation \<equiv> ''tamoss.livewyer.io/schema-retry''"
abbreviation "schemaRetryDone \<equiv> ''tamoss.livewyer.io/schema-retry-consumed''"

definition schemaJobCleanupRequeueAfter :: Duration where
  "schemaJobCleanupRequeueAfter = 2 * Second"

definition schemaMigrationPostgresClientImage :: "Tamoss \<Rightarrow> string" where
  "schemaMigrationPostgresClientImage tamoss =
     orElse (ci_SchemaMigrationPostgresClient (ts_Images (tm_Spec tamoss))) ''postgres:18.6-alpine''"

section \<open>The rendered Job\<close>

definition schemaLabels :: "Tamoss \<Rightarrow> string \<rightharpoonup> string" where
  "schemaLabels tamoss =
     [''app.kubernetes.io/name'' \<mapsto> ''tamoss'', ''app.kubernetes.io/instance'' \<mapsto> tm_Name tamoss,
      ''app.kubernetes.io/component'' \<mapsto> ''schema'', ''app.kubernetes.io/managed-by'' \<mapsto> ''tamoss-operator'']"

definition schemaVersionForName :: "Target \<Rightarrow> string" where
  "schemaVersionForName target =
     (let version = orElse (TrimPrefix (tgt_Version target) ''v'') ''dev''
      in ToLower (map (\<lambda>c. if c = CHR ''.'' \<or> c = CHR ''_'' then CHR ''-'' else c) version))"

definition schemaMigrationEnv :: "Tamoss \<Rightarrow> EnvVar list" where
  "schemaMigrationEnv tamoss =
     (let db = DBConnection tamoss; auth = dbx_Auth db;
          secretName = (if dbProvider (be_DB (ts_Backends (tm_Spec tamoss))) = ''cnpg''
            then ResourceName tamoss ''db-superuser'' else sref_ExistingSecret auth)
      in [plainEnv ''POSTGRES_HOST'' (dbx_Host db), plainEnv ''POSTGRES_PORT'' (dbx_Port db),
          plainEnv ''POSTGRES_DB'' (dbx_Database db),
          secretEnv ''POSTGRES_USER'' secretName (skey_Username (sref_SecretKeys auth)),
          secretEnv ''POSTGRES_PASSWORD'' secretName (skey_Password (sref_SecretKeys auth))])"

definition schemaMigrationArgs :: "Target \<Rightarrow> Tamoss \<Rightarrow> bool \<Rightarrow> string list" where
  "schemaMigrationArgs target tamoss includeFixtures =
     [''run'', ''tamoss-db'', ''migrate'', ''--revision'', tgt_DatabaseRevision target] @
     (if includeFixtures then [''--apply-fixtures''] else []) @
     (if dbProvider (be_DB (ts_Backends (tm_Spec tamoss))) = ''cnpg'' then [''--apply-cnpg-ownership''] else [])"

definition schemaMigrationJob :: "Target \<Rightarrow> Tamoss \<Rightarrow> bool \<Rightarrow> Job" where
  "schemaMigrationJob target tamoss includeFixtures =
     (let container = \<lparr>ctr_Name = ''schema-migrate'', ctr_Image = schemaMigrationRuntimeImage tamoss,
            ctr_ImagePullPolicy = ''IfNotPresent'', ctr_Command = [''uv''],
            ctr_Args = schemaMigrationArgs target tamoss includeFixtures, ctr_Env = schemaMigrationEnv tamoss,
            ctr_Resources = \<lparr>rr_Requests = Map.empty, rr_Limits = Map.empty\<rparr>, ctr_SecurityContext = None,
            ctr_VolumeMounts = []\<rparr>;
          pod = \<lparr>pt_Labels = schemaLabels tamoss, pt_Annotations = Map.empty, pt_AutomountServiceAccountToken = None,
            pt_EnableServiceLinks = None, pt_RestartPolicy = ''Never'', pt_TerminationGracePeriodSeconds = None,
            pt_ImagePullSecrets = [], pt_SecurityContext = None, pt_Containers = [container], pt_Volumes = []\<rparr>
      in \<lparr>job_Meta = emptyMeta\<lparr>om_Name := ResourceName tamoss (''schema-migrate-'' @ schemaVersionForName target),
            om_Namespace := tm_Namespace tamoss, om_Labels := schemaLabels tamoss\<rparr>,
          job_Spec = \<lparr>jsp_BackoffLimit = 0, jsp_ActiveDeadlineSeconds = None, jsp_TTLSecondsAfterFinished = None,
            jsp_Template = WithDatabaseTLS pod tamoss\<rparr>,
          job_Status = newJobStatus\<rparr>)"

text \<open>\<open>schemaJobTemplateDrifted\<close>: the fields of the template that the operator renders.\<close>

definition containerDrifted :: "Container \<Rightarrow> Container \<Rightarrow> bool" where
  "containerDrifted live desired \<longleftrightarrow>
     ctr_Image live \<noteq> ctr_Image desired \<or> ctr_Command live \<noteq> ctr_Command desired \<or> ctr_Args live \<noteq> ctr_Args desired \<or>
     ctr_Env live \<noteq> ctr_Env desired \<or> ctr_VolumeMounts live \<noteq> ctr_VolumeMounts desired"

definition schemaJobTemplateDrifted :: "Job \<Rightarrow> Job \<Rightarrow> bool" where
  "schemaJobTemplateDrifted live desired =
     (let lt = jsp_Template (job_Spec live); dt = jsp_Template (job_Spec desired)
      in length (pt_Containers lt) \<noteq> length (pt_Containers dt) \<or> pt_Volumes lt \<noteq> pt_Volumes dt \<or>
         list_ex (\<lambda>(l, d). containerDrifted l d) (zip (pt_Containers lt) (pt_Containers dt)))"

definition schemaJobPodOwned :: "Pod \<Rightarrow> bool" where
  "schemaJobPodOwned pod =
     list_ex (\<lambda>owner. or_APIVersion owner = ''batch/v1'' \<and> or_Kind owner = ''Job'' \<and> or_Controller owner = Some True)
       (om_OwnerReferences (pod_Meta pod))"

section \<open>The state ConfigMap\<close>

definition stateGet :: "ConfigMap option \<Rightarrow> string \<Rightarrow> string" where
  "stateGet state key = (case state of None \<Rightarrow> [] | Some cm \<Rightarrow> mapGet (cm_Data cm) key)"

definition schemaStateHasAppliedVersion :: "ConfigMap option \<Rightarrow> bool" where
  "schemaStateHasAppliedVersion state \<longleftrightarrow> TrimSpace (stateGet state appliedVersionKey) \<noteq> []"

definition schemaManagedObjects :: "ConfigMap option \<Rightarrow> managed_key list" where
  "schemaManagedObjects state = (case state of None \<Rightarrow> [] | Some cm \<Rightarrow> [stateKey cm])"

definition schemaStateAnnotations :: "ConfigMap option \<Rightarrow> string \<rightharpoonup> string" where
  "schemaStateAnnotations previous =
     (case previous of
        None \<Rightarrow> Map.empty
      | Some cm \<Rightarrow>
          (let v = mapGet (om_Annotations (cm_Meta cm)) schemaRetryDone
           in if v \<noteq> [] then [schemaRetryDone \<mapsto> v] else Map.empty))"

definition stateMeta :: "Tamoss \<Rightarrow> (string \<rightharpoonup> string) \<Rightarrow> ObjectMeta" where
  "stateMeta tamoss annotations =
     emptyMeta\<lparr>om_Name := ResourceName tamoss ''schema-state'', om_Namespace := tm_Namespace tamoss,
       om_Labels := schemaLabels tamoss, om_Annotations := annotations\<rparr>"

definition schemaStateConfigMap :: "schema_env \<Rightarrow> Tamoss \<Rightarrow> Job \<Rightarrow> bool \<Rightarrow> ConfigMap option \<Rightarrow> ConfigMap" where
  "schemaStateConfigMap env tamoss job fixturesApplied previous =
     (let fixtures = fixturesApplied \<or> stateGet previous fixturesKey = ''true''
      in \<lparr>cm_Meta = stateMeta tamoss (schemaStateAnnotations previous),
          cm_Data = [appliedVersionKey \<mapsto> tgt_Version (se_Target env), lastAppliedAtKey \<mapsto> formatRFC3339 (se_now env),
            ''jobUID'' \<mapsto> job_UID job, fixturesKey \<mapsto> (if fixtures then ''true'' else ''false''),
            ''supportedTAMSAPI'' \<mapsto> tgt_TAMSAPI (se_Target env)]\<rparr>)"

definition previousData :: "ConfigMap option \<Rightarrow> string \<rightharpoonup> string" where
  "previousData previous = (case previous of None \<Rightarrow> Map.empty | Some cm \<Rightarrow> cm_Data cm)"

definition schemaFailureStateConfigMap :: "schema_env \<Rightarrow> Tamoss \<Rightarrow> Job \<Rightarrow> ConfigMap option \<Rightarrow> int \<Rightarrow> ConfigMap" where
  "schemaFailureStateConfigMap env tamoss job previous failureCount =
     \<lparr>cm_Meta = stateMeta tamoss (schemaStateAnnotations previous),
      cm_Data = (previousData previous)(failureCountKey \<mapsto> Itoa failureCount,
        failedGenerationKey \<mapsto> Itoa (om_Generation (tm_Meta tamoss)), failedVersionKey \<mapsto> tgt_Version (se_Target env),
        failedJobUIDKey \<mapsto> job_UID job, failedAtKey \<mapsto> formatRFC3339 (se_now env))\<rparr>"

definition schemaRetryStateConfigMap :: "Tamoss \<Rightarrow> ConfigMap option \<Rightarrow> string \<Rightarrow> ConfigMap" where
  "schemaRetryStateConfigMap tamoss previous v =
     (let annotations = (case previous of None \<Rightarrow> Map.empty | Some cm \<Rightarrow> om_Annotations (cm_Meta cm))
      in \<lparr>cm_Meta = stateMeta tamoss (annotations(schemaRetryDone \<mapsto> v)),
          cm_Data = (previousData previous)(failureCountKey := None, failedGenerationKey := None, failedVersionKey := None,
            failedJobUIDKey := None, failedAtKey := None)\<rparr>)"

definition failureRecorded :: "Target \<Rightarrow> ConfigMap \<Rightarrow> Tamoss \<Rightarrow> bool" where
  "failureRecorded target cm tamoss \<longleftrightarrow>
     mapGet (cm_Data cm) failedVersionKey = tgt_Version target \<and>
     mapGet (cm_Data cm) failedGenerationKey = Itoa (om_Generation (tm_Meta tamoss))"

definition nextFailureCount :: "Target \<Rightarrow> ConfigMap option \<Rightarrow> Tamoss \<Rightarrow> int" where
  "nextFailureCount target state tamoss =
     (case state of
        None \<Rightarrow> 1
      | Some cm \<Rightarrow>
          if \<not> failureRecorded target cm tamoss then 1
          else (case Atoi (mapGet (cm_Data cm) failureCountKey) of None \<Rightarrow> 1 | Some n \<Rightarrow> wrap64 (n + 1)))"

definition terminalSchemaFailure :: "Target \<Rightarrow> ConfigMap option \<Rightarrow> Tamoss \<Rightarrow> bool" where
  "terminalSchemaFailure target state tamoss =
     (case state of
        None \<Rightarrow> False
      | Some cm \<Rightarrow>
          failureRecorded target cm tamoss \<and>
          (case Atoi (mapGet (cm_Data cm) failureCountKey) of None \<Rightarrow> False | Some n \<Rightarrow> n \<ge> 3))"

definition schemaFailureCount :: "ConfigMap option \<Rightarrow> int" where
  "schemaFailureCount state =
     (case state of None \<Rightarrow> 0 | Some cm \<Rightarrow> deref 0 (Atoi (mapGet (cm_Data cm) failureCountKey)))"

definition schemaFailureAttempts :: "ConfigMap option \<Rightarrow> int" where
  "schemaFailureAttempts state =
     (let n = schemaFailureCount state in if n > MaxInt32 then MaxInt32 else wrap32 n)"

definition schemaStateTime :: "ConfigMap option \<Rightarrow> time option" where
  "schemaStateTime state =
     (case state of
        None \<Rightarrow> None
      | Some cm \<Rightarrow>
          (let raw = orElse (mapGet (cm_Data cm) lastAppliedAtKey) (mapGet (cm_Data cm) failedAtKey)
           in if raw = [] then None else parseRFC3339 raw))"

section \<open>The reported status\<close>

definition targetStatus :: "Target \<Rightarrow> SchemaMigrationStatus" where
  "targetStatus target = zeroSchemaMigrationStatus\<lparr>sm_CurrentRevision := tgt_Version target,
     sm_PreviousSupportedRevision := tgt_PreviousVersion target, sm_SupportedTAMSAPI := tgt_TAMSAPI target\<rparr>"

definition schemaMigrationFromState :: "Target \<Rightarrow> ConfigMap option \<Rightarrow> string \<Rightarrow> string \<Rightarrow> SchemaMigrationStatus" where
  "schemaMigrationFromState target state phase result =
     (let observed = stateGet state appliedVersionKey; attempts = schemaFailureAttempts state
      in (targetStatus target)\<lparr>sm_Phase := phase, sm_LastAttemptResult := result,
           sm_Attempts := (if phase = ''Succeeded'' \<and> attempts = 0 then 1 else attempts),
           sm_AppliedRevision := observed, sm_ObservedRevision := observed, sm_LastAttemptTime := schemaStateTime state\<rparr>)"

definition schemaMigrationFromJob :: "schema_env \<Rightarrow> Job \<Rightarrow> string \<Rightarrow> string \<Rightarrow> SchemaMigrationStatus" where
  "schemaMigrationFromJob env job phase result =
     (let created = om_CreationTimestamp (job_Meta job)
      in (targetStatus (se_Target env))\<lparr>sm_Phase := phase,
           sm_LastAttemptTime := Some (if timeIsZero created then se_now env else created),
           sm_LastAttemptResult := result, sm_Attempts := 1\<rparr>)"

definition unsupportedSchemaMigrationStatus :: "Target \<Rightarrow> string \<Rightarrow> SchemaMigrationStatus" where
  "unsupportedSchemaMigrationStatus target observed =
     (targetStatus target)\<lparr>sm_Phase := ''Blocked'', sm_LastAttemptResult := ''UnsupportedSchemaVersion'',
       sm_ObservedRevision := observed\<rparr>"

definition schemaResult :: "schema_env \<Rightarrow> bool \<Rightarrow> managed_key list \<Rightarrow> string \<Rightarrow> string \<Rightarrow> SchemaMigrationStatus \<Rightarrow> SchemaResult" where
  "schemaResult env ready managed reason message migration =
     \<lparr>sr_Ready = ready, sr_Version = tgt_Version (se_Target env), sr_ManagedObjects = managed, sr_Degraded = False,
      sr_Reason = reason, sr_Message = message, sr_SchemaMigration = migration, sr_RecoveryEvent = None, sr_RequeueAfter = 0\<rparr>"

definition runningStatus :: "schema_env \<Rightarrow> Job \<Rightarrow> SchemaMigrationStatus" where
  "runningStatus env job = schemaMigrationFromJob env job ''Running'' ''Running''"

definition schemaJobCleanupResult :: "schema_env \<Rightarrow> managed_key list \<Rightarrow> Job \<Rightarrow> string \<Rightarrow> SchemaResult" where
  "schemaJobCleanupResult env managed desired message =
     (schemaResult env False managed ''MigrationInProgress'' message (runningStatus env desired))
       \<lparr>sr_RequeueAfter := schemaJobCleanupRequeueAfter\<rparr>"

definition terminalSchemaFailureResult :: "schema_env \<Rightarrow> ConfigMap option \<Rightarrow> managed_key list \<Rightarrow> SchemaResult" where
  "terminalSchemaFailureResult env state managed =
     (schemaResult env False managed ''SchemaMigrationFailed'' ''Schema migration failed three consecutive reconciles''
        (schemaMigrationFromState (se_Target env) state ''Failed'' ''Failed''))\<lparr>sr_Degraded := True\<rparr>"

section \<open>Stages\<close>

definition getSchemaState :: "schema_env \<Rightarrow> Tamoss \<Rightarrow> (schema_write, ConfigMap option) act" where
  "getSchemaState env tamoss = readOptional (se_getConfigMap env (tm_Namespace tamoss) (ResourceName tamoss ''schema-state''))"

definition getSchemaJob :: "schema_env \<Rightarrow> Job \<Rightarrow> (schema_write, Job option) act" where
  "getSchemaJob env desired = readOptional (se_getJob env (job_Namespace desired) (job_Name desired))"

text \<open>\<open>applyOwned\<close>, for the state and for the Job; the object is then the stored one.\<close>

definition applyOwnedState :: "schema_env \<Rightarrow> Tamoss \<Rightarrow> ConfigMap \<Rightarrow> (schema_write, ConfigMap) act" where
  "applyOwnedState env tamoss cm =
     andThen (liftErr (SetControllerReference (se_lib env) (tm_Meta tamoss) (cm_Meta cm))) (\<lambda>meta.
       (let owned = cm\<lparr>cm_Meta := meta\<rparr>
        in andThen (mapWrites (ApplySchemaState owned) (applyManagedObject (se_stateStore env owned)))
             (\<lambda>_. yield (se_storedState env owned))))"

definition applyOwnedJob :: "schema_env \<Rightarrow> Tamoss \<Rightarrow> Job \<Rightarrow> (schema_write, Job) act" where
  "applyOwnedJob env tamoss job =
     andThen (liftErr (SetControllerReference (se_lib env) (tm_Meta tamoss) (job_Meta job))) (\<lambda>meta.
       (let owned = job\<lparr>job_Meta := meta\<rparr>
        in andThen (mapWrites (ApplySchemaJob owned) (applyManagedObject (se_jobStore env owned)))
             (\<lambda>_. yield (se_storedJob env owned))))"

definition deleteSchemaJob :: "schema_env \<Rightarrow> Job \<Rightarrow> bool \<Rightarrow> (schema_write, unit) act" where
  "deleteSchemaJob env job foreground = issueDelete (DeleteSchemaJob job foreground) (se_deleteJob env job foreground)"

definition observedSchemaStateResult :: "schema_env \<Rightarrow> ConfigMap option \<Rightarrow> managed_key list \<Rightarrow> schema_stage" where
  "observedSchemaStateResult env state managed =
     (case state of
        None \<Rightarrow> yield None
      | Some cm \<Rightarrow>
          (let observed = mapGet (cm_Data cm) appliedVersionKey
           in if \<not> Supports (se_Target env) observed then
                yield (Some ((schemaResult env False managed ''UnsupportedSchemaVersion''
                  (''Observed schema revision '' @ Quote observed @ '' is not supported by this operator'')
                  (unsupportedSchemaMigrationStatus (se_Target env) observed))\<lparr>sr_Degraded := True\<rparr>))
              else if schemaStateMatchesTarget (cm_Data cm) (se_Target env) then
                andThen (recordMigration ''skipped'') (\<lambda>_.
                  yield (Some (schemaResult env True managed ''AlreadyAtVersion'' ''Schema state already records the current version''
                    (schemaMigrationFromState (se_Target env) state ''Succeeded'' ''Succeeded''))))
              else yield None))"

text \<open>The loop of \<open>reconcileObsoleteSchemaJobs\<close>: whether a Job is waited for, and the objects kept from pruning.\<close>

fun obsoleteJobs :: "schema_env \<Rightarrow> Tamoss \<Rightarrow> Job \<Rightarrow> Job list \<Rightarrow> bool \<times> managed_key list \<Rightarrow>
    (schema_write, bool \<times> managed_key list) act" where
  "obsoleteJobs env tamoss desired [] acc = yield acc"
| "obsoleteJobs env tamoss desired (job # jobs) (waiting, managed) =
     (if job_Name job = job_Name desired \<or> \<not> IsControlledBy (se_lib env) (job_Meta job) (tm_Meta tamoss)
      then obsoleteJobs env tamoss desired jobs (waiting, managed)
      else if \<not> timePtrIsZero (om_DeletionTimestamp (job_Meta job))
        then obsoleteJobs env tamoss desired jobs (True, managed @ [jobKey job])
      else andThen (deleteSchemaJob env job True) (\<lambda>_.
             obsoleteJobs env tamoss desired jobs (True, managed @ [jobKey job])))"

definition reconcileObsoleteSchemaJobs :: "schema_env \<Rightarrow> Tamoss \<Rightarrow> managed_key list \<Rightarrow> Job \<Rightarrow> schema_stage" where
  "reconcileObsoleteSchemaJobs env tamoss managed desired =
     andThen (readAct (se_listJobs env (job_Namespace desired) (schemaLabels tamoss))) (\<lambda>jobs.
     andThen (obsoleteJobs env tamoss desired jobs (False, managed)) (\<lambda>(waiting, cleanupManaged).
       if \<not> waiting then yield None
       else yield (Some (schemaJobCleanupResult env cleanupManaged desired
         ''Waiting for obsolete schema migration Jobs to terminate before launching the current revision''))))"

definition acceptSchemaRetry :: "schema_env \<Rightarrow> Tamoss \<Rightarrow> ConfigMap option \<Rightarrow> Job option \<Rightarrow> (schema_write, ConfigMap option) act" where
  "acceptSchemaRetry env tamoss state liveJob =
     (let v = TrimSpace (mapGet (om_Annotations (tm_Meta tamoss)) schemaRetryAnnotation)
      in if v = [] \<or> \<not> terminalSchemaFailure (se_Target env) state tamoss then yield None
         else if (case state of None \<Rightarrow> False | Some cm \<Rightarrow> mapGet (om_Annotations (cm_Meta cm)) schemaRetryDone = v) then yield None
         else andThen (case liveJob of
                  Some job \<Rightarrow> if jobFailed job then deleteSchemaJob env job False else yield ()
                | None \<Rightarrow> yield ()) (\<lambda>_.
              andThen (applyOwnedState env tamoss (schemaRetryStateConfigMap tamoss state v)) (\<lambda>reset. yield (Some reset))))"

definition reconcileSchemaRetryStage :: "schema_env \<Rightarrow> Tamoss \<Rightarrow> ConfigMap option \<Rightarrow> managed_key list \<Rightarrow> Job option \<Rightarrow> schema_stage" where
  "reconcileSchemaRetryStage env tamoss state managed liveJob =
     andThen (acceptSchemaRetry env tamoss state liveJob) (\<lambda>accepted.
       case accepted of
         None \<Rightarrow> yield None
       | Some resetState \<Rightarrow>
           yield (Some ((schemaResult env False (managed @ [stateKey resetState]) ''SchemaRetryAccepted''
             ''Schema retry annotation accepted; failed migration state was reset''
             (schemaMigrationFromState (se_Target env) (Some resetState) ''Retrying'' ''RetryAccepted''))
             \<lparr>sr_RecoveryEvent := Some \<lparr>rae_Type = ''Normal'', rae_Reason = ''SchemaRetryAccepted'',
               rae_Message = ''Schema retry annotation accepted; failed migration Job was deleted and failure counter was cleared''\<rparr>\<rparr>)))"

definition reconcileStaleSchemaJob :: "schema_env \<Rightarrow> managed_key list \<Rightarrow> Job option \<Rightarrow> Job \<Rightarrow> schema_stage" where
  "reconcileStaleSchemaJob env managed liveJob desired =
     (case liveJob of
        None \<Rightarrow> yield None
      | Some live \<Rightarrow>
          if \<not> schemaJobTemplateDrifted live desired then yield None
          else andThen (deleteSchemaJob env live True) (\<lambda>_.
            yield (Some ((schemaResult env False managed ''MigrationInProgress''
              ''Schema migration job template changed; the stale job was deleted for recreation'' (runningStatus env desired))
              \<lparr>sr_RecoveryEvent := Some \<lparr>rae_Type = ''Normal'', rae_Reason = ''MigrationInProgress'',
                rae_Message = ''Schema migration job template changed; the stale job was deleted so the next reconcile recreates it''\<rparr>\<rparr>))))"

definition reconcileSucceededSchemaJob ::
    "schema_env \<Rightarrow> Tamoss \<Rightarrow> ConfigMap option \<Rightarrow> managed_key list \<Rightarrow> bool \<Rightarrow> Job option \<Rightarrow> schema_stage" where
  "reconcileSucceededSchemaJob env tamoss state managed includeFixtures liveJob =
     (case liveJob of
        None \<Rightarrow> yield None
      | Some live \<Rightarrow>
          if \<not> jobSucceeded live then yield None
          else andThen (recordMigration ''succeeded'') (\<lambda>_.
               andThen (applyOwnedState env tamoss (schemaStateConfigMap env tamoss live includeFixtures state)) (\<lambda>stored.
                 yield (Some (schemaResult env True (managed @ [stateKey stored]) ''SchemaApplied'' ''Schema migration completed successfully''
                   (schemaMigrationFromState (se_Target env) (Some stored) ''Succeeded'' ''Succeeded''))))))"

definition reconcileFailedSchemaJob ::
    "schema_env \<Rightarrow> Tamoss \<Rightarrow> ConfigMap option \<Rightarrow> managed_key list \<Rightarrow> Job option \<Rightarrow> schema_stage" where
  "reconcileFailedSchemaJob env tamoss state managed liveJob =
     (case liveJob of
        None \<Rightarrow> yield None
      | Some live \<Rightarrow>
          if \<not> jobFailed live then yield None
          else andThen (recordMigration ''failed'') (\<lambda>_.
               if terminalSchemaFailure (se_Target env) state tamoss then
                 andThen (recordMigration ''blocked'') (\<lambda>_. yield (Some (terminalSchemaFailureResult env state managed)))
               else
                 (let failureCount = nextFailureCount (se_Target env) state tamoss
                  in andThen (applyOwnedState env tamoss (schemaFailureStateConfigMap env tamoss live state failureCount)) (\<lambda>stored.
                     if failureCount \<ge> 3 then
                       andThen (recordMigration ''blocked'') (\<lambda>_.
                         yield (Some (terminalSchemaFailureResult env (Some stored) (managed @ [stateKey stored]))))
                     else
                       yield (Some (schemaResult env False (managed @ [stateKey stored]) ''SchemaMigrationFailed''
                         (''Schema migration job failed; observed failed attempt '' @ Itoa failureCount @ '' of 3 before marking degraded'')
                         (schemaMigrationFromState (se_Target env) (Some stored) ''Failed'' ''Failed'')))))))"

definition runningSchemaJobResult :: "schema_env \<Rightarrow> managed_key list \<Rightarrow> Job option \<Rightarrow> schema_stage" where
  "runningSchemaJobResult env managed liveJob =
     yield (map_option (\<lambda>live. schemaResult env False managed ''MigrationInProgress''
       (''Schema migration job '' @ job_Name live @ '' is running'') (runningStatus env live)) liveJob)"

definition reconcileSchemaJobPodCleanup :: "schema_env \<Rightarrow> managed_key list \<Rightarrow> Job \<Rightarrow> schema_stage" where
  "reconcileSchemaJobPodCleanup env managed desired =
     andThen (readAct (se_listPods env (job_Namespace desired) (om_Labels (job_Meta desired)))) (\<lambda>pods.
       if list_ex schemaJobPodOwned pods
       then yield (Some (schemaJobCleanupResult env managed desired
         ''Waiting for stale schema migration Job pods to terminate before launching a replacement''))
       else yield None)"

definition launchSchemaJob :: "schema_env \<Rightarrow> Tamoss \<Rightarrow> managed_key list \<Rightarrow> Job \<Rightarrow> (schema_write, SchemaResult) act" where
  "launchSchemaJob env tamoss managed job =
     andThen (applyOwnedJob env tamoss job) (\<lambda>stored.
     andThen (recordMigration ''launched'') (\<lambda>_.
       yield (schemaResult env False managed ''MigrationInProgress'' ''Schema migration job was launched'' (runningStatus env stored))))"

definition includesFixtures :: "Tamoss \<Rightarrow> ConfigMap option \<Rightarrow> bool" where
  "includesFixtures tamoss state \<longleftrightarrow>
     ShouldApplyFixtures (be_DB (ts_Backends (tm_Spec tamoss))) \<and> \<not> schemaStateHasAppliedVersion state"

definition schemaReconcile :: "schema_env \<Rightarrow> Tamoss \<Rightarrow> (schema_write, SchemaResult) act" where
  "schemaReconcile env tamoss =
     andThen (getSchemaState env tamoss) (\<lambda>state.
       (let known = schemaManagedObjects state
        in orNext (observedSchemaStateResult env state known)
          (let includeFixtures = includesFixtures tamoss state;
               job = schemaMigrationJob (se_Target env) tamoss includeFixtures;
               managed = known @ [jobKey job]
           in orNext (reconcileObsoleteSchemaJobs env tamoss managed job)
             (andThen (getSchemaJob env job) (\<lambda>liveJob.
                orNext (reconcileSchemaRetryStage env tamoss state managed liveJob)
               (orNext (reconcileStaleSchemaJob env managed liveJob job)
               (orNext (reconcileSucceededSchemaJob env tamoss state managed includeFixtures liveJob)
               (orNext (reconcileFailedSchemaJob env tamoss state managed liveJob)
               (orNext (runningSchemaJobResult env managed liveJob)
               (orNext (reconcileSchemaJobPodCleanup env managed job)
                 (launchSchemaJob env tamoss managed job))))))))))) "

end
