(* ===== verification/Schema_Laws.thy ===== *)
theory Schema_Laws
  imports Schema
begin

text \<open>
  Properties of the schema controller: which Job may stamp the schema version, that migrations do not overlap,
  that a failing migration settles, and that a retry annotation is consumed once. The lemmas on the stages say what a
  stage that lets the pass continue has observed.
\<close>

section \<open>Stages\<close>

lemma emits_orNext [emits_rules]:
  "emits P stage \<Longrightarrow> (snd stage = Inr None \<Longrightarrow> emits P rest) \<Longrightarrow> emits P (orNext stage rest)"
  by (auto simp: orNext_def intro!: emits_rules split: option.split)

lemma orNext_Inr:
  "snd (orNext stage rest) = Inr r \<longleftrightarrow> snd stage = Inr (Some r) \<or> snd stage = Inr None \<and> snd rest = Inr r"
  by (auto simp: orNext_def andThen_Inr split: option.split)

lemma record_simps [simp]:
  "fst (recordMigration s) = [RecordSchemaMigration s]" "snd (recordMigration s) = Inr u"
  by (simp_all add: recordMigration_def)

lemma emits_recordMigration [emits_rules]: "P (RecordSchemaMigration s) \<Longrightarrow> emits P (recordMigration s)"
  by (simp add: emits_def)

definition schemaCurrent :: "Target \<Rightarrow> ConfigMap option \<Rightarrow> bool" where
  "schemaCurrent target state =
     (case state of None \<Rightarrow> False | Some cm \<Rightarrow> schemaStateMatchesTarget (cm_Data cm) target)"

definition schemaSupported :: "Target \<Rightarrow> ConfigMap option \<Rightarrow> bool" where
  "schemaSupported target state = (case state of None \<Rightarrow> True | Some cm \<Rightarrow> Supports target (mapGet (cm_Data cm) appliedVersionKey))"

lemma observed_None:
  "snd (observedSchemaStateResult env state managed) = Inr None \<longleftrightarrow>
   schemaSupported (se_Target env) state \<and> \<not> schemaCurrent (se_Target env) state"
  by (auto simp: observedSchemaStateResult_def Let_def schemaSupported_def schemaCurrent_def andThen_Inr split: option.split)

lemma observed_Some:
  "snd (observedSchemaStateResult env state managed) = Inr (Some r) \<Longrightarrow> sr_Ready r \<Longrightarrow>
   schemaSupported (se_Target env) state \<and> schemaCurrent (se_Target env) state"
  by (auto simp: observedSchemaStateResult_def Let_def schemaCurrent_def schemaSupported_def schemaResult_def andThen_Inr
      split: option.splits if_splits)

text \<open>A Job that another revision of the same resource left behind.\<close>

definition obsoleteJob :: "schema_env \<Rightarrow> Tamoss \<Rightarrow> Job \<Rightarrow> Job \<Rightarrow> bool" where
  "obsoleteJob env tamoss desired job \<longleftrightarrow>
     job_Name job \<noteq> job_Name desired \<and> IsControlledBy (se_lib env) (job_Meta job) (tm_Meta tamoss)"

lemma obsoleteJobs_waiting:
  "snd (obsoleteJobs env tamoss desired jobs acc) = Inr res \<Longrightarrow>
   fst res = (fst acc \<or> list_ex (obsoleteJob env tamoss desired) jobs)"
  by (induction env tamoss desired jobs acc rule: obsoleteJobs.induct)
     (auto simp: obsoleteJob_def andThen_Inr split: if_splits)

lemma obsolete_None:
  "snd (reconcileObsoleteSchemaJobs env tamoss managed desired) = Inr None \<Longrightarrow>
   \<exists>jobs. se_listJobs env (job_Namespace desired) (schemaLabels tamoss) = Inr jobs \<and> \<not> list_ex (obsoleteJob env tamoss desired) jobs"
  by (fastforce simp: reconcileObsoleteSchemaJobs_def andThen_Inr split: prod.splits if_splits dest: obsoleteJobs_waiting)

lemma stale_None:
  "snd (reconcileStaleSchemaJob env managed liveJob desired) = Inr None \<longleftrightarrow>
   (\<forall>live. liveJob = Some live \<longrightarrow> \<not> schemaJobTemplateDrifted live desired)"
  by (auto simp: reconcileStaleSchemaJob_def andThen_Inr split: option.split)

lemma succeeded_None:
  "snd (reconcileSucceededSchemaJob env tamoss state managed fx liveJob) = Inr None \<longleftrightarrow>
   (\<forall>live. liveJob = Some live \<longrightarrow> \<not> jobSucceeded live)"
  by (auto simp: reconcileSucceededSchemaJob_def andThen_Inr split: option.split)

lemma failed_None:
  "snd (reconcileFailedSchemaJob env tamoss state managed liveJob) = Inr None \<longleftrightarrow>
   (\<forall>live. liveJob = Some live \<longrightarrow> \<not> jobFailed live)"
  by (auto simp: reconcileFailedSchemaJob_def andThen_Inr Let_def split: option.split)

lemma running_None: "snd (runningSchemaJobResult env managed liveJob) = Inr None \<longleftrightarrow> liveJob = None"
  by (auto simp: runningSchemaJobResult_def)

lemma pods_None:
  "snd (reconcileSchemaJobPodCleanup env managed desired) = Inr None \<longleftrightarrow>
   (\<exists>pods. se_listPods env (job_Namespace desired) (om_Labels (job_Meta desired)) = Inr pods \<and> \<not> list_ex schemaJobPodOwned pods)"
  by (auto simp: reconcileSchemaJobPodCleanup_def andThen_Inr)

lemmas stage_None = observed_None stale_None succeeded_None failed_None running_None pods_None

lemma schemaResult_simps [simp]:
  "sr_Ready (schemaResult env ready managed reason message migration) = ready"
  "sr_Reason (schemaResult env ready managed reason message migration) = reason"
  "sr_Degraded (schemaResult env ready managed reason message migration) = False"
  by (simp_all add: schemaResult_def)

lemma result_simps [simp]:
  "\<not> sr_Ready (schemaJobCleanupResult env managed desired message)"
  "sr_Reason (schemaJobCleanupResult env managed desired message) = ''MigrationInProgress''"
  "\<not> sr_Ready (terminalSchemaFailureResult env state managed)"
  "sr_Reason (terminalSchemaFailureResult env state managed) = ''SchemaMigrationFailed''"
  "sr_Degraded (terminalSchemaFailureResult env state managed)"
  by (simp_all add: schemaJobCleanupResult_def terminalSchemaFailureResult_def)

lemma obsolete_Some:
  "snd (reconcileObsoleteSchemaJobs env tamoss managed desired) = Inr (Some r) \<Longrightarrow> \<not> sr_Ready r \<and> sr_Reason r = ''MigrationInProgress''"
  by (auto simp: reconcileObsoleteSchemaJobs_def andThen_Inr split: if_splits)

lemma retry_Some:
  "snd (reconcileSchemaRetryStage env tamoss state managed liveJob) = Inr (Some r) \<Longrightarrow> \<not> sr_Ready r"
  by (auto simp: reconcileSchemaRetryStage_def andThen_Inr split: option.splits)

lemma stale_Some:
  "snd (reconcileStaleSchemaJob env managed liveJob desired) = Inr (Some r) \<Longrightarrow> \<not> sr_Ready r \<and> sr_Reason r = ''MigrationInProgress''"
  by (auto simp: reconcileStaleSchemaJob_def andThen_Inr split: option.splits if_splits)

lemma failed_Some:
  "snd (reconcileFailedSchemaJob env tamoss state managed liveJob) = Inr (Some r) \<Longrightarrow> \<not> sr_Ready r \<and> sr_Reason r = ''SchemaMigrationFailed''"
  by (auto simp: reconcileFailedSchemaJob_def andThen_Inr Let_def split: option.splits if_splits)

lemma running_Some:
  "snd (runningSchemaJobResult env managed liveJob) = Inr (Some r) \<Longrightarrow> \<not> sr_Ready r \<and> sr_Reason r = ''MigrationInProgress''"
  by (auto simp: runningSchemaJobResult_def)

lemma pods_Some:
  "snd (reconcileSchemaJobPodCleanup env managed desired) = Inr (Some r) \<Longrightarrow> \<not> sr_Ready r \<and> sr_Reason r = ''MigrationInProgress''"
  by (auto simp: reconcileSchemaJobPodCleanup_def andThen_Inr split: if_splits)

lemma launch_Inr:
  "snd (launchSchemaJob env tamoss managed desired) = Inr r \<Longrightarrow> \<not> sr_Ready r \<and> sr_Reason r = ''MigrationInProgress''"
  by (auto simp: launchSchemaJob_def andThen_Inr)

lemmas later_stage_not_ready = retry_Some stale_Some failed_Some running_Some pods_Some launch_Inr

section \<open>What the stages write\<close>

lemma emits_obsoleteJobs [emits_rules]:
  "(\<And>job. P (DeleteSchemaJob job True)) \<Longrightarrow> emits P (obsoleteJobs env tamoss desired jobs acc)"
  by (induction env tamoss desired jobs acc rule: obsoleteJobs.induct)
     (auto simp: deleteSchemaJob_def intro!: emits_rules)

lemma emits_applyOwnedState [emits_rules]:
  "(\<And>meta w. SetControllerReference (se_lib env) (tm_Meta tamoss) (cm_Meta cm) = Inr meta \<Longrightarrow> P (ApplySchemaState (cm\<lparr>cm_Meta := meta\<rparr>) w)) \<Longrightarrow>
   emits P (applyOwnedState env tamoss cm)"
  by (auto simp: applyOwnedState_def Let_def intro!: emits_rules)

lemma emits_applyOwnedJob [emits_rules]:
  "(\<And>meta w. SetControllerReference (se_lib env) (tm_Meta tamoss) (job_Meta job) = Inr meta \<Longrightarrow> P (ApplySchemaJob (job\<lparr>job_Meta := meta\<rparr>) w)) \<Longrightarrow>
   emits P (applyOwnedJob env tamoss job)"
  by (auto simp: applyOwnedJob_def Let_def intro!: emits_rules)

lemmas schema_stage_defs =
  observedSchemaStateResult_def reconcileObsoleteSchemaJobs_def reconcileSchemaRetryStage_def acceptSchemaRetry_def
  reconcileStaleSchemaJob_def reconcileSucceededSchemaJob_def reconcileFailedSchemaJob_def runningSchemaJobResult_def
  reconcileSchemaJobPodCleanup_def launchSchemaJob_def deleteSchemaJob_def getSchemaState_def getSchemaJob_def

section \<open>Properties\<close>

text \<open>
  What the pass has observed when it goes beyond the recorded state: the state does not record the target but a
  revision the target supports, and no Job of another revision is left.
\<close>

definition schemaJobFor :: "schema_env \<Rightarrow> Tamoss \<Rightarrow> ConfigMap option \<Rightarrow> Job" where
  "schemaJobFor env tamoss state = schemaMigrationJob (se_Target env) tamoss (includesFixtures tamoss state)"

definition migrationDue :: "schema_env \<Rightarrow> Tamoss \<Rightarrow> ConfigMap option \<Rightarrow> bool" where
  "migrationDue env tamoss state \<longleftrightarrow>
     snd (getSchemaState env tamoss) = Inr state \<and>
     schemaSupported (se_Target env) state \<and> \<not> schemaCurrent (se_Target env) state \<and>
     (\<exists>jobs. se_listJobs env (job_Namespace (schemaJobFor env tamoss state)) (schemaLabels tamoss) = Inr jobs \<and>
        \<not> list_ex (obsoleteJob env tamoss (schemaJobFor env tamoss state)) jobs)"

definition currentJob :: "schema_env \<Rightarrow> Tamoss \<Rightarrow> ConfigMap option \<Rightarrow> Job \<Rightarrow> bool" where
  "currentJob env tamoss state live \<longleftrightarrow>
     snd (getSchemaJob env (schemaJobFor env tamoss state)) = Inr (Some live) \<and>
     \<not> schemaJobTemplateDrifted live (schemaJobFor env tamoss state)"

lemma succeeded_Some:
  "snd (reconcileSucceededSchemaJob env tamoss state managed fx liveJob) = Inr (Some r) \<Longrightarrow> \<exists>live. liveJob = Some live \<and> jobSucceeded live"
  by (auto simp: reconcileSucceededSchemaJob_def split: option.splits if_splits)

lemma ready_cases:
  assumes "snd (schemaReconcile env tamoss) = Inr r" "sr_Ready r"
  shows "\<exists>state. snd (getSchemaState env tamoss) = Inr state \<and> schemaSupported (se_Target env) state \<and>
    (schemaCurrent (se_Target env) state \<or>
     migrationDue env tamoss state \<and> (\<exists>live. currentJob env tamoss state live \<and> jobSucceeded live))"
  using assms
  by (auto simp: schemaReconcile_def Let_def andThen_Inr orNext_Inr stage_None migrationDue_def currentJob_def schemaJobFor_def
      dest!: observed_Some obsolete_Some obsolete_None later_stage_not_ready succeeded_Some)

lemma emits_schemaReconcile:
  assumes observed: "\<And>state. snd (getSchemaState env tamoss) = Inr state \<Longrightarrow> emits P (observedSchemaStateResult env state (schemaManagedObjects state))"
    and delete: "\<And>job fg. P (DeleteSchemaJob job fg)"
    and retry: "\<And>state live managed. migrationDue env tamoss state \<Longrightarrow> emits P (reconcileSchemaRetryStage env tamoss state managed live)"
    and succeeded: "\<And>state live managed. migrationDue env tamoss state \<Longrightarrow> currentJob env tamoss state live \<Longrightarrow>
      emits P (reconcileSucceededSchemaJob env tamoss state managed (includesFixtures tamoss state) (Some live))"
    and failed: "\<And>state live managed. migrationDue env tamoss state \<Longrightarrow> currentJob env tamoss state live \<Longrightarrow>
      emits P (reconcileFailedSchemaJob env tamoss state managed (Some live))"
    and launch: "\<And>state managed pods. migrationDue env tamoss state \<Longrightarrow>
      snd (getSchemaJob env (schemaJobFor env tamoss state)) = Inr None \<Longrightarrow>
      se_listPods env (job_Namespace (schemaJobFor env tamoss state)) (om_Labels (job_Meta (schemaJobFor env tamoss state))) = Inr pods \<Longrightarrow>
      \<not> list_ex schemaJobPodOwned pods \<Longrightarrow> emits P (launchSchemaJob env tamoss managed (schemaJobFor env tamoss state))"
  shows "emits P (schemaReconcile env tamoss)"
proof -
  have silent: "emits P (getSchemaState env tamoss)" "emits P (getSchemaJob env job)" "emits P (runningSchemaJobResult env managed live)"
    "emits P (reconcileSchemaJobPodCleanup env managed job)" for job managed live
    by (auto simp: schema_stage_defs intro!: emits_rules)
  have obsolete: "emits P (reconcileObsoleteSchemaJobs env tamoss managed job)" for managed job
    by (auto simp: reconcileObsoleteSchemaJobs_def delete intro!: emits_rules split: prod.split)
  have stale: "emits P (reconcileStaleSchemaJob env managed live job)" for managed live job
    by (auto simp: reconcileStaleSchemaJob_def deleteSchemaJob_def delete intro!: emits_rules split: option.split)
  have absent: "emits P (reconcileSucceededSchemaJob env tamoss state managed fx None)" "emits P (reconcileFailedSchemaJob env tamoss state managed None)"
    for state managed fx by (auto simp: schema_stage_defs intro!: emits_rules)
  have due: "migrationDue env tamoss state"
    if "snd (getSchemaState env tamoss) = Inr state" "snd (observedSchemaStateResult env state managed') = Inr None"
      "snd (reconcileObsoleteSchemaJobs env tamoss managed (schemaJobFor env tamoss state)) = Inr None" for state managed managed'
    using that obsolete_None [OF that(3)] by (simp add: migrationDue_def observed_None)
  show ?thesis
    unfolding schemaReconcile_def Let_def schemaJobFor_def [symmetric]
    apply (intro emits_andThen silent emits_orNext observed obsolete stale)
             apply assumption
            apply (blast intro: retry due)
           apply (metis succeeded absent(1) due currentJob_def stale_None not_None_eq)
          apply (metis failed absent(2) due currentJob_def stale_None not_None_eq)
    apply (simp add: stage_None)
    apply (metis launch due observed_None)
    done
qed

section \<open>What a pass does\<close>

lemma obsoleteJobs_none: "\<not> list_ex (obsoleteJob env tamoss desired) jobs \<Longrightarrow> obsoleteJobs env tamoss desired jobs acc = yield acc"
  by (induction env tamoss desired jobs acc rule: obsoleteJobs.induct) (auto simp: obsoleteJob_def)

lemma readOptional_yield: "snd (readOptional r) = Inr x \<Longrightarrow> readOptional r = yield x"
  by (auto simp: readOptional_def split: sum.splits if_splits)

lemma orNext_yield [simp]: "orNext (yield None) rest = rest" "orNext (yield (Some r)) rest = yield r"
  by (simp_all add: orNext_def)

lemma due_pass:
  assumes "migrationDue env tamoss state" "snd (getSchemaJob env (schemaJobFor env tamoss state)) = Inr liveJob"
  shows "\<exists>managed. schemaReconcile env tamoss =
    orNext (reconcileSchemaRetryStage env tamoss state managed liveJob)
      (orNext (reconcileStaleSchemaJob env managed liveJob (schemaJobFor env tamoss state))
      (orNext (reconcileSucceededSchemaJob env tamoss state managed (includesFixtures tamoss state) liveJob)
      (orNext (reconcileFailedSchemaJob env tamoss state managed liveJob)
      (orNext (runningSchemaJobResult env managed liveJob)
      (orNext (reconcileSchemaJobPodCleanup env managed (schemaJobFor env tamoss state))
        (launchSchemaJob env tamoss managed (schemaJobFor env tamoss state)))))))"
proof -
  let ?job = "schemaJobFor env tamoss state"
  have reads: "getSchemaState env tamoss = yield state" "getSchemaJob env ?job = yield liveJob"
    using assms by (auto simp: migrationDue_def getSchemaState_def getSchemaJob_def intro: readOptional_yield)
  have obs: "observedSchemaStateResult env state managed = yield None" for managed
    using assms by (auto simp: migrationDue_def observedSchemaStateResult_def schemaSupported_def schemaCurrent_def Let_def split: option.splits)
  have obsolete: "reconcileObsoleteSchemaJobs env tamoss managed ?job = yield None" for managed
    using assms by (auto simp: migrationDue_def reconcileObsoleteSchemaJobs_def readAct_def obsoleteJobs_none)
  show ?thesis
    unfolding schemaReconcile_def Let_def schemaJobFor_def [symmetric] by (auto simp: reads obs obsolete)
qed

text \<open>A retry annotation that has nothing left to ask for: absent, or consumed already.\<close>

definition retrySpent :: "Tamoss \<Rightarrow> ConfigMap option \<Rightarrow> bool" where
  "retrySpent tamoss state \<longleftrightarrow>
     (let v = TrimSpace (mapGet (om_Annotations (tm_Meta tamoss)) schemaRetryAnnotation)
      in v = [] \<or> (case state of None \<Rightarrow> False | Some cm \<Rightarrow> mapGet (om_Annotations (cm_Meta cm)) schemaRetryDone = v))"

lemma retry_spent_None: "retrySpent tamoss state \<Longrightarrow> reconcileSchemaRetryStage env tamoss state managed live = yield None"
  by (auto simp: reconcileSchemaRetryStage_def acceptSchemaRetry_def retrySpent_def Let_def terminalSchemaFailure_def split: option.splits)

lemma stale_current: "currentJob env tamoss state live \<Longrightarrow>
   reconcileStaleSchemaJob env managed (Some live) (schemaJobFor env tamoss state) = yield None"
  by (simp add: currentJob_def reconcileStaleSchemaJob_def)

lemma due_pass_retry:
  "migrationDue env tamoss state \<Longrightarrow> snd (getSchemaJob env (schemaJobFor env tamoss state)) = Inr liveJob \<Longrightarrow>
   \<exists>managed rest. schemaReconcile env tamoss = orNext (reconcileSchemaRetryStage env tamoss state managed liveJob) rest"
  by (drule (1) due_pass) (erule exE, intro exI, assumption)

lemma due_pass_live:
  assumes "migrationDue env tamoss state" "currentJob env tamoss state live" "retrySpent tamoss state"
  shows "\<exists>managed rest. schemaReconcile env tamoss =
    orNext (reconcileSucceededSchemaJob env tamoss state managed (includesFixtures tamoss state) (Some live))
      (orNext (reconcileFailedSchemaJob env tamoss state managed (Some live)) rest)"
proof -
  have "snd (getSchemaJob env (schemaJobFor env tamoss state)) = Inr (Some live)" using assms(2) by (simp add: currentJob_def)
  from due_pass [OF assms(1) this] show ?thesis
    unfolding retry_spent_None [OF assms(3)] stale_current [OF assms(2)] orNext_yield by (elim exE) (intro exI, assumption)
qed

definition stampRule :: "schema_env \<Rightarrow> Tamoss \<Rightarrow> schema_write \<Rightarrow> bool" where
  "stampRule env tamoss x =
     (case x of
        ApplySchemaState cm w \<Rightarrow>
          (\<exists>state. snd (getSchemaState env tamoss) = Inr state \<and>
            (mapGet (cm_Data cm) appliedVersionKey = stateGet state appliedVersionKey \<or>
             migrationDue env tamoss state \<and>
             (\<exists>live. currentJob env tamoss state live \<and> jobSucceeded live \<and>
               mapGet (cm_Data cm) appliedVersionKey = tgt_Version (se_Target env) \<and> mapGet (cm_Data cm) ''jobUID'' = job_UID live)))
      | _ \<Rightarrow> True)"

lemma stampRule_simps [simp]:
  "stampRule env tamoss (ApplySchemaJob j w)" "stampRule env tamoss (DeleteSchemaJob j fg)" "stampRule env tamoss (RecordSchemaMigration m)"
  by (simp_all add: stampRule_def)

lemma stampRule_kept:
  "migrationDue env tamoss state \<Longrightarrow> mapGet (cm_Data cm) appliedVersionKey = stateGet state appliedVersionKey \<Longrightarrow>
   stampRule env tamoss (ApplySchemaState (cm\<lparr>cm_Meta := m\<rparr>) w)"
  by (auto simp: stampRule_def migrationDue_def)

lemma stampRule_new:
  "migrationDue env tamoss state \<Longrightarrow> currentJob env tamoss state live \<Longrightarrow> jobSucceeded live \<Longrightarrow>
   stampRule env tamoss (ApplySchemaState ((schemaStateConfigMap env tamoss live fx previous)\<lparr>cm_Meta := m\<rparr>) w)"
  unfolding stampRule_def by (auto simp: schemaStateConfigMap_def Let_def mapGet_def migrationDue_def)

lemma version_kept:
  "mapGet (cm_Data (schemaRetryStateConfigMap tamoss state v)) appliedVersionKey = stateGet state appliedVersionKey"
  "mapGet (cm_Data (schemaFailureStateConfigMap env tamoss live state n)) appliedVersionKey = stateGet state appliedVersionKey"
  by (simp_all add: schemaRetryStateConfigMap_def schemaFailureStateConfigMap_def stateGet_def previousData_def mapGet_def Let_def split: option.split)

lemma emits_stampRule: "emits (stampRule env tamoss) (schemaReconcile env tamoss)"
proof (rule emits_schemaReconcile)
  show "emits (stampRule env tamoss) (reconcileSchemaRetryStage env tamoss state managed live)" if "migrationDue env tamoss state" for state live managed
    using stampRule_kept [OF that version_kept(1)]
    by (auto simp: reconcileSchemaRetryStage_def acceptSchemaRetry_def deleteSchemaJob_def Let_def intro!: emits_rules split: option.split)
  show "emits (stampRule env tamoss) (reconcileFailedSchemaJob env tamoss state managed (Some live))"
    if "migrationDue env tamoss state" for state live managed
    using stampRule_kept [OF that version_kept(2)] by (auto simp: reconcileFailedSchemaJob_def Let_def intro!: emits_rules)
  show "emits (stampRule env tamoss) (reconcileSucceededSchemaJob env tamoss state managed (includesFixtures tamoss state) (Some live))"
    if "migrationDue env tamoss state" "currentJob env tamoss state live" for state live managed
    using stampRule_new [OF that] by (auto simp: reconcileSucceededSchemaJob_def Let_def intro!: emits_rules)
qed (auto simp: observedSchemaStateResult_def launchSchemaJob_def Let_def intro!: emits_rules split: option.split)


section \<open>One migration at a time\<close>

text \<open>
  C11: migrations do not overlap. A pass that applies a migration Job applies the one rendered for the target, with the
  instance as its controller, and has seen: a state that does not record the target and whose revision the target supports, no
  Job of another revision controlled by the instance, no Job of that name, and no Pod of a migration Job.
\<close>

theorem migrations_do_not_overlap:
  assumes "ApplySchemaJob job w \<in> set (fst (schemaReconcile env tamoss))"
  shows "\<exists>state meta pods. migrationDue env tamoss state \<and>
    job = (schemaJobFor env tamoss state)\<lparr>job_Meta := meta\<rparr> \<and>
    SetControllerReference (se_lib env) (tm_Meta tamoss) (job_Meta (schemaJobFor env tamoss state)) = Inr meta \<and>
    se_getJob env (job_Namespace (schemaJobFor env tamoss state)) (job_Name (schemaJobFor env tamoss state)) = Inl NotFound \<and>
    se_listPods env (job_Namespace (schemaJobFor env tamoss state)) (schemaLabels tamoss) = Inr pods \<and>
    \<not> list_ex schemaJobPodOwned pods"
proof -
  let ?Q = "\<lambda>job. \<exists>state meta pods. migrationDue env tamoss state \<and>
    job = (schemaJobFor env tamoss state)\<lparr>job_Meta := meta\<rparr> \<and>
    SetControllerReference (se_lib env) (tm_Meta tamoss) (job_Meta (schemaJobFor env tamoss state)) = Inr meta \<and>
    se_getJob env (job_Namespace (schemaJobFor env tamoss state)) (job_Name (schemaJobFor env tamoss state)) = Inl NotFound \<and>
    se_listPods env (job_Namespace (schemaJobFor env tamoss state)) (schemaLabels tamoss) = Inr pods \<and>
    \<not> list_ex schemaJobPodOwned pods"
  define P where "P x = (case x of ApplySchemaJob j w \<Rightarrow> ?Q j | _ \<Rightarrow> True)" for x
  have [simp]: "P (ApplySchemaState cm w)" "P (DeleteSchemaJob j fg)" "P (RecordSchemaMigration m)" for cm w j fg m
    by (simp_all add: P_def)
  have labels: "om_Labels (job_Meta (schemaJobFor env tamoss state)) = schemaLabels tamoss" for state
    by (simp add: schemaJobFor_def schemaMigrationJob_def Let_def)
  have "emits P (schemaReconcile env tamoss)"
  proof (rule emits_schemaReconcile)
    show "emits P (launchSchemaJob env tamoss managed (schemaJobFor env tamoss state))"
      if "migrationDue env tamoss state" "snd (getSchemaJob env (schemaJobFor env tamoss state)) = Inr None"
        "se_listPods env (job_Namespace (schemaJobFor env tamoss state)) (om_Labels (job_Meta (schemaJobFor env tamoss state))) = Inr pods"
        "\<not> list_ex schemaJobPodOwned pods" for state managed pods
    proof -
      have "P (ApplySchemaJob ((schemaJobFor env tamoss state)\<lparr>job_Meta := meta\<rparr>) w)"
        if "SetControllerReference (se_lib env) (tm_Meta tamoss) (job_Meta (schemaJobFor env tamoss state)) = Inr meta" for meta w
        using that \<open>migrationDue env tamoss state\<close> \<open>snd (getSchemaJob _ _) = _\<close> \<open>se_listPods _ _ _ = _\<close> \<open>\<not> list_ex _ _\<close>
        unfolding P_def getSchemaJob_def by (auto simp: labels)
      then show ?thesis by (auto simp: launchSchemaJob_def intro!: emits_rules)
    qed
  qed (auto simp: schema_stage_defs Let_def intro!: emits_rules split: option.split)
  from emitsD [OF this assms] show ?thesis by (simp add: P_def)
qed

section \<open>A failing migration\<close>

text \<open>
  Passes in sequence over one API server: each pass reads the state ConfigMap that the previous one left.
\<close>

definition observing :: "schema_env \<Rightarrow> ConfigMap option \<Rightarrow> schema_env" where
  "observing env state = env\<lparr>se_getConfigMap := (\<lambda>_ _. case state of None \<Rightarrow> Inl NotFound | Some cm \<Rightarrow> Inr cm)\<rparr>"

fun stateWrites :: "schema_env \<Rightarrow> ConfigMap option \<Rightarrow> schema_write list \<Rightarrow> ConfigMap option" where
  "stateWrites env state [] = state"
| "stateWrites env state (ApplySchemaState cm ServerSideApply # ws) = stateWrites env (Some (se_storedState env cm)) ws"
| "stateWrites env state (x # ws) = stateWrites env state ws"

definition schemaPass :: "schema_env \<Rightarrow> Tamoss \<Rightarrow> ConfigMap option \<Rightarrow> ConfigMap option" where
  "schemaPass env tamoss state = stateWrites env state (fst (schemaReconcile (observing env state) tamoss))"

text \<open>The failing Job, and what the passes over it keep.\<close>

definition failingJob :: "schema_env \<Rightarrow> Tamoss \<Rightarrow> ConfigMap option \<Rightarrow> Job \<Rightarrow> bool" where
  "failingJob env tamoss state live \<longleftrightarrow>
     migrationDue (observing env state) tamoss state \<and> currentJob (observing env state) tamoss state live \<and>
     jobFailed live \<and> \<not> jobSucceeded live \<and> retrySpent tamoss state"

lemma failing_pass:
  assumes "failingJob env tamoss state live"
  shows "\<exists>managed. schemaReconcile (observing env state) tamoss =
    andThen (reconcileFailedSchemaJob (observing env state) tamoss state managed (Some live)) (\<lambda>r. yield (the r))"
proof -
  let ?env = "observing env state"
  have failing: "migrationDue ?env tamoss state" "currentJob ?env tamoss state live" "jobFailed live" "\<not> jobSucceeded live" "retrySpent tamoss state"
    using assms by (simp_all add: failingJob_def)
  from due_pass_live [OF failing(1,2,5)] obtain managed rest where "schemaReconcile ?env tamoss =
      orNext (reconcileSucceededSchemaJob ?env tamoss state managed (includesFixtures tamoss state) (Some live))
        (orNext (reconcileFailedSchemaJob ?env tamoss state managed (Some live)) rest)" by blast
  then have "schemaReconcile ?env tamoss = orNext (reconcileFailedSchemaJob ?env tamoss state managed (Some live)) rest"
    using failing(4) by (simp add: reconcileSucceededSchemaJob_def)
  moreover have "snd (reconcileFailedSchemaJob ?env tamoss state managed (Some live)) \<noteq> Inr None"
    using failing by (simp add: failed_None)
  ultimately have "schemaReconcile ?env tamoss =
      andThen (reconcileFailedSchemaJob ?env tamoss state managed (Some live)) (\<lambda>r. yield (the r))"
    by (auto simp: orNext_def andThen_def split: sum.split option.split)
  then show ?thesis by blast
qed

text \<open>
  An API server that accepts the state ConfigMap and stores it as applied, and an owner that can be set on an object without one.
\<close>

definition acceptsState :: "schema_env \<Rightarrow> Tamoss \<Rightarrow> bool" where
  "acceptsState env tamoss \<longleftrightarrow>
     controller_law (se_lib env) \<and>
     (\<forall>m. om_OwnerReferences m = [] \<longrightarrow> (\<exists>m'. SetControllerReference (se_lib env) (tm_Meta tamoss) m = Inr m')) \<and>
     (\<forall>cm. \<exists>res. snd (applyManagedObject (se_stateStore env cm)) = Inr res) \<and>
     (\<forall>cm. cm_Data (se_storedState env cm) = cm_Data cm \<and>
        om_Annotations (cm_Meta (se_storedState env cm)) = om_Annotations (cm_Meta cm))"

lemma stateWrites_apply:
  "stateWrites env s (map (ApplySchemaState cm) ws @ ApplySchemaState cm ServerSideApply # rest) = stateWrites env (Some (se_storedState env cm)) rest"
proof (induction ws arbitrary: s)
  case (Cons w ws)
  then show ?case by (cases w) simp_all
qed simp

lemma applyOwnedState_accepted:
  assumes "acceptsState env tamoss" "om_OwnerReferences (cm_Meta cm) = []"
  shows "\<exists>ws owned. applyOwnedState env tamoss cm = (map (ApplySchemaState owned) (ws @ [ServerSideApply]), Inr (se_storedState env owned)) \<and>
    cm_Data owned = cm_Data cm \<and> om_Annotations (cm_Meta owned) = om_Annotations (cm_Meta cm)"
proof -
  obtain meta where meta: "SetControllerReference (se_lib env) (tm_Meta tamoss) (cm_Meta cm) = Inr meta"
    using assms by (auto simp: acceptsState_def)
  then have ann: "om_Annotations meta = om_Annotations (cm_Meta cm)"
    using assms(1) unfolding acceptsState_def controller_law_def by blast
  let ?owned = "cm\<lparr>cm_Meta := meta\<rparr>"
  obtain res where res: "snd (applyManagedObject (se_stateStore env ?owned)) = Inr res"
    using assms(1) unfolding acceptsState_def by blast
  with applyManagedObject_Inr obtain ws where "fst (applyManagedObject (se_stateStore env ?owned)) = ws @ [ServerSideApply]" by blast
  with res meta have "applyOwnedState env tamoss cm = (map (ApplySchemaState ?owned) (ws @ [ServerSideApply]), Inr (se_storedState env ?owned))"
    by (simp add: applyOwnedState_def liftErr_def andThen_def Let_def)
  with ann show ?thesis by (intro exI [of _ ws] exI [of _ ?owned]) simp
qed

definition recordedFailures :: "Target \<Rightarrow> ConfigMap option \<Rightarrow> Tamoss \<Rightarrow> int" where
  "recordedFailures target state tamoss =
     (case state of
        None \<Rightarrow> 0
      | Some cm \<Rightarrow> if failureRecorded target cm tamoss then deref 0 (Atoi (mapGet (cm_Data cm) failureCountKey)) else 0)"

lemma recorded_simps:
  "nextFailureCount target state tamoss = wrap64 (recordedFailures target state tamoss + 1)"
  "terminalSchemaFailure target state tamoss \<longleftrightarrow> 3 \<le> recordedFailures target state tamoss"
  by (auto simp: nextFailureCount_def terminalSchemaFailure_def recordedFailures_def wrap64_def split: option.split)

lemma failure_recorded:
  assumes "- (2 ^ 63) \<le> n" "n < 2 ^ 63" "cm_Data cm = cm_Data (schemaFailureStateConfigMap env tamoss live state n)"
  shows "recordedFailures (se_Target env) (Some cm) tamoss = n"
  using assms Atoi_Itoa [of n] by (simp add: recordedFailures_def failureRecorded_def schemaFailureStateConfigMap_def)

lemma includesFixtures_cong: "stateGet s appliedVersionKey = stateGet t appliedVersionKey \<Longrightarrow> includesFixtures tamoss s = includesFixtures tamoss t"
  by (simp add: includesFixtures_def schemaStateHasAppliedVersion_def)

lemma failingJob_kept:
  assumes "failingJob env tamoss state live" "stateGet state' appliedVersionKey = stateGet state appliedVersionKey"
    and "schemaSupported (se_Target env) state'" "\<not> schemaCurrent (se_Target env) state'" "retrySpent tamoss state'"
  shows "failingJob env tamoss state' live"
proof -
  have job: "schemaJobFor (observing env state') tamoss state' = schemaJobFor (observing env state) tamoss state"
    using includesFixtures_cong [OF assms(2)] by (simp add: schemaJobFor_def observing_def)
  have read: "snd (getSchemaState (observing env state') tamoss) = Inr state'"
    by (cases state') (simp_all add: getSchemaState_def observing_def readOptional_def)
  have obs: "obsoleteJob (observing env state') = obsoleteJob (observing env state)"
    by (intro ext) (simp add: obsoleteJob_def observing_def)
  show ?thesis
    using assms read unfolding failingJob_def migrationDue_def currentJob_def job obs
    by (simp add: observing_def getSchemaJob_def)
qed

text \<open>A pass over the failing Job counts one failure more, until three are recorded.\<close>

lemma failing_step:
  assumes failing: "failingJob env tamoss state live" and accepts: "acceptsState env tamoss"
    and target: "tgt_Version (se_Target env) \<noteq> []"
    and counting: "\<not> terminalSchemaFailure (se_Target env) state tamoss"
    and range: "0 \<le> recordedFailures (se_Target env) state tamoss"
  shows "failingJob env tamoss (schemaPass env tamoss state) live \<and>
    recordedFailures (se_Target env) (schemaPass env tamoss state) tamoss = recordedFailures (se_Target env) state tamoss + 1"
proof -
  let ?env = "observing env state" let ?n = "nextFailureCount (se_Target env) state tamoss"
  let ?cm = "schemaFailureStateConfigMap ?env tamoss live state ?n"
  have n: "?n = recordedFailures (se_Target env) state tamoss + 1"
    using counting range by (simp add: recorded_simps wrap64_id)
  have accepts': "acceptsState ?env tamoss" "se_Target ?env = se_Target env" "se_storedState ?env = se_storedState env"
    using accepts by (simp_all add: acceptsState_def observing_def)
  obtain ws owned where applied: "applyOwnedState ?env tamoss ?cm = (map (ApplySchemaState owned) (ws @ [ServerSideApply]), Inr (se_storedState env owned))"
    and owned: "cm_Data owned = cm_Data ?cm" "om_Annotations (cm_Meta owned) = om_Annotations (cm_Meta ?cm)"
    using applyOwnedState_accepted [OF accepts'(1), of ?cm] accepts'(3)
    by (auto simp: schemaFailureStateConfigMap_def stateMeta_def emptyMeta_def)
  obtain managed where pass: "schemaReconcile ?env tamoss =
      andThen (reconcileFailedSchemaJob ?env tamoss state managed (Some live)) (\<lambda>r. yield (the r))"
    using failing_pass [OF failing] by blast
  obtain r rest where rest: "reconcileFailedSchemaJob ?env tamoss state managed (Some live) =
      (RecordSchemaMigration ''failed'' # map (ApplySchemaState owned) ws @ ApplySchemaState owned ServerSideApply # rest, Inr r)"
    and rest': "rest = [] \<or> rest = [RecordSchemaMigration ''blocked'']"
    using failing counting
    by (cases "?n \<ge> 3") (simp_all add: reconcileFailedSchemaJob_def failingJob_def recordMigration_def andThen_def accepts' applied Let_def yield_def)
  have after: "schemaPass env tamoss state = Some (se_storedState env owned)"
    unfolding schemaPass_def pass rest using rest' by (auto simp: andThen_def yield_def stateWrites_apply)
  have stored: "cm_Data (se_storedState env owned) = cm_Data ?cm"
    "om_Annotations (cm_Meta (se_storedState env owned)) = om_Annotations (cm_Meta ?cm)"
    using accepts owned by (simp_all add: acceptsState_def)
  have "recordedFailures (se_Target env) (schemaPass env tamoss state) tamoss = ?n"
    unfolding after using failure_recorded [OF _ _ stored(1)] n range counting by (simp add: accepts' recorded_simps)
  moreover have "failingJob env tamoss (schemaPass env tamoss state) live"
  proof (rule failingJob_kept [OF failing])
    show "stateGet (schemaPass env tamoss state) appliedVersionKey = stateGet state appliedVersionKey"
      unfolding after using version_kept(2) [of ?env tamoss live state ?n] by (simp add: stateGet_def stored)
    show "retrySpent tamoss (schemaPass env tamoss state)"
      using failing unfolding after
      by (auto simp: failingJob_def retrySpent_def Let_def stored schemaFailureStateConfigMap_def stateMeta_def schemaStateAnnotations_def split: option.splits)
    then show "schemaSupported (se_Target env) (schemaPass env tamoss state)" "\<not> schemaCurrent (se_Target env) (schemaPass env tamoss state)"
      using failing target version_kept(2) [of ?env tamoss live state ?n] unfolding after
      by (auto simp: failingJob_def migrationDue_def schemaSupported_def schemaCurrent_def schemaStateMatchesTarget_def stored accepts' stateGet_def Supports_def Let_def split: option.splits)
  qed
  ultimately show ?thesis using n by simp
qed

lemma terminal_pass:
  assumes "failingJob env tamoss state live" "terminalSchemaFailure (se_Target env) state tamoss"
  shows "\<exists>r. schemaReconcile (observing env state) tamoss =
      ([RecordSchemaMigration ''failed'', RecordSchemaMigration ''blocked''], Inr r) \<and>
    sr_Degraded r \<and> sr_Reason r = ''SchemaMigrationFailed''"
proof -
  obtain managed where "schemaReconcile (observing env state) tamoss =
      andThen (reconcileFailedSchemaJob (observing env state) tamoss state managed (Some live)) (\<lambda>r. yield (the r))"
    using failing_pass [OF assms(1)] by blast
  with assms show ?thesis
    by (auto simp: failingJob_def reconcileFailedSchemaJob_def recordMigration_def andThen_def yield_def observing_def
        terminalSchemaFailureResult_def schemaResult_def)
qed

lemma terminal_stable:
  "failingJob env tamoss state live \<Longrightarrow> terminalSchemaFailure (se_Target env) state tamoss \<Longrightarrow> (schemaPass env tamoss ^^ k) state = state"
  using terminal_pass [of env tamoss state live] by (induction k) (auto simp: schemaPass_def)

lemma failing_settles:
  assumes "failingJob env tamoss state live" "acceptsState env tamoss" "tgt_Version (se_Target env) \<noteq> []"
    and "0 \<le> recordedFailures (se_Target env) state tamoss"
  shows "\<exists>n \<le> nat (3 - recordedFailures (se_Target env) state tamoss).
    failingJob env tamoss ((schemaPass env tamoss ^^ n) state) live \<and>
    terminalSchemaFailure (se_Target env) ((schemaPass env tamoss ^^ n) state) tamoss"
  using assms
proof (induction "nat (3 - recordedFailures (se_Target env) state tamoss)" arbitrary: state)
  case 0
  then show ?case by (intro exI [of _ 0]) (simp add: recorded_simps)
next
  case (Suc m)
  then have "\<not> terminalSchemaFailure (se_Target env) state tamoss" by (simp add: recorded_simps)
  from failing_step [OF Suc.prems(1-3) this Suc.prems(4)]
  have step: "failingJob env tamoss (schemaPass env tamoss state) live"
    "recordedFailures (se_Target env) (schemaPass env tamoss state) tamoss = recordedFailures (se_Target env) state tamoss + 1" by auto
  with Suc.hyps(2) have m: "m = nat (3 - recordedFailures (se_Target env) (schemaPass env tamoss state) tamoss)" by simp
  from Suc.hyps(1) [OF m step(1) Suc.prems(2,3)] step(2) Suc.prems(4) obtain n where
    "n \<le> m" "failingJob env tamoss ((schemaPass env tamoss ^^ n) (schemaPass env tamoss state)) live"
    "terminalSchemaFailure (se_Target env) ((schemaPass env tamoss ^^ n) (schemaPass env tamoss state)) tamoss"
    using m by auto
  with Suc.hyps(2) show ?case by (intro exI [of _ "Suc n"]) (simp add: funpow_Suc_right del: funpow.simps)
qed

text \<open>
  C12: a failing migration settles. While the failed Job is the one rendered now, nobody has asked for a retry and the API
  server stores the state as applied, at most three passes record the terminal failure; from then on every pass reports the
  schema degraded, writes nothing to the API server and leaves the state as it is. The passes may all see the same Job: what is counted
  are the passes that find it failed.
\<close>

theorem failing_migration_settles:
  assumes "failingJob env tamoss state live" "acceptsState env tamoss" "tgt_Version (se_Target env) \<noteq> []"
    and "0 \<le> recordedFailures (se_Target env) state tamoss"
  shows "\<exists>n \<le> 3. \<exists>settled. (schemaPass env tamoss ^^ n) state = settled \<and>
    terminalSchemaFailure (se_Target env) settled tamoss \<and>
    (\<forall>k. (schemaPass env tamoss ^^ k) settled = settled) \<and>
    (\<exists>r. schemaReconcile (observing env settled) tamoss =
         ([RecordSchemaMigration ''failed'', RecordSchemaMigration ''blocked''], Inr r) \<and>
       sr_Degraded r \<and> sr_Reason r = ''SchemaMigrationFailed'')"
proof -
  from failing_settles [OF assms] obtain n where n: "n \<le> nat (3 - recordedFailures (se_Target env) state tamoss)"
    "failingJob env tamoss ((schemaPass env tamoss ^^ n) state) live"
    "terminalSchemaFailure (se_Target env) ((schemaPass env tamoss ^^ n) state) tamoss" by blast
  with assms(4) have "n \<le> 3" by linarith
  with terminal_pass [OF n(2,3)] terminal_stable [OF n(2,3)] n(3) show ?thesis by blast
qed

section \<open>Explicit retries\<close>

lemma owned_annotations:
  "controller_law lib \<Longrightarrow> SetControllerReference lib owner m = Inr m' \<Longrightarrow> om_Annotations m' = om_Annotations m"
  by (auto simp: controller_law_def)

lemma retry_state:
  "mapGet (om_Annotations (cm_Meta (schemaRetryStateConfigMap tamoss state v))) schemaRetryDone = v"
  "cm_Data (schemaRetryStateConfigMap tamoss state v) failureCountKey = None"
  by (simp_all add: schemaRetryStateConfigMap_def stateMeta_def Let_def)

lemma annotations_kept:
  "om_Annotations (cm_Meta (schemaFailureStateConfigMap env tamoss live state n)) = schemaStateAnnotations state"
  "om_Annotations (cm_Meta (schemaStateConfigMap env tamoss live fx state)) = schemaStateAnnotations state"
  by (simp_all add: schemaFailureStateConfigMap_def schemaStateConfigMap_def stateMeta_def Let_def)

lemma spent_kept:
  "retrySpent tamoss state \<Longrightarrow> om_Annotations (cm_Meta cm) = schemaStateAnnotations state \<Longrightarrow> retrySpent tamoss (Some cm)"
  by (auto simp: retrySpent_def Let_def schemaStateAnnotations_def split: option.splits)

lemma accept_retry:
  assumes "snd (acceptSchemaRetry env tamoss state live) = Inr (Some reset)"
  shows "terminalSchemaFailure (se_Target env) state tamoss \<and> \<not> retrySpent tamoss state"
  using assms by (auto simp: acceptSchemaRetry_def Let_def retrySpent_def terminalSchemaFailure_def split: option.splits if_splits)

lemma observed_reason:
  "snd (observedSchemaStateResult env state managed) = Inr (Some r) \<Longrightarrow> sr_Reason r \<noteq> ''SchemaRetryAccepted''"
  by (auto simp: observedSchemaStateResult_def andThen_Inr Let_def split: option.splits if_splits)

lemma succeeded_reason:
  "snd (reconcileSucceededSchemaJob env tamoss state managed fx liveJob) = Inr (Some r) \<Longrightarrow> sr_Reason r \<noteq> ''SchemaRetryAccepted''"
  by (auto simp: reconcileSucceededSchemaJob_def andThen_Inr split: option.splits if_splits)

lemma orNext_write: "x \<in> set (fst (orNext stage rest)) \<longleftrightarrow> x \<in> set (fst stage) \<or> snd stage = Inr None \<and> x \<in> set (fst rest)"
  by (auto simp: orNext_def andThen_write split: option.splits)

lemma accepted_stage:
  assumes "snd (schemaReconcile env tamoss) = Inr r" "sr_Reason r = ''SchemaRetryAccepted''" "snd (getSchemaState env tamoss) = Inr state"
  shows "\<exists>managed live. snd (reconcileSchemaRetryStage env tamoss state managed live) = Inr (Some r) \<and>
    set (fst (reconcileSchemaRetryStage env tamoss state managed live)) \<subseteq> set (fst (schemaReconcile env tamoss))"
proof -
  let ?known = "schemaManagedObjects state" let ?job = "schemaJobFor env tamoss state" let ?managed = "?known @ [jobKey ?job]"
  have body: "snd (observedSchemaStateResult env state ?known) = Inr None"
    "snd (reconcileObsoleteSchemaJobs env tamoss ?managed ?job) = Inr None"
    "\<exists>live. snd (getSchemaJob env ?job) = Inr live \<and> snd (reconcileSchemaRetryStage env tamoss state ?managed live) = Inr (Some r)"
    using assms unfolding schemaReconcile_def Let_def schemaJobFor_def [symmetric]
    by (auto simp: andThen_Inr orNext_Inr dest!: observed_reason succeeded_reason obsolete_Some stale_Some failed_Some running_Some pods_Some launch_Inr)
  then obtain live where live: "snd (getSchemaJob env ?job) = Inr live"
    "snd (reconcileSchemaRetryStage env tamoss state ?managed live) = Inr (Some r)" by blast
  have "set (fst (reconcileSchemaRetryStage env tamoss state ?managed live)) \<subseteq> set (fst (schemaReconcile env tamoss))"
    using body(1,2) live(1) assms(3) unfolding schemaReconcile_def Let_def schemaJobFor_def [symmetric]
    by (auto simp: andThen_write orNext_write)
  with live(2) show ?thesis by blast
qed

lemma applyOwnedState_writes:
  assumes "snd (applyOwnedState env tamoss cm) = Inr stored"
  shows "\<exists>meta. SetControllerReference (se_lib env) (tm_Meta tamoss) (cm_Meta cm) = Inr meta \<and>
    ApplySchemaState (cm\<lparr>cm_Meta := meta\<rparr>) ServerSideApply \<in> set (fst (applyOwnedState env tamoss cm))"
  using assms applyManagedObject_Inr
  by (fastforce simp: applyOwnedState_def Let_def andThen_Inr andThen_write)

lemma accept_unfold:
  assumes "snd (acceptSchemaRetry env tamoss state live) = Inr (Some reset)"
  shows "\<exists>m :: (schema_write, unit) act. acceptSchemaRetry env tamoss state live = andThen m (\<lambda>_. andThen (applyOwnedState env tamoss (schemaRetryStateConfigMap tamoss state
    (TrimSpace (mapGet (om_Annotations (tm_Meta tamoss)) schemaRetryAnnotation)))) (\<lambda>reset. yield (Some reset)))"
  using assms unfolding acceptSchemaRetry_def Let_def
  by (auto simp del: split_paired_Ex split: if_splits)

lemma accepted_reset:
  assumes "controller_law (se_lib env)" "snd (reconcileSchemaRetryStage env tamoss state managed live) = Inr (Some r)"
  shows "\<exists>cm. ApplySchemaState cm ServerSideApply \<in> set (fst (reconcileSchemaRetryStage env tamoss state managed live)) \<and>
    retrySpent tamoss (Some cm) \<and> \<not> terminalSchemaFailure (se_Target env) (Some cm) tamoss"
proof -
  let ?v = "TrimSpace (mapGet (om_Annotations (tm_Meta tamoss)) schemaRetryAnnotation)"
  let ?cm = "schemaRetryStateConfigMap tamoss state ?v"
  obtain stored where "snd (applyOwnedState env tamoss ?cm) = Inr stored"
    and writes: "set (fst (applyOwnedState env tamoss ?cm)) \<subseteq> set (fst (reconcileSchemaRetryStage env tamoss state managed live))"
  proof -
    obtain reset where "snd (acceptSchemaRetry env tamoss state live) = Inr (Some reset)"
      using assms(2) by (auto simp: reconcileSchemaRetryStage_def andThen_Inr split: option.splits)
    with accept_unfold [OF this] that show thesis
      by (auto simp: reconcileSchemaRetryStage_def andThen_Inr andThen_write subset_iff)
  qed
  with applyOwnedState_writes obtain meta where meta: "SetControllerReference (se_lib env) (tm_Meta tamoss) (cm_Meta ?cm) = Inr meta"
    "ApplySchemaState (?cm\<lparr>cm_Meta := meta\<rparr>) ServerSideApply \<in> set (fst (applyOwnedState env tamoss ?cm))" by blast
  have "retrySpent tamoss (Some (?cm\<lparr>cm_Meta := meta\<rparr>))"
    using owned_annotations [OF assms(1) meta(1)] retry_state(1) by (simp add: retrySpent_def Let_def)
  moreover have "\<not> terminalSchemaFailure (se_Target env) (Some (?cm\<lparr>cm_Meta := meta\<rparr>)) tamoss"
    using retry_state(2) by (simp add: terminalSchemaFailure_def mapGet_def Atoi_def HasPrefix_def Let_def)
  ultimately show ?thesis using meta(2) writes by blast
qed

text \<open>
  C13: a retry annotation is honoured once. A retry is accepted only when three failures are recorded for this revision and
  generation and the annotation holds a value not consumed yet; the state it writes has the value consumed and no failure left. And a
  value once consumed stays consumed in every state a later pass writes, as long as the annotation keeps that value.
\<close>

theorem retry_honoured_once:
  assumes "controller_law (se_lib env)" "snd (getSchemaState env tamoss) = Inr state"
  shows "(snd (schemaReconcile env tamoss) = Inr r \<and> sr_Reason r = ''SchemaRetryAccepted'' \<longrightarrow>
      terminalSchemaFailure (se_Target env) state tamoss \<and> \<not> retrySpent tamoss state \<and>
      (\<exists>cm. ApplySchemaState cm ServerSideApply \<in> set (fst (schemaReconcile env tamoss)) \<and>
        retrySpent tamoss (Some cm) \<and> \<not> terminalSchemaFailure (se_Target env) (Some cm) tamoss)) \<and>
    (ApplySchemaState cm' w \<in> set (fst (schemaReconcile env tamoss)) \<and> retrySpent tamoss state \<longrightarrow> retrySpent tamoss (Some cm'))"
proof -
  have keeps: "emits (\<lambda>x. \<forall>cm w. x = ApplySchemaState cm w \<longrightarrow> retrySpent tamoss (Some cm)) (schemaReconcile env tamoss)" if spent: "retrySpent tamoss state"
  proof (rule emits_schemaReconcile)
    have same: "migrationDue env tamoss s \<Longrightarrow> s = state" for s using assms(2) by (simp add: migrationDue_def)
    have kept: "retrySpent tamoss (Some (cm\<lparr>cm_Meta := meta\<rparr>))"
      if "SetControllerReference (se_lib env) (tm_Meta tamoss) (cm_Meta cm) = Inr meta" "om_Annotations (cm_Meta cm) = schemaStateAnnotations state" for cm meta
      using spent_kept [OF spent] owned_annotations [OF assms(1) that(1)] that(2) by simp
    show "emits (\<lambda>x. \<forall>cm w. x = ApplySchemaState cm w \<longrightarrow> retrySpent tamoss (Some cm)) (reconcileSchemaRetryStage env tamoss s managed live)"
      if "migrationDue env tamoss s" for s live managed
      using retry_spent_None [OF spent] same [OF that] by (simp add: emits_silent)
    show "emits (\<lambda>x. \<forall>cm w. x = ApplySchemaState cm w \<longrightarrow> retrySpent tamoss (Some cm)) (reconcileFailedSchemaJob env tamoss s managed (Some live))"
      if "migrationDue env tamoss s" for s live managed
      using same [OF that] kept annotations_kept(1) by (auto simp: reconcileFailedSchemaJob_def Let_def intro!: emits_rules)
    show "emits (\<lambda>x. \<forall>cm w. x = ApplySchemaState cm w \<longrightarrow> retrySpent tamoss (Some cm))
        (reconcileSucceededSchemaJob env tamoss s managed (includesFixtures tamoss s) (Some live))"
      if "migrationDue env tamoss s" for s live managed
      using same [OF that] kept annotations_kept(2) by (auto simp: reconcileSucceededSchemaJob_def Let_def intro!: emits_rules)
  qed (auto simp: observedSchemaStateResult_def launchSchemaJob_def Let_def intro!: emits_rules split: option.split)
  have resets: "terminalSchemaFailure (se_Target env) state tamoss \<and> \<not> retrySpent tamoss state \<and>
      (\<exists>cm. ApplySchemaState cm ServerSideApply \<in> set (fst (schemaReconcile env tamoss)) \<and>
        retrySpent tamoss (Some cm) \<and> \<not> terminalSchemaFailure (se_Target env) (Some cm) tamoss)"
    if accepted: "snd (schemaReconcile env tamoss) = Inr r" "sr_Reason r = ''SchemaRetryAccepted''"
  proof -
    from accepted_stage [OF accepted assms(2)] obtain managed live where
      stage: "snd (reconcileSchemaRetryStage env tamoss state managed live) = Inr (Some r)"
      "set (fst (reconcileSchemaRetryStage env tamoss state managed live)) \<subseteq> set (fst (schemaReconcile env tamoss))" by blast
    then obtain reset where "snd (acceptSchemaRetry env tamoss state live) = Inr (Some reset)"
      by (auto simp: reconcileSchemaRetryStage_def andThen_Inr split: option.splits)
    from accept_retry [OF this] accepted_reset [OF assms(1) stage(1)] stage(2) show ?thesis by blast
  qed
  have "retrySpent tamoss (Some cm')" if "ApplySchemaState cm' w \<in> set (fst (schemaReconcile env tamoss))" "retrySpent tamoss state"
    using emitsD [OF keeps [OF that(2)] that(1)] by simp
  with resets show ?thesis by simp
qed

section \<open>Labels\<close>

text \<open>The migration Job and its Pods carry no label of the project's own domain.\<close>

lemma schema_job_labels:
  "om_Labels (job_Meta (schemaMigrationJob target tamoss fx)) ''tamoss.livewyer.io/schema-migration'' = None"
  "pt_Labels (jsp_Template (job_Spec (schemaMigrationJob target tamoss fx))) ''tamoss.livewyer.io/schema-migration'' = None"
  by (simp_all add: schemaMigrationJob_def schemaLabels_def WithDatabaseTLS_def Let_def split: option.split)

section \<open>Concrete runs\<close>

definition demoTarget :: Target where
  "demoTarget = \<lparr>tgt_Version = ''1.1'', tgt_PreviousVersion = ''1.0'', tgt_DatabaseRevision = ''r2'', tgt_TAMSAPI = ''7''\<rparr>"

definition demoTamoss :: "(string \<rightharpoonup> string) \<Rightarrow> Tamoss" where
  "demoTamoss annotations = zeroTamoss ''media'' ''demo''\<lparr>tm_Meta := emptyMeta\<lparr>om_Namespace := ''media'', om_Name := ''demo'',
     om_Annotations := annotations\<rparr>\<rparr>"

definition demoState :: "(string \<rightharpoonup> string) \<Rightarrow> ConfigMap" where
  "demoState data = \<lparr>cm_Meta = emptyMeta, cm_Data = data(appliedVersionKey \<mapsto> ''1.0'')\<rparr>"

definition demoJob :: "Tamoss \<Rightarrow> string \<Rightarrow> Job" where
  "demoJob tamoss outcome = (schemaMigrationJob demoTarget tamoss False)
     \<lparr>job_Status := newJobStatus\<lparr>jst_Conditions := [\<lparr>jc_Type = outcome, jc_Status = ConditionTrue, jc_LastTransitionTime = 0\<rparr>]\<rparr>\<rparr>"

definition demoSchemaEnv :: "ConfigMap api \<Rightarrow> Job api \<Rightarrow> schema_env" where
  "demoSchemaEnv state job =
     \<lparr>se_lib = refLib, se_Target = demoTarget, se_now = 0, se_getConfigMap = (\<lambda>_ _. state), se_getJob = (\<lambda>_ _. job),
      se_listJobs = (\<lambda>_ _. Inr []), se_listPods = (\<lambda>_ _. Inr []), se_deleteJob = (\<lambda>_ _. Inr ()),
      se_stateStore = (\<lambda>_. acceptingStore), se_jobStore = (\<lambda>_. acceptingStore),
      se_storedState = (\<lambda>cm. cm), se_storedJob = (\<lambda>job. job)\<rparr>"

lemma demo_schema_env [simp]:
  "se_lib (demoSchemaEnv state job) = refLib" "se_Target (demoSchemaEnv state job) = demoTarget"
  "se_deleteJob (demoSchemaEnv state job) j fg = Inr ()"
  "snd (getSchemaState (demoSchemaEnv (Inl NotFound) job) tamoss) = Inr None"
  "snd (getSchemaState (demoSchemaEnv (Inr cm) job) tamoss) = Inr (Some cm)"
  "snd (getSchemaJob (demoSchemaEnv state (Inr j)) desired) = Inr (Some j)"
  "snd (getSchemaJob (demoSchemaEnv state (Inl NotFound)) desired) = Inr None"
  "se_listJobs (demoSchemaEnv state job) ns ls = Inr []" "se_listPods (demoSchemaEnv state job) ns ls = Inr []"
  by (simp_all add: demoSchemaEnv_def getSchemaState_def getSchemaJob_def)

lemma undrifted: "job_Spec live = job_Spec desired \<Longrightarrow> \<not> schemaJobTemplateDrifted live desired"
  by (auto simp: schemaJobTemplateDrifted_def Let_def list_ex_iff in_set_zip containerDrifted_def)

lemma demo_schema_jobs [simp]:
  "jobSucceeded (demoJob tamoss ''Complete'')" "jobFailed (demoJob tamoss ''Failed'')" "\<not> jobSucceeded (demoJob tamoss ''Failed'')"
  "\<not> schemaJobTemplateDrifted (demoJob tamoss outcome) (schemaMigrationJob demoTarget tamoss False)"
  by (simp_all add: demoJob_def jobSucceeded_def jobFailed_def newJobStatus_def undrifted)

lemma demo_schema_fixtures [simp]: "includesFixtures (demoTamoss a) state = False"
  by (simp add: includesFixtures_def ShouldApplyFixtures_def demoTamoss_def zeroTamoss_def zeroSpec_def zeroDBBackend_def)

lemma demo_schema_due [simp]:
  "migrationDue (demoSchemaEnv (Inl NotFound) job) (demoTamoss a) None"
  "migrationDue (demoSchemaEnv (Inr (demoState data)) job) (demoTamoss a) (Some (demoState data))"
  by (simp_all add: migrationDue_def schemaSupported_def schemaCurrent_def schemaStateMatchesTarget_def demoState_def demoTarget_def Supports_def Let_def)
     code_simp

lemma demo_schema_current [simp]:
  "currentJob (demoSchemaEnv state (Inr (demoJob (demoTamoss a) outcome))) (demoTamoss a) s (demoJob (demoTamoss a) outcome)"
  by (simp add: currentJob_def schemaJobFor_def)

lemma demo_schema_accepts: "acceptsState (demoSchemaEnv state job) (demoTamoss a)"
proof -
  have "om_OwnerReferences m = [] \<Longrightarrow> \<exists>m'. SetControllerReference refLib (tm_Meta (demoTamoss a)) m = Inr m'" for m
    by (simp add: refLib_def refSetController_def)
  moreover have "\<exists>res. snd (applyManagedObject acceptingStore) = Inr res"
    by (simp add: applyManagedObject_def acceptingStore_def)
  ultimately show ?thesis by (simp add: acceptsState_def demoSchemaEnv_def)
qed

lemma demo_schema_applies:
  "om_OwnerReferences (cm_Meta cm) = [] \<Longrightarrow> \<exists>stored. snd (applyOwnedState (demoSchemaEnv state job) (demoTamoss a) cm) = Inr stored"
  using applyOwnedState_accepted [OF demo_schema_accepts] by (metis snd_conv)

lemma demo_schema_asks_nothing [simp]: "retrySpent (demoTamoss Map.empty) s"
  by (simp add: retrySpent_def demoTamoss_def mapGet_def)


theorem migrations_do_not_overlap_witness:
  "\<exists>job w. ApplySchemaJob job w \<in> set (fst (schemaReconcile (demoSchemaEnv (Inl NotFound) (Inl NotFound)) (demoTamoss Map.empty))) \<and>
     (\<exists>state meta. migrationDue (demoSchemaEnv (Inl NotFound) (Inl NotFound)) (demoTamoss Map.empty) state \<and>
        job = (schemaJobFor (demoSchemaEnv (Inl NotFound) (Inl NotFound)) (demoTamoss Map.empty) state)\<lparr>job_Meta := meta\<rparr>)"
proof -
  let ?env = "demoSchemaEnv (Inl NotFound) (Inl NotFound)" let ?t = "demoTamoss Map.empty"
  from due_pass [of ?env ?t None None] obtain managed where pass: "schemaReconcile ?env ?t = launchSchemaJob ?env ?t managed (schemaJobFor ?env ?t None)"
    by (auto simp: retry_spent_None reconcileStaleSchemaJob_def reconcileSucceededSchemaJob_def reconcileFailedSchemaJob_def
        runningSchemaJobResult_def reconcileSchemaJobPodCleanup_def readAct_def)
  have "\<exists>job. ApplySchemaJob job ServerSideApply \<in> set (fst (schemaReconcile ?env ?t))"
    unfolding pass by (simp add: launchSchemaJob_def applyOwnedJob_def andThen_write liftErr_def refLib_def refSetController_def schemaJobFor_def
        schemaMigrationJob_def emptyMeta_def Let_def demoSchemaEnv_def applyManagedObject_def acceptingStore_def)
  with migrations_do_not_overlap [of _ _ ?env ?t] show ?thesis by blast
qed

theorem failing_migration_settles_witness:
  "\<exists>n \<le> 3. terminalSchemaFailure demoTarget
     ((schemaPass (demoSchemaEnv (Inl NotFound) (Inr (demoJob (demoTamoss Map.empty) ''Failed''))) (demoTamoss Map.empty) ^^ n) None)
     (demoTamoss Map.empty)"
proof -
  let ?t = "demoTamoss Map.empty" let ?env = "demoSchemaEnv (Inl NotFound) (Inr (demoJob ?t ''Failed''))"
  have "observing ?env None = ?env" by (simp add: observing_def demoSchemaEnv_def)
  then have failing: "failingJob ?env ?t None (demoJob ?t ''Failed'')" by (simp add: failingJob_def)
  have "tgt_Version demoTarget \<noteq> []" "0 \<le> recordedFailures demoTarget None ?t"
    by (simp_all add: demoTarget_def recordedFailures_def)
  with failing_migration_settles [OF failing demo_schema_accepts] show ?thesis unfolding demo_schema_env by blast
qed

definition failedData :: "string \<rightharpoonup> string" where
  "failedData = [failureCountKey \<mapsto> ''3'', failedGenerationKey \<mapsto> ''0'', failedVersionKey \<mapsto> ''1.1'']"

definition askedTamoss :: Tamoss where
  "askedTamoss = demoTamoss [schemaRetryAnnotation \<mapsto> ''again'']"

theorem retry_honoured_once_witness:
  "\<exists>cm. ApplySchemaState cm ServerSideApply \<in>
       set (fst (schemaReconcile (demoSchemaEnv (Inr (demoState failedData)) (Inr (demoJob askedTamoss ''Failed''))) askedTamoss)) \<and>
     retrySpent askedTamoss (Some cm) \<and> \<not> terminalSchemaFailure demoTarget (Some cm) askedTamoss"
proof -
  let ?s = "demoState failedData" let ?live = "demoJob askedTamoss ''Failed''" let ?env = "demoSchemaEnv (Inr ?s) (Inr ?live)"
  have "migrationDue ?env askedTamoss (Some ?s)" by (simp add: askedTamoss_def)
  from due_pass_retry [OF this, of "Some ?live"] obtain managed rest where pass: "schemaReconcile ?env askedTamoss =
      orNext (reconcileSchemaRetryStage ?env askedTamoss (Some ?s) managed (Some ?live)) rest" by (simp del: split_paired_All split_paired_Ex) blast
  have asked: "TrimSpace (mapGet (om_Annotations (tm_Meta askedTamoss)) schemaRetryAnnotation) = ''again''"
    by (simp add: askedTamoss_def demoTamoss_def) code_simp
  have "om_Generation (tm_Meta askedTamoss) = 0" by (simp add: askedTamoss_def demoTamoss_def emptyMeta_def)
  moreover have "Atoi ''3'' = Some 3" "Itoa 0 = ''0''" by code_simp+
  ultimately have terminal: "terminalSchemaFailure demoTarget (Some ?s) askedTamoss"
    by (simp add: terminalSchemaFailure_def failureRecorded_def demoState_def failedData_def demoTarget_def mapGet_def)
  have "mapGet (om_Annotations (cm_Meta ?s)) schemaRetryDone = []" by (simp add: demoState_def emptyMeta_def mapGet_def)
  with asked terminal have accept: "acceptSchemaRetry ?env askedTamoss (Some ?s) (Some ?live) = andThen (deleteSchemaJob ?env ?live False) (\<lambda>_.
      andThen (applyOwnedState ?env askedTamoss (schemaRetryStateConfigMap askedTamoss (Some ?s) ''again'')) (\<lambda>reset. yield (Some reset)))"
    by (simp add: acceptSchemaRetry_def)
  have "om_OwnerReferences (cm_Meta (schemaRetryStateConfigMap askedTamoss (Some ?s) ''again'')) = []"
    by (simp add: schemaRetryStateConfigMap_def stateMeta_def emptyMeta_def Let_def)
  with demo_schema_applies [of _ "Inr ?s" "Inr ?live" "[schemaRetryAnnotation \<mapsto> ''again'']", folded askedTamoss_def] obtain stored where
    "snd (applyOwnedState ?env askedTamoss (schemaRetryStateConfigMap askedTamoss (Some ?s) ''again'')) = Inr stored" by blast
  then have "\<exists>r. snd (schemaReconcile ?env askedTamoss) = Inr r \<and> sr_Reason r = ''SchemaRetryAccepted''"
    by (auto simp: pass orNext_Inr reconcileSchemaRetryStage_def accept andThen_Inr deleteSchemaJob_def)
  then show ?thesis using retry_honoured_once [of ?env askedTamoss "Some ?s"] by auto
qed

end
