(* ===== verification/Spec2Isabelle.thy ===== *)
theory Spec2Isabelle
  imports Release_Control Defaults_Laws Identifiers Ingest_Source_Laws Ingest_Run_Time Flow_Profile_Laws Resume_Laws Schema_Laws
begin

text \<open>
  The TAMOSS operator (\<open>src/operator\<close>): a model in HOL of its controllers and of the pure logic they rest on,
  with the theorems that make them correct. File names below are relative to \<open>src/operator\<close>; a file without a
  directory is in \<open>internal/controller\<close>.

  \<^bold>\<open>The program.\<close> The operator keeps TAMOSS instances running on Kubernetes. A Tamoss resource names a release of
  the catalogue and a profile; defaults complete its spec. The Tamoss controller admits a release, migrates the
  database schema by a Job, and deploys the workloads. A hibernation writes a backup and a manifest to an object
  store and then removes the database; a resume restores it from that manifest. FlowProfile resources are
  registered in the instance's database by Jobs. An IngestRun runs TAMSin once as a Job, on a source that the
  instance's policy admits, and reports what the Job's event stream says.

  \<^bold>\<open>Conventions.\<close> A Go string is a byte string, a pointer an option, an error the left side of a sum, an integer an
  \<open>int\<close> with \<open>wrap32\<close> or \<open>wrap64\<close> where the code can overflow, a time the nanoseconds since the zero time of
  package \<open>time\<close>. Record fields carry a prefix because HOL record fields share one name space. A reconcile is an
  action of \<open>Kube_Act\<close>: the writes that the API server accepted, in order, and then an error or a result. What a
  reconcile reads is a record of functions (\<open>ingest_env\<close>, \<open>flow_env\<close>, \<open>hib_env\<close>, \<open>resume_env\<close>,
  \<open>schema_env\<close>), so a theorem about a pass holds for every answer of the API server, stale answers and failures
  included. Code outside the repository (the API machinery, the S3 and DNS clients, the TAMSin event reducer) is a
  parameter; \<open>kube_lib\<close> holds the functions of the API machinery, and a theorem that needs one of their laws has
  it as a hypothesis, with a witness on a concrete function.

  \<^bold>\<open>Language and library.\<close>
  \<^item> \<open>Go_Base\<close> is the prelude: \<open>strings\<close>, \<open>strconv\<close>, \<open>fmt\<close>, durations and wrap-around. \<open>Go_Path\<close>, \<open>Go_Url\<close>,
    \<open>Go_Net\<close>, \<open>Go_Time\<close>, \<open>Go_Hash\<close> (SHA-256), \<open>Go_Json\<close>, \<open>Go_Any\<close> and \<open>Go_Struct\<close> hold what the operator uses of
    the packages of those names.
  \<^item> \<open>Kube\<close> and \<open>Kube_Job\<close> are the Kubernetes types and \<open>watch_namespaces.go\<close>; \<open>Kube_Act\<close> is the action monad with
    the rules for what an action can write; \<open>Reachability\<close> is the locale \<open>state_machine\<close> of invariants over runs.

  \<^bold>\<open>Resources and shared operations.\<close>
  \<^item> \<open>Tamoss_API\<close>, \<open>Tamoss_Resource\<close>, \<open>Ingest_Types\<close>: the types and methods of \<open>api/v1alpha1\<close> that the modelled
    code reads, and the validation of an output intent. \<open>Identifiers\<close>: derived UUIDs have the required shape
    (locale \<open>deterministic_id\<close>, interpreted on both kinds).
  \<^item> \<open>Op_Status\<close> and \<open>Op_Events\<close>: \<open>internal/status/conditions.go\<close> and \<open>events.go\<close>; warnings are rate-limited.
  \<^item> \<open>Managed_Apply\<close>: \<open>managed_apply.go\<close>; reclaiming moves every foreign claim to the operator and loses none.
  \<^item> \<open>Defaults\<close>, \<open>Defaults_Laws\<close>: \<open>defaults/profile.go\<close> and \<open>installation.go\<close>; images round-trip, an enabled
    Console stays reachable, a user's settings are kept.

  \<^bold>\<open>Releases and schema.\<close>
  \<^item> \<open>Releases\<close>: \<open>internal/releases/catalogue.go\<close> and \<open>internal/schema\<close>; \<open>Load\<close> accepts only valid catalogues and
    \<open>Select\<close> is characterised exactly.
  \<^item> \<open>Release_Control\<close>: \<open>releases.go\<close> with the status patch. Over any passes and edits the running version moves
    only along upgrade paths, and a release once begun is completed before another one starts.
  \<^item> \<open>Schema\<close>, \<open>Schema_Laws\<close>: all of \<open>schema_controller.go\<close>. Only the current Job stamps the schema version,
    migrations do not overlap, a failing one settles after at most three passes, a retry annotation counts once.

  \<^bold>\<open>Hibernation and resume.\<close>
  \<^item> \<open>Lifecycle\<close> (\<open>tamoss_lifecycle_operations.go\<close>, \<open>tamoss_operation_status.go\<close>), \<open>Hibernate_Manifest\<close>
    (\<open>tamoss_hibernation_manifest.go\<close>), \<open>Hibernate\<close> (\<open>tamosshibernate_controller.go\<close>), \<open>Resume\<close>
    (\<open>tamoss_hibernation_driver.go\<close>, \<open>tamoss_resume_bootstrap.go\<close>, \<open>tamoss_hibernation_cleanup.go\<close>).
  \<^item> \<open>Hibernate_Laws\<close>: an invariant over all runs, by \<open>state_machine\<close>: the database is deleted only after the
    artifact was committed; it is captured only at rest. \<open>Resume_Laws\<close>: what was written resumes if
    it records what the resume check asks for, which hibernation does not ensure; only a trusted
    artifact is restored; it is deleted only when its policy says so.

  \<^bold>\<open>FlowProfile.\<close> \<open>Flow_Profile\<close> is \<open>flowprofile_controller.go\<close> with \<open>workload_renderer/database_tls.go\<close>;
  \<open>Flow_Profile_Laws\<close> shows when a profile is Ready, released or deleted, and that a UUID has one owner.

  \<^bold>\<open>Ingest.\<close>
  \<^item> \<open>Ingest_Resolvers\<close> (\<open>ingest_resolvers.go\<close>), \<open>Ingest_Stream\<close> (\<open>ingest_stream.go\<close>), \<open>Ingest_Job\<close> and \<open>Ingest_Run\<close>
    (\<open>ingestrun_controller.go\<close>). The resolver interfaces and the bounded names are locales, interpreted on the
    functions of the code.
  \<^item> \<open>Ingest_Source_Laws\<close>: an admitted selector stays inside its source, a public one resolves to public addresses.
    \<open>Ingest_Run_Laws\<close>: the conditions under which each write of one reconcile happens. \<open>Ingest_Run_Time\<close>: runs over
    any sequence of reconciles and permitted edits refine an abstract life cycle; a terminal run is final, a Job is
    never replayed, a finished Job is decided.

  \<^bold>\<open>Bounds.\<close> No definition uses fuel: every loop of the modelled code is over a finite list or decreases a measure,
  and each definition is total; the retries of a conflicting lifecycle patch are those of the
  parameter \<open>retry\<close>. The limits in the statements are those of the code (63-byte names, sixteen member
  Flows, three failed passes, the observation deadline).

  \<^bold>\<open>Not modelled.\<close>
  \<^item> \<open>tamoss_controller.go\<close>, \<open>tamoss_lifecycle.go\<close> and the observation part of \<open>tamoss_status*.go\<close>: the pass that
    calls the release, hibernation, resume and schema operations above between rendering and applying workloads,
    with its finalization, its pruning and its status. The theorems are therefore about those operations, not about
    their order inside that pass.
  \<^item> The StorageBackend controller, the CNPG and RustFS backends and the Authentik client: calls to an object store, to
    SQL scripts in Jobs and to an HTTP service. \<open>workload_renderer\<close>: object templates, apart from image references and
    the database TLS mounts.
  \<^item> \<open>internal/consoleapi\<close> (an HTTP server), the delete-protection webhook (stateless checks of one admission
    request, outside the reconciles), discovery, metrics, the executables in \<open>cmd\<close>, watch registration, and the
    generated deep copies.
  \<^item> Logging and metrics inside modelled functions, which do not influence a result.
  \<^item> The Python service and the browser front end under \<open>src/src\<close>, the deployment files and the scripts: separate
    programs, which the operator only runs as images.
\<close>

end
